(* ===== verification/Prelude.thy ===== *)
theory Prelude
  imports Complex_Main "HOL-Library.Word" "HOL-Library.Signed_Division"
begin

text \<open>
  Shared vocabulary of the development.
  \<^item> \<open>cpp_error\<close>: the ways a C++ routine of the solver leaves without a result: a thrown
    \<open>std::out_of_range\<close> (from \<open>vector::at\<close>), a thrown \<open>std::logic_error\<close> with its
    message, or undefined behaviour (an \<open>operator[]\<close> past the end, a division by zero).
  \<^item> \<open>value_proxy\<close>: the solver's \<open>model::ValueProxy<T>\<close>, reduced to what the solver
    reads: its id and its flat array of values. A vector of proxies is \<open>'a proxies\<close>;
    \<open>proxy_update\<close> is the write \<open>proxies[proxy_index][flat_index] = ...\<close>.
  \<^item> the C++ expression \<open>rand() % (2 * w) - w\<close> with its integer conversions, used by
    \<open>Memory::update\<close> and by the outer loop of \<open>solver.h\<close>.
\<close>

named_theorems proxy_simps "equations of reads and writes of value proxies"

section \<open>Error outcomes\<close>

datatype cpp_error =
    OutOfRange
  | UndefinedBehaviour
  | LogicError string

section \<open>Value proxies\<close>

record 'a value_proxy =
  proxy_id :: nat
  flat_indexed_values :: "'a list"

type_synonym 'a proxies = "'a value_proxy list"

definition proxy_value :: "'a proxies \<Rightarrow> nat \<Rightarrow> nat \<Rightarrow> 'a" where
  "proxy_value ps p f = flat_indexed_values (ps ! p) ! f"

definition proxy_update :: "nat \<Rightarrow> nat \<Rightarrow> ('a \<Rightarrow> 'a) \<Rightarrow> 'a proxies \<Rightarrow> 'a proxies" where
  "proxy_update p f g ps =
     ps[p := (ps ! p)\<lparr>flat_indexed_values :=
                (flat_indexed_values (ps ! p))[f := g (flat_indexed_values (ps ! p) ! f)]\<rparr>]"

definition valid_index :: "'a proxies \<Rightarrow> nat \<Rightarrow> nat \<Rightarrow> bool" where
  "valid_index ps p f \<longleftrightarrow> p < length ps \<and> f < length (flat_indexed_values (ps ! p))"

definition proxy_shape :: "'a proxies \<Rightarrow> nat list" where
  "proxy_shape ps = map (\<lambda>v. length (flat_indexed_values v)) ps"

definition all_values :: "'a proxies \<Rightarrow> 'a list" where
  "all_values ps = concat (map flat_indexed_values ps)"

definition map_proxies :: "('a \<Rightarrow> 'b) \<Rightarrow> 'a proxies \<Rightarrow> 'b proxies" where
  "map_proxies g ps =
     map (\<lambda>v. \<lparr>proxy_id = proxy_id v, flat_indexed_values = map g (flat_indexed_values v)\<rparr>) ps"

definition proxy_ids_ok :: "'a proxies \<Rightarrow> bool" where
  "proxy_ids_ok ps \<longleftrightarrow> map proxy_id ps = [0..<length ps]"

text \<open>
  \<open>Model::generate_variable_parameter_proxies(v)\<close> and its constraint twin: one proxy per
  proxy of the model, with the model proxy's number of elements, every value \<open>v\<close>, and
  the proxy's index as its id.
\<close>

definition generate_parameter_proxies :: "nat list \<Rightarrow> 'a \<Rightarrow> 'a proxies" where
  "generate_parameter_proxies sizes v =
     map (\<lambda>i. \<lparr>proxy_id = i, flat_indexed_values = replicate (sizes ! i) v\<rparr>) [0..<length sizes]"

section \<open>Moves\<close>

text \<open>
  \<open>model::Move\<close> belongs to the model library, which is not among the sources; it is
  modelled from the specification: a sense tag, the ordered alterations (a variable,
  named by its stable pair (proxy index, flat index), and its new value) and the
  constraints the move touches.
\<close>

datatype move_sense =
    Binary | Integer | Selection | Aggregation | Precedence | VariableBound | Exclusive
  | Chain | UserDefined

type_synonym variable_ref = "nat \<times> nat"

record move =
  sense :: move_sense
  alterations :: "(variable_ref \<times> int) list"
  related_constraints :: "(nat \<times> nat) list"

section \<open>The random offset \<open>rand() % (2 * w) - w\<close>\<close>

text \<open>
  \<open>std::mt19937::operator()\<close> returns \<open>uint_fast32_t\<close>, an unsigned 64-bit integer on
  LP64 Linux; a draw is therefore a \<open>64 word\<close> (the generator's values are below
  \<open>2^32\<close>, which the lemmas below do not need). In \<open>r % (2 * w) - w\<close> the \<open>int\<close>
  operands \<open>2 * w\<close> (computed in 32 bits) and \<open>w\<close> are converted to the unsigned type,
  the subtraction wraps modulo \<open>2^64\<close>, and the assignment to an \<open>int\<close> keeps the low
  32 bits as a two's-complement value.
\<close>

definition rand_offset_word :: "64 word \<Rightarrow> int \<Rightarrow> 64 word" where
  "rand_offset_word r w =
     r mod (scast (2 * (word_of_int w :: 32 word))) - scast (word_of_int w :: 32 word)"

definition cpp_random_offset :: "64 word \<Rightarrow> int \<Rightarrow> int" where
  "cpp_random_offset r w = sint (ucast (rand_offset_word r w) :: 32 word)"

section \<open>Conversions to \<open>int\<close>\<close>

text \<open>\<open>static_cast<int>\<close> of a double truncates towards zero; an \<open>int\<close> that receives a
  wider value keeps its low 32 bits (two's complement).\<close>

definition cpp_trunc :: "real \<Rightarrow> int" where
  "cpp_trunc x = (if 0 \<le> x then \<lfloor>x\<rfloor> else \<lceil>x\<rceil>)"

definition int32_wrap :: "int \<Rightarrow> int" where
  "int32_wrap x = sint (word_of_int x :: 32 word)"

section \<open>Lemmas\<close>

lemma map_update_same:
  "(map h xs)[p := h (xs ! p)] = map h xs"
  by (metis length_map list_update_beyond list_update_id not_le nth_map)

lemma list_all_all_values [proxy_simps]:
  "list_all P (all_values ps) \<longleftrightarrow> (\<forall>pr \<in> set ps. list_all P (flat_indexed_values pr))"
  by (auto simp: all_values_def list_all_iff)

lemma sum_list_update_group:
  "k < length xs \<Longrightarrow> sum_list (xs[k := x]) = sum_list xs - xs ! k + (x :: 'a::ab_group_add)"
  by (induction xs arbitrary: k) (auto split: nat.split simp: algebra_simps)

lemma sum_list_concat_group:
  "sum_list (concat xss) = sum_list (map sum_list (xss :: 'a::ab_group_add list list))"
  by (induction xss) simp_all

lemma proxy_shape_update [simp, proxy_simps]:
  "proxy_shape (proxy_update p f g ps) = proxy_shape ps"
  using map_update_same[of "\<lambda>v. length (flat_indexed_values v)" ps p]
  by (simp add: proxy_shape_def proxy_update_def map_update)

lemma proxy_ids_update [simp, proxy_simps]:
  "map proxy_id (proxy_update p f g ps) = map proxy_id ps"
  by (simp add: proxy_update_def map_update map_update_same)

lemma length_proxy_update [simp, proxy_simps]:
  "length (proxy_update p f g ps) = length ps"
  by (simp add: proxy_update_def)

lemma proxy_ids_ok_update [simp, proxy_simps]:
  "proxy_ids_ok (proxy_update p f g ps) = proxy_ids_ok ps"
  by (simp add: proxy_ids_ok_def)

lemma valid_index_update [simp, proxy_simps]:
  "valid_index (proxy_update p f g ps) q h = valid_index ps q h"
proof -
  have "length (flat_indexed_values (proxy_update p f g ps ! q)) =
        length (flat_indexed_values (ps ! q))" if "q < length ps"
    using that arg_cong[OF proxy_shape_update, of "\<lambda>xs. xs ! q" p f g ps]
    by (simp add: proxy_shape_def)
  then show ?thesis by (auto simp: valid_index_def)
qed

lemma proxy_value_update [proxy_simps]:
  assumes "valid_index ps p f"
  shows "proxy_value (proxy_update p f g ps) q h =
           (if q = p \<and> h = f then g (proxy_value ps p f) else proxy_value ps q h)"
  using assms
  by (cases "q = p") (auto simp: proxy_value_def proxy_update_def valid_index_def)

lemma sum_all_values_update [proxy_simps]:
  fixes ps :: "'a::ab_group_add proxies"
  assumes "valid_index ps p f"
  shows "sum_list (all_values (proxy_update p f g ps)) =
           sum_list (all_values ps) - proxy_value ps p f + g (proxy_value ps p f)"
proof -
  let ?v = "flat_indexed_values (ps ! p)"
  have p: "p < length ps" and f: "f < length ?v"
    using assms by (auto simp: valid_index_def)
  have inner: "sum_list (?v[f := g (?v ! f)]) = sum_list ?v - ?v ! f + g (?v ! f)"
    using f by (rule sum_list_update_group)
  have "sum_list (all_values (ps[p := x])) =
          sum_list (all_values ps) - sum_list (flat_indexed_values (ps ! p))
          + sum_list (flat_indexed_values x)" for x :: "'a value_proxy"
    using p by (simp add: all_values_def sum_list_concat_group map_update sum_list_update_group)
  then show ?thesis
    using inner by (simp add: proxy_update_def proxy_value_def)
qed

lemma proxy_value_update_other [proxy_simps]:
  "(q, h) \<noteq> (p, f) \<Longrightarrow> proxy_value (proxy_update p f g ps) q h = proxy_value ps q h"
  by (cases "q = p"; cases "p < length ps")
     (auto simp: proxy_value_def proxy_update_def nth_list_update list_update_beyond)

lemma valid_index_shape:
  "proxy_shape ps = proxy_shape qs \<Longrightarrow> valid_index ps p f = valid_index qs p f"
  by (metis (no_types, lifting) length_map nth_map proxy_shape_def valid_index_def)

lemma proxy_value_in_all_values:
  "valid_index ps p f \<Longrightarrow> proxy_value ps p f \<in> set (all_values ps)"
  by (auto simp: valid_index_def proxy_value_def all_values_def intro!: bexI[of _ "ps ! p"])

lemma set_all_values_update:
  "set (all_values (proxy_update p f g ps)) \<subseteq>
     insert (g (proxy_value ps p f)) (set (all_values ps))"
proof (cases "p < length ps")
  case True
  let ?v = "flat_indexed_values (ps ! p)"
  have inner: "set (?v[f := g (?v ! f)]) \<subseteq> insert (g (?v ! f)) (set ?v)"
    by (rule set_update_subset_insert)
  have "set ?v \<subseteq> set (all_values ps)"
    using True by (auto simp: all_values_def intro!: bexI[of _ "ps ! p"])
  moreover have "set (all_values (proxy_update p f g ps)) \<subseteq>
      set (?v[f := g (?v ! f)]) \<union> set (all_values ps)"
    using True set_update_subset_insert[of "map flat_indexed_values ps" p]
    by (fastforce simp: all_values_def proxy_update_def map_update)
  ultimately show ?thesis
    using inner by (auto simp: proxy_value_def)
next
  case False
  then show ?thesis by (auto simp: proxy_update_def list_update_beyond)
qed

text \<open>Two bounds on sums of squares, for the frequencies of the bias.\<close>

lemma sum_list_sq_bound:
  fixes xs :: "real list"
  shows "(sum_list xs)\<^sup>2 \<le> real (length xs) * sum_list (map (\<lambda>x. x\<^sup>2) xs)"
proof (cases "xs = []")
  case True
  then show ?thesis by simp
next
  case False
  define n where "n = real (length xs)"
  define S where "S = sum_list xs"
  define Q where "Q = sum_list (map (\<lambda>x. x\<^sup>2) xs)"
  define m where "m = S / n"
  have n: "0 < n" using False by (simp add: n_def)
  have "0 \<le> sum_list (map (\<lambda>x. (x - m)\<^sup>2) xs)"
    by (rule sum_list_nonneg) auto
  also have "sum_list (map (\<lambda>x. (x - m)\<^sup>2) xs) = Q - 2 * m * S + n * m\<^sup>2"
    by (simp add: power2_diff sum_list_addf sum_list_subtractf sum_list_const_mult
        sum_list_mult_const sum_list_triv Q_def S_def n_def algebra_simps)
  also have "\<dots> = Q - S\<^sup>2 / n"
    using n by (simp add: m_def power2_eq_square field_simps)
  finally show ?thesis
    using n by (simp add: Q_def S_def n_def field_simps)
qed

lemma sum_list_sq_le_sq_sum:
  fixes xs :: "real list"
  assumes "list_all (\<lambda>x. 0 \<le> x) xs"
  shows "sum_list (map (\<lambda>x. x\<^sup>2) xs) \<le> (sum_list xs)\<^sup>2"
  using assms
proof (induction xs)
  case Nil
  then show ?case by simp
next
  case (Cons a xs)
  have "0 \<le> a" "0 \<le> sum_list xs"
    using Cons.prems by (auto intro: sum_list_nonneg simp: list_all_iff)
  then have "a\<^sup>2 + (sum_list xs)\<^sup>2 \<le> (a + sum_list xs)\<^sup>2"
    by (simp add: power2_sum)
  with Cons show ?case by simp
qed

lemma sum_list_zero_set: "set xs \<subseteq> {0} \<Longrightarrow> sum_list xs = (0::'a::monoid_add)"
  by (induction xs) auto

lemma length_generate [simp, proxy_simps]:
  "length (generate_parameter_proxies sizes v) = length sizes"
  by (simp add: generate_parameter_proxies_def)

lemma length_all_values_generate [proxy_simps]:
  "length (all_values (generate_parameter_proxies sizes v)) = sum_list sizes"
proof -
  have "length (all_values (generate_parameter_proxies sizes v)) =
        sum_list (map (\<lambda>i. sizes ! i) [0..<length sizes])"
    by (simp add: all_values_def generate_parameter_proxies_def length_concat comp_def)
  also have "\<dots> = sum_list sizes"
    by (simp add: map_nth)
  finally show ?thesis .
qed

lemma proxy_shape_map [simp, proxy_simps]:
  "proxy_shape (map_proxies g ps) = proxy_shape ps"
  by (simp add: proxy_shape_def map_proxies_def comp_def)

lemma proxy_ids_map [simp, proxy_simps]:
  "map proxy_id (map_proxies g ps) = map proxy_id ps"
  by (simp add: map_proxies_def comp_def)

lemma all_values_map [simp, proxy_simps]:
  "all_values (map_proxies g ps) = map g (all_values ps)"
  by (induction ps) (simp_all add: all_values_def map_proxies_def)

lemma proxy_ids_ok_generate [simp, proxy_simps]:
  "proxy_ids_ok (generate_parameter_proxies sizes v)"
  by (simp add: proxy_ids_ok_def generate_parameter_proxies_def comp_def)

lemma proxy_shape_generate [simp, proxy_simps]:
  "proxy_shape (generate_parameter_proxies sizes v) = sizes"
  by (simp add: proxy_shape_def generate_parameter_proxies_def comp_def map_nth)

lemma all_values_generate [simp, proxy_simps]:
  "set (all_values (generate_parameter_proxies sizes v)) \<subseteq> {v}"
  by (auto simp: all_values_def generate_parameter_proxies_def)

lemma sint_word_of_int_32:
  "- (2^31) \<le> w \<Longrightarrow> w < 2^31 \<Longrightarrow> sint (word_of_int w :: 32 word) = w"
  by (simp only: sint_sbintrunc') (simp add: signed_take_bit_int_eq_self)

lemma scast_word_of_int_32:
  assumes "- (2^31) \<le> w" "w < 2^31"
  shows "(scast (word_of_int w :: 32 word) :: 64 word) = word_of_int w"
  using sint_word_of_int_32[OF assms] by (metis scast_eq)

lemma rand_offset_word_eq:
  assumes w: "0 < w" "w < 2^30"
  shows "rand_offset_word r w = word_of_int (uint r mod (2 * w) - w)"
proof -
  have two: "(scast (2 * (word_of_int w :: 32 word)) :: 64 word) = word_of_int (2 * w)"
    using scast_word_of_int_32[of "2 * w"] w by (simp add: wi_hom_syms)
  have one: "(scast (word_of_int w :: 32 word) :: 64 word) = word_of_int w"
    using scast_word_of_int_32[of w] w by simp
  have u2: "uint (word_of_int (2 * w) :: 64 word) = 2 * w"
    using w by (simp only: uint_word_of_int_eq) (simp add: take_bit_int_eq_self)
  have um: "uint (r mod word_of_int (2 * w)) = uint r mod (2 * w)"
    using u2 by (simp add: uint_mod)
  have rm: "r mod word_of_int (2 * w) = (word_of_int (uint r mod (2 * w)) :: 64 word)"
    by (metis um word_of_int_uint)
  show ?thesis
    unfolding rand_offset_word_def two one rm by (simp only: of_int_diff)
qed

lemma cpp_random_offset_eq:
  assumes w: "0 < w" "w < 2^30"
  shows "cpp_random_offset r w = uint r mod (2 * w) - w"
proof -
  have b: "0 \<le> uint r mod (2 * w)" "uint r mod (2 * w) < 2 * w"
    using w by simp_all
  have w30: "w < 1073741824"
    using w by simp
  have lo: "- (2^31) \<le> uint r mod (2 * w) - w"
    using b w30 by simp
  have hi: "uint r mod (2 * w) - w < 2^31"
    using b w30 by simp
  have uc: "(ucast (word_of_int (uint r mod (2 * w) - w) :: 64 word) :: 32 word)
        = word_of_int (uint r mod (2 * w) - w)"
    by (rule ucast_down_wi) (simp add: is_down)
  show ?thesis
    unfolding cpp_random_offset_def rand_offset_word_eq[OF w] uc using lo hi
    by (rule sint_word_of_int_32)
qed

lemma int32_wrap_id:
  "- (2^31) \<le> x \<Longrightarrow> x < 2^31 \<Longrightarrow> int32_wrap x = x"
  by (simp add: int32_wrap_def sint_word_of_int_32)

lemma cpp_trunc_nonneg [simp]: "0 \<le> x \<Longrightarrow> cpp_trunc x = \<lfloor>x\<rfloor>"
  by (simp add: cpp_trunc_def)

lemma cpp_random_offset_bounds:
  "0 < w \<Longrightarrow> w < 2^30 \<Longrightarrow> - w \<le> cpp_random_offset r w \<and> cpp_random_offset r w < w"
  by (simp add: cpp_random_offset_eq)

end
