(* ===== verification/IncumbentHolder.thy ===== *)
theory IncumbentHolder
  imports Prelude
begin

text \<open>
  The incumbent holder of the solver (\<open>solver/incumbent_holder.h\<close>, class
  \<open>IncumbentHolder\<close>): three best-so-far registers, for the local augmented objective,
  the global augmented objective and the objective of feasible solutions. Each register
  keeps a solution, its score and its objective; \<open>try_update_incumbent\<close> offers a
  (solution, score) pair to the three registers in that order and reports the registers
  it replaced as the bits 1, 2 and 4 of an \<open>int\<close> status. The objectives start at
  \<open>HUGE_VALF\<close>, the float infinity: the datatype \<open>incumbent_objective\<close> adds that value
  (\<open>Huge\<close>) above the reals, ordered as the double comparison orders it.
  The score (\<open>model::SolutionScore\<close>) lives in the model library, outside the sources;
  its fields are the ones the specification lists.
\<close>

section \<open>Objective values\<close>

datatype incumbent_objective = Finite real | Huge

instantiation incumbent_objective :: linorder
begin

fun less_eq_incumbent_objective :: "incumbent_objective \<Rightarrow> incumbent_objective \<Rightarrow> bool" where
  "less_eq_incumbent_objective (Finite a) (Finite b) \<longleftrightarrow> a \<le> b"
| "less_eq_incumbent_objective _ Huge \<longleftrightarrow> True"
| "less_eq_incumbent_objective Huge (Finite _) \<longleftrightarrow> False"

fun less_incumbent_objective :: "incumbent_objective \<Rightarrow> incumbent_objective \<Rightarrow> bool" where
  "less_incumbent_objective (Finite a) (Finite b) \<longleftrightarrow> a < b"
| "less_incumbent_objective (Finite _) Huge \<longleftrightarrow> True"
| "less_incumbent_objective Huge _ \<longleftrightarrow> False"

instance
proof
  fix x y z :: incumbent_objective
  show "(x < y) = (x \<le> y \<and> \<not> y \<le> x)" by (cases x; cases y) auto
  show "x \<le> x" by (cases x) auto
  show "x \<le> y \<Longrightarrow> y \<le> z \<Longrightarrow> x \<le> z" by (cases x; cases y; cases z) auto
  show "x \<le> y \<Longrightarrow> y \<le> x \<Longrightarrow> x = y" by (cases x; cases y) auto
  show "x \<le> y \<or> y \<le> x" by (cases x; cases y) auto
qed

end

section \<open>Scores and the holder\<close>

record solution_score =
  objective :: real
  total_violation :: real
  local_penalty :: real
  global_penalty :: real
  local_augmented_objective :: real
  global_augmented_objective :: real
  is_feasible :: bool
  is_objective_improvable :: bool
  is_constraint_improvable :: bool

record 's incumbent_holder =
  found_feasible_solution :: bool
  local_augmented_incumbent_solution :: 's
  global_augmented_incumbent_solution :: 's
  feasible_incumbent_solution :: 's
  local_augmented_incumbent_objective :: incumbent_objective
  global_augmented_incumbent_objective :: incumbent_objective
  feasible_incumbent_objective :: incumbent_objective
  local_augmented_incumbent_score :: solution_score
  global_augmented_incumbent_score :: solution_score
  feasible_incumbent_score :: solution_score

text \<open>A value-initialised score, the default member of a fresh holder.\<close>

definition zero_score :: solution_score where
  "zero_score = \<lparr>objective = 0, total_violation = 0, local_penalty = 0, global_penalty = 0,
     local_augmented_objective = 0, global_augmented_objective = 0, is_feasible = False,
     is_objective_improvable = False, is_constraint_improvable = False\<rparr>"

text \<open>\<open>IncumbentHolderConstant\<close>: the status bits.\<close>

definition STATUS_NO_UPDATED :: int where "STATUS_NO_UPDATED = 0"
definition STATUS_LOCAL_AUGMENTED_INCUMBENT_UPDATE :: int where
  "STATUS_LOCAL_AUGMENTED_INCUMBENT_UPDATE = 1"
definition STATUS_GLOBAL_AUGMENTED_INCUMBENT_UPDATE :: int where
  "STATUS_GLOBAL_AUGMENTED_INCUMBENT_UPDATE = 2"
definition STATUS_FEASIBLE_INCUMBENT_UPDATE :: int where
  "STATUS_FEASIBLE_INCUMBENT_UPDATE = 4"

lemmas status_constants = STATUS_NO_UPDATED_def STATUS_LOCAL_AUGMENTED_INCUMBENT_UPDATE_def
  STATUS_GLOBAL_AUGMENTED_INCUMBENT_UPDATE_def STATUS_FEASIBLE_INCUMBENT_UPDATE_def

text \<open>\<open>initialize()\<close>: the flag and the three objectives are reset; the stored
  solutions and scores keep their values. The constructor runs it on default-constructed
  members, given here as \<open>s0\<close> and \<open>sc0\<close>.\<close>

definition incumbent_holder_initialize :: "'s incumbent_holder \<Rightarrow> 's incumbent_holder" where
  "incumbent_holder_initialize h =
     h\<lparr>found_feasible_solution := False,
       local_augmented_incumbent_objective := Huge,
       global_augmented_incumbent_objective := Huge,
       feasible_incumbent_objective := Huge\<rparr>"

definition incumbent_holder_new :: "'s \<Rightarrow> solution_score \<Rightarrow> 's incumbent_holder" where
  "incumbent_holder_new s0 sc0 = incumbent_holder_initialize
     \<lparr>found_feasible_solution = False,
      local_augmented_incumbent_solution = s0, global_augmented_incumbent_solution = s0,
      feasible_incumbent_solution = s0,
      local_augmented_incumbent_objective = Huge, global_augmented_incumbent_objective = Huge,
      feasible_incumbent_objective = Huge,
      local_augmented_incumbent_score = sc0, global_augmented_incumbent_score = sc0,
      feasible_incumbent_score = sc0\<rparr>"

section \<open>\<open>try_update_incumbent\<close>\<close>

text \<open>The three \<open>if\<close> blocks of \<open>try_update_incumbent(solution, score)\<close>, each on the
  status and holder the previous one left.\<close>

definition try_update_local :: "'s \<Rightarrow> solution_score \<Rightarrow> int \<times> 's incumbent_holder \<Rightarrow> int \<times> 's incumbent_holder" where
  "try_update_local sol sc = (\<lambda>(status, h).
     if Finite (local_augmented_objective sc) < local_augmented_incumbent_objective h
     then (status + STATUS_LOCAL_AUGMENTED_INCUMBENT_UPDATE,
           h\<lparr>local_augmented_incumbent_solution := sol,
             local_augmented_incumbent_score := sc,
             local_augmented_incumbent_objective := Finite (local_augmented_objective sc)\<rparr>)
     else (status, h))"

definition try_update_global :: "'s \<Rightarrow> solution_score \<Rightarrow> int \<times> 's incumbent_holder \<Rightarrow> int \<times> 's incumbent_holder" where
  "try_update_global sol sc = (\<lambda>(status, h).
     if Finite (global_augmented_objective sc) < global_augmented_incumbent_objective h
     then (status + STATUS_GLOBAL_AUGMENTED_INCUMBENT_UPDATE,
           h\<lparr>global_augmented_incumbent_solution := sol,
             global_augmented_incumbent_score := sc,
             global_augmented_incumbent_objective := Finite (global_augmented_objective sc)\<rparr>)
     else (status, h))"

definition try_update_feasible :: "'s \<Rightarrow> solution_score \<Rightarrow> int \<times> 's incumbent_holder \<Rightarrow> int \<times> 's incumbent_holder" where
  "try_update_feasible sol sc = (\<lambda>(status, h).
     if is_feasible sc then
       (let h = h\<lparr>found_feasible_solution := True\<rparr> in
        if Finite (objective sc) < feasible_incumbent_objective h
        then (status + STATUS_FEASIBLE_INCUMBENT_UPDATE,
              h\<lparr>feasible_incumbent_score := sc,
                feasible_incumbent_solution := sol,
                feasible_incumbent_objective := Finite (objective sc)\<rparr>)
        else (status, h))
     else (status, h))"

definition try_update_incumbent ::
  "'s incumbent_holder \<Rightarrow> 's \<Rightarrow> solution_score \<Rightarrow> int \<times> 's incumbent_holder" where
  "try_update_incumbent h sol sc =
     try_update_feasible sol sc (try_update_global sol sc
       (try_update_local sol sc (STATUS_NO_UPDATED, h)))"

text \<open>
  The overload \<open>try_update_incumbent(model, score)\<close> exports the model's current
  solution lazily, at the first register that improves, and reuses it for the later ones;
  \<open>cache\<close> is its pair of locals \<open>solution\<close> / \<open>is_solution_updated\<close>.
\<close>

definition export_once :: "('m \<Rightarrow> 's) \<Rightarrow> 'm \<Rightarrow> 's option \<Rightarrow> 's \<times> 's option" where
  "export_once export_solution m cache =
     (case cache of None \<Rightarrow> (let s = export_solution m in (s, Some s)) | Some s \<Rightarrow> (s, Some s))"

definition try_update_incumbent_model ::
  "('m \<Rightarrow> 's) \<Rightarrow> 's incumbent_holder \<Rightarrow> 'm \<Rightarrow> solution_score \<Rightarrow> int \<times> 's incumbent_holder" where
  "try_update_incumbent_model export_solution h m sc =
     (let (status, cache, h) =
        (if Finite (local_augmented_objective sc) < local_augmented_incumbent_objective h
         then (let (s, cache) = export_once export_solution m None in
               (STATUS_NO_UPDATED + STATUS_LOCAL_AUGMENTED_INCUMBENT_UPDATE, cache,
                h\<lparr>local_augmented_incumbent_solution := s,
                  local_augmented_incumbent_score := sc,
                  local_augmented_incumbent_objective := Finite (local_augmented_objective sc)\<rparr>))
         else (STATUS_NO_UPDATED, None, h));
          (status, cache, h) =
        (if Finite (global_augmented_objective sc) < global_augmented_incumbent_objective h
         then (let (s, cache) = export_once export_solution m cache in
               (status + STATUS_GLOBAL_AUGMENTED_INCUMBENT_UPDATE, cache,
                h\<lparr>global_augmented_incumbent_solution := s,
                  global_augmented_incumbent_score := sc,
                  global_augmented_incumbent_objective := Finite (global_augmented_objective sc)\<rparr>))
         else (status, cache, h))
      in if is_feasible sc then
           (let h = h\<lparr>found_feasible_solution := True\<rparr> in
            if Finite (objective sc) < feasible_incumbent_objective h
            then (let (s, cache) = export_once export_solution m cache in
                  (status + STATUS_FEASIBLE_INCUMBENT_UPDATE,
                   h\<lparr>feasible_incumbent_solution := s,
                     feasible_incumbent_score := sc,
                     feasible_incumbent_objective := Finite (objective sc)\<rparr>))
            else (status, h))
         else (status, h))"

definition reset_local_augmented_incumbent :: "'s incumbent_holder \<Rightarrow> 's incumbent_holder" where
  "reset_local_augmented_incumbent h = h\<lparr>local_augmented_incumbent_objective := Huge\<rparr>"

text \<open>Offering a sequence of candidates, one \<open>try_update_incumbent\<close> after the other.\<close>

fun try_update_all :: "'s incumbent_holder \<Rightarrow> ('s \<times> solution_score) list \<Rightarrow> 's incumbent_holder" where
  "try_update_all h [] = h"
| "try_update_all h ((sol, sc) # xs) = try_update_all (snd (try_update_incumbent h sol sc)) xs"

text \<open>The reference for a sequence of offers: the first element of minimal key.\<close>

fun argmin_first :: "('a \<Rightarrow> real) \<Rightarrow> 'a list \<Rightarrow> 'a option" where
  "argmin_first k [] = None"
| "argmin_first k (x # xs) =
     (case argmin_first k xs of None \<Rightarrow> Some x | Some y \<Rightarrow> if k y < k x then Some y else Some x)"

definition incumbent_consistent :: "'s incumbent_holder \<Rightarrow> bool" where
  "incumbent_consistent h \<longleftrightarrow>
     (local_augmented_incumbent_objective h = Huge \<or>
      local_augmented_incumbent_objective h =
        Finite (local_augmented_objective (local_augmented_incumbent_score h))) \<and>
     (global_augmented_incumbent_objective h = Huge \<or>
      global_augmented_incumbent_objective h =
        Finite (global_augmented_objective (global_augmented_incumbent_score h))) \<and>
     (feasible_incumbent_objective h = Huge \<or>
      feasible_incumbent_objective h = Finite (objective (feasible_incumbent_score h)) \<and>
      is_feasible (feasible_incumbent_score h)) \<and>
     (found_feasible_solution h \<longleftrightarrow> feasible_incumbent_objective h \<noteq> Huge)"

section \<open>Properties\<close>

unbundle bit_operations_syntax

lemma Finite_less_Huge [simp]: "Finite a < Huge"
  by simp

lemma not_Huge_less [simp]: "\<not> Huge < x"
  by (cases x) simp_all


lemma try_update_incumbent_cases:
  "try_update_incumbent h sol sc =
    (let l = Finite (local_augmented_objective sc) < local_augmented_incumbent_objective h;
         g = Finite (global_augmented_objective sc) < global_augmented_incumbent_objective h;
         f = is_feasible sc \<and> Finite (objective sc) < feasible_incumbent_objective h
     in (of_bool l + 2 * of_bool g + 4 * of_bool f,
         h\<lparr>found_feasible_solution := found_feasible_solution h \<or> is_feasible sc,
           local_augmented_incumbent_solution :=
             (if l then sol else local_augmented_incumbent_solution h),
           local_augmented_incumbent_score :=
             (if l then sc else local_augmented_incumbent_score h),
           local_augmented_incumbent_objective :=
             (if l then Finite (local_augmented_objective sc)
              else local_augmented_incumbent_objective h),
           global_augmented_incumbent_solution :=
             (if g then sol else global_augmented_incumbent_solution h),
           global_augmented_incumbent_score :=
             (if g then sc else global_augmented_incumbent_score h),
           global_augmented_incumbent_objective :=
             (if g then Finite (global_augmented_objective sc)
              else global_augmented_incumbent_objective h),
           feasible_incumbent_solution := (if f then sol else feasible_incumbent_solution h),
           feasible_incumbent_score := (if f then sc else feasible_incumbent_score h),
           feasible_incumbent_objective :=
             (if f then Finite (objective sc) else feasible_incumbent_objective h)\<rparr>))"
  unfolding try_update_incumbent_def try_update_local_def try_update_global_def
      try_update_feasible_def status_constants Let_def
  by simp

lemma status_bits:
  fixes l g f :: bool
  shows "(of_bool l + 2 * of_bool g + 4 * of_bool f :: int) AND 1 \<noteq> 0 \<longleftrightarrow> l"
    and "(of_bool l + 2 * of_bool g + 4 * of_bool f :: int) AND 2 \<noteq> 0 \<longleftrightarrow> g"
    and "(of_bool l + 2 * of_bool g + 4 * of_bool f :: int) AND 4 \<noteq> 0 \<longleftrightarrow> f"
  by (cases l; cases g; cases f; simp)+

lemma global_register_update:
  "global_augmented_incumbent_objective (snd (try_update_incumbent h sol sc)) =
     (if Finite (global_augmented_objective sc) < global_augmented_incumbent_objective h
      then Finite (global_augmented_objective sc) else global_augmented_incumbent_objective h)"
  "global_augmented_incumbent_solution (snd (try_update_incumbent h sol sc)) =
     (if Finite (global_augmented_objective sc) < global_augmented_incumbent_objective h
      then sol else global_augmented_incumbent_solution h)"
  by (simp_all add: try_update_incumbent_cases Let_def)

lemma finite_less_trans: "a \<le> b \<Longrightarrow> Finite b < c \<Longrightarrow> Finite a < c"
  by (cases c) simp_all

lemma incumbent_consistent_initialize:
  "incumbent_consistent (incumbent_holder_initialize h)"
  by (simp add: incumbent_consistent_def incumbent_holder_initialize_def)

lemma argmin_first_None [simp]: "argmin_first k xs = None \<longleftrightarrow> xs = []"
  by (induction xs) (simp_all split: option.splits)

lemma argmin_first_Some:
  "argmin_first k xs = Some x \<Longrightarrow>
     x \<in> set xs \<and> k x = Min (k ` set xs) \<and> find (\<lambda>y. k y = k x) xs = Some x"
proof (induction xs arbitrary: x)
  case Nil
  then show ?case by simp
next
  case (Cons a xs)
  show ?case
  proof (cases "argmin_first k xs")
    case None
    with Cons.prems show ?thesis by simp
  next
    case (Some y)
    with Cons.IH have y: "y \<in> set xs" "k y = Min (k ` set xs)" "find (\<lambda>z. k z = k y) xs = Some y"
      by auto
    have fin: "finite (k ` set xs)" "k ` set xs \<noteq> {}" using y(1) by auto
    have mn: "Min (k ` set (a # xs)) = min (k a) (Min (k ` set xs))"
      using fin by (simp add: Min_insert)
    show ?thesis
    proof (cases "k y < k a")
      case True
      with Cons.prems Some have "x = y" by simp
      moreover have "Min (k ` set (a # xs)) = k y" using True y(2) mn by simp
      ultimately show ?thesis using y True by auto
    next
      case False
      with Cons.prems Some have "x = a" by simp
      moreover have "Min (k ` set (a # xs)) = k a" using False y(2) mn by simp
      ultimately show ?thesis by simp
    qed
  qed
qed

lemma try_update_all_global:
  "(global_augmented_incumbent_objective (try_update_all h xs),
    global_augmented_incumbent_solution (try_update_all h xs)) =
   (case argmin_first (global_augmented_objective \<circ> snd) xs of
      None \<Rightarrow> (global_augmented_incumbent_objective h, global_augmented_incumbent_solution h)
    | Some x \<Rightarrow>
        if Finite (global_augmented_objective (snd x)) < global_augmented_incumbent_objective h
        then (Finite (global_augmented_objective (snd x)), fst x)
        else (global_augmented_incumbent_objective h, global_augmented_incumbent_solution h))"
proof (induction xs arbitrary: h)
  case Nil
  then show ?case by simp
next
  case (Cons x xs)
  obtain sol sc where x: "x = (sol, sc)" by fastforce
  show ?case
    using Cons.IH[of "snd (try_update_incumbent h sol sc)"]
    by (auto simp: x global_register_update split: option.splits
        intro: finite_less_trans[OF less_imp_le] dest: finite_less_trans[OF less_imp_le]
        finite_less_trans[OF not_less[THEN iffD1]])
qed

text \<open>C4. Offering a solution never makes an incumbent worse: after
  \<open>try_update_incumbent\<close> each of the three incumbent objectives is at most what it was,
  and once a feasible solution has been found the flag stays set.\<close>

theorem try_update_incumbent_monotone:
  "local_augmented_incumbent_objective (snd (try_update_incumbent h sol sc))
     \<le> local_augmented_incumbent_objective h \<and>
   global_augmented_incumbent_objective (snd (try_update_incumbent h sol sc))
     \<le> global_augmented_incumbent_objective h \<and>
   feasible_incumbent_objective (snd (try_update_incumbent h sol sc))
     \<le> feasible_incumbent_objective h \<and>
   (found_feasible_solution h \<longrightarrow> found_feasible_solution (snd (try_update_incumbent h sol sc)))"
  unfolding try_update_incumbent_cases Let_def by auto

theorem try_update_incumbent_monotone_witness:
  "found_feasible_solution (snd (try_update_incumbent
     ((incumbent_holder_new (0::nat) zero_score)\<lparr>found_feasible_solution := True\<rparr>) 1 zero_score))"
  using try_update_incumbent_monotone[of
    "(incumbent_holder_new (0::nat) zero_score)\<lparr>found_feasible_solution := True\<rparr>" 1 zero_score]
  by simp

text \<open>C7. The status returned by \<open>try_update_incumbent\<close> reports exactly the registers it
  replaced: its bit \<open>STATUS_LOCAL_AUGMENTED_INCUMBENT_UPDATE\<close> is set iff the score's local
  augmented objective is below the local incumbent, its bit
  \<open>STATUS_GLOBAL_AUGMENTED_INCUMBENT_UPDATE\<close> iff the global augmented objective is below
  the global incumbent, its bit \<open>STATUS_FEASIBLE_INCUMBENT_UPDATE\<close> iff the score is
  feasible and its objective is below the feasible incumbent.\<close>

theorem try_update_incumbent_status:
  "(fst (try_update_incumbent h sol sc) AND STATUS_LOCAL_AUGMENTED_INCUMBENT_UPDATE \<noteq> 0 \<longleftrightarrow>
      Finite (local_augmented_objective sc) < local_augmented_incumbent_objective h) \<and>
   (fst (try_update_incumbent h sol sc) AND STATUS_GLOBAL_AUGMENTED_INCUMBENT_UPDATE \<noteq> 0 \<longleftrightarrow>
      Finite (global_augmented_objective sc) < global_augmented_incumbent_objective h) \<and>
   (fst (try_update_incumbent h sol sc) AND STATUS_FEASIBLE_INCUMBENT_UPDATE \<noteq> 0 \<longleftrightarrow>
      is_feasible sc \<and> Finite (objective sc) < feasible_incumbent_objective h)"
  unfolding try_update_incumbent_cases Let_def by (simp add: status_constants status_bits)

text \<open>C6. The holder stays consistent: each finite incumbent objective is the matching
  field of the stored score, a finite feasible incumbent is stored with a feasible score,
  and the found-feasible flag is set exactly when the feasible incumbent is finite.
  \<open>initialize\<close> establishes this and \<open>try_update_incumbent\<close> keeps it.\<close>

theorem try_update_incumbent_consistent:
  "incumbent_consistent h \<Longrightarrow> incumbent_consistent (snd (try_update_incumbent h sol sc))"
  unfolding try_update_incumbent_cases Let_def incumbent_consistent_def
  by (auto simp del: Finite_less_Huge)

theorem try_update_incumbent_consistent_witness:
  "incumbent_consistent (incumbent_holder_initialize (incumbent_holder_new (0::nat) zero_score)) \<and>
   incumbent_consistent (snd (try_update_incumbent
      (incumbent_holder_initialize (incumbent_holder_new (0::nat) zero_score)) 1
      (zero_score\<lparr>objective := 3, global_augmented_objective := 5, is_feasible := True\<rparr>)))"
  by (rule conjI[OF incumbent_consistent_initialize
        try_update_incumbent_consistent[OF incumbent_consistent_initialize]])

text \<open>C14. Refinement of the global augmented incumbent: after a freshly initialised holder
  has been offered a non-empty sequence of (solution, score) pairs, its global augmented
  incumbent objective is the least global augmented objective offered, and its global
  augmented incumbent solution is the solution of the first pair that reaches it.\<close>

theorem try_update_all_global_first_min:
  assumes "xs \<noteq> []"
  shows "global_augmented_incumbent_objective (try_update_all (incumbent_holder_initialize h) xs)
           = Finite (Min ((global_augmented_objective \<circ> snd) ` set xs)) \<and>
         find (\<lambda>p. global_augmented_objective (snd p) =
                    Min ((global_augmented_objective \<circ> snd) ` set xs)) xs
           = Some (global_augmented_incumbent_solution
                     (try_update_all (incumbent_holder_initialize h) xs),
                   snd (the (argmin_first (global_augmented_objective \<circ> snd) xs)))"
proof -
  obtain x where x: "argmin_first (global_augmented_objective \<circ> snd) xs = Some x"
    using assms by (cases "argmin_first (global_augmented_objective \<circ> snd) xs") auto
  note spec = argmin_first_Some[OF x]
  have run: "(global_augmented_incumbent_objective (try_update_all (incumbent_holder_initialize h) xs),
              global_augmented_incumbent_solution (try_update_all (incumbent_holder_initialize h) xs))
             = (Finite (global_augmented_objective (snd x)), fst x)"
    using try_update_all_global[of "incumbent_holder_initialize h" xs] x
    by (simp add: incumbent_holder_initialize_def)
  have m: "global_augmented_objective (snd x) = Min ((global_augmented_objective \<circ> snd) ` set xs)"
    using spec by (simp add: comp_def)
  have f: "find (\<lambda>p. global_augmented_objective (snd p) =
                    Min ((global_augmented_objective \<circ> snd) ` set xs)) xs = Some x"
    using spec by (simp add: m)
  show ?thesis
    using run m f x by simp
qed

theorem try_update_all_global_first_min_witness:
  "[(1::nat, zero_score\<lparr>global_augmented_objective := 4\<rparr>), (2, zero_score\<lparr>global_augmented_objective := 2\<rparr>),
    (3, zero_score\<lparr>global_augmented_objective := 2\<rparr>)] \<noteq> [] \<and>
   global_augmented_incumbent_objective (try_update_all (incumbent_holder_initialize (incumbent_holder_new 0 zero_score))
     [(1::nat, zero_score\<lparr>global_augmented_objective := 4\<rparr>), (2, zero_score\<lparr>global_augmented_objective := 2\<rparr>),
      (3, zero_score\<lparr>global_augmented_objective := 2\<rparr>)]) = Finite 2 \<and>
   global_augmented_incumbent_solution (try_update_all (incumbent_holder_initialize (incumbent_holder_new 0 zero_score))
     [(1::nat, zero_score\<lparr>global_augmented_objective := 4\<rparr>), (2, zero_score\<lparr>global_augmented_objective := 2\<rparr>),
      (3, zero_score\<lparr>global_augmented_objective := 2\<rparr>)]) = 2"
  using try_update_all_global_first_min[of
    "[(1::nat, zero_score\<lparr>global_augmented_objective := 4\<rparr>), (2, zero_score\<lparr>global_augmented_objective := 2\<rparr>),
      (3, zero_score\<lparr>global_augmented_objective := 2\<rparr>)]" "incumbent_holder_new 0 zero_score"]
  by simp

text \<open>The model overload of \<open>try_update_incumbent\<close>, which exports the model's solution
  only once and only when some register improves, returns the same status and holder as
  the overload that is handed the exported solution.\<close>

theorem try_update_incumbent_model_eq:
  "try_update_incumbent_model export_solution h m sc =
     try_update_incumbent h (export_solution m) sc"
  by (simp add: try_update_incumbent_model_def try_update_incumbent_cases export_once_def Let_def
      status_constants)

end
