(* ===== verification/Memory.thy ===== *)
theory Memory
  imports Prelude
begin

text \<open>
  The search memory of the tabu search (\<open>printemps/solver/memory.h\<close>, class \<open>Memory\<close>).
  Per variable it keeps the iteration of the last update (short-term memory, read by the
  tabu test) and the number of updates (long-term memory), plus the total number of
  updates. The model supplies, at \<open>setup\<close>, the number of elements of each variable proxy
  and the proxies' names. A draw of \<open>std::mt19937\<close> is the \<open>k\<close>-th value of a stream
  \<open>rng :: nat \<Rightarrow> 64 word\<close>; the updates that draw return the index of the next draw.
  Counts are mathematical integers: the \<open>int\<close> counters and the \<open>long\<close> total are
  assumed not to overflow (more than \<open>2^31\<close> updates of one variable).
\<close>

section \<open>State and operations\<close>

definition INITIAL_LAST_UPDATE_ITERATION :: int where
  "INITIAL_LAST_UPDATE_ITERATION = -1000"

record memory =
  variable_names :: "string list"
  last_update_iterations :: "int proxies"
  update_counts :: "int proxies"
  total_update_counts :: int

definition memory_initialize :: "memory \<Rightarrow> memory" where
  "memory_initialize m =
     m\<lparr>variable_names := [], last_update_iterations := [], update_counts := [],
       total_update_counts := 0\<rparr>"

definition memory_new :: memory where
  "memory_new = memory_initialize
     \<lparr>variable_names = [], last_update_iterations = [], update_counts = [],
      total_update_counts = 0\<rparr>"

text \<open>\<open>setup(model)\<close>, given the model's variable proxy sizes and names.\<close>

definition memory_setup :: "nat list \<Rightarrow> string list \<Rightarrow> memory \<Rightarrow> memory" where
  "memory_setup sizes names m =
     (memory_initialize m)\<lparr>
        last_update_iterations := generate_parameter_proxies sizes INITIAL_LAST_UPDATE_ITERATION,
        update_counts := generate_parameter_proxies sizes 0,
        variable_names := names\<rparr>"

text \<open>One alteration of the loop body of \<open>update(move, iteration)\<close>.\<close>

definition memory_record :: "variable_ref \<Rightarrow> int \<Rightarrow> memory \<Rightarrow> memory" where
  "memory_record v it m =
     (let (p, f) = v in
      m\<lparr>last_update_iterations := proxy_update p f (\<lambda>_. it) (last_update_iterations m),
        update_counts := proxy_update p f (\<lambda>c. c + 1) (update_counts m),
        total_update_counts := total_update_counts m + 1\<rparr>)"

fun memory_update_alterations :: "(variable_ref \<times> int) list \<Rightarrow> int \<Rightarrow> memory \<Rightarrow> memory" where
  "memory_update_alterations [] it m = m"
| "memory_update_alterations ((v, _) # as) it m =
     memory_update_alterations as it (memory_record v it m)"

definition memory_update :: "move \<Rightarrow> int \<Rightarrow> memory \<Rightarrow> memory" where
  "memory_update mv it m = memory_update_alterations (alterations mv) it m"

text \<open>\<open>update(move, iteration, random_width, rand)\<close>: each alteration draws once and
  records \<open>iteration + (rand() % (2 * width) - width)\<close>.\<close>

fun memory_update_random_alterations ::
  "(variable_ref \<times> int) list \<Rightarrow> int \<Rightarrow> int \<Rightarrow> (nat \<Rightarrow> 64 word) \<Rightarrow> nat \<times> memory \<Rightarrow> nat \<times> memory" where
  "memory_update_random_alterations [] it w rng km = km"
| "memory_update_random_alterations ((v, _) # as) it w rng (k, m) =
     memory_update_random_alterations as it w rng
       (Suc k, memory_record v (it + cpp_random_offset (rng k) w) m)"

definition memory_update_random ::
  "move \<Rightarrow> int \<Rightarrow> int \<Rightarrow> (nat \<Rightarrow> 64 word) \<Rightarrow> nat \<times> memory \<Rightarrow> nat \<times> memory" where
  "memory_update_random mv it w rng km =
     (if w = 0 then (fst km, memory_update mv it (snd km))
      else memory_update_random_alterations (alterations mv) it w rng km)"

definition reset_last_update_iterations :: "memory \<Rightarrow> memory" where
  "reset_last_update_iterations m =
     m\<lparr>last_update_iterations :=
         map_proxies (\<lambda>_. INITIAL_LAST_UPDATE_ITERATION) (last_update_iterations m)\<rparr>"

text \<open>
  \<open>bias()\<close>: the sum of the squared update frequencies over the first
  \<open>|variable_names|\<close> proxies. With no update at all (\<open>total_update_counts = 0\<close>) every
  frequency is \<open>0 / 0.0\<close>, a NaN, and so is the sum, unless there is no variable at all;
  \<open>None\<close> stands for that non-finite double.
\<close>

definition bias_counts :: "memory \<Rightarrow> int list" where
  "bias_counts m = all_values (take (length (variable_names m)) (update_counts m))"

definition bias :: "memory \<Rightarrow> real option" where
  "bias m =
     (if bias_counts m = [] then Some 0
      else if total_update_counts m = 0 then None
      else Some (sum_list (map (\<lambda>c. (real_of_int c / real_of_int (total_update_counts m))\<^sup>2)
                              (bias_counts m))))"

text \<open>The memory's invariant: the two proxy arrays have the same shape, one name per
  proxy, counts are non-negative and the total is their sum.\<close>

definition memory_inv :: "memory \<Rightarrow> bool" where
  "memory_inv m \<longleftrightarrow>
     proxy_shape (last_update_iterations m) = proxy_shape (update_counts m) \<and>
     length (variable_names m) = length (update_counts m) \<and>
     list_all (\<lambda>c. 0 \<le> c) (all_values (update_counts m)) \<and>
     total_update_counts m = sum_list (all_values (update_counts m))"

definition alterations_in_range :: "memory \<Rightarrow> (variable_ref \<times> int) list \<Rightarrow> bool" where
  "alterations_in_range m as \<longleftrightarrow> list_all (\<lambda>((p, f), _). valid_index (update_counts m) p f) as"

definition move_in_range :: "memory \<Rightarrow> move \<Rightarrow> bool" where
  "move_in_range m mv \<longleftrightarrow> alterations_in_range m (alterations mv)"


text \<open>The memories a run of the solver can hold: \<open>setup\<close> on the model's proxies (one
  name per proxy), then any sequence of \<open>update\<close>, randomised \<open>update\<close> on moves that
  address variables of the memory, and \<open>reset_last_update_iterations\<close>.\<close>

inductive memory_reachable :: "nat list \<Rightarrow> string list \<Rightarrow> memory \<Rightarrow> bool" for sizes names where
  reachable_setup: "length names = length sizes \<Longrightarrow> memory_reachable sizes names (memory_setup sizes names m)"
| reachable_update: "memory_reachable sizes names m \<Longrightarrow> move_in_range m mv \<Longrightarrow>
    memory_reachable sizes names (memory_update mv it m)"
| reachable_update_random: "memory_reachable sizes names m \<Longrightarrow> move_in_range m mv \<Longrightarrow>
    memory_reachable sizes names (snd (memory_update_random mv it w rng (k, m)))"
| reachable_reset: "memory_reachable sizes names m \<Longrightarrow>
    memory_reachable sizes names (reset_last_update_iterations m)"

section \<open>Properties\<close>

lemma memory_record_fields [simp]:
  "update_counts (memory_record (p, f) it m) = proxy_update p f (\<lambda>c. c + 1) (update_counts m)"
  "last_update_iterations (memory_record (p, f) it m) =
     proxy_update p f (\<lambda>_. it) (last_update_iterations m)"
  "variable_names (memory_record (p, f) it m) = variable_names m"
  "total_update_counts (memory_record (p, f) it m) = total_update_counts m + 1"
  by (simp_all add: memory_record_def)

lemma memory_record_inv:
  assumes "memory_inv m" "valid_index (update_counts m) p f"
  shows "memory_inv (memory_record (p, f) it m)"
proof -
  have c: "0 \<le> proxy_value (update_counts m) p f"
    using assms proxy_value_in_all_values[OF assms(2)] by (auto simp: memory_inv_def list_all_iff)
  show ?thesis
    using assms c set_all_values_update[of p f "\<lambda>c. c + 1" "update_counts m"]
    by (auto simp: memory_inv_def list_all_iff sum_all_values_update)
qed

lemma alterations_in_range_record [simp]:
  "alterations_in_range (memory_record (p, f) it m) as = alterations_in_range m as"
  by (simp add: alterations_in_range_def)

lemma alterations_in_range_Cons [simp]:
  "alterations_in_range m (((p, f), x) # as) \<longleftrightarrow>
     valid_index (update_counts m) p f \<and> alterations_in_range m as"
  by (simp add: alterations_in_range_def)

lemma memory_update_alterations_inv:
  "memory_inv m \<Longrightarrow> alterations_in_range m as \<Longrightarrow>
     memory_inv (memory_update_alterations as it m)"
proof (induction as arbitrary: m)
  case Nil
  then show ?case by simp
next
  case (Cons a as)
  obtain p f x where a: "a = ((p, f), x)" by (metis prod.exhaust)
  show ?case
    using Cons.prems Cons.IH[of "memory_record (p, f) it m"] memory_record_inv
    by (simp add: a)
qed

lemma memory_update_random_alterations_inv:
  "memory_inv m \<Longrightarrow> alterations_in_range m as \<Longrightarrow>
     memory_inv (snd (memory_update_random_alterations as it w rng (k, m)))"
proof (induction as arbitrary: k m)
  case Nil
  then show ?case by simp
next
  case (Cons a as)
  obtain p f x where a: "a = ((p, f), x)" by (metis prod.exhaust)
  show ?case
    using Cons.prems Cons.IH[of "memory_record (p, f) (it + cpp_random_offset (rng k) w) m"]
      memory_record_inv
    by (simp add: a)
qed

lemma memory_update_alterations_last:
  assumes "proxy_shape (last_update_iterations m) = proxy_shape (update_counts m)"
    and "alterations_in_range m as"
  shows "proxy_value (last_update_iterations (memory_update_alterations as it m)) p f =
           (if (p, f) \<in> fst ` set as then it else proxy_value (last_update_iterations m) p f)"
  using assms
proof (induction as arbitrary: m)
  case Nil
  then show ?case by simp
next
  case (Cons a as)
  obtain q h x where a: "a = ((q, h), x)" by (metis prod.exhaust)
  let ?m = "memory_record (q, h) it m"
  have valid: "valid_index (last_update_iterations m) q h"
    using Cons.prems valid_index_shape[of "last_update_iterations m" "update_counts m" q h]
    by (simp add: a)
  have IH: "proxy_value (last_update_iterations (memory_update_alterations as it ?m)) p f =
      (if (p, f) \<in> fst ` set as then it else proxy_value (last_update_iterations ?m) p f)"
    using Cons.prems by (intro Cons.IH) (simp_all add: a)
  show ?case
  proof (cases "(p, f) \<in> fst ` set as")
    case True
    then show ?thesis using IH by (simp add: a)
  next
    case False
    then show ?thesis using IH valid by (simp add: a proxy_value_update)
  qed
qed

lemma memory_update_alterations_counts:
  assumes "alterations_in_range m as"
  shows "proxy_value (update_counts (memory_update_alterations as it m)) p f =
           proxy_value (update_counts m) p f + int (count_list (map fst as) (p, f))"
  using assms
proof (induction as arbitrary: m)
  case Nil
  then show ?case by simp
next
  case (Cons a as)
  obtain q h x where a: "a = ((q, h), x)" by (metis prod.exhaust)
  let ?m = "memory_record (q, h) it m"
  have valid: "valid_index (update_counts m) q h"
    using Cons.prems by (simp add: a)
  have IH: "proxy_value (update_counts (memory_update_alterations as it ?m)) p f =
      proxy_value (update_counts ?m) p f + int (count_list (map fst as) (p, f))"
    using Cons.prems by (intro Cons.IH) (simp add: a)
  show ?case
    using IH valid by (simp add: a proxy_value_update)
qed

lemma memory_update_random_alterations_last:
  assumes "proxy_shape (last_update_iterations m) = proxy_shape (update_counts m)"
    and "alterations_in_range m as" and w: "0 < w" "w < 2^30"
  shows "if (p, f) \<in> fst ` set as
         then it - w \<le> proxy_value (last_update_iterations
                           (snd (memory_update_random_alterations as it w rng (k, m)))) p f \<and>
              proxy_value (last_update_iterations
                           (snd (memory_update_random_alterations as it w rng (k, m)))) p f < it + w
         else proxy_value (last_update_iterations
                           (snd (memory_update_random_alterations as it w rng (k, m)))) p f =
              proxy_value (last_update_iterations m) p f"
  using assms(1,2)
proof (induction as arbitrary: k m)
  case Nil
  then show ?case by simp
next
  case (Cons a as)
  obtain q h x where a: "a = ((q, h), x)" by (metis prod.exhaust)
  let ?m = "memory_record (q, h) (it + cpp_random_offset (rng k) w) m"
  have valid: "valid_index (last_update_iterations m) q h"
    using Cons.prems valid_index_shape[of "last_update_iterations m" "update_counts m" q h]
    by (simp add: a)
  have IH: "if (p, f) \<in> fst ` set as
         then it - w \<le> proxy_value (last_update_iterations
                           (snd (memory_update_random_alterations as it w rng (Suc k, ?m)))) p f \<and>
              proxy_value (last_update_iterations
                           (snd (memory_update_random_alterations as it w rng (Suc k, ?m)))) p f < it + w
         else proxy_value (last_update_iterations
                           (snd (memory_update_random_alterations as it w rng (Suc k, ?m)))) p f =
              proxy_value (last_update_iterations ?m) p f"
    using Cons.prems by (intro Cons.IH) (simp_all add: a)
  have off: "- w \<le> cpp_random_offset (rng k) w" "cpp_random_offset (rng k) w < w"
    using cpp_random_offset_bounds[OF w] by auto
  show ?case
  proof (cases "(p, f) \<in> fst ` set as")
    case True
    then show ?thesis using IH by (simp add: a)
  next
    case False
    then show ?thesis using IH valid off by (auto simp: a proxy_value_update)
  qed
qed

lemma memory_setup_inv:
  "length names = length sizes \<Longrightarrow> memory_inv (memory_setup sizes names m)"
proof -
  assume len: "length names = length sizes"
  have z: "set (all_values (generate_parameter_proxies sizes (0::int))) \<subseteq> {0}"
    by (rule all_values_generate)
  then have "sum_list (all_values (generate_parameter_proxies sizes (0::int))) = 0"
    by (rule sum_list_zero_set)
  with z len show ?thesis
    by (auto simp: memory_inv_def memory_setup_def memory_initialize_def list_all_iff
        proxy_shape_generate length_generate dest: subsetD[OF z])
qed

lemma reset_last_update_iterations_inv:
  "memory_inv m \<Longrightarrow> memory_inv (reset_last_update_iterations m)"
  by (simp add: memory_inv_def reset_last_update_iterations_def)

lemma bias_counts_inv:
  "memory_inv m \<Longrightarrow> bias_counts m = all_values (update_counts m)"
  by (simp add: memory_inv_def bias_counts_def)

text \<open>C25. Once the memory has recorded at least one update, \<open>bias()\<close> is a finite
  number between \<open>1/n\<close> and \<open>1\<close>, where \<open>n\<close> is the number of variables it sums over:
  the sum of the squared update frequencies is a concentration index.\<close>

theorem bias_bounds:
  assumes inv: "memory_inv m" and pos: "0 < total_update_counts m"
  shows "\<exists>b. bias m = Some b \<and> 1 \<le> b * real (length (bias_counts m)) \<and> b \<le> 1"
proof -
  let ?cs = "bias_counts m"
  let ?t = "real_of_int (total_update_counts m)"
  let ?xs = "map (\<lambda>c. real_of_int c / ?t) ?cs"
  have cs: "?cs = all_values (update_counts m)"
    using inv by (rule bias_counts_inv)
  have sum: "total_update_counts m = sum_list ?cs"
    using inv cs by (simp add: memory_inv_def)
  have nonneg: "list_all (\<lambda>c. 0 \<le> c) ?cs"
    using inv cs by (simp add: memory_inv_def)
  have ne: "?cs \<noteq> []"
    using pos sum by auto
  have t: "0 < ?t" using pos by simp
  have sum1: "sum_list ?xs = 1"
  proof -
    have "sum_list ?xs = sum_list (map (\<lambda>c. real_of_int c * inverse ?t) ?cs)"
      by (simp add: divide_inverse)
    also have "\<dots> = real_of_int (sum_list ?cs) * inverse ?t"
      by (simp add: sum_list_mult_const sum_list_of_int)
    finally show ?thesis using sum t by simp
  qed
  have xs_nonneg: "list_all (\<lambda>x. 0 \<le> x) ?xs"
    using nonneg t by (simp add: list_all_iff)
  have b: "bias m = Some (sum_list (map (\<lambda>x. x\<^sup>2) ?xs))"
    using ne pos by (simp add: bias_def comp_def)
  have up: "sum_list (map (\<lambda>x. x\<^sup>2) ?xs) \<le> 1"
    using sum_list_sq_le_sq_sum[OF xs_nonneg] sum1 by simp
  have lo: "1 \<le> sum_list (map (\<lambda>x. x\<^sup>2) ?xs) * real (length ?cs)"
    using sum_list_sq_bound[of ?xs] sum1 by (simp add: mult.commute)
  show ?thesis using b up lo by blast
qed

theorem bias_bounds_witness:
  "\<exists>b. bias (memory_update \<lparr>sense = Binary, alterations = [((0, 1), 1)], related_constraints = []\<rparr>
          5 (memory_setup [2] [''x''] memory_new)) = Some b \<and>
       1 \<le> b * real (length (bias_counts (memory_update
          \<lparr>sense = Binary, alterations = [((0, 1), 1)], related_constraints = []\<rparr>
          5 (memory_setup [2] [''x''] memory_new)))) \<and> b \<le> 1"
proof -
  let ?m0 = "memory_setup [2] [''x''] memory_new"
  let ?mv = "\<lparr>sense = Binary, alterations = [((0::nat, 1::nat), 1::int)], related_constraints = []\<rparr>"
  have i0: "memory_inv ?m0"
    by (rule memory_setup_inv) simp
  have r: "alterations_in_range ?m0 (alterations ?mv)"
    by (simp add: alterations_in_range_def valid_index_def memory_setup_def
        memory_initialize_def generate_parameter_proxies_def)
  have i: "memory_inv (memory_update ?mv 5 ?m0)"
    unfolding memory_update_def by (rule memory_update_alterations_inv[OF i0 r])
  have t: "0 < total_update_counts (memory_update ?mv 5 ?m0)"
    by (simp add: memory_update_def memory_setup_def memory_initialize_def memory_new_def)
  show ?thesis by (rule bias_bounds[OF i t])
qed

text \<open>Right after \<open>setup\<close>, before any update, \<open>bias()\<close> divides zero by
  zero: it is not a finite number as soon as the model has a variable (and 0 for a model
  without variables).\<close>

theorem bias_after_setup:
  assumes "length names = length sizes"
  shows "bias (memory_setup sizes names m) = (if sum_list sizes = 0 then Some 0 else None)"
proof -
  have "bias_counts (memory_setup sizes names m) = all_values (generate_parameter_proxies sizes 0)"
    using assms by (simp add: bias_counts_def memory_setup_def memory_initialize_def)
  moreover have "(all_values (generate_parameter_proxies sizes (0::int)) = []) = (sum_list sizes = 0)"
    using length_all_values_generate[of sizes "0::int"] by (metis length_0_conv)
  ultimately show ?thesis
    by (simp add: bias_def memory_setup_def memory_initialize_def)
qed


theorem bias_after_setup_witness:
  "bias (memory_setup [2] [''x''] memory_new) = None"
  using bias_after_setup[of "[''x'']" "[2]" memory_new] by simp

lemma memory_operations_inv:
  assumes "memory_inv m" "move_in_range m mv"
  shows "memory_inv (memory_update mv it m) \<and>
         memory_inv (snd (memory_update_random mv it w rng (k, m))) \<and>
         memory_inv (reset_last_update_iterations m)"
  using assms memory_update_alterations_inv memory_update_random_alterations_inv
    reset_last_update_iterations_inv
  by (simp add: memory_update_def memory_update_random_def move_in_range_def)

lemma memory_reachable_inv:
  "memory_reachable sizes names m \<Longrightarrow> memory_inv m"
proof (induction rule: memory_reachable.induct)
  case (reachable_setup m)
  then show ?case by (rule memory_setup_inv)
next
  case (reachable_reset m)
  show ?case by (rule reset_last_update_iterations_inv [OF reachable_reset.IH])
qed (use memory_operations_inv in blast)+

lemma memory_update_alterations_shape:
  "proxy_shape (update_counts (memory_update_alterations as it m)) = proxy_shape (update_counts m) \<and>
   variable_names (memory_update_alterations as it m) = variable_names m"
  by (induction as arbitrary: m) (auto simp: memory_record_def split: prod.splits)

lemma memory_update_random_alterations_shape:
  "proxy_shape (update_counts (snd (memory_update_random_alterations as it w rng (k, m)))) = proxy_shape (update_counts m) \<and>
   variable_names (snd (memory_update_random_alterations as it w rng (k, m))) = variable_names m"
  by (induction as arbitrary: k m) (auto simp: memory_record_def split: prod.splits)

lemma memory_reachable_shape:
  "memory_reachable sizes names m \<Longrightarrow> proxy_shape (update_counts m) = sizes \<and> variable_names m = names"
  by (induction rule: memory_reachable.induct)
    (simp_all add: memory_setup_def memory_initialize_def memory_update_def memory_update_random_def
      memory_update_alterations_shape memory_update_random_alterations_shape reset_last_update_iterations_def)

text \<open>C12. The memory invariant (same shapes, one name per proxy, non-negative counts whose
  sum is the total) holds in every memory a run can reach: \<open>setup\<close> establishes it, and
  both \<open>update\<close> overloads on moves addressing variables of the memory and
  \<open>reset_last_update_iterations\<close> keep it.\<close>

theorem memory_reachable_invariant:
  assumes "memory_reachable sizes names m"
  shows "memory_inv m"
  using assms by (rule memory_reachable_inv)

theorem memory_reachable_invariant_witness:
  "memory_reachable [2] [''x'']
     (memory_update \<lparr>sense = Binary, alterations = [((0, 1), 1)], related_constraints = []\<rparr> 5
       (memory_setup [2] [''x''] memory_new)) \<and>
   memory_inv (memory_update \<lparr>sense = Binary, alterations = [((0, 1), 1)], related_constraints = []\<rparr>
     5 (memory_setup [2] [''x''] memory_new))"
proof -
  have r: "memory_reachable [2] [''x'']
     (memory_update \<lparr>sense = Binary, alterations = [((0, 1), 1)], related_constraints = []\<rparr> 5
       (memory_setup [2] [''x''] memory_new))"
  proof (rule reachable_update)
    show "memory_reachable [2] [''x''] (memory_setup [2] [''x''] memory_new)"
      by (rule reachable_setup) simp
    show "move_in_range (memory_setup [2] [''x''] memory_new)
            \<lparr>sense = Binary, alterations = [((0, 1), 1)], related_constraints = []\<rparr>"
      by (simp add: move_in_range_def alterations_in_range_def valid_index_def memory_setup_def
          memory_initialize_def generate_parameter_proxies_def)
  qed
  show ?thesis using r memory_reachable_invariant[OF r] by blast
qed

text \<open>C13. \<open>update(move, iteration)\<close> sets the last-update iteration of every altered
  variable to \<open>iteration\<close> and leaves the others unchanged, and raises the update count of
  each variable by the number of alterations that address it.\<close>

theorem memory_update_effect:
  assumes "memory_inv m" "move_in_range m mv"
  shows "proxy_value (last_update_iterations (memory_update mv it m)) p f =
           (if (p, f) \<in> fst ` set (alterations mv) then it
            else proxy_value (last_update_iterations m) p f) \<and>
         proxy_value (update_counts (memory_update mv it m)) p f =
           proxy_value (update_counts m) p f + int (count_list (map fst (alterations mv)) (p, f))"
  using assms memory_update_alterations_last memory_update_alterations_counts
  by (simp add: memory_update_def move_in_range_def memory_inv_def)

theorem memory_update_effect_witness:
  "proxy_value (last_update_iterations (memory_update
      \<lparr>sense = Binary, alterations = [((0, 1), 1)], related_constraints = []\<rparr> 5
      (memory_setup [2] [''x''] memory_new))) 0 1 = 5 \<and>
   proxy_value (update_counts (memory_update
      \<lparr>sense = Binary, alterations = [((0, 1), 1)], related_constraints = []\<rparr> 5
      (memory_setup [2] [''x''] memory_new))) 0 1 = 1"
proof -
  have i: "memory_inv (memory_setup [2] [''x''] memory_new)"
    by (rule memory_setup_inv) simp
  have r: "move_in_range (memory_setup [2] [''x''] memory_new)
     \<lparr>sense = Binary, alterations = [((0, 1), 1)], related_constraints = []\<rparr>"
    by (simp add: move_in_range_def alterations_in_range_def valid_index_def memory_setup_def
        memory_initialize_def generate_parameter_proxies_def)
  have z: "proxy_value (update_counts (memory_setup [2] [''x''] memory_new)) 0 1 = 0"
    by (simp add: proxy_value_def memory_setup_def memory_initialize_def
        generate_parameter_proxies_def)
  show ?thesis
    using memory_update_effect[OF i r, of 5 0 1] z by simp
qed

text \<open>C24. With a random width \<open>w\<close> (\<open>0 < w < 2^30\<close>), the randomised \<open>update\<close>
  records for every altered variable an iteration in \<open>[iteration - w, iteration + w)\<close>:
  the wrap-around of \<open>rand() % (2 * w) - w\<close> in unsigned arithmetic is undone by the
  conversion back to \<open>int\<close>.\<close>

theorem memory_update_random_bounds:
  assumes "memory_inv m" "move_in_range m mv" "0 < w" "w < 2^30"
    and "(p, f) \<in> fst ` set (alterations mv)"
  shows "it - w \<le> proxy_value (last_update_iterations
                      (snd (memory_update_random mv it w rng (k, m)))) p f \<and>
         proxy_value (last_update_iterations
                      (snd (memory_update_random mv it w rng (k, m)))) p f < it + w"
  using assms memory_update_random_alterations_last[of m "alterations mv" w p f it rng k]
  by (simp add: memory_update_random_def move_in_range_def memory_inv_def)

theorem memory_update_random_bounds_witness:
  "2 \<le> proxy_value (last_update_iterations (snd (memory_update_random
      \<lparr>sense = Binary, alterations = [((0, 1), 1)], related_constraints = []\<rparr> 5 3 (\<lambda>_. 7)
      (0, memory_setup [2] [''x''] memory_new)))) 0 1"
proof -
  have i: "memory_inv (memory_setup [2] [''x''] memory_new)"
    by (rule memory_setup_inv) simp
  have r: "move_in_range (memory_setup [2] [''x''] memory_new)
     \<lparr>sense = Binary, alterations = [((0, 1), 1)], related_constraints = []\<rparr>"
    by (simp add: move_in_range_def alterations_in_range_def valid_index_def memory_setup_def
        memory_initialize_def generate_parameter_proxies_def)
  have "(0::nat, 1::nat) \<in> fst ` set (alterations
     \<lparr>sense = Binary, alterations = [((0::nat, 1::nat), 1::int)], related_constraints = []\<rparr>)"
    by simp
  from memory_update_random_bounds[OF i r _ _ this, of 3 5 "\<lambda>_. 7" 0]
  show ?thesis by simp
qed

end
