(* ===== verification/SolverAdapt.thy ===== *)
theory SolverAdapt
  imports IncumbentHolder Memory
begin

text \<open>
  The adaptation steps of one outer-loop iteration of \<open>solve\<close>
  (\<open>cppmh/solver/solver.h\<close>, lines 579--900): the penalty-coefficient update (reset,
  tighten, relax), the stagnation counter that triggers a reset, and the adaptation of
  the next loop's initial tabu tenure, number of random initial modifications, iteration
  limit and special neighbourhood families.

  The option struct (\<open>solver/option.h\<close>), the solution (\<open>model::Solution\<close>), the
  tabu-search result (\<open>tabu_search::Result\<close>) and the neighbourhood's family switches
  are outside the sources; they are records with the fields \<open>solve\<close> reads. The
  tabu-search fields of the option carry the prefix \<open>ts_\<close> (the source writes
  \<open>option.tabu_search.x\<close>). \<open>constant::EPSILON\<close> is a parameter \<open>eps\<close>.
\<close>

section \<open>Interface records\<close>

datatype restart_mode = RestartGlobal | RestartLocal

datatype selection_mode = SelectionNone | SelectionDefined | SelectionIndependent | SelectionLarger

record tabu_search_option =
  ts_iteration_max :: int
  ts_time_offset :: real
  ts_seed :: int
  ts_number_of_initial_modification :: int
  ts_initial_tabu_tenure :: int
  ts_is_enabled_automatic_tabu_tenure_adjustment :: bool
  ts_is_enabled_automatic_iteration_adjustment :: bool
  ts_is_enabled_initial_modification :: bool
  ts_initial_modification_fixed_rate :: real
  ts_initial_modification_randomize_rate :: real
  ts_iteration_increase_rate :: real
  ts_restart_mode :: restart_mode

record solver_option =
  iteration_max :: int
  time_max :: real
  target_objective_value :: real
  initial_penalty_coefficient :: real
  penalty_coefficient_tightening_rate :: real
  penalty_coefficient_relaxing_rate :: real
  penalty_coefficient_updating_balance :: real
  penalty_coefficient_reset_count_threshold :: int
  is_enabled_grouping_penalty_coefficient :: bool
  is_enabled_lagrange_dual :: bool
  is_enabled_local_search :: bool
  is_enabled_binary_move :: bool
  is_enabled_integer_move :: bool
  is_enabled_user_defined_move :: bool
  is_enabled_aggregation_move :: bool
  is_enabled_precedence_move :: bool
  is_enabled_variable_bound_move :: bool
  is_enabled_exclusive_move :: bool
  is_enabled_chain_move :: bool
  selection_mode :: selection_mode
  seed :: int
  tabu_search :: tabu_search_option

record solution =
  variable_value_proxies :: "int proxies"
  violation_value_proxies :: "real proxies"
  solution_is_feasible :: bool

record tabu_search_result =
  result_incumbent_holder :: "solution incumbent_holder"
  result_memory :: memory
  total_update_status :: int
  is_early_stopped :: bool
  number_of_iterations :: int
  last_local_augmented_incumbent_update_iteration :: int

record neighborhood_flags =
  binary_move_enabled :: bool
  integer_move_enabled :: bool
  user_defined_move_enabled :: bool
  selection_move_enabled :: bool
  aggregation_move_enabled :: bool
  precedence_move_enabled :: bool
  variable_bound_move_enabled :: bool
  exclusive_move_enabled :: bool
  chain_move_enabled :: bool

unbundle bit_operations_syntax

section \<open>Penalty coefficients (lines 616--709)\<close>

text \<open>The gap \<open>global_augmented_incumbent_objective - local_augmented_incumbent_objective\<close>
  and its comparison with \<open>EPSILON\<close>, with \<open>HUGE_VALF\<close> as infinity: a finite minus
  infinity is \<open>-inf\<close>, infinity minus a finite is \<open>+inf\<close>, infinity minus infinity is NaN.
  The tightening branch only uses the value when both objectives are finite; the outer
  global incumbent is finite from the first offer on (\<open>SolverLoop\<close>).\<close>

fun gap_exceeds :: "real \<Rightarrow> incumbent_objective \<Rightarrow> incumbent_objective \<Rightarrow> bool" where
  "gap_exceeds eps (Finite g) (Finite l) \<longleftrightarrow> eps < g - l"
| "gap_exceeds eps (Finite g) Huge \<longleftrightarrow> False"
| "gap_exceeds eps Huge (Finite l) \<longleftrightarrow> True"
| "gap_exceeds eps Huge Huge \<longleftrightarrow> False"

fun gap_value :: "incumbent_objective \<Rightarrow> incumbent_objective \<Rightarrow> real" where
  "gap_value (Finite g) (Finite l) = g - l"
| "gap_value _ _ = 0"

definition total_penalty :: "real proxies \<Rightarrow> real" where
  "total_penalty vs = sum_list (all_values vs)"

definition total_squared_violation :: "real proxies \<Rightarrow> real" where
  "total_squared_violation vs = sum_list (map (\<lambda>v. v * v) (all_values vs))"

text \<open>One proxy of the tightening loop: every coefficient is raised, the proxy is
  levelled to its maximum when grouping is enabled, and every coefficient is capped by the
  initial coefficient.\<close>

definition tighten_proxy ::
  "solver_option \<Rightarrow> real \<Rightarrow> real \<Rightarrow> real \<Rightarrow> real proxies \<Rightarrow> real value_proxy \<Rightarrow> real value_proxy" where
  "tighten_proxy opt gap tp tsq viols pr =
     (let vs = flat_indexed_values (viols ! proxy_id pr);
          es = flat_indexed_values pr;
          balance = penalty_coefficient_updating_balance opt;
          raised = map (\<lambda>j. es ! j + penalty_coefficient_tightening_rate opt *
                              (balance * (max 0 gap / tp) +
                               (1 - balance) * (max 0 gap / tsq * vs ! j)))
                       [0..<length es];
          grouped = (if is_enabled_grouping_penalty_coefficient opt
                     then map (\<lambda>_. Max (set raised)) raised else raised)
      in pr\<lparr>flat_indexed_values :=
              map (\<lambda>e. min e (initial_penalty_coefficient opt)) grouped\<rparr>)"

definition relax_proxy :: "solver_option \<Rightarrow> real \<Rightarrow> real proxies \<Rightarrow> real value_proxy \<Rightarrow> real value_proxy" where
  "relax_proxy opt eps viols pr =
     (let vs = flat_indexed_values (viols ! proxy_id pr);
          es = flat_indexed_values pr
      in pr\<lparr>flat_indexed_values :=
              map (\<lambda>j. if vs ! j < eps then es ! j * penalty_coefficient_relaxing_rate opt
                        else es ! j) [0..<length es]\<rparr>)"

definition update_local_penalty_coefficients ::
  "solver_option \<Rightarrow> real \<Rightarrow> bool \<Rightarrow> incumbent_objective \<Rightarrow> incumbent_objective \<Rightarrow> solution \<Rightarrow>
   real proxies \<Rightarrow> real proxies \<Rightarrow> real proxies" where
  "update_local_penalty_coefficients opt eps reset_flag g l local_solution local global =
     (if reset_flag then global
      else if gap_exceeds eps g l \<and> \<not> solution_is_feasible local_solution then
        (let viols = violation_value_proxies local_solution
         in map (tighten_proxy opt (gap_value g l) (total_penalty viols)
                   (total_squared_violation viols) viols) local)
      else map (relax_proxy opt eps (violation_value_proxies local_solution)) local)"

section \<open>The stagnation counter (lines 579--596)\<close>

text \<open>The test is written \<open>update_status && STATUS_GLOBAL_AUGMENTED_INCUMBENT_UPDATE\<close>:
  a logical conjunction of two \<open>int\<close>s, true for every non-zero status.\<close>

definition update_not_update_count :: "int \<Rightarrow> int \<Rightarrow> int \<Rightarrow> int \<times> bool" where
  "update_not_update_count update_status threshold not_update_count =
     (if update_status \<noteq> 0 \<and> STATUS_GLOBAL_AUGMENTED_INCUMBENT_UPDATE \<noteq> 0 then (0, False)
      else (let c = not_update_count + 1 in if c = threshold then (0, True) else (c, False)))"

text \<open>The counter across successive loops: the reset flags of the loops, given the
  update status of each loop's offer.\<close>

fun counter_trace :: "int list \<Rightarrow> int \<Rightarrow> int \<Rightarrow> bool list" where
  "counter_trace [] threshold not_update_count = []"
| "counter_trace (update_status # sts) threshold not_update_count =
     (let (c, penalty_coefficient_reset_flag) =
            update_not_update_count update_status threshold not_update_count
      in penalty_coefficient_reset_flag # counter_trace sts threshold c)"

section \<open>Initial tabu tenure of the next loop (lines 714--736)\<close>

text \<open>A comparison with a NaN bias is false.\<close>

fun bias_greater :: "real option \<Rightarrow> real option \<Rightarrow> bool" where
  "bias_greater (Some a) (Some b) \<longleftrightarrow> b < a"
| "bias_greater _ _ \<longleftrightarrow> False"

text \<open>\<open>t\<close> is the tenure of the loop just run (\<open>option.tabu_search.initial_tabu_tenure\<close>,
  which is also the current value of \<open>next_inital_tabu_tenure\<close>).\<close>

definition update_tabu_tenure ::
  "solver_option \<Rightarrow> int \<Rightarrow> int \<Rightarrow> int \<Rightarrow> real option \<Rightarrow> real option \<Rightarrow> int" where
  "update_tabu_tenure opt number_of_not_fixed_variables t status previous_bias b =
     (if ts_is_enabled_automatic_tabu_tenure_adjustment (tabu_search opt) then
        (if status AND STATUS_GLOBAL_AUGMENTED_INCUMBENT_UPDATE \<noteq> 0 then
           min (ts_initial_tabu_tenure (tabu_search opt)) number_of_not_fixed_variables
         else if bias_greater b previous_bias then min (t + 1) number_of_not_fixed_variables
         else if bias_greater previous_bias b then max (t - 1) 1
         else t)
      else ts_initial_tabu_tenure (tabu_search opt))"

section \<open>Random initial modifications of the next loop (lines 741--773)\<close>

definition update_number_of_initial_modification ::
  "solver_option \<Rightarrow> int \<Rightarrow> bool \<Rightarrow> int \<Rightarrow> (nat \<Rightarrow> 64 word) \<Rightarrow> nat \<Rightarrow> int \<Rightarrow> int \<times> nat" where
  "update_number_of_initial_modification opt status is_changed tenure rng k old =
     (if status AND STATUS_FEASIBLE_INCUMBENT_UPDATE \<noteq> 0 then (0, k)
      else if status AND STATUS_GLOBAL_AUGMENTED_INCUMBENT_UPDATE \<noteq> 0 then (0, k)
      else if ts_is_enabled_initial_modification (tabu_search opt) \<and> \<not> is_changed then
        (let nominal = \<lfloor>ts_initial_modification_fixed_rate (tabu_search opt) * real_of_int tenure\<rfloor>;
             width = cpp_trunc (ts_initial_modification_randomize_rate (tabu_search opt) *
                                real_of_int nominal);
             (n, k') = (if 0 < width
                        then (int32_wrap (nominal + cpp_random_offset (rng k) width), Suc k)
                        else (nominal, k))
         in (max 1 n, k'))
      else (old, k))"

section \<open>Iteration limit of the next loop (lines 778--800)\<close>

text \<open>\<open>current\<close> is the limit of the loop just run (\<open>option.tabu_search.iteration_max\<close>).\<close>

definition update_iteration_max :: "solver_option \<Rightarrow> int \<Rightarrow> tabu_search_result \<Rightarrow> int \<Rightarrow> int" where
  "update_iteration_max opt current r old =
     (if ts_is_enabled_automatic_iteration_adjustment (tabu_search opt) \<and> \<not> is_early_stopped r then
        (let temp = (if total_update_status r AND STATUS_GLOBAL_AUGMENTED_INCUMBENT_UPDATE \<noteq> 0
                     then \<lceil>real_of_int (last_local_augmented_incumbent_update_iteration r) *
                           ts_iteration_increase_rate (tabu_search opt)\<rceil>
                     else \<lceil>real_of_int current * ts_iteration_increase_rate (tabu_search opt)\<rceil>)
         in max (ts_initial_tabu_tenure (tabu_search opt))
                (min (ts_iteration_max (tabu_search opt)) temp))
      else old)"

section \<open>Special neighbourhood families (lines 802--900)\<close>

text \<open>After an improvement of the global incumbent the special families enabled in the
  option are switched off; after a loop that ran its full, unreduced iteration limit
  without improvement they are switched on.\<close>

definition switch_family :: "bool \<Rightarrow> bool \<Rightarrow> bool \<Rightarrow> bool" where
  "switch_family option_enabled target flag = (if option_enabled then target else flag)"

definition set_special_families :: "solver_option \<Rightarrow> bool \<Rightarrow> neighborhood_flags \<Rightarrow> neighborhood_flags" where
  "set_special_families opt target nb =
     nb\<lparr>aggregation_move_enabled :=
          switch_family (is_enabled_aggregation_move opt) target (aggregation_move_enabled nb),
        precedence_move_enabled :=
          switch_family (is_enabled_precedence_move opt) target (precedence_move_enabled nb),
        variable_bound_move_enabled :=
          switch_family (is_enabled_variable_bound_move opt) target (variable_bound_move_enabled nb),
        exclusive_move_enabled :=
          switch_family (is_enabled_exclusive_move opt) target (exclusive_move_enabled nb),
        chain_move_enabled :=
          switch_family (is_enabled_chain_move opt) target (chain_move_enabled nb)\<rparr>"

definition update_special_neighborhood ::
  "solver_option \<Rightarrow> int \<Rightarrow> tabu_search_result \<Rightarrow> neighborhood_flags \<Rightarrow> neighborhood_flags" where
  "update_special_neighborhood opt current r nb =
     (if total_update_status r AND STATUS_GLOBAL_AUGMENTED_INCUMBENT_UPDATE \<noteq> 0
      then set_special_families opt False nb
      else if \<not> is_early_stopped r \<and> current = ts_iteration_max (tabu_search opt)
      then set_special_families opt True nb
      else nb)"

text \<open>Predicates of the lemmas: coefficients within \<open>[0, c]\<close>, and the violation
  proxies indexed by a coefficient proxy's id with as many values as it has.\<close>

definition coefficients_in_range :: "real \<Rightarrow> real proxies \<Rightarrow> bool" where
  "coefficients_in_range c ps \<longleftrightarrow> list_all (\<lambda>x. 0 \<le> x \<and> x \<le> c) (all_values ps)"

definition violations_fit :: "real proxies \<Rightarrow> real proxies \<Rightarrow> bool" where
  "violations_fit ps viols \<longleftrightarrow>
     list_all (\<lambda>pr. proxy_id pr < length viols \<and>
                    length (flat_indexed_values pr) \<le> length (flat_indexed_values (viols ! proxy_id pr)))
              ps \<and>
     list_all (\<lambda>v. 0 \<le> v) (all_values viols)"

definition penalty_parameters_ok :: "solver_option \<Rightarrow> bool" where
  "penalty_parameters_ok opt \<longleftrightarrow>
     0 \<le> initial_penalty_coefficient opt \<and>
     0 \<le> penalty_coefficient_tightening_rate opt \<and>
     0 \<le> penalty_coefficient_updating_balance opt \<and> penalty_coefficient_updating_balance opt \<le> 1 \<and>
     0 \<le> penalty_coefficient_relaxing_rate opt \<and> penalty_coefficient_relaxing_rate opt \<le> 1"

definition special_families_within :: "solver_option \<Rightarrow> neighborhood_flags \<Rightarrow> bool" where
  "special_families_within opt nb \<longleftrightarrow>
     \<not> (aggregation_move_enabled nb \<and> \<not> is_enabled_aggregation_move opt) \<and>
     \<not> (precedence_move_enabled nb \<and> \<not> is_enabled_precedence_move opt) \<and>
     \<not> (variable_bound_move_enabled nb \<and> \<not> is_enabled_variable_bound_move opt) \<and>
     \<not> (exclusive_move_enabled nb \<and> \<not> is_enabled_exclusive_move opt) \<and>
     \<not> (chain_move_enabled nb \<and> \<not> is_enabled_chain_move opt)"

definition no_special_family :: "neighborhood_flags \<Rightarrow> bool" where
  "no_special_family nb \<longleftrightarrow>
     \<not> aggregation_move_enabled nb \<and> \<not> precedence_move_enabled nb \<and>
     \<not> variable_bound_move_enabled nb \<and> \<not> exclusive_move_enabled nb \<and> \<not> chain_move_enabled nb"

section \<open>Concrete instances\<close>

text \<open>An option, an empty solution and a tabu-search result used to instantiate the
  lemmas below on concrete inputs.\<close>

definition example_solver_option :: solver_option where
  "example_solver_option =
     \<lparr>iteration_max = 100, time_max = 120, target_objective_value = -1000,
      initial_penalty_coefficient = 10000, penalty_coefficient_tightening_rate = 1,
      penalty_coefficient_relaxing_rate = 9 / 10, penalty_coefficient_updating_balance = 1 / 2,
      penalty_coefficient_reset_count_threshold = 2, is_enabled_grouping_penalty_coefficient = True,
      is_enabled_lagrange_dual = False, is_enabled_local_search = True,
      is_enabled_binary_move = True, is_enabled_integer_move = True,
      is_enabled_user_defined_move = False, is_enabled_aggregation_move = True,
      is_enabled_precedence_move = True, is_enabled_variable_bound_move = True,
      is_enabled_exclusive_move = False, is_enabled_chain_move = False,
      selection_mode = SelectionNone, seed = 1,
      tabu_search =
        \<lparr>ts_iteration_max = 200, ts_time_offset = 0, ts_seed = 1,
         ts_number_of_initial_modification = 0, ts_initial_tabu_tenure = 10,
         ts_is_enabled_automatic_tabu_tenure_adjustment = True,
         ts_is_enabled_automatic_iteration_adjustment = True,
         ts_is_enabled_initial_modification = True, ts_initial_modification_fixed_rate = 1,
         ts_initial_modification_randomize_rate = 1 / 2, ts_iteration_increase_rate = 3 / 2,
         ts_restart_mode = RestartGlobal\<rparr>\<rparr>"

definition example_solution :: solution where
  "example_solution =
     \<lparr>variable_value_proxies = [], violation_value_proxies = [], solution_is_feasible = False\<rparr>"

definition example_result :: "int \<Rightarrow> bool \<Rightarrow> tabu_search_result" where
  "example_result status early =
     \<lparr>result_incumbent_holder = incumbent_holder_new example_solution zero_score,
      result_memory = memory_new, total_update_status = status, is_early_stopped = early,
      number_of_iterations = 200, last_local_augmented_incumbent_update_iteration = 150\<rparr>"

section \<open>Lemmas\<close>


lemma tighten_delta_nonneg:
  fixes rate balance tp tsq v gap :: real
  assumes "0 \<le> rate" "0 \<le> balance" "balance \<le> 1" "0 \<le> tp" "0 \<le> tsq" "0 \<le> v"
  shows "0 \<le> rate * (balance * (max 0 gap / tp) + (1 - balance) * (max 0 gap / tsq * v))"
  using assms by (intro mult_nonneg_nonneg add_nonneg_nonneg divide_nonneg_nonneg) auto

lemma tighten_proxy_shape [simp]:
  "proxy_id (tighten_proxy opt gap tp tsq viols pr) = proxy_id pr"
  "length (flat_indexed_values (tighten_proxy opt gap tp tsq viols pr)) = length (flat_indexed_values pr)"
  by (simp_all add: tighten_proxy_def Let_def)

lemma relax_proxy_shape [simp]:
  "proxy_id (relax_proxy opt eps viols pr) = proxy_id pr"
  "length (flat_indexed_values (relax_proxy opt eps viols pr)) = length (flat_indexed_values pr)"
  by (simp_all add: relax_proxy_def Let_def)

lemma violations_fit_nth:
  assumes "violations_fit ps viols" "pr \<in> set ps" "j < length (flat_indexed_values pr)"
  shows "0 \<le> flat_indexed_values (viols ! proxy_id pr) ! j"
proof -
  have "valid_index viols (proxy_id pr) j"
    using assms by (auto simp: violations_fit_def valid_index_def list_all_iff)
  then have "proxy_value viols (proxy_id pr) j \<in> set (all_values viols)"
    by (rule proxy_value_in_all_values)
  then show ?thesis
    using assms(1) by (auto simp: violations_fit_def list_all_iff proxy_value_def)
qed

lemma tighten_proxy_nth:
  assumes "j < length (flat_indexed_values pr)"
  shows "flat_indexed_values (tighten_proxy opt gap tp tsq viols pr) ! j =
           min ((if is_enabled_grouping_penalty_coefficient opt
                 then Max (set (map (\<lambda>j. flat_indexed_values pr ! j + penalty_coefficient_tightening_rate opt *
                              (penalty_coefficient_updating_balance opt * (max 0 gap / tp) +
                               (1 - penalty_coefficient_updating_balance opt) *
                                 (max 0 gap / tsq * flat_indexed_values (viols ! proxy_id pr) ! j)))
                       [0..<length (flat_indexed_values pr)]))
                 else flat_indexed_values pr ! j + penalty_coefficient_tightening_rate opt *
                              (penalty_coefficient_updating_balance opt * (max 0 gap / tp) +
                               (1 - penalty_coefficient_updating_balance opt) *
                                 (max 0 gap / tsq * flat_indexed_values (viols ! proxy_id pr) ! j))))
               (initial_penalty_coefficient opt)"
  using assms by (simp add: tighten_proxy_def Let_def)

lemma tighten_proxy_ge:
  assumes ok: "penalty_parameters_ok opt" and tp: "0 \<le> tp" and tsq: "0 \<le> tsq"
    and v: "0 \<le> flat_indexed_values (viols ! proxy_id pr) ! j"
    and j: "j < length (flat_indexed_values pr)"
    and le: "flat_indexed_values pr ! j \<le> initial_penalty_coefficient opt"
  shows "flat_indexed_values pr ! j \<le> flat_indexed_values (tighten_proxy opt gap tp tsq viols pr) ! j"
proof -
  let ?r = "\<lambda>j. flat_indexed_values pr ! j + penalty_coefficient_tightening_rate opt *
                 (penalty_coefficient_updating_balance opt * (max 0 gap / tp) +
                  (1 - penalty_coefficient_updating_balance opt) *
                    (max 0 gap / tsq * flat_indexed_values (viols ! proxy_id pr) ! j))"
  have rj: "flat_indexed_values pr ! j \<le> ?r j"
    using ok tp tsq v tighten_delta_nonneg by (simp add: penalty_parameters_ok_def)
  have "?r j \<le> Max (set (map ?r [0..<length (flat_indexed_values pr)]))"
    using j by (intro Max_ge) auto
  then have g: "flat_indexed_values pr ! j \<le>
      (if is_enabled_grouping_penalty_coefficient opt
       then Max (set (map ?r [0..<length (flat_indexed_values pr)])) else ?r j)"
    using rj by auto
  show ?thesis
    unfolding tighten_proxy_nth[OF j] by (intro min.boundedI g le)
qed

lemma tighten_proxy_le:
  "list_all (\<lambda>x. x \<le> initial_penalty_coefficient opt)
     (flat_indexed_values (tighten_proxy opt gap tp tsq viols pr))"
  by (simp add: tighten_proxy_def Let_def list_all_iff)

lemma relax_proxy_nth:
  "j < length (flat_indexed_values pr) \<Longrightarrow>
   flat_indexed_values (relax_proxy opt eps viols pr) ! j =
     (if flat_indexed_values (viols ! proxy_id pr) ! j < eps
      then flat_indexed_values pr ! j * penalty_coefficient_relaxing_rate opt
      else flat_indexed_values pr ! j)"
  by (simp add: relax_proxy_def Let_def)


lemma total_penalty_nonneg:
  "violations_fit ps viols \<Longrightarrow> 0 \<le> total_penalty viols"
  by (simp add: violations_fit_def total_penalty_def sum_list_nonneg list_all_iff)

lemma total_squared_violation_nonneg:
  "0 \<le> total_squared_violation viols"
  unfolding total_squared_violation_def by (rule sum_list_nonneg) auto

lemma tighten_proxy_range:
  assumes ok: "penalty_parameters_ok opt" and fit: "violations_fit ps viols" and pr: "pr \<in> set ps"
    and tp: "0 \<le> tp" and tsq: "0 \<le> tsq"
    and r: "list_all (\<lambda>x. 0 \<le> x \<and> x \<le> initial_penalty_coefficient opt) (flat_indexed_values pr)"
  shows "list_all (\<lambda>x. 0 \<le> x \<and> x \<le> initial_penalty_coefficient opt)
           (flat_indexed_values (tighten_proxy opt gap tp tsq viols pr))"
proof -
  have "0 \<le> flat_indexed_values (tighten_proxy opt gap tp tsq viols pr) ! j"
    if j: "j < length (flat_indexed_values pr)" for j
  proof -
    have "0 \<le> flat_indexed_values pr ! j" "flat_indexed_values pr ! j \<le> initial_penalty_coefficient opt"
      using r j by (auto simp: list_all_length)
    moreover have "flat_indexed_values pr ! j \<le> flat_indexed_values (tighten_proxy opt gap tp tsq viols pr) ! j"
      using tighten_proxy_ge[OF ok tp tsq violations_fit_nth[OF fit pr j] j] calculation(2) .
    ultimately show ?thesis by linarith
  qed
  then show ?thesis
    using tighten_proxy_le[of opt gap tp tsq viols pr] by (auto simp: list_all_length)
qed

lemma relax_proxy_range:
  assumes ok: "penalty_parameters_ok opt"
    and r: "list_all (\<lambda>x. 0 \<le> x \<and> x \<le> c) (flat_indexed_values pr)"
  shows "list_all (\<lambda>x. 0 \<le> x \<and> x \<le> c) (flat_indexed_values (relax_proxy opt eps viols pr))"
proof -
  have "0 \<le> x * penalty_coefficient_relaxing_rate opt \<and> x * penalty_coefficient_relaxing_rate opt \<le> c"
    if "0 \<le> x" "x \<le> c" for x
    using that ok mult_left_le[of "penalty_coefficient_relaxing_rate opt" x]
    by (auto simp: penalty_parameters_ok_def)
  then show ?thesis
    using r by (auto simp: list_all_length relax_proxy_nth)
qed

text \<open>The penalty update keeps every local penalty coefficient within [0, initial_penalty_coefficient]: reset copies the global coefficients, tightening raises and caps, relaxing multiplies by a rate in [0, 1].\<close>

lemma update_local_penalty_coefficients_range:
  assumes ok: "penalty_parameters_ok opt"
    and local: "coefficients_in_range (initial_penalty_coefficient opt) local"
    and global: "coefficients_in_range (initial_penalty_coefficient opt) global"
    and fit: "violations_fit local (violation_value_proxies s)"
  shows "coefficients_in_range (initial_penalty_coefficient opt)
           (update_local_penalty_coefficients opt eps reset_flag g l s local global)"
  using local global tighten_proxy_range[OF ok fit _ total_penalty_nonneg[OF fit] total_squared_violation_nonneg]
    relax_proxy_range[OF ok]
  by (auto simp: update_local_penalty_coefficients_def coefficients_in_range_def list_all_all_values Let_def)


text \<open>C10. Tightening with grouping equals tightening without grouping followed by levelling the proxy to its maximum: capping by the initial coefficient commutes with taking the proxy's maximum.\<close>

lemma tighten_proxy_grouping:
  "tighten_proxy (opt\<lparr>is_enabled_grouping_penalty_coefficient := True\<rparr>) gap tp tsq viols pr =
     (let q = tighten_proxy (opt\<lparr>is_enabled_grouping_penalty_coefficient := False\<rparr>) gap tp tsq viols pr
      in q\<lparr>flat_indexed_values := map (\<lambda>_. Max (set (flat_indexed_values q))) (flat_indexed_values q)\<rparr>)"
proof (cases "flat_indexed_values pr = []")
  case True
  then show ?thesis by (simp add: tighten_proxy_def Let_def)
next
  case False
  let ?c = "initial_penalty_coefficient opt"
  have mono: "mono (\<lambda>e::real. min e ?c)" by (auto intro: monoI)
  have "min (Max A) ?c = Max ((\<lambda>e. min e ?c) ` A)" if "finite A" "A \<noteq> {}" for A :: "real set"
    using mono_Max_commute[OF mono that] .
  with False show ?thesis
    by (simp add: tighten_proxy_def Let_def image_image comp_def)
qed

text \<open>C8. In the tightening branch (no reset, gap above EPSILON, infeasible local incumbent) no coefficient that is at most the initial coefficient decreases.\<close>

lemma update_local_penalty_coefficients_tighten:
  assumes ok: "penalty_parameters_ok opt"
    and range: "coefficients_in_range (initial_penalty_coefficient opt) local"
    and fit: "violations_fit local (violation_value_proxies s)"
    and branch: "\<not> reset_flag" "gap_exceeds eps g l" "\<not> solution_is_feasible s"
    and idx: "valid_index local p j"
  shows "proxy_value local p j \<le>
           proxy_value (update_local_penalty_coefficients opt eps reset_flag g l s local global) p j"
proof -
  let ?v = "violation_value_proxies s"
  have p: "p < length local" "local ! p \<in> set local" and j: "j < length (flat_indexed_values (local ! p))"
    using idx by (auto simp: valid_index_def)
  have le: "flat_indexed_values (local ! p) ! j \<le> initial_penalty_coefficient opt"
    using range p j unfolding coefficients_in_range_def list_all_all_values
    by (auto simp: list_all_length)
  show ?thesis
    using tighten_proxy_ge[OF ok total_penalty_nonneg[OF fit] total_squared_violation_nonneg
        violations_fit_nth[OF fit p(2) j] j le] branch p
    by (simp add: update_local_penalty_coefficients_def proxy_value_def Let_def)
qed

text \<open>C9. In the relaxing branch no non-negative coefficient increases, and the coefficient of a constraint whose violation is at least EPSILON is unchanged.\<close>

lemma update_local_penalty_coefficients_relax:
  assumes ok: "penalty_parameters_ok opt"
    and branch: "\<not> reset_flag" "\<not> (gap_exceeds eps g l \<and> \<not> solution_is_feasible s)"
    and idx: "valid_index local p j" and nonneg: "0 \<le> proxy_value local p j"
  shows "proxy_value (update_local_penalty_coefficients opt eps reset_flag g l s local global) p j
           \<le> proxy_value local p j \<and>
         (eps \<le> proxy_value (violation_value_proxies s) (proxy_id (local ! p)) j \<longrightarrow>
          proxy_value (update_local_penalty_coefficients opt eps reset_flag g l s local global) p j
            = proxy_value local p j)"
proof -
  have p: "p < length local" and j: "j < length (flat_indexed_values (local ! p))"
    using idx by (auto simp: valid_index_def)
  have "x * penalty_coefficient_relaxing_rate opt \<le> x" if "0 \<le> x" for x
    using that ok by (intro mult_left_le) (auto simp: penalty_parameters_ok_def)
  then show ?thesis
    using branch p j nonneg
    by (auto simp: update_local_penalty_coefficients_def proxy_value_def relax_proxy_nth)
qed

text \<open>C5. The stagnation counter is reset by every non-zero update status: an offer that improves only the outer local augmented incumbent resets the counter and clears the reset flag, although the global augmented incumbent did not improve.\<close>

lemma update_not_update_count_local_only:
  assumes "Finite (local_augmented_objective sc) < local_augmented_incumbent_objective h"
  shows "update_not_update_count (fst (try_update_incumbent h sol sc)) threshold c = (0, False)"
proof -
  have "fst (try_update_incumbent h sol sc) \<noteq> 0"
    using assms by (simp add: try_update_incumbent_cases Let_def)
  then show ?thesis by (simp add: update_not_update_count_def status_constants)
qed

text \<open>The next initial tabu tenure stays within [1, max(initial tenure, number of not-fixed variables)] when it starts there.\<close>

lemma update_tabu_tenure_bounds:
  assumes "1 \<le> ts_initial_tabu_tenure (tabu_search opt)" "1 \<le> n"
    and "1 \<le> t" "t \<le> max (ts_initial_tabu_tenure (tabu_search opt)) n"
  shows "1 \<le> update_tabu_tenure opt n t status pb b \<and>
         update_tabu_tenure opt n t status pb b \<le> max (ts_initial_tabu_tenure (tabu_search opt)) n"
  using assms by (auto simp: update_tabu_tenure_def)

text \<open>C19. With automatic adjustment and no global improvement, a rising bias increments the tenure (capped by the number of not-fixed variables), a falling bias decrements it (floored at 1), and an equal or NaN bias leaves it unchanged.\<close>

lemma update_tabu_tenure_bias:
  assumes "ts_is_enabled_automatic_tabu_tenure_adjustment (tabu_search opt)"
    and "status AND STATUS_GLOBAL_AUGMENTED_INCUMBENT_UPDATE = 0"
  shows "(pb < b \<longrightarrow> update_tabu_tenure opt n t status (Some pb) (Some b) = min (t + 1) n) \<and>
         (b < pb \<longrightarrow> update_tabu_tenure opt n t status (Some pb) (Some b) = max (t - 1) 1) \<and>
         update_tabu_tenure opt n t status (Some b) (Some b) = t \<and>
         update_tabu_tenure opt n t status pb' None = t"
  using assms by (cases pb') (auto simp: update_tabu_tenure_def)

text \<open>With automatic iteration adjustment after a loop that was not stopped early, the next iteration limit lies between the initial tabu tenure and max(initial tabu tenure, option iteration limit).\<close>

lemma update_iteration_max_bounds:
  assumes "ts_is_enabled_automatic_iteration_adjustment (tabu_search opt)" "\<not> is_early_stopped r"
  shows "ts_initial_tabu_tenure (tabu_search opt) \<le> update_iteration_max opt cur r old \<and>
         update_iteration_max opt cur r old \<le>
           max (ts_initial_tabu_tenure (tabu_search opt)) (ts_iteration_max (tabu_search opt))"
  using assms by (simp add: update_iteration_max_def Let_def)

lemma set_special_families_within:
  "special_families_within opt nb \<Longrightarrow> special_families_within opt (set_special_families opt target nb)"
  by (auto simp: special_families_within_def set_special_families_def switch_family_def)

text \<open>The special neighbourhood update only switches on families that the option enables, and never touches the binary, integer, user-defined and selection families.\<close>

lemma update_special_neighborhood_within:
  assumes "special_families_within opt nb"
  shows "special_families_within opt (update_special_neighborhood opt cur r nb) \<and>
         binary_move_enabled (update_special_neighborhood opt cur r nb) = binary_move_enabled nb \<and>
         integer_move_enabled (update_special_neighborhood opt cur r nb) = integer_move_enabled nb \<and>
         user_defined_move_enabled (update_special_neighborhood opt cur r nb) = user_defined_move_enabled nb \<and>
         selection_move_enabled (update_special_neighborhood opt cur r nb) = selection_move_enabled nb"
  using assms set_special_families_within
  by (simp add: update_special_neighborhood_def set_special_families_def)

text \<open>After a loop that improved the global augmented incumbent, no special neighbourhood family is enabled.\<close>

lemma update_special_neighborhood_improved:
  assumes "special_families_within opt nb"
    and "total_update_status r AND STATUS_GLOBAL_AUGMENTED_INCUMBENT_UPDATE \<noteq> 0"
  shows "no_special_family (update_special_neighborhood opt cur r nb)"
  using assms
  by (auto simp: update_special_neighborhood_def set_special_families_def switch_family_def
      special_families_within_def no_special_family_def)


lemma initial_modification_offset:
  assumes "0 < w" "w \<le> nominal" "nominal < 2^29"
  shows "nominal - w \<le> int32_wrap (nominal + cpp_random_offset r w) \<and>
         int32_wrap (nominal + cpp_random_offset r w) \<le> nominal + w - 1"
proof -
  have b: "- w \<le> cpp_random_offset r w" "cpp_random_offset r w < w"
    using cpp_random_offset_bounds[of w r] assms by auto
  then have "int32_wrap (nominal + cpp_random_offset r w) = nominal + cpp_random_offset r w"
    using assms by (intro int32_wrap_id) auto
  then show ?thesis using b by simp
qed

text \<open>C20. When the next loop gets random initial modifications, their number lies between max(1, nominal - width) and max(1, nominal + max(0, width - 1)), with nominal = floor(fixed_rate * tenure) and width = floor(randomize_rate * nominal), and at most one random draw is used.\<close>

lemma update_number_of_initial_modification_bounds:
  assumes branch: "status AND STATUS_FEASIBLE_INCUMBENT_UPDATE = 0"
      "status AND STATUS_GLOBAL_AUGMENTED_INCUMBENT_UPDATE = 0"
      "ts_is_enabled_initial_modification (tabu_search opt)" "\<not> is_changed"
    and rates: "0 \<le> ts_initial_modification_fixed_rate (tabu_search opt)"
      "ts_initial_modification_fixed_rate (tabu_search opt) \<le> 1"
      "0 \<le> ts_initial_modification_randomize_rate (tabu_search opt)"
      "ts_initial_modification_randomize_rate (tabu_search opt) \<le> 1"
    and tenure: "0 \<le> tenure" "tenure < 2^29"
  shows "let nominal = \<lfloor>ts_initial_modification_fixed_rate (tabu_search opt) * real_of_int tenure\<rfloor>;
             width = \<lfloor>ts_initial_modification_randomize_rate (tabu_search opt) * real_of_int nominal\<rfloor>;
             res = update_number_of_initial_modification opt status is_changed tenure rng k old
         in max 1 (nominal - width) \<le> fst res \<and> fst res \<le> max 1 (nominal + max 0 (width - 1)) \<and>
            k \<le> snd res \<and> snd res \<le> Suc k"
proof -
  define fr where "fr = ts_initial_modification_fixed_rate (tabu_search opt)"
  define rr where "rr = ts_initial_modification_randomize_rate (tabu_search opt)"
  define nominal where "nominal = \<lfloor>fr * real_of_int tenure\<rfloor>"
  define width where "width = \<lfloor>rr * real_of_int nominal\<rfloor>"
  have "fr * real_of_int tenure \<le> real_of_int tenure"
    using rates tenure by (simp add: fr_def mult_left_le_one_le)
  then have n: "0 \<le> nominal" "nominal \<le> tenure"
    using rates tenure by (auto simp: nominal_def fr_def le_floor_iff floor_le_iff)
  have "rr * real_of_int nominal \<le> real_of_int nominal"
    using rates n by (simp add: rr_def mult_left_le_one_le)
  then have w: "0 \<le> width" "width \<le> nominal"
    using rates n by (auto simp: width_def rr_def le_floor_iff floor_le_iff)
  have trunc: "cpp_trunc (rr * real_of_int nominal) = width"
    using rates n by (simp add: width_def rr_def)
  have res: "update_number_of_initial_modification opt status is_changed tenure rng k old =
      (if 0 < width then (max 1 (int32_wrap (nominal + cpp_random_offset (rng k) width)), Suc k)
       else (max 1 nominal, k))"
    using branch trunc
    by (simp add: update_number_of_initial_modification_def Let_def nominal_def fr_def rr_def)
  have off: "nominal - width \<le> int32_wrap (nominal + cpp_random_offset (rng k) width) \<and>
      int32_wrap (nominal + cpp_random_offset (rng k) width) \<le> nominal + width - 1" if "0 < width"
  proof -
    have "nominal < 2^29" using n tenure by linarith
    then show ?thesis using initial_modification_offset[OF that w(2)] by blast
  qed
  show ?thesis
    unfolding Let_def fr_def[symmetric] rr_def[symmetric] nominal_def[symmetric]
      width_def[symmetric] res
    using off w by auto
qed


lemma counter_trace_stagnation:
  assumes "0 \<le> c" "c < threshold"
  shows "counter_trace (replicate n 0) threshold c = map (\<lambda>k. (c + int k + 1) mod threshold = 0) [0..<n]"
  using assms
proof (induction n arbitrary: c)
  case 0
  then show ?case by simp
next
  case (Suc n)
  define c' where "c' = (if c + 1 = threshold then 0 else c + 1)"
  have c': "0 \<le> c'" "c' < threshold" using Suc.prems by (auto simp: c'_def)
  have c'm: "c' = (c + 1) mod threshold"
    using Suc.prems by (simp add: c'_def mod_pos_pos_trivial)
  have step: "update_not_update_count 0 threshold c = (c', c + 1 = threshold)"
    by (simp add: update_not_update_count_def c'_def)
  have head: "(c + 1 = threshold) = ((c + int 0 + 1) mod threshold = 0)"
  proof (cases "c + 1 = threshold")
    case False
    then have "(c + 1) mod threshold = c + 1" using Suc.prems by (intro mod_pos_pos_trivial) simp_all
    then show ?thesis using False Suc.prems by simp
  qed simp
  have tail: "map (\<lambda>k. (c' + int k + 1) mod threshold = 0) [0..<n] =
              map (\<lambda>k. (c + int (Suc k) + 1) mod threshold = 0) [0..<n]"
  proof (rule map_cong)
    fix k
    have "(c' + int k + 1) mod threshold = ((c + 1) mod threshold + (int k + 1)) mod threshold"
      by (simp add: c'm add.assoc)
    also have "\<dots> = (c + 1 + (int k + 1)) mod threshold" by (rule mod_add_left_eq)
    finally show "((c' + int k + 1) mod threshold = 0) = ((c + int (Suc k) + 1) mod threshold = 0)"
      by (simp add: algebra_simps)
  qed simp
  show ?case
    using Suc.IH[OF c'(1,2)] step head tail
    by (simp add: map_upt_Suc del: upt_Suc)
qed

lemma counter_trace_local_only:
  "counter_trace (replicate n STATUS_LOCAL_AUGMENTED_INCUMBENT_UPDATE) threshold c = replicate n False"
  by (induction n arbitrary: c) (simp_all add: update_not_update_count_def status_constants)

text \<open>C23. Liveness of the penalty reset: when no loop improves any incumbent, the reset flag is raised after threshold - count loops and then every threshold loops; when every loop improves only the local augmented incumbent, the reset is never raised, however long the global incumbent stagnates (the line 583 defect).\<close>

theorem counter_trace_liveness:
  assumes "0 \<le> c" "c < threshold" "nat (threshold - c) \<le> n"
  shows "counter_trace (replicate n 0) threshold c ! (nat (threshold - c) - 1) \<and>
         counter_trace (replicate n 0) threshold c =
           map (\<lambda>k. (c + int k + 1) mod threshold = 0) [0..<n] \<and>
         counter_trace (replicate n STATUS_LOCAL_AUGMENTED_INCUMBENT_UPDATE) threshold c =
           replicate n False"
proof -
  have k: "nat (threshold - c) - 1 < n" "c + int (nat (threshold - c) - 1) + 1 = threshold"
    using assms by auto
  show ?thesis
    using counter_trace_stagnation[OF assms(1,2), of n] counter_trace_local_only[of n threshold c] k
    by simp
qed

section \<open>Instances of the lemmas\<close>

lemma update_local_penalty_coefficients_range_witness:
  "(penalty_parameters_ok example_solver_option) \<and>
   (coefficients_in_range (initial_penalty_coefficient example_solver_option) (generate_parameter_proxies [2] (10000::real))) \<and>
   (coefficients_in_range (initial_penalty_coefficient example_solver_option) (generate_parameter_proxies [2] (10000::real))) \<and>
   (violations_fit (generate_parameter_proxies [2] (10000::real)) (violation_value_proxies (example_solution\<lparr>violation_value_proxies := generate_parameter_proxies [2] 1\<rparr>))) \<and>
   (coefficients_in_range (initial_penalty_coefficient example_solver_option)
     (update_local_penalty_coefficients example_solver_option 0 False (Finite 5) (Finite 1) (example_solution\<lparr>violation_value_proxies := generate_parameter_proxies [2] 1\<rparr>)
        (generate_parameter_proxies [2] (10000::real)) (generate_parameter_proxies [2] (10000::real))))"
proof -
  have h:
    "penalty_parameters_ok example_solver_option"
    "coefficients_in_range (initial_penalty_coefficient example_solver_option) (generate_parameter_proxies [2] (10000::real))"
    "coefficients_in_range (initial_penalty_coefficient example_solver_option) (generate_parameter_proxies [2] (10000::real))"
    "violations_fit (generate_parameter_proxies [2] (10000::real)) (violation_value_proxies (example_solution\<lparr>violation_value_proxies := generate_parameter_proxies [2] 1\<rparr>))"
    by (simp_all add: example_solver_option_def penalty_parameters_ok_def coefficients_in_range_def violations_fit_def generate_parameter_proxies_def all_values_def example_solution_def valid_index_def proxy_value_def list_all_iff example_result_def special_families_within_def status_constants incumbent_holder_new_def incumbent_holder_initialize_def zero_score_def)
  show ?thesis
    using h update_local_penalty_coefficients_range[OF h] by (simp add: example_solver_option_def penalty_parameters_ok_def coefficients_in_range_def violations_fit_def generate_parameter_proxies_def all_values_def example_solution_def valid_index_def proxy_value_def list_all_iff example_result_def special_families_within_def status_constants incumbent_holder_new_def incumbent_holder_initialize_def zero_score_def)
qed

lemma update_local_penalty_coefficients_tighten_witness:
  "(penalty_parameters_ok example_solver_option) \<and>
   (coefficients_in_range (initial_penalty_coefficient example_solver_option) (generate_parameter_proxies [2] (10::real))) \<and>
   (violations_fit (generate_parameter_proxies [2] (10::real)) (violation_value_proxies (example_solution\<lparr>violation_value_proxies := generate_parameter_proxies [2] 1\<rparr>))) \<and>
   (\<not> False) \<and>
   (gap_exceeds 0 (Finite 5) (Finite 1)) \<and>
   (\<not> solution_is_feasible (example_solution\<lparr>violation_value_proxies := generate_parameter_proxies [2] 1\<rparr>)) \<and>
   (valid_index (generate_parameter_proxies [2] (10::real)) 0 1) \<and>
   (proxy_value (generate_parameter_proxies [2] (10::real)) 0 1 \<le>
     proxy_value (update_local_penalty_coefficients example_solver_option 0 False (Finite 5) (Finite 1) (example_solution\<lparr>violation_value_proxies := generate_parameter_proxies [2] 1\<rparr>)
        (generate_parameter_proxies [2] (10::real)) (generate_parameter_proxies [2] (10000::real))) 0 1)"
proof -
  have h:
    "penalty_parameters_ok example_solver_option"
    "coefficients_in_range (initial_penalty_coefficient example_solver_option) (generate_parameter_proxies [2] (10::real))"
    "violations_fit (generate_parameter_proxies [2] (10::real)) (violation_value_proxies (example_solution\<lparr>violation_value_proxies := generate_parameter_proxies [2] 1\<rparr>))"
    "\<not> False"
    "gap_exceeds 0 (Finite 5) (Finite 1)"
    "\<not> solution_is_feasible (example_solution\<lparr>violation_value_proxies := generate_parameter_proxies [2] 1\<rparr>)"
    "valid_index (generate_parameter_proxies [2] (10::real)) 0 1"
    by (simp_all add: example_solver_option_def penalty_parameters_ok_def coefficients_in_range_def violations_fit_def generate_parameter_proxies_def all_values_def example_solution_def valid_index_def proxy_value_def list_all_iff example_result_def special_families_within_def status_constants incumbent_holder_new_def incumbent_holder_initialize_def zero_score_def)
  show ?thesis
    using h update_local_penalty_coefficients_tighten[OF h] by (simp add: example_solver_option_def penalty_parameters_ok_def coefficients_in_range_def violations_fit_def generate_parameter_proxies_def all_values_def example_solution_def valid_index_def proxy_value_def list_all_iff example_result_def special_families_within_def status_constants incumbent_holder_new_def incumbent_holder_initialize_def zero_score_def)
qed

lemma update_local_penalty_coefficients_relax_witness:
  "(penalty_parameters_ok example_solver_option) \<and>
   (\<not> False) \<and>
   (\<not> (gap_exceeds 0 (Finite 1) (Finite 1) \<and> \<not> solution_is_feasible (example_solution\<lparr>violation_value_proxies := generate_parameter_proxies [2] 1\<rparr>))) \<and>
   (valid_index (generate_parameter_proxies [2] (10::real)) 0 1) \<and>
   (0 \<le> proxy_value (generate_parameter_proxies [2] (10::real)) 0 1) \<and>
   (proxy_value (update_local_penalty_coefficients example_solver_option 0 False (Finite 1) (Finite 1) (example_solution\<lparr>violation_value_proxies := generate_parameter_proxies [2] 1\<rparr>)
        (generate_parameter_proxies [2] (10::real)) (generate_parameter_proxies [2] (10000::real))) 0 1 = proxy_value (generate_parameter_proxies [2] (10::real)) 0 1)"
proof -
  have h:
    "penalty_parameters_ok example_solver_option"
    "\<not> False"
    "\<not> (gap_exceeds 0 (Finite 1) (Finite 1) \<and> \<not> solution_is_feasible (example_solution\<lparr>violation_value_proxies := generate_parameter_proxies [2] 1\<rparr>))"
    "valid_index (generate_parameter_proxies [2] (10::real)) 0 1"
    "0 \<le> proxy_value (generate_parameter_proxies [2] (10::real)) 0 1"
    by (simp_all add: example_solver_option_def penalty_parameters_ok_def coefficients_in_range_def violations_fit_def generate_parameter_proxies_def all_values_def example_solution_def valid_index_def proxy_value_def list_all_iff example_result_def special_families_within_def status_constants incumbent_holder_new_def incumbent_holder_initialize_def zero_score_def)
  show ?thesis
    using h update_local_penalty_coefficients_relax[OF h] by (simp add: example_solver_option_def penalty_parameters_ok_def coefficients_in_range_def violations_fit_def generate_parameter_proxies_def all_values_def example_solution_def valid_index_def proxy_value_def list_all_iff example_result_def special_families_within_def status_constants incumbent_holder_new_def incumbent_holder_initialize_def zero_score_def)
qed

lemma update_not_update_count_local_only_witness:
  "(Finite (local_augmented_objective zero_score) < local_augmented_incumbent_objective
     ((incumbent_holder_new example_solution zero_score)\<lparr>global_augmented_incumbent_objective := Finite 0\<rparr>)) \<and>
   (\<not> Finite (global_augmented_objective zero_score) < global_augmented_incumbent_objective ((incumbent_holder_new example_solution zero_score)\<lparr>global_augmented_incumbent_objective := Finite 0\<rparr>)) \<and>
   (update_not_update_count (fst (try_update_incumbent ((incumbent_holder_new example_solution zero_score)\<lparr>global_augmented_incumbent_objective := Finite 0\<rparr>)
     example_solution zero_score)) 2 1 = (0, False))"
proof -
  have h:
    "Finite (local_augmented_objective zero_score) < local_augmented_incumbent_objective
     ((incumbent_holder_new example_solution zero_score)\<lparr>global_augmented_incumbent_objective := Finite 0\<rparr>)"
    by (simp_all add: example_solver_option_def penalty_parameters_ok_def coefficients_in_range_def violations_fit_def generate_parameter_proxies_def all_values_def example_solution_def valid_index_def proxy_value_def list_all_iff example_result_def special_families_within_def status_constants incumbent_holder_new_def incumbent_holder_initialize_def zero_score_def)
  show ?thesis
    using h update_not_update_count_local_only[OF h] by (simp add: example_solver_option_def penalty_parameters_ok_def coefficients_in_range_def violations_fit_def generate_parameter_proxies_def all_values_def example_solution_def valid_index_def proxy_value_def list_all_iff example_result_def special_families_within_def status_constants incumbent_holder_new_def incumbent_holder_initialize_def zero_score_def)
qed

lemma update_tabu_tenure_bounds_witness:
  "(1 \<le> ts_initial_tabu_tenure (tabu_search example_solver_option)) \<and>
   ((1::int) \<le> 5) \<and>
   ((1::int) \<le> 10) \<and>
   (10 \<le> max (ts_initial_tabu_tenure (tabu_search example_solver_option)) 5) \<and>
   (1 \<le> update_tabu_tenure example_solver_option 5 10 0 None None) \<and>
   (update_tabu_tenure example_solver_option 5 10 0 None None \<le> 10)"
proof -
  have h:
    "1 \<le> ts_initial_tabu_tenure (tabu_search example_solver_option)"
    "(1::int) \<le> 5"
    "(1::int) \<le> 10"
    "10 \<le> max (ts_initial_tabu_tenure (tabu_search example_solver_option)) 5"
    by (simp_all add: example_solver_option_def penalty_parameters_ok_def coefficients_in_range_def violations_fit_def generate_parameter_proxies_def all_values_def example_solution_def valid_index_def proxy_value_def list_all_iff example_result_def special_families_within_def status_constants incumbent_holder_new_def incumbent_holder_initialize_def zero_score_def)
  show ?thesis
    using h update_tabu_tenure_bounds[OF h] by (simp add: example_solver_option_def penalty_parameters_ok_def coefficients_in_range_def violations_fit_def generate_parameter_proxies_def all_values_def example_solution_def valid_index_def proxy_value_def list_all_iff example_result_def special_families_within_def status_constants incumbent_holder_new_def incumbent_holder_initialize_def zero_score_def)
qed

lemma update_tabu_tenure_bias_witness:
  "(ts_is_enabled_automatic_tabu_tenure_adjustment (tabu_search example_solver_option)) \<and>
   ((0::int) AND STATUS_GLOBAL_AUGMENTED_INCUMBENT_UPDATE = 0) \<and>
   (update_tabu_tenure example_solver_option 20 10 0 (Some (1 / 4)) (Some (1 / 2)) = 11)"
proof -
  have h:
    "ts_is_enabled_automatic_tabu_tenure_adjustment (tabu_search example_solver_option)"
    "(0::int) AND STATUS_GLOBAL_AUGMENTED_INCUMBENT_UPDATE = 0"
    by (simp_all add: example_solver_option_def penalty_parameters_ok_def coefficients_in_range_def violations_fit_def generate_parameter_proxies_def all_values_def example_solution_def valid_index_def proxy_value_def list_all_iff example_result_def special_families_within_def status_constants incumbent_holder_new_def incumbent_holder_initialize_def zero_score_def)
  show ?thesis
    using h update_tabu_tenure_bias[OF h] by (simp add: example_solver_option_def penalty_parameters_ok_def coefficients_in_range_def violations_fit_def generate_parameter_proxies_def all_values_def example_solution_def valid_index_def proxy_value_def list_all_iff example_result_def special_families_within_def status_constants incumbent_holder_new_def incumbent_holder_initialize_def zero_score_def)
qed

lemma update_number_of_initial_modification_bounds_witness:
  "((0::int) AND STATUS_FEASIBLE_INCUMBENT_UPDATE = 0) \<and>
   ((0::int) AND STATUS_GLOBAL_AUGMENTED_INCUMBENT_UPDATE = 0) \<and>
   (ts_is_enabled_initial_modification (tabu_search example_solver_option)) \<and>
   (\<not> False) \<and>
   (0 \<le> ts_initial_modification_fixed_rate (tabu_search example_solver_option)) \<and>
   (ts_initial_modification_fixed_rate (tabu_search example_solver_option) \<le> 1) \<and>
   (0 \<le> ts_initial_modification_randomize_rate (tabu_search example_solver_option)) \<and>
   (ts_initial_modification_randomize_rate (tabu_search example_solver_option) \<le> 1) \<and>
   ((0::int) \<le> 10) \<and>
   ((10::int) < 2^29) \<and>
   (5 \<le> fst (update_number_of_initial_modification example_solver_option 0 False 10 (\<lambda>_. 7) 0 0)) \<and>
   (fst (update_number_of_initial_modification example_solver_option 0 False 10 (\<lambda>_. 7) 0 0) \<le> 14)"
proof -
  have h:
    "(0::int) AND STATUS_FEASIBLE_INCUMBENT_UPDATE = 0"
    "(0::int) AND STATUS_GLOBAL_AUGMENTED_INCUMBENT_UPDATE = 0"
    "ts_is_enabled_initial_modification (tabu_search example_solver_option)"
    "\<not> False"
    "0 \<le> ts_initial_modification_fixed_rate (tabu_search example_solver_option)"
    "ts_initial_modification_fixed_rate (tabu_search example_solver_option) \<le> 1"
    "0 \<le> ts_initial_modification_randomize_rate (tabu_search example_solver_option)"
    "ts_initial_modification_randomize_rate (tabu_search example_solver_option) \<le> 1"
    "(0::int) \<le> 10"
    "(10::int) < 2^29"
    by (simp_all add: example_solver_option_def penalty_parameters_ok_def coefficients_in_range_def violations_fit_def generate_parameter_proxies_def all_values_def example_solution_def valid_index_def proxy_value_def list_all_iff example_result_def special_families_within_def status_constants incumbent_holder_new_def incumbent_holder_initialize_def zero_score_def)
  show ?thesis
    using h update_number_of_initial_modification_bounds[of 0 example_solver_option False 10 "\<lambda>_. 7" 0 0, OF h]
    by (simp add: Let_def example_solver_option_def penalty_parameters_ok_def coefficients_in_range_def violations_fit_def generate_parameter_proxies_def all_values_def example_solution_def valid_index_def proxy_value_def list_all_iff example_result_def special_families_within_def status_constants incumbent_holder_new_def incumbent_holder_initialize_def zero_score_def)
qed

lemma update_special_neighborhood_within_witness:
  "(special_families_within example_solver_option
     \<lparr>binary_move_enabled = True, integer_move_enabled = True, user_defined_move_enabled = False,
      selection_move_enabled = False, aggregation_move_enabled = True, precedence_move_enabled = False,
      variable_bound_move_enabled = False, exclusive_move_enabled = False, chain_move_enabled = False\<rparr>) \<and>
   (special_families_within example_solver_option
     (update_special_neighborhood example_solver_option 200 (example_result 0 False)
     \<lparr>binary_move_enabled = True, integer_move_enabled = True, user_defined_move_enabled = False,
      selection_move_enabled = False, aggregation_move_enabled = True, precedence_move_enabled = False,
      variable_bound_move_enabled = False, exclusive_move_enabled = False, chain_move_enabled = False\<rparr>))"
proof -
  have h:
    "special_families_within example_solver_option
     \<lparr>binary_move_enabled = True, integer_move_enabled = True, user_defined_move_enabled = False,
      selection_move_enabled = False, aggregation_move_enabled = True, precedence_move_enabled = False,
      variable_bound_move_enabled = False, exclusive_move_enabled = False, chain_move_enabled = False\<rparr>"
    by (simp_all add: example_solver_option_def penalty_parameters_ok_def coefficients_in_range_def violations_fit_def generate_parameter_proxies_def all_values_def example_solution_def valid_index_def proxy_value_def list_all_iff example_result_def special_families_within_def status_constants incumbent_holder_new_def incumbent_holder_initialize_def zero_score_def)
  show ?thesis
    using h update_special_neighborhood_within[OF h] by (simp add: example_solver_option_def penalty_parameters_ok_def coefficients_in_range_def violations_fit_def generate_parameter_proxies_def all_values_def example_solution_def valid_index_def proxy_value_def list_all_iff example_result_def special_families_within_def status_constants incumbent_holder_new_def incumbent_holder_initialize_def zero_score_def)
qed

lemma update_special_neighborhood_improved_witness:
  "(special_families_within example_solver_option
     \<lparr>binary_move_enabled = True, integer_move_enabled = True, user_defined_move_enabled = False,
      selection_move_enabled = False, aggregation_move_enabled = True, precedence_move_enabled = True,
      variable_bound_move_enabled = False, exclusive_move_enabled = False, chain_move_enabled = False\<rparr>) \<and>
   (total_update_status (example_result 2 False) AND STATUS_GLOBAL_AUGMENTED_INCUMBENT_UPDATE \<noteq> 0) \<and>
   (no_special_family (update_special_neighborhood example_solver_option 200 (example_result 2 False)
     \<lparr>binary_move_enabled = True, integer_move_enabled = True, user_defined_move_enabled = False,
      selection_move_enabled = False, aggregation_move_enabled = True, precedence_move_enabled = True,
      variable_bound_move_enabled = False, exclusive_move_enabled = False, chain_move_enabled = False\<rparr>))"
proof -
  have h:
    "special_families_within example_solver_option
     \<lparr>binary_move_enabled = True, integer_move_enabled = True, user_defined_move_enabled = False,
      selection_move_enabled = False, aggregation_move_enabled = True, precedence_move_enabled = True,
      variable_bound_move_enabled = False, exclusive_move_enabled = False, chain_move_enabled = False\<rparr>"
    "total_update_status (example_result 2 False) AND STATUS_GLOBAL_AUGMENTED_INCUMBENT_UPDATE \<noteq> 0"
    by (simp_all add: example_solver_option_def penalty_parameters_ok_def coefficients_in_range_def violations_fit_def generate_parameter_proxies_def all_values_def example_solution_def valid_index_def proxy_value_def list_all_iff example_result_def special_families_within_def status_constants incumbent_holder_new_def incumbent_holder_initialize_def zero_score_def)
  show ?thesis
    using h update_special_neighborhood_improved[OF h] by (simp add: example_solver_option_def penalty_parameters_ok_def coefficients_in_range_def violations_fit_def generate_parameter_proxies_def all_values_def example_solution_def valid_index_def proxy_value_def list_all_iff example_result_def special_families_within_def status_constants incumbent_holder_new_def incumbent_holder_initialize_def zero_score_def)
qed

lemma counter_trace_liveness_witness:
  "0 \<le> (0::int) \<and> (0::int) < 3 \<and> nat (3 - 0) \<le> 4 \<and>
   counter_trace (replicate 4 0) 3 0 ! 2 \<and>
   counter_trace (replicate 4 0) 3 0 = [False, False, True, False] \<and>
   counter_trace (replicate 4 STATUS_LOCAL_AUGMENTED_INCUMBENT_UPDATE) 3 0 = replicate 4 False"
proof -
  have h: "0 \<le> (0::int)" "(0::int) < 3" "nat (3 - 0) \<le> (4::nat)" by simp_all
  show ?thesis
    using h counter_trace_liveness[OF h] by (simp add: upt_rec)
qed

end
