(* ===== verification/SolverLoop.thy ===== *)
theory SolverLoop
  imports SolverAdapt
begin

text \<open>
  The outer loop of \<open>solve\<close> (\<open>cppmh/solver/solver.h\<close>, lines 460--1039): the loop
  variables as a record, one loop body as a function on it, the loop as a terminating
  recursion, and the export of the final incumbent. The inner tabu search
  (\<open>tabu_search::solve\<close>, not in the sources) is a parameter \<open>ts\<close> that maps the prepared
  option, both coefficient vectors, the initial variable values, the incumbent holder,
  the memory and the neighbourhood switches to a result record. The clock is a
  parameter \<open>clock\<close> giving the elapsed time polled at the head of the loop with the
  given iteration number; the model's number of not fixed variables is \<open>nfree\<close>; the
  random stream of \<open>get_rand_mt\<close> is \<open>rng\<close>, read from the position \<open>os_rng_position\<close>.
\<close>

record outer_state =
  os_iteration :: int
  os_holder :: "solution incumbent_holder"
  os_memory :: memory
  os_current_solution :: solution
  os_local_penalty :: "real proxies"
  os_global_penalty :: "real proxies"
  os_not_update_count :: int
  os_reset_flag :: bool
  os_next_number_of_initial_modification :: int
  os_next_initial_tabu_tenure :: int
  os_next_iteration_max :: int
  os_bias :: "real option"
  os_neighborhood :: neighborhood_flags
  os_rng_position :: nat
  os_number_of_tabu_search_iterations :: int
  os_number_of_tabu_search_loops :: int

type_synonym tabu_search_oracle =
  "solver_option \<Rightarrow> real proxies \<Rightarrow> real proxies \<Rightarrow> int proxies \<Rightarrow> solution incumbent_holder \<Rightarrow>
   memory \<Rightarrow> neighborhood_flags \<Rightarrow> tabu_search_result"

section \<open>Loop initialisation (lines 182--192, 460--471)\<close>

text \<open>Both coefficient vectors start as the constraint-shaped proxies filled with the
  initial coefficient; the loop variables start as at lines 460--471. The holder, the
  memory and the current solution are those left by the preprocessing phases
  (initial solution, Lagrange dual, local search).\<close>

definition outer_init ::
  "solver_option \<Rightarrow> nat list \<Rightarrow> solution incumbent_holder \<Rightarrow> memory \<Rightarrow> solution \<Rightarrow> neighborhood_flags \<Rightarrow>
   outer_state" where
  "outer_init master constraint_sizes h m current nb =
     \<lparr>os_iteration = 0, os_holder = h, os_memory = m, os_current_solution = current,
      os_local_penalty = generate_parameter_proxies constraint_sizes (initial_penalty_coefficient master),
      os_global_penalty = generate_parameter_proxies constraint_sizes (initial_penalty_coefficient master),
      os_not_update_count = 0, os_reset_flag = False, os_next_number_of_initial_modification = 0,
      os_next_initial_tabu_tenure = ts_initial_tabu_tenure (tabu_search master),
      os_next_iteration_max = ts_iteration_max (tabu_search master), os_bias = bias m,
      os_neighborhood = nb, os_rng_position = 0, os_number_of_tabu_search_iterations = 0,
      os_number_of_tabu_search_loops = 0\<rparr>"

section \<open>Termination tests (lines 477--502)\<close>

definition loop_continues :: "solver_option \<Rightarrow> (int \<Rightarrow> real) \<Rightarrow> outer_state \<Rightarrow> bool" where
  "loop_continues master clock s \<longleftrightarrow>
     \<not> time_max master < clock (os_iteration s) \<and>
     \<not> iteration_max master \<le> os_iteration s \<and>
     \<not> feasible_incumbent_objective (os_holder s) \<le> Finite (target_objective_value master)"

section \<open>One loop body (lines 507--1016)\<close>

definition prepare_option :: "solver_option \<Rightarrow> real \<Rightarrow> outer_state \<Rightarrow> solver_option" where
  "prepare_option master elapsed s =
     master\<lparr>tabu_search := (tabu_search master)\<lparr>
       ts_iteration_max :=
         (if ts_is_enabled_automatic_iteration_adjustment (tabu_search master)
          then os_next_iteration_max s else ts_iteration_max (tabu_search master)),
       ts_time_offset := elapsed,
       ts_seed := ts_seed (tabu_search master) + os_iteration s,
       ts_number_of_initial_modification := os_next_number_of_initial_modification s,
       ts_initial_tabu_tenure := os_next_initial_tabu_tenure s\<rparr>\<rparr>"

text \<open>The restart point and whether it differs from the current solution (lines
  546--565); the \<open>default\<close> branch that throws is unreachable, \<open>restart_mode\<close> having two
  constructors.\<close>

definition restart_solution :: "restart_mode \<Rightarrow> tabu_search_result \<Rightarrow> solution \<Rightarrow> solution \<times> bool" where
  "restart_solution mode r current =
     (let sol = (case mode of
                   RestartGlobal \<Rightarrow> global_augmented_incumbent_solution (result_incumbent_holder r)
                 | RestartLocal \<Rightarrow> local_augmented_incumbent_solution (result_incumbent_holder r))
      in (sol, variable_value_proxies sol \<noteq> variable_value_proxies current))"

text \<open>The feasible incumbent of the search is offered only when the search found one
  (lines 602--606).\<close>

definition offer_feasible :: "tabu_search_result \<Rightarrow> solution incumbent_holder \<Rightarrow> solution incumbent_holder" where
  "offer_feasible r h =
     (if found_feasible_solution (result_incumbent_holder r)
      then snd (try_update_incumbent h (feasible_incumbent_solution (result_incumbent_holder r))
                  (feasible_incumbent_score (result_incumbent_holder r)))
      else h)"

definition run_tabu_search ::
  "solver_option \<Rightarrow> tabu_search_oracle \<Rightarrow> real \<Rightarrow> outer_state \<Rightarrow> tabu_search_result" where
  "run_tabu_search master ts elapsed s =
     ts (prepare_option master elapsed s) (os_local_penalty s) (os_global_penalty s)
        (variable_value_proxies (os_current_solution s)) (os_holder s) (os_memory s)
        (os_neighborhood s)"

definition outer_body ::
  "solver_option \<Rightarrow> real \<Rightarrow> int \<Rightarrow> tabu_search_oracle \<Rightarrow> (nat \<Rightarrow> 64 word) \<Rightarrow> real \<Rightarrow>
   outer_state \<Rightarrow> outer_state" where
  "outer_body master eps nfree ts rng elapsed s =
     (let opt = prepare_option master elapsed s;
          r = run_tabu_search master ts elapsed s;
          rh = result_incumbent_holder r;
          (current, is_changed) =
            restart_solution (ts_restart_mode (tabu_search master)) r (os_current_solution s);
          (update_status, h1) =
            try_update_incumbent (os_holder s) (global_augmented_incumbent_solution rh)
              (global_augmented_incumbent_score rh);
          (count, reset_flag) =
            update_not_update_count update_status
              (penalty_coefficient_reset_count_threshold master) (os_not_update_count s);
          h2 = offer_feasible r h1;
          m = result_memory r;
          local = update_local_penalty_coefficients master eps reset_flag
                    (global_augmented_incumbent_objective h2) (local_augmented_incumbent_objective rh)
                    (local_augmented_incumbent_solution rh) (os_local_penalty s) (os_global_penalty s);
          b = bias m;
          tenure = update_tabu_tenure master nfree (os_next_initial_tabu_tenure s)
                     (total_update_status r) (os_bias s) b;
          (nim, k) = update_number_of_initial_modification master (total_update_status r) is_changed
                       tenure rng (os_rng_position s) (os_next_number_of_initial_modification s);
          current_max = ts_iteration_max (tabu_search opt)
      in s\<lparr>os_iteration := os_iteration s + 1, os_holder := h2, os_memory := m,
           os_current_solution := current, os_local_penalty := local,
           os_not_update_count := count, os_reset_flag := reset_flag,
           os_next_number_of_initial_modification := nim,
           os_next_initial_tabu_tenure := tenure,
           os_next_iteration_max := update_iteration_max master current_max r (os_next_iteration_max s),
           os_bias := b,
           os_neighborhood := update_special_neighborhood master current_max r (os_neighborhood s),
           os_rng_position := k,
           os_number_of_tabu_search_iterations :=
             os_number_of_tabu_search_iterations s + number_of_iterations r,
           os_number_of_tabu_search_loops := os_number_of_tabu_search_loops s + 1\<rparr>)"

section \<open>The loop (lines 473--1017)\<close>

text \<open>The loop stops at the first failed test; every body increments the iteration, so
  the distance to \<open>iteration_max\<close> decreases.\<close>

function outer_loop ::
  "solver_option \<Rightarrow> real \<Rightarrow> int \<Rightarrow> tabu_search_oracle \<Rightarrow> (nat \<Rightarrow> 64 word) \<Rightarrow> (int \<Rightarrow> real) \<Rightarrow>
   outer_state \<Rightarrow> outer_state" where
  "outer_loop master eps nfree ts rng clock s =
     (if loop_continues master clock s
      then outer_loop master eps nfree ts rng clock
             (outer_body master eps nfree ts rng (clock (os_iteration s)) s)
      else s)"
  by pat_completeness auto

termination
proof (relation "measure (\<lambda>(master, eps, nfree, ts, rng, clock, s).
                   nat (iteration_max master - os_iteration s))")
  show "wf (measure (\<lambda>(master, eps, nfree, ts, rng, clock, s).
                   nat (iteration_max master - os_iteration s)))" by simp
next
  fix master eps nfree ts rng clock s
  assume "loop_continues master clock s"
  then show "((master, eps, nfree, ts, rng, clock,
               outer_body master eps nfree ts rng (clock (os_iteration s)) s),
              (master, eps, nfree, ts, rng, clock, s))
             \<in> measure (\<lambda>(master, eps, nfree, ts, rng, clock, s). nat (iteration_max master - os_iteration s))"
    by (simp add: loop_continues_def outer_body_def Let_def split_def)
qed

declare outer_loop.simps [simp del]

section \<open>The exported result (lines 1028--1054)\<close>

text \<open>The feasible incumbent if one was found, the global augmented incumbent otherwise;
  with the final local penalty coefficients and the memory's update counts.\<close>

definition solve_incumbent :: "solution incumbent_holder \<Rightarrow> solution" where
  "solve_incumbent h =
     (if found_feasible_solution h then feasible_incumbent_solution h
      else global_augmented_incumbent_solution h)"

record solve_result =
  result_solution :: solution
  result_penalty_coefficients :: "real proxies"
  result_update_counts :: "int proxies"

definition solve_export :: "outer_state \<Rightarrow> solve_result" where
  "solve_export s =
     \<lparr>result_solution = solve_incumbent (os_holder s),
      result_penalty_coefficients = os_local_penalty s,
      result_update_counts = update_counts (os_memory s)\<rparr>"

section \<open>Concrete instances\<close>

text \<open>A tabu search that returns at once, reporting the incoming variable values with
  zero violations, and the loop state built from the example option.\<close>

definition example_tabu_search :: tabu_search_oracle where
  "example_tabu_search opt lp gp x h m nb =
     \<lparr>result_incumbent_holder =
        incumbent_holder_new (example_solution\<lparr>violation_value_proxies := map_proxies (\<lambda>_. 0) lp\<rparr>)
          zero_score,
      result_memory = m, total_update_status = 0, is_early_stopped = False,
      number_of_iterations = ts_iteration_max (tabu_search opt),
      last_local_augmented_incumbent_update_iteration = 0\<rparr>"

definition example_neighborhood :: neighborhood_flags where
  "example_neighborhood =
     \<lparr>binary_move_enabled = True, integer_move_enabled = True, user_defined_move_enabled = False,
      selection_move_enabled = False, aggregation_move_enabled = True, precedence_move_enabled = False,
      variable_bound_move_enabled = False, exclusive_move_enabled = False, chain_move_enabled = False\<rparr>"

definition example_outer_state :: outer_state where
  "example_outer_state =
     outer_init example_solver_option [2]
       ((incumbent_holder_new example_solution zero_score)\<lparr>found_feasible_solution := True\<rparr>)
       memory_new example_solution example_neighborhood"

section \<open>Loop invariants\<close>

text \<open>The coefficient vectors: both within \<open>[0, initial_penalty_coefficient]\<close>, of the
  same shape, and indexed by their positions (\<open>proxy.id()\<close> is the index of the proxy).\<close>

definition loop_penalty_ok :: "solver_option \<Rightarrow> outer_state \<Rightarrow> bool" where
  "loop_penalty_ok master s \<longleftrightarrow>
     coefficients_in_range (initial_penalty_coefficient master) (os_local_penalty s) \<and>
     coefficients_in_range (initial_penalty_coefficient master) (os_global_penalty s) \<and>
     proxy_shape (os_local_penalty s) = proxy_shape (os_global_penalty s) \<and>
     proxy_ids_ok (os_local_penalty s) \<and> proxy_ids_ok (os_global_penalty s)"

text \<open>The incumbent registers of two outer states: none got worse, the feasible flag was
  not lost.\<close>

definition holder_improves :: "solution incumbent_holder \<Rightarrow> solution incumbent_holder \<Rightarrow> bool" where
  "holder_improves h h' \<longleftrightarrow>
     local_augmented_incumbent_objective h' \<le> local_augmented_incumbent_objective h \<and>
     global_augmented_incumbent_objective h' \<le> global_augmented_incumbent_objective h \<and>
     feasible_incumbent_objective h' \<le> feasible_incumbent_objective h \<and>
     (found_feasible_solution h \<longrightarrow> found_feasible_solution h')"

section \<open>Lemmas\<close>


lemma outer_body_fields:
  "os_iteration (outer_body master eps nfree ts rng e s) = os_iteration s + 1"
  "os_global_penalty (outer_body master eps nfree ts rng e s) = os_global_penalty s"
  "os_number_of_tabu_search_loops (outer_body master eps nfree ts rng e s) =
     os_number_of_tabu_search_loops s + 1"
  by (simp_all add: outer_body_def Let_def split_def)

lemma outer_body_holder:
  "os_holder (outer_body master eps nfree ts rng e s) =
     offer_feasible (run_tabu_search master ts e s)
       (snd (try_update_incumbent (os_holder s)
          (global_augmented_incumbent_solution (result_incumbent_holder (run_tabu_search master ts e s)))
          (global_augmented_incumbent_score (result_incumbent_holder (run_tabu_search master ts e s)))))"
  by (simp add: outer_body_def Let_def split_def)

lemma outer_body_local_penalty:
  "\<exists>flag g l. os_local_penalty (outer_body master eps nfree ts rng e s) =
     update_local_penalty_coefficients master eps flag g l
       (local_augmented_incumbent_solution (result_incumbent_holder (run_tabu_search master ts e s)))
       (os_local_penalty s) (os_global_penalty s)"
  by (simp add: outer_body_def Let_def split_def) blast

lemma outer_body_counter:
  "os_not_update_count (outer_body master eps nfree ts rng e s) =
     fst (update_not_update_count
       (fst (try_update_incumbent (os_holder s)
          (global_augmented_incumbent_solution (result_incumbent_holder (run_tabu_search master ts e s)))
          (global_augmented_incumbent_score (result_incumbent_holder (run_tabu_search master ts e s)))))
       (penalty_coefficient_reset_count_threshold master) (os_not_update_count s))"
  by (simp add: outer_body_def Let_def split_def)

lemma outer_body_tenure:
  "os_next_initial_tabu_tenure (outer_body master eps nfree ts rng e s) =
     update_tabu_tenure master nfree (os_next_initial_tabu_tenure s)
       (total_update_status (run_tabu_search master ts e s)) (os_bias s)
       (bias (result_memory (run_tabu_search master ts e s)))"
  by (simp add: outer_body_def Let_def split_def)

lemma outer_body_neighborhood:
  "os_neighborhood (outer_body master eps nfree ts rng e s) =
     update_special_neighborhood master (ts_iteration_max (tabu_search (prepare_option master e s)))
       (run_tabu_search master ts e s) (os_neighborhood s)"
  by (simp add: outer_body_def Let_def split_def)

lemma outer_body_measure:
  "loop_continues master clock s \<Longrightarrow>
   nat (iteration_max master - os_iteration (outer_body master eps nfree ts rng e s)) <
   nat (iteration_max master - os_iteration s)"
  by (simp add: outer_body_fields loop_continues_def)

lemma outer_loop_unfold:
  "outer_loop master eps nfree ts rng clock s =
     (if loop_continues master clock s
      then outer_loop master eps nfree ts rng clock
             (outer_body master eps nfree ts rng (clock (os_iteration s)) s)
      else s)"
  by (rule outer_loop.simps)

lemma outer_loop_invariant:
  assumes step: "\<And>s. I s \<Longrightarrow> loop_continues master clock s \<Longrightarrow>
                   I (outer_body master eps nfree ts rng (clock (os_iteration s)) s)"
  shows "I s \<Longrightarrow> I (outer_loop master eps nfree ts rng clock s)"
proof (induction "nat (iteration_max master - os_iteration s)" arbitrary: s rule: less_induct)
  case less
  show ?case
  proof (cases "loop_continues master clock s")
    case True
    then show ?thesis
      using less.hyps[OF outer_body_measure[OF True]] step[OF less.prems True]
      by (subst outer_loop_unfold) simp
  next
    case False
    then show ?thesis using less.prems by (subst outer_loop_unfold) simp
  qed
qed

lemma outer_loop_relation:
  assumes refl: "R s s" and trans: "\<And>a b c. R a b \<Longrightarrow> R b c \<Longrightarrow> R a c"
    and step: "\<And>t. loop_continues master clock t \<Longrightarrow>
                 R t (outer_body master eps nfree ts rng (clock (os_iteration t)) t)"
  shows "R s (outer_loop master eps nfree ts rng clock s)"
  using outer_loop_invariant[where I = "R s"] refl trans step by blast

lemma outer_loop_stops:
  "\<not> loop_continues master clock (outer_loop master eps nfree ts rng clock s)"
proof (induction "nat (iteration_max master - os_iteration s)" arbitrary: s rule: less_induct)
  case less
  then show ?case
    using outer_body_measure by (cases "loop_continues master clock s") (subst outer_loop_unfold; simp)+
qed

lemma try_update_incumbent_improves:
  "holder_improves h (snd (try_update_incumbent h sol sc))"
  unfolding holder_improves_def try_update_incumbent_cases Let_def by (auto simp: less_imp_le)

lemma holder_improves_refl: "holder_improves h h"
  by (simp add: holder_improves_def)

lemma holder_improves_trans:
  "holder_improves a b \<Longrightarrow> holder_improves b c \<Longrightarrow> holder_improves a c"
  unfolding holder_improves_def by (meson order_trans)

lemma offer_feasible_improves: "holder_improves h (offer_feasible r h)"
  by (simp add: offer_feasible_def try_update_incumbent_improves holder_improves_refl)

lemma outer_body_improves:
  "holder_improves (os_holder s) (os_holder (outer_body master eps nfree ts rng e s))"
  unfolding outer_body_holder
  by (rule holder_improves_trans[OF try_update_incumbent_improves offer_feasible_improves])

lemma outer_loop_improves:
  "holder_improves (os_holder s) (os_holder (outer_loop master eps nfree ts rng clock s))"
  using outer_loop_relation[where R = "\<lambda>a b. holder_improves (os_holder a) (os_holder b)"]
    holder_improves_refl holder_improves_trans outer_body_improves by blast

lemma le_not_Huge: "x \<le> y \<Longrightarrow> y \<noteq> Huge \<Longrightarrow> x \<noteq> (Huge :: incumbent_objective)"
  by (cases x; cases y) auto

lemma try_update_incumbent_absorbs:
  "global_augmented_incumbent_objective (snd (try_update_incumbent h sol sc)) \<le> Finite (global_augmented_objective sc) \<and>
   feasible_incumbent_objective (snd (try_update_incumbent h sol sc)) \<le>
     (if is_feasible sc then Finite (objective sc) else feasible_incumbent_objective h) \<and>
   (found_feasible_solution (snd (try_update_incumbent h sol sc)) \<longleftrightarrow> found_feasible_solution h \<or> is_feasible sc)"
  unfolding try_update_incumbent_cases Let_def by (auto simp: not_less)

text \<open>C11. One loop body loses nothing the tabu search found: after it the outer global
  augmented incumbent is at least as good as the search's global augmented incumbent, the
  outer feasible incumbent at least as good as the search's feasible incumbent when the
  search found one (and otherwise as good as before), and the outer holder has found a
  feasible solution exactly when it had one before or one of the two offered scores is
  feasible.\<close>

theorem outer_body_absorbs_search:
  "global_augmented_incumbent_objective (os_holder (outer_body master eps nfree ts rng e s)) \<le>
     Finite (global_augmented_objective
       (global_augmented_incumbent_score (result_incumbent_holder (run_tabu_search master ts e s)))) \<and>
   feasible_incumbent_objective (os_holder (outer_body master eps nfree ts rng e s)) \<le>
     (if found_feasible_solution (result_incumbent_holder (run_tabu_search master ts e s)) \<and>
         is_feasible (feasible_incumbent_score (result_incumbent_holder (run_tabu_search master ts e s)))
      then Finite (objective (feasible_incumbent_score (result_incumbent_holder (run_tabu_search master ts e s))))
      else feasible_incumbent_objective (os_holder s)) \<and>
   (found_feasible_solution (os_holder (outer_body master eps nfree ts rng e s)) \<longleftrightarrow>
      found_feasible_solution (os_holder s) \<or>
      is_feasible (global_augmented_incumbent_score (result_incumbent_holder (run_tabu_search master ts e s))) \<or>
      found_feasible_solution (result_incumbent_holder (run_tabu_search master ts e s)) \<and>
      is_feasible (feasible_incumbent_score (result_incumbent_holder (run_tabu_search master ts e s))))"
proof -
  define rh where "rh = result_incumbent_holder (run_tabu_search master ts e s)"
  define h1 where "h1 = snd (try_update_incumbent (os_holder s) (global_augmented_incumbent_solution rh)
                          (global_augmented_incumbent_score rh))"
  define h2 where "h2 = snd (try_update_incumbent h1 (feasible_incumbent_solution rh) (feasible_incumbent_score rh))"
  have body: "os_holder (outer_body master eps nfree ts rng e s) = (if found_feasible_solution rh then h2 else h1)"
    unfolding outer_body_holder offer_feasible_def rh_def h1_def h2_def by simp
  have a1: "global_augmented_incumbent_objective h1 \<le> Finite (global_augmented_objective (global_augmented_incumbent_score rh))"
    "feasible_incumbent_objective h1 \<le> feasible_incumbent_objective (os_holder s)"
    "found_feasible_solution h1 \<longleftrightarrow> found_feasible_solution (os_holder s) \<or> is_feasible (global_augmented_incumbent_score rh)"
    using try_update_incumbent_absorbs [of "os_holder s" "global_augmented_incumbent_solution rh" "global_augmented_incumbent_score rh"]
      try_update_incumbent_improves [of "os_holder s" "global_augmented_incumbent_solution rh" "global_augmented_incumbent_score rh"]
    unfolding h1_def holder_improves_def by auto
  have a2: "global_augmented_incumbent_objective h2 \<le> global_augmented_incumbent_objective h1"
    "feasible_incumbent_objective h2 \<le> feasible_incumbent_objective h1"
    "feasible_incumbent_objective h2 \<le>
       (if is_feasible (feasible_incumbent_score rh) then Finite (objective (feasible_incumbent_score rh))
        else feasible_incumbent_objective h1)"
    "found_feasible_solution h2 \<longleftrightarrow> found_feasible_solution h1 \<or> is_feasible (feasible_incumbent_score rh)"
    using try_update_incumbent_absorbs [of h1 "feasible_incumbent_solution rh" "feasible_incumbent_score rh"]
      try_update_incumbent_improves [of h1 "feasible_incumbent_solution rh" "feasible_incumbent_score rh"]
    unfolding h2_def holder_improves_def by auto
  show ?thesis
    unfolding rh_def [symmetric] body using a1 a2 by (auto intro: order_trans)
qed

lemma update_local_penalty_coefficients_shape:
  assumes "proxy_shape local = proxy_shape global" "proxy_ids_ok local" "proxy_ids_ok global"
  shows "proxy_shape (update_local_penalty_coefficients opt eps flag g l s local global) = proxy_shape global \<and>
         proxy_ids_ok (update_local_penalty_coefficients opt eps flag g l s local global)"
  using assms
  by (auto simp: update_local_penalty_coefficients_def Let_def proxy_ids_ok_def proxy_shape_def comp_def)

lemma violations_fit_map_proxies:
  assumes "proxy_ids_ok lp" "0 \<le> c"
  shows "violations_fit lp (map_proxies (\<lambda>_. c) lp)"
proof -
  have "lp ! proxy_id pr = pr" if "pr \<in> set lp" for pr
    using that assms(1) unfolding proxy_ids_ok_def
    by (metis in_set_conv_nth length_map map_nth nth_map)
  moreover have "proxy_id pr < length lp" if "pr \<in> set lp" for pr
    using that assms(1) unfolding proxy_ids_ok_def
    by (metis atLeastLessThan_iff image_eqI list.set_map set_upt)
  moreover have "list_all (\<lambda>v. 0 \<le> v) (all_values (map_proxies (\<lambda>_. c) lp))"
    using assms(2) by (simp add: list_all_iff)
  ultimately show ?thesis
    unfolding violations_fit_def by (auto simp: list_all_iff map_proxies_def)
qed

lemma outer_body_penalty:
  assumes ok: "penalty_parameters_ok master"
    and fits: "\<And>opt lp gp x h m nb. proxy_ids_ok lp \<Longrightarrow>
        violations_fit lp (violation_value_proxies (local_augmented_incumbent_solution
          (result_incumbent_holder (ts opt lp gp x h m nb))))"
    and inv: "loop_penalty_ok master s"
  shows "loop_penalty_ok master (outer_body master eps nfree ts rng e s)"
proof -
  obtain flag g l where loc: "os_local_penalty (outer_body master eps nfree ts rng e s) =
     update_local_penalty_coefficients master eps flag g l
       (local_augmented_incumbent_solution (result_incumbent_holder (run_tabu_search master ts e s)))
       (os_local_penalty s) (os_global_penalty s)"
    using outer_body_local_penalty by blast
  have fit: "violations_fit (os_local_penalty s) (violation_value_proxies
      (local_augmented_incumbent_solution (result_incumbent_holder (run_tabu_search master ts e s))))"
    using fits inv by (simp add: run_tabu_search_def loop_penalty_ok_def)
  show ?thesis
    using inv update_local_penalty_coefficients_range[OF ok _ _ fit]
      update_local_penalty_coefficients_shape
    by (simp add: loop_penalty_ok_def loc outer_body_fields)
qed

text \<open>C2. Across the whole loop the global penalty coefficients never change, and the local ones stay within [0, initial_penalty_coefficient], keep the constraint shape and stay indexed by position, given valid rates and a tabu search whose violations fit the constraints.\<close>

lemma outer_loop_penalty:
  assumes ok: "penalty_parameters_ok master"
    and fits: "\<And>opt lp gp x h m nb. proxy_ids_ok lp \<Longrightarrow>
        violations_fit lp (violation_value_proxies (local_augmented_incumbent_solution
          (result_incumbent_holder (ts opt lp gp x h m nb))))"
    and inv: "loop_penalty_ok master s"
  shows "loop_penalty_ok master (outer_loop master eps nfree ts rng clock s) \<and>
         os_global_penalty (outer_loop master eps nfree ts rng clock s) = os_global_penalty s"
proof -
  let ?I = "\<lambda>t. loop_penalty_ok master t \<and> os_global_penalty t = os_global_penalty s"
  have step: "?I (outer_body master eps nfree ts rng (clock (os_iteration t)) t)" if "?I t" for t
    using that outer_body_penalty[where ts = ts, OF ok fits] by (simp add: outer_body_fields)
  show ?thesis
    using outer_loop_invariant[where I = ?I, OF step] inv by simp
qed

lemma outer_init_penalty:
  assumes "0 \<le> initial_penalty_coefficient master"
  shows "loop_penalty_ok master (outer_init master sizes h m current nb)"
proof -
  have "\<forall>x \<in> set (all_values (generate_parameter_proxies sizes (initial_penalty_coefficient master))).
          x = initial_penalty_coefficient master"
    by (meson all_values_generate singletonD subsetD)
  then show "loop_penalty_ok master (outer_init master sizes h m current nb)"
    using assms by (auto simp: loop_penalty_ok_def outer_init_def coefficients_in_range_def list_all_iff)
qed

lemma update_not_update_count_range:
  "0 \<le> c \<Longrightarrow> c < threshold \<Longrightarrow>
   0 \<le> fst (update_not_update_count st threshold c) \<and> fst (update_not_update_count st threshold c) < threshold"
  by (simp add: update_not_update_count_def Let_def)

text \<open>C17. The stagnation counter stays in [0, penalty_coefficient_reset_count_threshold) across the loop.\<close>

lemma outer_loop_counter:
  assumes "0 \<le> os_not_update_count s"
    "os_not_update_count s < penalty_coefficient_reset_count_threshold master"
  shows "0 \<le> os_not_update_count (outer_loop master eps nfree ts rng clock s) \<and>
         os_not_update_count (outer_loop master eps nfree ts rng clock s) <
           penalty_coefficient_reset_count_threshold master"
proof -
  have step: "0 \<le> os_not_update_count (outer_body master eps nfree ts rng e t) \<and>
      os_not_update_count (outer_body master eps nfree ts rng e t) < penalty_coefficient_reset_count_threshold master"
    if "0 \<le> os_not_update_count t \<and> os_not_update_count t < penalty_coefficient_reset_count_threshold master"
    for t e
    unfolding outer_body_counter using update_not_update_count_range that by blast
  show ?thesis
    using outer_loop_invariant[where I = "\<lambda>t. 0 \<le> os_not_update_count t \<and>
        os_not_update_count t < penalty_coefficient_reset_count_threshold master", OF step] assms
    by blast
qed

text \<open>C18. Across the loop the initial tabu tenure stays in [1, max(initial tenure, not-fixed variables)].\<close>

lemma outer_loop_tenure:
  assumes "1 \<le> ts_initial_tabu_tenure (tabu_search master)" "1 \<le> nfree"
    and "1 \<le> os_next_initial_tabu_tenure s"
    "os_next_initial_tabu_tenure s \<le> max (ts_initial_tabu_tenure (tabu_search master)) nfree"
  shows "1 \<le> os_next_initial_tabu_tenure (outer_loop master eps nfree ts rng clock s) \<and>
         os_next_initial_tabu_tenure (outer_loop master eps nfree ts rng clock s) \<le>
           max (ts_initial_tabu_tenure (tabu_search master)) nfree"
proof -
  let ?I = "\<lambda>t. 1 \<le> os_next_initial_tabu_tenure t \<and>
      os_next_initial_tabu_tenure t \<le> max (ts_initial_tabu_tenure (tabu_search master)) nfree"
  have step: "?I (outer_body master eps nfree ts rng e t)" if "?I t" for t e
    unfolding outer_body_tenure
    by (rule update_tabu_tenure_bounds[OF assms(1,2) conjunct1[OF that] conjunct2[OF that]])
  show ?thesis
    using outer_loop_invariant[where I = ?I, OF step] assms(3,4) by blast
qed

text \<open>C22. Across the loop only special families enabled in the option are ever switched on, and the standard families keep their switches.\<close>

lemma outer_loop_neighborhood:
  assumes "special_families_within master (os_neighborhood s)"
  shows "special_families_within master (os_neighborhood (outer_loop master eps nfree ts rng clock s)) \<and>
         binary_move_enabled (os_neighborhood (outer_loop master eps nfree ts rng clock s)) =
           binary_move_enabled (os_neighborhood s) \<and>
         integer_move_enabled (os_neighborhood (outer_loop master eps nfree ts rng clock s)) =
           integer_move_enabled (os_neighborhood s) \<and>
         user_defined_move_enabled (os_neighborhood (outer_loop master eps nfree ts rng clock s)) =
           user_defined_move_enabled (os_neighborhood s) \<and>
         selection_move_enabled (os_neighborhood (outer_loop master eps nfree ts rng clock s)) =
           selection_move_enabled (os_neighborhood s)"
proof -
  let ?I = "\<lambda>t. special_families_within master (os_neighborhood t) \<and>
      binary_move_enabled (os_neighborhood t) = binary_move_enabled (os_neighborhood s) \<and>
      integer_move_enabled (os_neighborhood t) = integer_move_enabled (os_neighborhood s) \<and>
      user_defined_move_enabled (os_neighborhood t) = user_defined_move_enabled (os_neighborhood s) \<and>
      selection_move_enabled (os_neighborhood t) = selection_move_enabled (os_neighborhood s)"
  have step: "?I (outer_body master eps nfree ts rng e t)" if "?I t" for t e
    unfolding outer_body_neighborhood
    using that update_special_neighborhood_within[OF conjunct1[OF that]] by presburger
  show ?thesis
    using outer_loop_invariant[where I = ?I, OF step] assms by blast
qed

text \<open>C3. The outer loop ends: it stops with an iteration number between its starting value and iteration_max, has run one tabu search per iteration, and when it stops before iteration_max the elapsed time exceeded time_max or the feasible incumbent reached the target objective.\<close>

lemma outer_loop_iterations:
  assumes "os_iteration s \<le> iteration_max master"
  shows "os_iteration s \<le> os_iteration (outer_loop master eps nfree ts rng clock s) \<and>
         os_iteration (outer_loop master eps nfree ts rng clock s) \<le> iteration_max master \<and>
         os_number_of_tabu_search_loops (outer_loop master eps nfree ts rng clock s) -
           os_number_of_tabu_search_loops s =
           os_iteration (outer_loop master eps nfree ts rng clock s) - os_iteration s \<and>
         (os_iteration (outer_loop master eps nfree ts rng clock s) < iteration_max master \<longrightarrow>
          time_max master < clock (os_iteration (outer_loop master eps nfree ts rng clock s)) \<or>
          feasible_incumbent_objective (os_holder (outer_loop master eps nfree ts rng clock s))
            \<le> Finite (target_objective_value master))"
proof -
  let ?I = "\<lambda>t. os_iteration s \<le> os_iteration t \<and> os_iteration t \<le> iteration_max master \<and>
      os_number_of_tabu_search_loops t - os_number_of_tabu_search_loops s = os_iteration t - os_iteration s"
  have step: "?I (outer_body master eps nfree ts rng (clock (os_iteration t)) t)"
    if "?I t" "loop_continues master clock t" for t
    using that by (simp add: outer_body_fields loop_continues_def)
  have "?I (outer_loop master eps nfree ts rng clock s)"
    using outer_loop_invariant[where I = ?I, OF step] assms by simp
  moreover have "\<not> loop_continues master clock (outer_loop master eps nfree ts rng clock s)"
    by (rule outer_loop_stops)
  ultimately show ?thesis
    unfolding loop_continues_def by auto
qed

text \<open>Once a feasible solution has been found before the loop, solve exports the feasible incumbent, and its objective is no worse than before the loop.\<close>

lemma solve_export_feasible:
  assumes "found_feasible_solution (os_holder s)"
  shows "result_solution (solve_export (outer_loop master eps nfree ts rng clock s)) =
           feasible_incumbent_solution (os_holder (outer_loop master eps nfree ts rng clock s)) \<and>
         feasible_incumbent_objective (os_holder (outer_loop master eps nfree ts rng clock s))
           \<le> feasible_incumbent_objective (os_holder s)"
  using outer_loop_improves[of s master eps nfree ts rng clock] assms
  by (simp add: holder_improves_def solve_export_def solve_incumbent_def)


text \<open>C1. Across the whole outer loop none of the three incumbent objectives of the outer
  holder gets worse and the found-feasible flag is never cleared.\<close>

lemma outer_loop_incumbents_monotone:
  "local_augmented_incumbent_objective (os_holder (outer_loop master eps nfree ts rng clock s))
     \<le> local_augmented_incumbent_objective (os_holder s) \<and>
   global_augmented_incumbent_objective (os_holder (outer_loop master eps nfree ts rng clock s))
     \<le> global_augmented_incumbent_objective (os_holder s) \<and>
   feasible_incumbent_objective (os_holder (outer_loop master eps nfree ts rng clock s))
     \<le> feasible_incumbent_objective (os_holder s) \<and>
   (found_feasible_solution (os_holder s) \<longrightarrow>
    found_feasible_solution (os_holder (outer_loop master eps nfree ts rng clock s)))"
  using outer_loop_improves[of s master eps nfree ts rng clock] by (simp add: holder_improves_def)


section \<open>Instances of the lemmas\<close>

lemma outer_loop_iterations_witness:
  "(os_iteration example_outer_state \<le> iteration_max example_solver_option) \<and>
   (os_iteration (outer_loop example_solver_option 0 20 example_tabu_search (\<lambda>_. 0) (\<lambda>_. 0) example_outer_state) \<le> iteration_max example_solver_option)"
proof -
  have h:
    "os_iteration example_outer_state \<le> iteration_max example_solver_option"
    by (simp_all add: example_outer_state_def outer_init_def example_solver_option_def example_neighborhood_def special_families_within_def incumbent_holder_new_def incumbent_holder_initialize_def penalty_parameters_ok_def)
  show ?thesis
    using h outer_loop_iterations[OF h] by blast
qed

lemma outer_loop_counter_witness:
  "(0 \<le> os_not_update_count example_outer_state) \<and>
   (os_not_update_count example_outer_state < penalty_coefficient_reset_count_threshold example_solver_option) \<and>
   (os_not_update_count (outer_loop example_solver_option 0 20 example_tabu_search (\<lambda>_. 0) (\<lambda>_. 0) example_outer_state) < penalty_coefficient_reset_count_threshold example_solver_option)"
proof -
  have h:
    "0 \<le> os_not_update_count example_outer_state"
    "os_not_update_count example_outer_state < penalty_coefficient_reset_count_threshold example_solver_option"
    by (simp_all add: example_outer_state_def outer_init_def example_solver_option_def example_neighborhood_def special_families_within_def incumbent_holder_new_def incumbent_holder_initialize_def penalty_parameters_ok_def)
  show ?thesis
    using h outer_loop_counter[OF h] by blast
qed

lemma outer_loop_tenure_witness:
  "(1 \<le> ts_initial_tabu_tenure (tabu_search example_solver_option)) \<and>
   ((1::int) \<le> 20) \<and>
   (1 \<le> os_next_initial_tabu_tenure example_outer_state) \<and>
   (os_next_initial_tabu_tenure example_outer_state \<le> max (ts_initial_tabu_tenure (tabu_search example_solver_option)) 20) \<and>
   (1 \<le> os_next_initial_tabu_tenure (outer_loop example_solver_option 0 20 example_tabu_search (\<lambda>_. 0) (\<lambda>_. 0) example_outer_state))"
proof -
  have h:
    "1 \<le> ts_initial_tabu_tenure (tabu_search example_solver_option)"
    "(1::int) \<le> 20"
    "1 \<le> os_next_initial_tabu_tenure example_outer_state"
    "os_next_initial_tabu_tenure example_outer_state \<le> max (ts_initial_tabu_tenure (tabu_search example_solver_option)) 20"
    by (simp_all add: example_outer_state_def outer_init_def example_solver_option_def example_neighborhood_def special_families_within_def incumbent_holder_new_def incumbent_holder_initialize_def penalty_parameters_ok_def)
  show ?thesis
    using h outer_loop_tenure[OF h] by blast
qed

lemma outer_loop_neighborhood_witness:
  "(special_families_within example_solver_option (os_neighborhood example_outer_state)) \<and>
   (special_families_within example_solver_option (os_neighborhood (outer_loop example_solver_option 0 20 example_tabu_search (\<lambda>_. 0) (\<lambda>_. 0) example_outer_state)))"
proof -
  have h:
    "special_families_within example_solver_option (os_neighborhood example_outer_state)"
    by (simp_all add: example_outer_state_def outer_init_def example_solver_option_def example_neighborhood_def special_families_within_def incumbent_holder_new_def incumbent_holder_initialize_def penalty_parameters_ok_def)
  show ?thesis
    using h outer_loop_neighborhood[OF h] by blast
qed

lemma outer_body_iteration_max:
  "os_next_iteration_max (outer_body master eps nfree ts rng e s) =
     update_iteration_max master (ts_iteration_max (tabu_search (prepare_option master e s)))
       (run_tabu_search master ts e s) (os_next_iteration_max s)"
  by (simp add: outer_body_def Let_def split_def)

lemma update_iteration_max_range:
  assumes "ts_initial_tabu_tenure (tabu_search opt) \<le> old"
    "old \<le> max (ts_initial_tabu_tenure (tabu_search opt)) (ts_iteration_max (tabu_search opt))"
  shows "ts_initial_tabu_tenure (tabu_search opt) \<le> update_iteration_max opt cur r old \<and>
         update_iteration_max opt cur r old \<le>
           max (ts_initial_tabu_tenure (tabu_search opt)) (ts_iteration_max (tabu_search opt))"
  using assms by (auto simp: update_iteration_max_def Let_def)

text \<open>C34. Across the loop the iteration limit of the next tabu search stays between the
  initial tabu tenure and max(initial tabu tenure, the option's iteration limit), whether the
  automatic adjustment raises it, lowers it or keeps it.\<close>

lemma outer_loop_iteration_max:
  assumes "ts_initial_tabu_tenure (tabu_search master) \<le> os_next_iteration_max s"
    "os_next_iteration_max s \<le>
       max (ts_initial_tabu_tenure (tabu_search master)) (ts_iteration_max (tabu_search master))"
  shows "ts_initial_tabu_tenure (tabu_search master) \<le>
           os_next_iteration_max (outer_loop master eps nfree ts rng clock s) \<and>
         os_next_iteration_max (outer_loop master eps nfree ts rng clock s) \<le>
           max (ts_initial_tabu_tenure (tabu_search master)) (ts_iteration_max (tabu_search master))"
proof -
  let ?I = "\<lambda>t. ts_initial_tabu_tenure (tabu_search master) \<le> os_next_iteration_max t \<and>
      os_next_iteration_max t \<le> max (ts_initial_tabu_tenure (tabu_search master)) (ts_iteration_max (tabu_search master))"
  have step: "?I (outer_body master eps nfree ts rng e t)" if "?I t" for t e
    unfolding outer_body_iteration_max
    by (rule update_iteration_max_range [OF conjunct1[OF that] conjunct2[OF that]])
  show ?thesis
    using outer_loop_invariant[where I = ?I, OF step] assms by blast
qed

lemma outer_loop_iteration_max_witness:
  "(ts_initial_tabu_tenure (tabu_search example_solver_option) \<le> os_next_iteration_max example_outer_state) \<and>
   (os_next_iteration_max example_outer_state \<le>
      max (ts_initial_tabu_tenure (tabu_search example_solver_option)) (ts_iteration_max (tabu_search example_solver_option))) \<and>
   (ts_initial_tabu_tenure (tabu_search example_solver_option) \<le>
      os_next_iteration_max (outer_loop example_solver_option 0 20 example_tabu_search (\<lambda>_. 0) (\<lambda>_. 0) example_outer_state))"
proof -
  have h:
    "ts_initial_tabu_tenure (tabu_search example_solver_option) \<le> os_next_iteration_max example_outer_state"
    "os_next_iteration_max example_outer_state \<le>
      max (ts_initial_tabu_tenure (tabu_search example_solver_option)) (ts_iteration_max (tabu_search example_solver_option))"
    by (simp_all add: example_outer_state_def outer_init_def example_solver_option_def example_neighborhood_def incumbent_holder_new_def incumbent_holder_initialize_def)
  show ?thesis
    using h outer_loop_iteration_max[OF h] by blast
qed

lemma solve_export_feasible_witness:
  "(found_feasible_solution (os_holder example_outer_state)) \<and>
   (result_solution (solve_export (outer_loop example_solver_option 0 20 example_tabu_search (\<lambda>_. 0) (\<lambda>_. 0) example_outer_state)) = feasible_incumbent_solution (os_holder (outer_loop example_solver_option 0 20 example_tabu_search (\<lambda>_. 0) (\<lambda>_. 0) example_outer_state)))"
proof -
  have h:
    "found_feasible_solution (os_holder example_outer_state)"
    by (simp_all add: example_outer_state_def outer_init_def example_solver_option_def example_neighborhood_def special_families_within_def incumbent_holder_new_def incumbent_holder_initialize_def penalty_parameters_ok_def)
  show ?thesis
    using h solve_export_feasible[OF h] by blast
qed

lemma outer_loop_penalty_witness:
  "penalty_parameters_ok example_solver_option \<and>
   loop_penalty_ok example_solver_option example_outer_state \<and>
   loop_penalty_ok example_solver_option (outer_loop example_solver_option 0 20 example_tabu_search (\<lambda>_. 0) (\<lambda>_. 0) example_outer_state) \<and>
   os_global_penalty (outer_loop example_solver_option 0 20 example_tabu_search (\<lambda>_. 0) (\<lambda>_. 0) example_outer_state) = os_global_penalty example_outer_state"
proof -
  have ok: "penalty_parameters_ok example_solver_option"
    by (simp add: example_solver_option_def penalty_parameters_ok_def)
  have fits: "\<And>opt lp gp x h m nb. proxy_ids_ok lp \<Longrightarrow>
      violations_fit lp (violation_value_proxies (local_augmented_incumbent_solution
        (result_incumbent_holder (example_tabu_search opt lp gp x h m nb))))"
    by (simp add: example_tabu_search_def incumbent_holder_new_def incumbent_holder_initialize_def
        example_solution_def violations_fit_map_proxies)
  have inv: "loop_penalty_ok example_solver_option example_outer_state"
    unfolding example_outer_state_def by (rule outer_init_penalty) (simp add: example_solver_option_def)
  show ?thesis
    using ok inv
      outer_loop_penalty[where ts = example_tabu_search and eps = 0 and nfree = 20
        and rng = "\<lambda>_. 0" and clock = "\<lambda>_. 0", OF ok fits inv]
    by blast
qed

lemma outer_loop_incumbents_monotone_witness:
  "found_feasible_solution (os_holder example_outer_state) \<and>
   found_feasible_solution (os_holder (outer_loop example_solver_option 0 20 example_tabu_search (\<lambda>_. 0) (\<lambda>_. 0) example_outer_state))"
proof -
  have h: "found_feasible_solution (os_holder example_outer_state)"
    by (simp add: example_outer_state_def outer_init_def)
  show ?thesis
    using h outer_loop_incumbents_monotone[of example_solver_option 0 20 example_tabu_search
        "\<lambda>_. 0" "\<lambda>_. 0" example_outer_state] by blast
qed

end
