(* ===== verification/AbstractMultiArray.thy ===== *)
theory AbstractMultiArray
  imports Prelude
begin

text \<open>
  \<open>AbstractMultiArray\<close> (\<open>cppmh/model/constraint_reference.h\<close>, lines 65--208), the
  base class of every variable, expression and constraint proxy: a shape, row-major
  strides computed with \<open>std::partial_sum\<close>, the flat index of a multi-dimensional index
  (\<open>std::inner_product\<close>), its inverse by repeated \<open>/\<close> and \<open>%\<close>, and the printed label of
  an index. C++ \<open>int\<close> division truncates towards zero: \<open>sdiv\<close> and \<open>smod\<close> of
  \<open>Signed_Division\<close>. Values are unbounded \<open>int\<close>s: the overflow of \<open>std::multiplies<int>\<close> on a
  shape whose element count exceeds \<open>int\<close> is not modelled, so the lemmas hold for
  shapes whose products are representable, as the library's \<open>MAX_NUMBER_OF_*\<close> limits
  keep them in practice.
  \<open>utility::max\<close> and \<open>utility::to_string(value, format)\<close> (outside the sources) are the
  maximum of the list and \<open>printf\<close>'s \<open>%Nd\<close>: the decimal digits, left-padded with spaces
  to width \<open>N\<close>.
\<close>

section \<open>\<open>ConstraintReference\<close> (lines 18--42)\<close>

text \<open>Three lists of constraint pointers; a pointer is the constraint's position in the
  model's constraint arena.\<close>

record constraint_reference =
  constraint_ptrs :: "nat list"
  selection_constraint_ptrs :: "nat list"
  disabled_constraint_ptrs :: "nat list"

definition constraint_reference_initialize :: "constraint_reference \<Rightarrow> constraint_reference" where
  "constraint_reference_initialize r =
     r\<lparr>constraint_ptrs := [], selection_constraint_ptrs := [], disabled_constraint_ptrs := []\<rparr>"

definition constraint_reference_new :: constraint_reference where
  "constraint_reference_new = constraint_reference_initialize
     \<lparr>constraint_ptrs = [], selection_constraint_ptrs = [], disabled_constraint_ptrs = []\<rparr>"

section \<open>\<open>AbstractMultiArray\<close> (lines 65--208)\<close>

record abstract_multi_array =
  ama_id :: int
  number_of_dimensions :: nat
  number_of_elements :: int
  max_digits :: nat
  shape :: "int list"
  strides :: "int list"

section \<open>Strides (lines 75--80)\<close>

text \<open>\<open>std::partial_sum(first, last, out, std::multiplies<int>())\<close>: the running product,
  written as the accumulator loop of the library.\<close>

fun partial_products_from :: "int \<Rightarrow> int list \<Rightarrow> int list" where
  "partial_products_from acc [] = []"
| "partial_products_from acc (x # xs) = (acc * x) # partial_products_from (acc * x) xs"

fun partial_products :: "int list \<Rightarrow> int list" where
  "partial_products [] = []"
| "partial_products (x # xs) = x # partial_products_from x xs"

text \<open>\<open>m_strides.at(n - 1) = 1\<close> throws \<open>std::out_of_range\<close> for an empty shape
  (\<open>n - 1\<close> wraps to \<open>SIZE_MAX\<close>); otherwise the reversed shape without its last element
  (\<open>rbegin() .. rend() - 1\<close>) is multiplied up into the strides from the second-to-last
  backwards. Every constructor sets \<open>m_number_of_dimensions\<close> to the size of the shape.\<close>

definition compute_strides :: "int list \<Rightarrow> cpp_error + int list" where
  "compute_strides sh =
     (if sh = [] then Inl OutOfRange else Inr (rev (1 # partial_products (butlast (rev sh)))))"

text \<open>The reference: the stride of a dimension is the product of the later extents.\<close>

definition strides_ref :: "int list \<Rightarrow> int list" where
  "strides_ref sh = map (\<lambda>i. prod_list (drop (Suc i) sh)) [0..<length sh]"

section \<open>Decimal printing (\<open>std::to_string\<close>, \<open>printf("%Nd")\<close>)\<close>

fun nat_to_string :: "nat \<Rightarrow> string" where
  "nat_to_string n =
     (if n < 10 then [char_of (48 + n)] else nat_to_string (n div 10) @ [char_of (48 + n mod 10)])"

definition int_to_string :: "int \<Rightarrow> string" where
  "int_to_string i =
     (if i < 0 then CHR ''-'' # nat_to_string (nat (- i)) else nat_to_string (nat i))"

definition format_int :: "nat \<Rightarrow> int \<Rightarrow> string" where
  "format_int w i = replicate (w - length (int_to_string i)) CHR '' '' @ int_to_string i"

section \<open>Constructors (lines 89--118)\<close>

definition ama_new :: "int \<Rightarrow> cpp_error + abstract_multi_array" where
  "ama_new a_id =
     (case compute_strides [1] of
        Inl e \<Rightarrow> Inl e
      | Inr st \<Rightarrow> Inr \<lparr>ama_id = a_id, number_of_dimensions = 1, number_of_elements = 1,
                      max_digits = 1, shape = [1], strides = st\<rparr>)"

definition ama_new_elements :: "int \<Rightarrow> int \<Rightarrow> cpp_error + abstract_multi_array" where
  "ama_new_elements a_id n =
     (case compute_strides [n] of
        Inl e \<Rightarrow> Inl e
      | Inr st \<Rightarrow> Inr \<lparr>ama_id = a_id, number_of_dimensions = 1, number_of_elements = n,
                      max_digits = length (int_to_string n), shape = [n], strides = st\<rparr>)"

text \<open>\<open>utility::max\<close> of an empty shape dereferences the end iterator: undefined
  behaviour, before \<open>compute_strides\<close> would throw.\<close>

definition ama_new_shape :: "int \<Rightarrow> int list \<Rightarrow> cpp_error + abstract_multi_array" where
  "ama_new_shape a_id sh =
     (if sh = [] then Inl UndefinedBehaviour
      else case compute_strides sh of
        Inl e \<Rightarrow> Inl e
      | Inr st \<Rightarrow> Inr \<lparr>ama_id = a_id, number_of_dimensions = length sh,
                      number_of_elements = prod_list sh,
                      max_digits = length (int_to_string (Max (set sh))), shape = sh, strides = st\<rparr>)"

section \<open>Indices (lines 126--161)\<close>

text \<open>\<open>std::inner_product\<close> reads one stride per index entry: an index longer than the
  strides reads past them.\<close>

definition flat_index :: "abstract_multi_array \<Rightarrow> int list \<Rightarrow> cpp_error + int" where
  "flat_index a idx =
     (if length (strides a) < length idx then Inl UndefinedBehaviour
      else Inr (sum_list (map (\<lambda>(i, s). i * s) (zip idx (strides a)))))"

fun md_index :: "int \<Rightarrow> int list \<Rightarrow> int list" where
  "md_index remain [] = []"
| "md_index remain (s # ss) = (remain sdiv s) # md_index (remain smod s) ss"

text \<open>A zero stride (a zero extent after the first dimension) divides by zero.\<close>

definition multi_dimensional_index :: "abstract_multi_array \<Rightarrow> int \<Rightarrow> cpp_error + int list" where
  "multi_dimensional_index a f =
     (if 0 \<in> set (take (number_of_dimensions a) (strides a)) then Inl UndefinedBehaviour
      else Inr (md_index f (take (number_of_dimensions a) (strides a))))"

text \<open>The in-place variant writes the first \<open>m_number_of_dimensions\<close> entries of the given
  vector; a shorter vector is written past its end.\<close>

definition update_multi_dimensional_index ::
  "abstract_multi_array \<Rightarrow> int list \<Rightarrow> int \<Rightarrow> cpp_error + int list" where
  "update_multi_dimensional_index a v f =
     (if length v < number_of_dimensions a then Inl UndefinedBehaviour
      else if 0 \<in> set (take (number_of_dimensions a) (strides a)) then Inl UndefinedBehaviour
      else Inr (md_index f (take (number_of_dimensions a) (strides a)) @ drop (number_of_dimensions a) v))"

section \<open>Labels (lines 164--182)\<close>

text \<open>The loop of lines 175--180: each entry, followed by \<open>", "\<close> unless it is the last.\<close>

fun join_entries :: "string list \<Rightarrow> string" where
  "join_entries [] = []"
| "join_entries [x] = x"
| "join_entries (x # xs) = x @ '', '' @ join_entries xs"

definition indices_label :: "abstract_multi_array \<Rightarrow> int \<Rightarrow> cpp_error + string" where
  "indices_label a f =
     (if number_of_elements a = 1 then Inr ''''
      else case multi_dimensional_index a f of
        Inl e \<Rightarrow> Inl e
      | Inr idx \<Rightarrow> Inr (''['' @ join_entries (map (format_int (max_digits a)) idx) @ '']''))"

text \<open>Predicates of the lemmas: an index inside the shape, and a shape of positive
  extents.\<close>

definition index_in_range :: "int list \<Rightarrow> int list \<Rightarrow> bool" where
  "index_in_range sh idx \<longleftrightarrow> list_all2 (\<lambda>i n. 0 \<le> i \<and> i < n) idx sh"

definition extents_positive :: "int list \<Rightarrow> bool" where
  "extents_positive sh \<longleftrightarrow> list_all (\<lambda>n. 0 < n) sh"

text \<open>The sum computed by \<open>std::inner_product\<close>.\<close>

definition flat_sum :: "int list \<Rightarrow> int list \<Rightarrow> int" where
  "flat_sum idx st = sum_list (map (\<lambda>(i, s). i * s) (zip idx st))"

text \<open>A well-formed array: a non-empty shape, one dimension and one stride per extent,
  the strides the suffix products, the element count the product of the extents, and at
  least one digit for the labels.\<close>

definition ama_wf :: "abstract_multi_array \<Rightarrow> bool" where
  "ama_wf a \<longleftrightarrow>
     shape a \<noteq> [] \<and> number_of_dimensions a = length (shape a) \<and> strides a = strides_ref (shape a) \<and>
     number_of_elements a = prod_list (shape a) \<and> 1 \<le> max_digits a"

section \<open>Lemmas\<close>



lemma sdiv_nonneg: "0 \<le> a \<Longrightarrow> 0 \<le> b \<Longrightarrow> a sdiv b = a div (b::int)"
  by (auto simp: signed_divide_int_def sgn_if)

lemma partial_products_from_snoc:
  "partial_products_from acc (ys @ [y]) = partial_products_from acc ys @ [acc * prod_list ys * y]"
  by (induction ys arbitrary: acc) (simp_all add: mult.assoc)

lemma partial_products_snoc:
  "partial_products (ys @ [y]) = partial_products ys @ [prod_list ys * y]"
  by (cases ys) (simp_all add: partial_products_from_snoc)

lemma strides_ref_Cons [simp]: "strides_ref (x # xs) = prod_list xs # strides_ref xs"
  unfolding strides_ref_def by (simp add: map_upt_Suc del: upt_Suc)

lemma strides_ref_Nil [simp]: "strides_ref [] = []"
  by (simp add: strides_ref_def)

lemma rev_strides_step:
  "rev (1 # partial_products (rev (y # ys))) = prod_list (y # ys) # rev (1 # partial_products (rev ys))"
  by (simp add: partial_products_snoc mult.commute)

text \<open>C27. The strides computed with std::partial_sum over the reversed shape equal the row-major reference: the stride of a dimension is the product of the later extents; an empty shape throws std::out_of_range.\<close>

lemma compute_strides_eq:
  "compute_strides sh = (if sh = [] then Inl OutOfRange else Inr (strides_ref sh))"
proof (induction sh)
  case Nil
  then show ?case by (simp add: compute_strides_def)
next
  case (Cons x xs)
  then show ?case
  proof (cases xs)
    case (Cons y ys)
    then show ?thesis
      using Cons.IH rev_strides_step[of y ys] by (simp add: compute_strides_def butlast_append)
  qed (simp add: compute_strides_def)
qed


lemma flat_sum_Cons [simp]: "flat_sum (i # is) (s # ss) = i * s + flat_sum is ss"
  by (simp add: flat_sum_def)

lemma flat_sum_Nil [simp]: "flat_sum [] ss = 0"
  by (simp add: flat_sum_def)

lemma mixed_radix_step:
  fixes i r n p :: int
  assumes "0 \<le> i" "i < n" "0 \<le> r" "r < p"
  shows "0 \<le> i * p + r \<and> i * p + r < n * p \<and> (i * p + r) sdiv p = i \<and> (i * p + r) smod p = r"
proof -
  have p: "0 < p" using assms by linarith
  have "i * p \<le> (n - 1) * p" using assms p by (intro mult_right_mono) auto
  then have lt: "i * p + r < n * p" using assms by (simp add: algebra_simps)
  have nn: "0 \<le> i * p + r" using assms p by simp
  have "(r + i * p) div p = i" "(r + i * p) mod p = r"
    using assms p by (simp_all add: div_pos_pos_trivial mod_pos_pos_trivial)
  then show ?thesis
    using lt nn p by (simp add: sdiv_nonneg smod_mod_positive add.commute)
qed

lemma flat_sum_bounds:
  "list_all2 (\<lambda>i n. 0 \<le> i \<and> i < n) idx sh \<Longrightarrow>
   0 \<le> flat_sum idx (strides_ref sh) \<and> flat_sum idx (strides_ref sh) < prod_list sh \<and>
   md_index (flat_sum idx (strides_ref sh)) (strides_ref sh) = idx"
proof (induction rule: list_all2_induct)
  case Nil
  then show ?case by simp
next
  case (Cons i idx n sh)
  then show ?case
    using mixed_radix_step[of i n "flat_sum idx (strides_ref sh)" "prod_list sh"]
    by (simp add: mult.commute)
qed

lemma prod_list_positive: "list_all (\<lambda>n. 0 < n) sh \<Longrightarrow> 0 < prod_list (sh :: int list)"
  by (induction sh) simp_all

lemma md_index_bounds:
  "extents_positive sh \<Longrightarrow> 0 \<le> f \<Longrightarrow> f < prod_list sh \<Longrightarrow>
   list_all2 (\<lambda>i n. 0 \<le> i \<and> i < n) (md_index f (strides_ref sh)) sh \<and>
   flat_sum (md_index f (strides_ref sh)) (strides_ref sh) = f"
proof (induction sh arbitrary: f)
  case Nil
  then show ?case by simp
next
  case (Cons n sh)
  let ?p = "prod_list sh"
  have p: "0 < ?p" using Cons.prems by (simp add: extents_positive_def prod_list_positive)
  have "?p * (f div ?p) \<le> f"
    using mult_div_mod_eq[of ?p f] pos_mod_sign[OF p, of f] by linarith
  then have "?p * (f div ?p) < ?p * n" using Cons.prems by (simp add: mult.commute)
  then have q: "0 \<le> f div ?p" "f div ?p < n"
    using Cons.prems p by (simp_all add: pos_imp_zdiv_nonneg_iff)
  have r: "0 \<le> f mod ?p" "f mod ?p < ?p" using p by simp_all
  have IH: "list_all2 (\<lambda>i n. 0 \<le> i \<and> i < n) (md_index (f mod ?p) (strides_ref sh)) sh \<and>
      flat_sum (md_index (f mod ?p) (strides_ref sh)) (strides_ref sh) = f mod ?p"
    using Cons.IH[OF _ r] Cons.prems by (simp add: extents_positive_def)
  show ?case
    using q IH Cons.prems p
    by (simp add: sdiv_nonneg smod_mod_positive mult.commute)
qed


lemma strides_ref_positive: "list_all (\<lambda>n. 0 < n) sh \<Longrightarrow> list_all (\<lambda>n. 0 < n) (strides_ref sh)"
  by (induction sh) (simp_all add: prod_list_positive)

lemma length_strides_ref [simp]: "length (strides_ref sh) = length sh"
  by (simp add: strides_ref_def)

lemma index_in_range_positive: "index_in_range sh idx \<Longrightarrow> extents_positive sh"
  unfolding index_in_range_def extents_positive_def
  by (induction rule: list_all2_induct) auto

lemma ama_new_shape_fields:
  assumes "ama_new_shape i sh = Inr a"
  shows "sh \<noteq> [] \<and> strides a = strides_ref sh \<and> number_of_dimensions a = length sh \<and>
         number_of_elements a = prod_list sh \<and> shape a = sh"
  using assms by (auto simp: ama_new_shape_def compute_strides_eq split: if_splits)

lemma multi_dimensional_index_shape:
  assumes "ama_new_shape i sh = Inr a" "extents_positive sh"
  shows "multi_dimensional_index a f = Inr (md_index f (strides_ref sh))"
proof -
  have "0 \<notin> set (strides_ref sh)"
    using strides_ref_positive[of sh] assms(2) by (auto simp: extents_positive_def list_all_iff)
  then show ?thesis
    using ama_new_shape_fields[OF assms(1)] by (simp add: multi_dimensional_index_def)
qed

lemma flat_index_shape:
  assumes "ama_new_shape i sh = Inr a" "length idx = length sh"
  shows "flat_index a idx = Inr (flat_sum idx (strides_ref sh))"
  using ama_new_shape_fields[OF assms(1)] assms(2) by (simp add: flat_index_def flat_sum_def)

text \<open>C28. For an array built from a shape, every index inside the shape has a flat index in [0, number_of_elements), and multi_dimensional_index gives the index back.\<close>

lemma multi_array_roundtrip_flat:
  assumes a: "ama_new_shape i sh = Inr a" and idx: "index_in_range sh idx"
  shows "\<exists>f. flat_index a idx = Inr f \<and> 0 \<le> f \<and> f < number_of_elements a \<and>
             multi_dimensional_index a f = Inr idx"
proof -
  have "length idx = length sh" using idx by (simp add: index_in_range_def list_all2_lengthD)
  then show ?thesis
    using flat_index_shape[OF a] multi_dimensional_index_shape[OF a index_in_range_positive[OF idx]]
      flat_sum_bounds[of idx sh] idx ama_new_shape_fields[OF a]
    by (simp add: index_in_range_def)
qed

text \<open>C29. For a shape of positive extents, every flat index in [0, number_of_elements) is the flat index of the in-range index that multi_dimensional_index returns.\<close>

lemma multi_array_roundtrip_index:
  assumes a: "ama_new_shape i sh = Inr a" and pos: "extents_positive sh"
    and f: "0 \<le> f" "f < number_of_elements a"
  shows "\<exists>idx. multi_dimensional_index a f = Inr idx \<and> index_in_range sh idx \<and> flat_index a idx = Inr f"
proof -
  have b: "list_all2 (\<lambda>i n. 0 \<le> i \<and> i < n) (md_index f (strides_ref sh)) sh \<and>
      flat_sum (md_index f (strides_ref sh)) (strides_ref sh) = f"
    using md_index_bounds[OF pos f(1)] f(2) ama_new_shape_fields[OF a] by simp
  then have "length (md_index f (strides_ref sh)) = length sh" by (blast dest: list_all2_lengthD)
  then show ?thesis
    using b flat_index_shape[OF a] multi_dimensional_index_shape[OF a pos]
    by (simp add: index_in_range_def)
qed

text \<open>The in-place update_multi_dimensional_index, given a vector of the array dimension, yields the same index as multi_dimensional_index.\<close>

lemma update_multi_dimensional_index_eq:
  "length v = number_of_dimensions a \<Longrightarrow>
   update_multi_dimensional_index a v f = multi_dimensional_index a f"
  by (simp add: update_multi_dimensional_index_def multi_dimensional_index_def)

lemma nat_to_string_digit: "n < 10 \<Longrightarrow> nat_to_string n = [char_of (48 + n)]"
  by simp

lemma length_nat_to_string_ge: "10 \<le> n \<Longrightarrow> 2 \<le> length (nat_to_string n)"
  by (subst nat_to_string.simps) (simp add: Suc_le_eq)

declare nat_to_string.simps [simp del]

text \<open>C31. The index label pads with spaces: for a one-dimensional array of at least 10 elements the label of an index below 10 is "[", blanks up to the width of the element count, the digit, "]".\<close>

lemma indices_label_space_padded:
  assumes "10 \<le> n" "0 \<le> k" "k < 10"
  shows "\<exists>a. ama_new_elements i n = Inr a \<and>
           indices_label a k =
             Inr (''['' @ replicate (length (int_to_string n) - 1) CHR '' '' @ int_to_string k @ '']'') \<and>
           2 \<le> length (int_to_string n)"
proof -
  have s: "int_to_string k = [char_of (48 + nat k)]"
    using assms by (simp add: int_to_string_def nat_to_string_digit)
  have "2 \<le> length (int_to_string n)"
    using assms length_nat_to_string_ge[of "nat n"] by (simp add: int_to_string_def)
  then show ?thesis
    using assms s
    by (simp add: ama_new_elements_def compute_strides_eq strides_ref_def indices_label_def
        multi_dimensional_index_def format_int_def sdiv_nonneg smod_mod_positive)
qed


lemma nat_to_string_nonempty: "nat_to_string n \<noteq> []"
  by (subst nat_to_string.simps) simp

lemma length_int_to_string_pos: "Suc 0 \<le> length (int_to_string k)"
  using nat_to_string_nonempty[of "nat k"] nat_to_string_nonempty[of "nat (- k)"]
  by (simp add: int_to_string_def Suc_le_eq)

text \<open>Every constructor of AbstractMultiArray yields a well-formed array with the given id and shape (one dimension and stride per extent, suffix-product strides, element count the product of the extents, at least one label digit), except the shape constructor on an empty shape, which is undefined behaviour.\<close>

theorem ama_constructors_wf:
  "(\<exists>a. ama_new i = Inr a \<and> ama_wf a \<and> ama_id a = i \<and> shape a = [1]) \<and>
   (\<exists>a. ama_new_elements i n = Inr a \<and> ama_wf a \<and> ama_id a = i \<and> shape a = [n]) \<and>
   (ama_new_shape i [] = Inl UndefinedBehaviour) \<and>
   (sh \<noteq> [] \<longrightarrow> (\<exists>a. ama_new_shape i sh = Inr a \<and> ama_wf a \<and> ama_id a = i \<and> shape a = sh))"
  by (simp add: ama_new_def ama_new_elements_def ama_new_shape_def compute_strides_eq ama_wf_def
      length_int_to_string_pos)


lemma digit_char: "d < (10::nat) \<Longrightarrow> (48::nat) \<le> of_char (char_of (48 + d) :: char) \<and> of_char (char_of (48 + d) :: char) < (58::nat)"
  by (simp add: of_char_of)

lemma nat_to_string_chars: "\<forall>c \<in> set (nat_to_string n). 48 \<le> (of_char c :: nat) \<and> of_char c < (58::nat)"
proof (induction n rule: nat_to_string.induct)
  case (1 n)
  then show ?case
    using digit_char[of n] digit_char[of "n mod 10"]
    by (subst nat_to_string.simps) auto
qed

lemma nat_to_string_no_space: "CHR '' '' \<notin> set (nat_to_string n)"
  using nat_to_string_chars[of n] by fastforce

lemma length_nat_to_string_mono: "a \<le> b \<Longrightarrow> length (nat_to_string a) \<le> length (nat_to_string b)"
proof (induction a arbitrary: b rule: nat_to_string.induct)
  case (1 a)
  show ?case
  proof (cases "a < 10")
    case True
    then show ?thesis using nat_to_string_nonempty[of b]
      by (subst nat_to_string.simps) (simp add: Suc_le_eq)
  next
    case False
    then have "a div 10 \<le> b div 10" "\<not> b < 10" using "1.prems" by (simp_all add: div_le_mono)
    then show ?thesis using "1.IH"[OF False] False
      by (subst (1 2) nat_to_string.simps) simp
  qed
qed

lemma char_digit_inj: "a < 10 \<Longrightarrow> b < 10 \<Longrightarrow> char_of (48 + a) = (char_of (48 + b) :: char) \<Longrightarrow> a = (b::nat)"
proof -
  assume "a < 10" "b < 10" "char_of (48 + a) = (char_of (48 + b) :: char)"
  then have "(of_char (char_of (48 + a) :: char) :: nat) = of_char (char_of (48 + b) :: char)" by simp
  with \<open>a < 10\<close> \<open>b < 10\<close> show "a = b" by (simp add: of_char_of)
qed

lemma nat_to_string_inj: "nat_to_string a = nat_to_string b \<Longrightarrow> a = b"
proof (induction a arbitrary: b rule: nat_to_string.induct)
  case (1 a)
  show ?case
  proof (cases "a < 10")
    case True
    have e: "nat_to_string b = [char_of (48 + a)]"
      using "1.prems" nat_to_string_digit[OF True] by simp
    then have "b < 10" using length_nat_to_string_ge[of b] by (cases "b < 10") auto
    then show ?thesis using e True char_digit_inj[of a b] nat_to_string_digit[of b] by simp
  next
    case False
    then have "2 \<le> length (nat_to_string b)" using "1.prems" length_nat_to_string_ge[of a] by simp
    then have b: "\<not> b < 10" by (subst (asm) nat_to_string.simps) (auto split: if_splits)
    then have "nat_to_string (a div 10) = nat_to_string (b div 10) \<and> char_of (48 + a mod 10) = (char_of (48 + b mod 10) :: char)"
      using False "1.prems" by (subst (asm) (1 2) nat_to_string.simps) simp
    then have "a div 10 = b div 10" "a mod 10 = b mod 10"
      using "1.IH"[OF False] char_digit_inj[of "a mod 10" "b mod 10"] by simp_all
    then show ?thesis by (metis div_mult_mod_eq)
  qed
qed

lemma length_format_int: "length (int_to_string i) \<le> w \<Longrightarrow> length (format_int w i) = w"
  by (simp add: format_int_def)

lemma format_int_inj:
  assumes "0 \<le> i" "0 \<le> j" "format_int w i = format_int w j"
  shows "i = j"
proof -
  have "dropWhile (\<lambda>c. c = CHR '' '') (format_int w i) = nat_to_string (nat i)"
    "dropWhile (\<lambda>c. c = CHR '' '') (format_int w j) = nat_to_string (nat j)"
    using assms(1,2) nat_to_string_nonempty[of "nat i"] nat_to_string_nonempty[of "nat j"]
      nat_to_string_no_space[of "nat i"] nat_to_string_no_space[of "nat j"]
    by (auto simp: format_int_def int_to_string_def dropWhile_append3 neq_Nil_conv)
  then show ?thesis using assms nat_to_string_inj[of "nat i" "nat j"] by simp
qed

lemma length_join_entries:
  "list_all (\<lambda>x. length x = w) xs \<Longrightarrow> xs \<noteq> [] \<Longrightarrow> length (join_entries xs) = length xs * w + 2 * (length xs - 1)"
  by (induction xs rule: join_entries.induct) auto

lemma join_entries_inj:
  "list_all (\<lambda>x. length x = w) xs \<Longrightarrow> list_all (\<lambda>x. length x = w) ys \<Longrightarrow> length xs = length ys \<Longrightarrow>
   join_entries xs = join_entries ys \<Longrightarrow> xs = ys"
proof (induction xs ys rule: list_induct2')
  case (4 x xs y ys)
  show ?case
  proof (cases xs)
    case Nil
    then show ?thesis using 4 by simp
  next
    case (Cons x' xs')
    then obtain y' ys' where ys: "ys = y' # ys'" using "4.prems"(3) by (cases ys) auto
    have "x @ '', '' @ join_entries xs = y @ '', '' @ join_entries ys"
      using "4.prems"(4) Cons ys by simp
    then have "x = y" "join_entries xs = join_entries ys"
      using "4.prems"(1,2) by (simp_all add: append_eq_append_conv)
    then show ?thesis using "4.IH" "4.prems" by simp
  qed
qed auto

lemma ama_new_shape_max_digits:
  "ama_new_shape i sh = Inr a \<Longrightarrow> max_digits a = length (int_to_string (Max (set sh)))"
  by (auto simp: ama_new_shape_def compute_strides_eq split: if_splits)

lemma label_entries:
  assumes a: "ama_new_shape i sh = Inr a" and pos: "extents_positive sh"
    and f: "0 \<le> f" "f < number_of_elements a"
  shows "indices_label a f =
           (if number_of_elements a = 1 then Inr ''''
            else Inr (''['' @ join_entries (map (format_int (max_digits a)) (md_index f (strides_ref sh))) @ '']'')) \<and>
         list_all (\<lambda>e. 0 \<le> e \<and> length (int_to_string e) \<le> max_digits a) (md_index f (strides_ref sh)) \<and>
         length (md_index f (strides_ref sh)) = length sh \<and>
         flat_sum (md_index f (strides_ref sh)) (strides_ref sh) = f"
proof -
  have fl: "sh \<noteq> []" "number_of_elements a = prod_list sh"
    using ama_new_shape_fields[OF a] by simp_all
  have b: "list_all2 (\<lambda>i n. 0 \<le> i \<and> i < n) (md_index f (strides_ref sh)) sh"
    "flat_sum (md_index f (strides_ref sh)) (strides_ref sh) = f"
    using md_index_bounds[OF pos f(1)] f(2) fl by simp_all
  have len: "length (md_index f (strides_ref sh)) = length sh" using b(1) by (rule list_all2_lengthD)
  have "0 \<le> e \<and> length (int_to_string e) \<le> max_digits a" if e: "e \<in> set (md_index f (strides_ref sh))" for e
  proof -
    obtain k where k: "k < length sh" "md_index f (strides_ref sh) ! k = e"
      using e len by (metis in_set_conv_nth)
    have "0 \<le> e" "e < sh ! k" using b(1) k by (auto simp: list_all2_conv_all_nth)
    moreover have "sh ! k \<le> Max (set sh)" using k(1) by simp
    ultimately have "nat e \<le> nat (Max (set sh))" "0 \<le> Max (set sh)" by linarith+
    then show ?thesis using \<open>0 \<le> e\<close> length_nat_to_string_mono ama_new_shape_max_digits[OF a]
      by (simp add: int_to_string_def)
  qed
  then show ?thesis
    using b len multi_dimensional_index_shape[OF a pos]
    by (simp add: indices_label_def list_all_iff)
qed

text \<open>C26. The labels of an array built from a shape of positive extents are fixed-width:
  every element in [0, number_of_elements) gets a label, of length
  d * max_digits + 2 * d for d dimensions (the brackets, the padded entries and the
  ", " separators), or the empty label for a one-element array.\<close>

theorem indices_label_fixed_width:
  assumes "ama_new_shape i sh = Inr a" "extents_positive sh" "0 \<le> f" "f < number_of_elements a"
  shows "\<exists>l. indices_label a f = Inr l \<and>
           length l = (if number_of_elements a = 1 then 0 else length sh * max_digits a + 2 * length sh)"
proof -
  let ?idx = "md_index f (strides_ref sh)"
  have e: "indices_label a f =
           (if number_of_elements a = 1 then Inr ''''
            else Inr (''['' @ join_entries (map (format_int (max_digits a)) ?idx) @ '']''))"
    and w: "list_all (\<lambda>e. 0 \<le> e \<and> length (int_to_string e) \<le> max_digits a) ?idx"
    and len: "length ?idx = length sh"
    using label_entries[OF assms] by blast+
  have ne: "sh \<noteq> []" using ama_new_shape_fields[OF assms(1)] by simp
  have "list_all (\<lambda>x. length x = max_digits a) (map (format_int (max_digits a)) ?idx)"
    using w by (simp add: list_all_iff length_format_int)
  moreover have "map (format_int (max_digits a)) ?idx \<noteq> []" using len ne by auto
  ultimately have "length (join_entries (map (format_int (max_digits a)) ?idx)) =
      length sh * max_digits a + 2 * (length sh - 1)"
    using length_join_entries len by fastforce
  then show ?thesis using e ne by (cases sh) auto
qed

text \<open>C30. Labels identify elements: two elements of an array built from a shape of
  positive extents with the same label are the same element, so the names \<open>base[i, j]\<close>
  built from labels are distinct.\<close>

theorem indices_label_inj:
  assumes a: "ama_new_shape i sh = Inr a" and pos: "extents_positive sh"
    and f: "0 \<le> f" "f < number_of_elements a" and g: "0 \<le> g" "g < number_of_elements a"
    and eq: "indices_label a f = indices_label a g"
  shows "f = g"
proof (cases "number_of_elements a = 1")
  case True
  then show ?thesis using f g by simp
next
  case False
  let ?F = "md_index f (strides_ref sh)" and ?G = "md_index g (strides_ref sh)"
  have lf: "list_all (\<lambda>e. 0 \<le> e \<and> length (int_to_string e) \<le> max_digits a) ?F" "length ?F = length sh"
      "flat_sum ?F (strides_ref sh) = f"
    and lg: "list_all (\<lambda>e. 0 \<le> e \<and> length (int_to_string e) \<le> max_digits a) ?G" "length ?G = length sh"
      "flat_sum ?G (strides_ref sh) = g"
    using label_entries[OF a pos f] label_entries[OF a pos g] by blast+
  have "join_entries (map (format_int (max_digits a)) ?F) = join_entries (map (format_int (max_digits a)) ?G)"
    using eq False label_entries[OF a pos f] label_entries[OF a pos g] by simp
  then have m: "map (format_int (max_digits a)) ?F = map (format_int (max_digits a)) ?G"
    using lf(1,2) lg(1,2) by (intro join_entries_inj[where w = "max_digits a"]) (simp_all add: list_all_iff length_format_int)
  have "?F = ?G"
  proof (rule nth_equalityI)
    show "length ?F = length ?G" using lf(2) lg(2) by simp
    show "?F ! k = ?G ! k" if "k < length ?F" for k
    proof (rule format_int_inj)
      show "0 \<le> ?F ! k" using lf(1) that by (simp add: list_all_iff)
      show "0 \<le> ?G ! k" using lg(1) that lf(2) lg(2) by (simp add: list_all_iff)
      show "format_int (max_digits a) (?F ! k) = format_int (max_digits a) (?G ! k)"
        using arg_cong[OF m, of "\<lambda>xs. xs ! k"] that lf(2) lg(2) by simp
    qed
  qed
  then have "flat_sum ?F (strides_ref sh) = flat_sum ?G (strides_ref sh)" by (rule arg_cong)
  with lf(3) lg(3) show ?thesis by linarith
qed

section \<open>Instances of the lemmas\<close>

lemma multi_array_roundtrip_flat_witness:
  "(ama_new_shape 0 [4, 3, 2] = Inr \<lparr>ama_id = 0, number_of_dimensions = 3, number_of_elements = 24, max_digits = 1, shape = [4, 3, 2], strides = [6, 2, 1]\<rparr>) \<and>
   (index_in_range [4, 3, 2] [3, 1, 1]) \<and>
   (\<exists>f. flat_index \<lparr>ama_id = 0, number_of_dimensions = 3, number_of_elements = 24, max_digits = 1, shape = [4, 3, 2], strides = [6, 2, 1]\<rparr> [3, 1, 1] = Inr f \<and> 0 \<le> f \<and> f < number_of_elements \<lparr>ama_id = 0, number_of_dimensions = 3, number_of_elements = 24, max_digits = 1, shape = [4, 3, 2], strides = [6, 2, 1]\<rparr> \<and>
     multi_dimensional_index \<lparr>ama_id = 0, number_of_dimensions = 3, number_of_elements = 24, max_digits = 1, shape = [4, 3, 2], strides = [6, 2, 1]\<rparr> f = Inr [3, 1, 1])"
proof -
  have h:
    "ama_new_shape 0 [4, 3, 2] = Inr \<lparr>ama_id = 0, number_of_dimensions = 3, number_of_elements = 24, max_digits = 1, shape = [4, 3, 2], strides = [6, 2, 1]\<rparr>"
    "index_in_range [4, 3, 2] [3, 1, 1]"
    by (simp_all add: ama_new_shape_def compute_strides_eq strides_ref_def int_to_string_def nat_to_string.simps index_in_range_def extents_positive_def)
  show ?thesis
    using h multi_array_roundtrip_flat[OF h] by blast
qed

lemma multi_array_roundtrip_index_witness:
  "(ama_new_shape 0 [4, 3, 2] = Inr \<lparr>ama_id = 0, number_of_dimensions = 3, number_of_elements = 24, max_digits = 1, shape = [4, 3, 2], strides = [6, 2, 1]\<rparr>) \<and>
   (extents_positive [4, 3, 2]) \<and>
   ((0::int) \<le> 21) \<and>
   (21 < number_of_elements \<lparr>ama_id = 0, number_of_dimensions = 3, number_of_elements = 24, max_digits = 1, shape = [4, 3, 2], strides = [6, 2, 1]\<rparr>) \<and>
   (\<exists>idx. multi_dimensional_index \<lparr>ama_id = 0, number_of_dimensions = 3, number_of_elements = 24, max_digits = 1, shape = [4, 3, 2], strides = [6, 2, 1]\<rparr> 21 = Inr idx \<and> index_in_range [4, 3, 2] idx \<and>
     flat_index \<lparr>ama_id = 0, number_of_dimensions = 3, number_of_elements = 24, max_digits = 1, shape = [4, 3, 2], strides = [6, 2, 1]\<rparr> idx = Inr 21)"
proof -
  have h:
    "ama_new_shape 0 [4, 3, 2] = Inr \<lparr>ama_id = 0, number_of_dimensions = 3, number_of_elements = 24, max_digits = 1, shape = [4, 3, 2], strides = [6, 2, 1]\<rparr>"
    "extents_positive [4, 3, 2]"
    "(0::int) \<le> 21"
    "21 < number_of_elements \<lparr>ama_id = 0, number_of_dimensions = 3, number_of_elements = 24, max_digits = 1, shape = [4, 3, 2], strides = [6, 2, 1]\<rparr>"
    by (simp_all add: ama_new_shape_def compute_strides_eq strides_ref_def int_to_string_def nat_to_string.simps index_in_range_def extents_positive_def)
  show ?thesis
    using h multi_array_roundtrip_index[OF h] by blast
qed

lemma indices_label_space_padded_witness:
  "((10::int) \<le> 12) \<and>
   ((0::int) \<le> 3) \<and>
   ((3::int) < 10) \<and>
   (\<exists>a. ama_new_elements 0 12 = Inr a \<and>
     indices_label a 3 = Inr (''['' @ replicate (length (int_to_string 12) - 1) CHR '' '' @ int_to_string 3 @ '']'') \<and>
     2 \<le> length (int_to_string 12))"
proof -
  have h:
    "(10::int) \<le> 12"
    "(0::int) \<le> 3"
    "(3::int) < 10"
    by (simp_all add: ama_new_shape_def compute_strides_eq strides_ref_def int_to_string_def nat_to_string.simps index_in_range_def extents_positive_def)
  show ?thesis
    using h indices_label_space_padded[OF h] by blast
qed

lemma ama_constructors_wf_witness:
  "[4, 3, 2] \<noteq> ([] :: int list) \<and>
   (\<exists>a. ama_new_shape 7 [4, 3, 2] = Inr a \<and> ama_wf a \<and> ama_id a = 7 \<and> shape a = [4, 3, 2]) \<and>
   (\<exists>a. ama_new_elements 7 12 = Inr a \<and> ama_wf a \<and> shape a = [12])"
proof -
  have h: "[4, 3, 2] \<noteq> ([] :: int list)" by simp
  show ?thesis
    using h ama_constructors_wf[of 7 12 "[4, 3, 2]"] by blast
qed

lemma indices_label_fixed_width_witness:
  "(ama_new_shape 0 [2, 20] = Inr \<lparr>ama_id = 0, number_of_dimensions = 2, number_of_elements = 40, max_digits = 2, shape = [2, 20], strides = [20, 1]\<rparr>) \<and>
   (extents_positive [2, 20]) \<and>
   ((0::int) \<le> 5) \<and>
   (5 < number_of_elements \<lparr>ama_id = 0, number_of_dimensions = 2, number_of_elements = 40, max_digits = 2, shape = [2, 20], strides = [20, 1]\<rparr>) \<and>
   (\<exists>l. indices_label \<lparr>ama_id = 0, number_of_dimensions = 2, number_of_elements = 40, max_digits = 2, shape = [2, 20], strides = [20, 1]\<rparr> 5 = Inr l \<and>
     length l = (if number_of_elements \<lparr>ama_id = 0, number_of_dimensions = 2, number_of_elements = 40, max_digits = 2, shape = [2, 20], strides = [20, 1]\<rparr> = 1 then 0
                 else length [2, 20::int] * max_digits \<lparr>ama_id = 0, number_of_dimensions = 2, number_of_elements = 40, max_digits = 2, shape = [2, 20], strides = [20, 1]\<rparr> + 2 * length [2, 20::int]))"
proof -
  have h:
    "ama_new_shape 0 [2, 20] = Inr \<lparr>ama_id = 0, number_of_dimensions = 2, number_of_elements = 40, max_digits = 2, shape = [2, 20], strides = [20, 1]\<rparr>"
    "extents_positive [2, 20]"
    "(0::int) \<le> 5"
    "5 < number_of_elements \<lparr>ama_id = 0, number_of_dimensions = 2, number_of_elements = 40, max_digits = 2, shape = [2, 20], strides = [20, 1]\<rparr>"
    by (simp_all add: ama_new_shape_def compute_strides_eq strides_ref_def int_to_string_def nat_to_string.simps extents_positive_def)
  show ?thesis
    using h indices_label_fixed_width[OF h] by blast
qed

lemma indices_label_inj_witness:
  "(ama_new_shape 0 [2, 20] = Inr \<lparr>ama_id = 0, number_of_dimensions = 2, number_of_elements = 40, max_digits = 2, shape = [2, 20], strides = [20, 1]\<rparr>) \<and>
   (extents_positive [2, 20]) \<and>
   ((0::int) \<le> 25) \<and>
   (25 < number_of_elements \<lparr>ama_id = 0, number_of_dimensions = 2, number_of_elements = 40, max_digits = 2, shape = [2, 20], strides = [20, 1]\<rparr>) \<and>
   ((0::int) \<le> 25) \<and>
   (25 < number_of_elements \<lparr>ama_id = 0, number_of_dimensions = 2, number_of_elements = 40, max_digits = 2, shape = [2, 20], strides = [20, 1]\<rparr>) \<and>
   (indices_label \<lparr>ama_id = 0, number_of_dimensions = 2, number_of_elements = 40, max_digits = 2, shape = [2, 20], strides = [20, 1]\<rparr> 25 =
    indices_label \<lparr>ama_id = 0, number_of_dimensions = 2, number_of_elements = 40, max_digits = 2, shape = [2, 20], strides = [20, 1]\<rparr> 25) \<and>
   ((25::int) = 25)"
proof -
  have h:
    "ama_new_shape 0 [2, 20] = Inr \<lparr>ama_id = 0, number_of_dimensions = 2, number_of_elements = 40, max_digits = 2, shape = [2, 20], strides = [20, 1]\<rparr>"
    "extents_positive [2, 20]"
    "(0::int) \<le> 25"
    "25 < number_of_elements \<lparr>ama_id = 0, number_of_dimensions = 2, number_of_elements = 40, max_digits = 2, shape = [2, 20], strides = [20, 1]\<rparr>"
    "(0::int) \<le> 25"
    "25 < number_of_elements \<lparr>ama_id = 0, number_of_dimensions = 2, number_of_elements = 40, max_digits = 2, shape = [2, 20], strides = [20, 1]\<rparr>"
    "indices_label \<lparr>ama_id = 0, number_of_dimensions = 2, number_of_elements = 40, max_digits = 2, shape = [2, 20], strides = [20, 1]\<rparr> 25 =
     indices_label \<lparr>ama_id = 0, number_of_dimensions = 2, number_of_elements = 40, max_digits = 2, shape = [2, 20], strides = [20, 1]\<rparr> 25"
    by (simp_all add: ama_new_shape_def compute_strides_eq strides_ref_def int_to_string_def nat_to_string.simps extents_positive_def)
  show ?thesis
    using h indices_label_inj[OF h] by blast
qed

end
