(* ===== verification/TabuSearchPrint.thy ===== *)
theory TabuSearchPrint
  imports IncumbentHolder AbstractMultiArray
begin

text \<open>
  The progress table of the tabu search (\<open>cppmh/solver/tabu_search/tabu_search_print.h\<close>):
  each function returns the lines it prints (none when printing is disabled). The
  numbers are printed with \<open>printf\<close>: \<open>%Nd\<close> is \<open>format_int\<close>; \<open>%9.2e\<close> of an objective
  multiplied by the model's sign is the parameter \<open>fmt_e\<close>, since the rounding of
  doubles is not modelled.
\<close>

type_synonym e_format = "incumbent_objective \<Rightarrow> int \<Rightarrow> string"

definition table_rule :: string where
  "table_rule = ''---------+------------------------+----------------------+----------------------''"

definition print_table_header :: "bool \<Rightarrow> string list" where
  "print_table_header enabled =
     (if \<not> enabled then []
      else [table_rule,
            ''Iteration| Number of Neighborhoods|   Current Solution   |  Incumbent Solution '',
            ''         |  All Feas. Perm. Impr. |   Aug.Obj.(Penalty)  |   Aug.Obj.  Feas.Obj '',
            table_rule])"

definition print_table_initial ::
  "e_format \<Rightarrow> int \<Rightarrow> solution_score \<Rightarrow> 's incumbent_holder \<Rightarrow> bool \<Rightarrow> string list" where
  "print_table_initial fmt_e sign sc h enabled =
     (if \<not> enabled then []
      else [ '' INITIAL |    -     -     -     - | '' @
             fmt_e (Finite (local_augmented_objective sc)) sign @ ''('' @
             fmt_e (Finite (local_penalty sc)) 1 @ '') | '' @
             fmt_e (global_augmented_incumbent_objective h) sign @ ''  '' @
             fmt_e (feasible_incumbent_objective h) sign])"

text \<open>The marks of a body line (lines 79--92): \<open>!\<close> for an improved global augmented
  incumbent, \<open>*\<close> for an improved feasible incumbent, the latter overriding the current
  solution's mark.\<close>

definition table_marks :: "int \<Rightarrow> char \<times> char \<times> char" where
  "table_marks status =
     (let (c, g, f) = (CHR '' '', CHR '' '', CHR '' '');
          (c, g) = (if status AND STATUS_GLOBAL_AUGMENTED_INCUMBENT_UPDATE \<noteq> 0
                    then (CHR ''!'', CHR ''!'') else (c, g));
          (c, f) = (if status AND STATUS_FEASIBLE_INCUMBENT_UPDATE \<noteq> 0
                    then (CHR ''*'', CHR ''*'') else (c, f))
      in (c, g, f))"

definition print_table_body ::
  "e_format \<Rightarrow> int \<Rightarrow> int \<Rightarrow> int \<Rightarrow> int \<Rightarrow> int \<Rightarrow> int \<Rightarrow> solution_score \<Rightarrow> int \<Rightarrow>
   's incumbent_holder \<Rightarrow> bool \<Rightarrow> string list" where
  "print_table_body fmt_e sign iteration n_all n_feas n_perm n_impr sc status h enabled =
     (if \<not> enabled then []
      else (let (c, g, f) = table_marks status
            in [format_int 8 iteration @ '' |'' @ format_int 5 n_all @ '' '' @ format_int 5 n_feas @
                '' '' @ format_int 5 n_perm @ '' '' @ format_int 5 n_impr @ '' |'' @ [c] @
                fmt_e (Finite (local_augmented_objective sc)) sign @ ''('' @
                fmt_e (Finite (local_penalty sc)) 1 @ '') |'' @ [g] @
                fmt_e (global_augmented_incumbent_objective h) sign @ '' '' @ [f] @
                fmt_e (feasible_incumbent_objective h) sign]))"

definition print_table_footer :: "bool \<Rightarrow> string list" where
  "print_table_footer enabled = (if \<not> enabled then [] else [table_rule])"

text \<open>The positions of the column separators \<open>|\<close> and \<open>+\<close> of a line.\<close>

definition separator_columns :: "string \<Rightarrow> nat list" where
  "separator_columns s = filter (\<lambda>i. s ! i = CHR ''|'' \<or> s ! i = CHR ''+'') [0..<length s]"

section \<open>Lemmas\<close>


lemma separator_columns_append:
  "separator_columns (a @ b) = separator_columns a @ map (\<lambda>i. i + length a) (separator_columns b)"
proof -
  have u: "[0..<length (a @ b)] = [0..<length a] @ map (\<lambda>i. i + length a) [0..<length b]"
    by (simp add: map_add_upt upt_add_eq_append[of 0 "length a" "length b", simplified] add.commute)
  have 1: "filter (\<lambda>i. (a @ b) ! i = CHR ''|'' \<or> (a @ b) ! i = CHR ''+'') [0..<length a] =
           filter (\<lambda>i. a ! i = CHR ''|'' \<or> a ! i = CHR ''+'') [0..<length a]"
    by (rule filter_cong) (auto simp: nth_append)
  have 2: "filter (\<lambda>i. (a @ b) ! i = CHR ''|'' \<or> (a @ b) ! i = CHR ''+'') (map (\<lambda>i. i + length a) [0..<length b]) =
           map (\<lambda>i. i + length a) (filter (\<lambda>i. b ! i = CHR ''|'' \<or> b ! i = CHR ''+'') [0..<length b])"
    by (simp add: filter_map comp_def nth_append)
  show ?thesis
    unfolding separator_columns_def u filter_append 1 2 ..
qed

lemma separator_columns_Cons:
  "separator_columns (c # s) =
     (if c = CHR ''|'' \<or> c = CHR ''+'' then [0] else []) @ map Suc (separator_columns s)"
  using separator_columns_append[of "[c]" s] by (simp add: separator_columns_def)

lemma separator_columns_none:
  "CHR ''|'' \<notin> set s \<Longrightarrow> CHR ''+'' \<notin> set s \<Longrightarrow> separator_columns s = []"
  by (auto simp: separator_columns_def filter_empty_conv in_set_conv_nth)

lemma nat_to_string_no_sep: "CHR ''|'' \<notin> set (nat_to_string n) \<and> CHR ''+'' \<notin> set (nat_to_string n)"
  using nat_to_string_chars[of n] by fastforce

lemma length_nat_to_string_le: "n < 10 ^ d \<Longrightarrow> 0 < d \<Longrightarrow> length (nat_to_string n) \<le> d"
proof (induction n arbitrary: d rule: nat_to_string.induct)
  case (1 n)
  show ?case
  proof (cases "n < 10")
    case True
    then show ?thesis using 1 by (subst nat_to_string.simps) simp
  next
    case False
    then have "n div 10 < 10 ^ (d - 1)" "0 < d - 1"
      using 1(2,3) by (auto simp: less_mult_imp_div_less power_eq_if split: if_splits)
    then show ?thesis
      using 1(1)[OF False, of "d - 1"] False by (subst nat_to_string.simps) simp
  qed
qed

lemma format_int_fits:
  assumes "0 \<le> k" "k < 10 ^ w" "0 < w"
  shows "length (format_int w k) = w \<and> separator_columns (format_int w k) = []"
proof -
  have "length (nat_to_string (nat k)) \<le> w"
    using assms by (intro length_nat_to_string_le) (simp_all add: nat_less_iff)
  then show ?thesis
    using assms nat_to_string_no_sep[of "nat k"]
    by (intro conjI separator_columns_none) (auto simp: format_int_def int_to_string_def)
qed


lemma table_marks_chars:
  "table_marks status = (c, g, f) \<Longrightarrow>
   c \<in> {CHR '' '', CHR ''!'', CHR ''*''} \<and> g \<in> {CHR '' '', CHR ''!''} \<and> f \<in> {CHR '' '', CHR ''*''}"
  by (auto simp: table_marks_def Let_def split: if_splits)

lemma print_table_header_columns:
  "map separator_columns (print_table_header True) = replicate 4 [9, 34, 57]"
  unfolding print_table_header_def table_rule_def separator_columns_def by code_simp

text \<open>C35. A body line of the progress table has its column separators at the header positions 9, 34 and 57 whenever the iteration fits 8 digits, the four neighbourhood counts fit 5 digits and every %9.2e field is 9 characters without separators.\<close>

lemma print_table_body_aligned:
  assumes it: "0 \<le> iteration" "iteration < 10 ^ 8"
    and counts: "\<forall>n \<in> {n_all, n_feas, n_perm, n_impr}. 0 \<le> n \<and> n < 10 ^ 5"
    and fmt: "\<forall>v s. length (fmt_e v s) = 9 \<and> separator_columns (fmt_e v s) = []"
  shows "map separator_columns (print_table_body fmt_e sign iteration n_all n_feas n_perm n_impr sc status h True)
           = [[9, 34, 57]] \<and>
         map separator_columns (print_table_header True) = replicate 4 [9, 34, 57]"
proof -
  obtain c g f where m: "table_marks status = (c, g, f)" by (cases "table_marks status") auto
  have f8: "length (format_int 8 iteration) = 8 \<and> separator_columns (format_int 8 iteration) = []"
    using format_int_fits[of iteration 8] it by simp
  have f5: "length (format_int 5 n) = 5 \<and> separator_columns (format_int 5 n) = []"
    if "n \<in> {n_all, n_feas, n_perm, n_impr}" for n
    using format_int_fits[of n 5] counts that by auto
  show ?thesis
    using table_marks_chars[OF m] f8 f5 fmt print_table_header_columns
    by (auto simp: print_table_body_def m separator_columns_append separator_columns_Cons
        separator_columns_def[of "[]"])
qed


section \<open>Instances of the lemmas\<close>

lemma print_table_body_aligned_witness:
  "map separator_columns (print_table_body (\<lambda>_ _. replicate 9 CHR ''x'') 1 12 1 2 3 4 zero_score 6
     (incumbent_holder_new () zero_score) True) = [[9, 34, 57]]"
proof -
  have h:
    "(0::int) \<le> 12"
    "(12::int) < 10 ^ 8"
    "\<forall>n \<in> {1, 2, 3, 4::int}. 0 \<le> n \<and> n < 10 ^ 5"
    "\<forall>(v::incumbent_objective) (s::int). length (replicate 9 CHR ''x'') = 9 \<and> separator_columns (replicate 9 CHR ''x'') = []"
    by (simp_all add: separator_columns_def)
  show ?thesis
    using h print_table_body_aligned[where fmt_e = "\<lambda>_ _. replicate 9 CHR ''x''", OF h] by blast
qed

end
