(* ===== verification/QapDriver.thy ===== *)
theory QapDriver
  imports SolverAdapt
begin

text \<open>
  The command line of the QAPLIB driver (\<open>application/qap_solver/main.cpp\<close>): the usage
  exit when no argument is given (\<open>argv[1] == nullptr\<close>, i.e. \<open>argc = 1\<close>), the loop that
  reads \<open>-p OPTION_FILE_NAME\<close> and the QAPLIB file name, and the option overrides applied
  before \<open>solve\<close>. \<open>args\<close> is \<open>argv\<close> as a list of strings, the program name first.
  Reading the QAPLIB file and the option file, the solve call and the output files are
  outside the sources and not modelled.
\<close>

datatype driver_outcome =
    Usage
  | Run string string

text \<open>The loop of lines 34--43. \<open>args[i + 1]\<close> after a final \<open>-p\<close> is
  \<open>args[args.size()]\<close>: an out-of-range \<open>operator[]\<close>, undefined behaviour.\<close>

function parse_arguments ::
  "string list \<Rightarrow> nat \<Rightarrow> string \<Rightarrow> string \<Rightarrow> cpp_error + string \<times> string" where
  "parse_arguments args i qap_file_name option_file_name =
     (if i < length args then
        (if args ! i = ''-p'' then
           (if i + 1 < length args
            then parse_arguments args (i + 2) qap_file_name (args ! (i + 1))
            else Inl UndefinedBehaviour)
         else parse_arguments args (i + 1) (args ! i) option_file_name)
      else Inr (qap_file_name, option_file_name))"
  by pat_completeness auto

termination
  by (relation "measure (\<lambda>(args, i, _, _). length args - i)") auto

declare parse_arguments.simps [simp del]

definition driver_main :: "string list \<Rightarrow> cpp_error + driver_outcome" where
  "driver_main args =
     (if length args \<le> 1 then Inr Usage
      else (case parse_arguments args 1 '''' '''' of
              Inl e \<Rightarrow> Inl e
            | Inr (q, p) \<Rightarrow> Inr (Run q p)))"

text \<open>Lines 60--63: the driver's fixed move families (the improvability screening mode
  of line 64 is not a field of the option record).\<close>

definition driver_option :: "'a solver_option_scheme \<Rightarrow> 'a solver_option_scheme" where
  "driver_option opt =
     opt\<lparr>is_enabled_binary_move := False, is_enabled_integer_move := False,
         is_enabled_user_defined_move := True, is_enabled_chain_move := False\<rparr>"

text \<open>The reference reading of the arguments: every \<open>-p\<close> takes the next argument as
  the option file, every other argument is the QAPLIB file; the last of each wins.\<close>

fun read_arguments :: "string list \<Rightarrow> string \<Rightarrow> string \<Rightarrow> cpp_error + string \<times> string" where
  "read_arguments [] q p = Inr (q, p)"
| "read_arguments [x] q p = (if x = ''-p'' then Inl UndefinedBehaviour else Inr (x, p))"
| "read_arguments (x # y # zs) q p =
     (if x = ''-p'' then read_arguments zs q y else read_arguments (y # zs) x p)"

section \<open>Lemmas\<close>


text \<open>C32. The index loop of main over args from position i computes the same outcome as reading the remaining arguments left to right, where every "-p" takes the next argument as the option file and any other argument becomes the QAPLIB file.\<close>

lemma parse_arguments_read:
  "parse_arguments args i q p = read_arguments (drop i args) q p"
proof (induction args i q p rule: parse_arguments.induct)
  case (1 args i q p)
  show ?case
  proof (cases "i < length args")
    case True
    then have d: "drop i args = args ! i # drop (Suc i) args" by (simp add: Cons_nth_drop_Suc)
    show ?thesis
    proof (cases "args ! i = ''-p''")
      case p: True
      show ?thesis
      proof (cases "i + 1 < length args")
        case True
        then have "drop (Suc i) args = args ! Suc i # drop (Suc (Suc i)) args"
          by (simp add: Cons_nth_drop_Suc)
        then show ?thesis
          using 1 True p \<open>i < length args\<close> d by (subst parse_arguments.simps) simp
      next
        case False
        then have "drop (Suc i) args = []" by simp
        then show ?thesis
          using False p \<open>i < length args\<close> d by (subst parse_arguments.simps) simp
      qed
    next
      case np: False
      then show ?thesis
        using 1 True d by (subst parse_arguments.simps) (cases "drop (Suc i) args"; simp)
    qed
  next
    case False
    then show ?thesis by (subst parse_arguments.simps) simp
  qed
qed

lemma read_arguments_no_option:
  "''-p'' \<notin> set xs \<Longrightarrow> xs \<noteq> [] \<Longrightarrow> read_arguments xs q p = Inr (last xs, p)"
  by (induction xs q p rule: read_arguments.induct) auto

lemma read_arguments_option_last:
  "''-p'' \<notin> set xs \<Longrightarrow> read_arguments (xs @ [''-p'']) q p = Inl UndefinedBehaviour"
  by (induction xs q p rule: read_arguments.induct) auto

lemma driver_main_plain:
  assumes "''-p'' \<notin> set xs" "xs \<noteq> []"
  shows "driver_main (prog # xs) = Inr (Run (last xs) '''')"
  using assms by (simp add: driver_main_def parse_arguments_read read_arguments_no_option)

text \<open>C33. A final "-p" (with no "-p" before it) makes main read args[args.size()]: out-of-range access, undefined behaviour.\<close>

lemma driver_main_option_last:
  assumes "''-p'' \<notin> set xs"
  shows "driver_main (prog # xs @ [''-p'']) = Inl UndefinedBehaviour"
  using assms by (simp add: driver_main_def parse_arguments_read read_arguments_option_last)

text \<open>With one \<open>-p OPTION\<close> and no other \<open>-p\<close>, main runs on the last non-option argument after
  the option, with \<open>OPTION\<close> as the option file.\<close>

lemma driver_main_option:
  assumes "''-p'' \<notin> set xs" "''-p'' \<notin> set ys" "ys \<noteq> []" "opt_file \<noteq> ''-p''"
  shows "driver_main (prog # xs @ ''-p'' # opt_file # ys) = Inr (Run (last ys) opt_file)"
proof -
  have "read_arguments (xs @ ''-p'' # opt_file # ys) q p =
      read_arguments ys (if xs = [] then q else last xs) opt_file" for q p
    using assms(1) by (induction xs q p rule: read_arguments.induct) auto
  then show ?thesis
    using assms by (simp add: driver_main_def parse_arguments_read read_arguments_no_option)
qed


section \<open>Instances of the lemmas\<close>

lemma driver_main_option_last_witness:
  "(''-p'' \<notin> set [''a.dat'']) \<and>
   (driver_main [''qap_solver'', ''a.dat'', ''-p''] = Inl UndefinedBehaviour)"
proof -
  have h:
    "''-p'' \<notin> set [''a.dat'']"
    by (simp_all add: driver_main_def)
  show ?thesis
    using h driver_main_option_last[of "[''a.dat'']" "''qap_solver''", OF h] by simp
qed

lemma driver_main_option_witness:
  "(''-p'' \<notin> set ([] :: string list)) \<and>
   (''-p'' \<notin> set [''a.dat'']) \<and>
   ([''a.dat''] \<noteq> []) \<and>
   (''opt.json'' \<noteq> ''-p'') \<and>
   (driver_main [''qap_solver'', ''-p'', ''opt.json'', ''a.dat''] = Inr (Run ''a.dat'' ''opt.json''))"
proof -
  have h:
    "''-p'' \<notin> set ([] :: string list)"
    "''-p'' \<notin> set [''a.dat'']"
    "[''a.dat''] \<noteq> []"
    "''opt.json'' \<noteq> ''-p''"
    by (simp_all add: driver_main_def)
  show ?thesis
    using h driver_main_option[of "[]" "[''a.dat'']" "''opt.json''" "''qap_solver''", OF h] by simp
qed

end
