(* ===== verification/SolverSetup.thy ===== *)
theory SolverSetup
  imports SolverLoop
begin

text \<open>
  \<open>solve\<close> from its entry to the export of the result (\<open>cppmh/solver/solver.h\<close>, lines
  36--1097) around the outer loop of \<open>SolverLoop\<close>: the already-solved guard, the
  normalisation of the target objective, the initial neighbourhood switches, the first
  offer of the initial solution, and the optional Lagrange dual and local search phases.
  The model is represented by the facts \<open>solve\<close> reads from it (record \<open>model_facts\<close>);
  \<open>Model::setup\<close>, the two phase solvers and the tabu search are parameters. Their
  results are the records the source reads. The historical solution pool, the clock
  reads that only feed messages, and all printing are not modelled.
\<close>

record model_facts =
  mf_is_solved :: bool
  mf_sign :: int
  mf_is_defined_objective :: bool
  mf_is_linear :: bool
  mf_number_of_selection_variables :: int
  mf_number_of_not_fixed_variables :: int
  mf_constraint_sizes :: "nat list"
  mf_variable_sizes :: "nat list"
  mf_variable_names :: "string list"
  mf_initial_solution :: solution
  mf_initial_score :: solution_score
  mf_special_families :: neighborhood_flags

record lagrange_dual_result =
  ld_incumbent_holder :: "solution incumbent_holder"
  ld_number_of_iterations :: int

record local_search_result =
  ls_incumbent_holder :: "solution incumbent_holder"
  ls_memory :: memory
  ls_number_of_iterations :: int

type_synonym lagrange_dual_oracle =
  "solver_option \<Rightarrow> real proxies \<Rightarrow> real proxies \<Rightarrow> int proxies \<Rightarrow> solution incumbent_holder \<Rightarrow>
   lagrange_dual_result"

type_synonym local_search_oracle =
  "solver_option \<Rightarrow> real proxies \<Rightarrow> real proxies \<Rightarrow> int proxies \<Rightarrow> solution incumbent_holder \<Rightarrow>
   memory \<Rightarrow> local_search_result"

section \<open>Target objective (lines 72--85)\<close>

text \<open>\<open>OptionConstant::DEFAULT_TARGET_OBJECTIVE\<close> (in \<open>option.h\<close>, outside the sources) is
  the parameter \<open>default_target\<close>. A target that differs from the default is given in the
  user's sense and is multiplied by the model's sign; the default target is kept, or
  replaced by \<open>0\<close> when the model has no objective.\<close>

definition normalize_target ::
  "real \<Rightarrow> real \<Rightarrow> model_facts \<Rightarrow> solver_option \<Rightarrow> solver_option" where
  "normalize_target eps default_target mf opt =
     (let rate = target_objective_value opt / default_target - 1;
          opt = (if eps < \<bar>rate\<bar>
                 then opt\<lparr>target_objective_value := target_objective_value opt * of_int (mf_sign mf)\<rparr>
                 else opt)
      in if \<bar>rate\<bar> < eps \<and> \<not> mf_is_defined_objective mf
         then opt\<lparr>target_objective_value := 0\<rparr> else opt)"

section \<open>Neighbourhood switches (lines 110--148)\<close>

text \<open>\<open>Model::setup\<close> enables the special families it finds among those the option
  enables (\<open>mf_special_families\<close>); \<open>solve\<close> then enables the standard families.\<close>

definition initial_neighborhood :: "solver_option \<Rightarrow> model_facts \<Rightarrow> neighborhood_flags" where
  "initial_neighborhood opt mf =
     (let nb = mf_special_families mf;
          nb = (if is_enabled_binary_move opt then nb\<lparr>binary_move_enabled := True\<rparr> else nb);
          nb = (if is_enabled_integer_move opt then nb\<lparr>integer_move_enabled := True\<rparr> else nb);
          nb = (if is_enabled_user_defined_move opt then nb\<lparr>user_defined_move_enabled := True\<rparr> else nb)
      in if selection_mode opt \<noteq> SelectionNone then nb\<lparr>selection_move_enabled := True\<rparr> else nb)"

section \<open>The pre-loop phases (lines 205--455)\<close>

text \<open>Both phases offer the phase's global augmented incumbent and, if it found one,
  its feasible incumbent to the holder, and restart from the global augmented incumbent.\<close>

definition offer_phase_result ::
  "solution incumbent_holder \<Rightarrow> solution incumbent_holder \<Rightarrow> solution incumbent_holder" where
  "offer_phase_result rh h =
     (let h = snd (try_update_incumbent h (global_augmented_incumbent_solution rh)
                     (global_augmented_incumbent_score rh))
      in if found_feasible_solution rh
         then snd (try_update_incumbent h (feasible_incumbent_solution rh) (feasible_incumbent_score rh))
         else h)"

record phase_state =
  ph_holder :: "solution incumbent_holder"
  ph_current_solution :: solution
  ph_memory :: memory
  ph_lagrange_dual_iterations :: int
  ph_local_search_iterations :: int

definition lagrange_dual_phase ::
  "solver_option \<Rightarrow> model_facts \<Rightarrow> lagrange_dual_oracle \<Rightarrow> real proxies \<Rightarrow> real proxies \<Rightarrow>
   phase_state \<Rightarrow> phase_state" where
  "lagrange_dual_phase master mf ld local global s =
     (if \<not> is_enabled_lagrange_dual master then s
      else if \<not> mf_is_linear mf then s
      else if 0 < mf_number_of_selection_variables mf then s
      else (let r = ld master local global (variable_value_proxies (ph_current_solution s)) (ph_holder s);
                rh = ld_incumbent_holder r
            in s\<lparr>ph_current_solution := global_augmented_incumbent_solution rh,
                 ph_holder := offer_phase_result rh (ph_holder s),
                 ph_lagrange_dual_iterations := ld_number_of_iterations r\<rparr>))"

definition local_search_phase ::
  "solver_option \<Rightarrow> local_search_oracle \<Rightarrow> real proxies \<Rightarrow> real proxies \<Rightarrow> phase_state \<Rightarrow> phase_state" where
  "local_search_phase master lso local global s =
     (if \<not> is_enabled_local_search master then s
      else (let r = lso master local global (variable_value_proxies (ph_current_solution s)) (ph_holder s)
                      (ph_memory s);
                rh = ls_incumbent_holder r
            in s\<lparr>ph_current_solution := global_augmented_incumbent_solution rh,
                 ph_holder := offer_phase_result rh (ph_holder s),
                 ph_memory := ls_memory r,
                 ph_local_search_iterations := ls_number_of_iterations r\<rparr>))"

section \<open>\<open>solve\<close> (lines 36--1097)\<close>

text \<open>Lines 182--216: the penalty coefficients, \<open>Memory memory(model)\<close>, and the
  default-constructed holder (\<open>IncumbentHolder_T incumbent_holder;\<close>, its solution members
  the value \<open>s0\<close>) offered the initial solution and its score. Both penalty vectors start as
  copies of the same proxies, so the phases receive the same vector twice.\<close>

definition solve_phases ::
  "solver_option \<Rightarrow> model_facts \<Rightarrow> lagrange_dual_oracle \<Rightarrow> local_search_oracle \<Rightarrow> solution \<Rightarrow>
   phase_state" where
  "solve_phases master mf ld lso s0 =
     (let local = generate_parameter_proxies (mf_constraint_sizes mf) (initial_penalty_coefficient master);
          h = snd (try_update_incumbent (incumbent_holder_new s0 zero_score)
                     (mf_initial_solution mf) (mf_initial_score mf));
          m = memory_setup (mf_variable_sizes mf) (mf_variable_names mf) memory_new;
          s = \<lparr>ph_holder = h, ph_current_solution = mf_initial_solution mf, ph_memory = m,
               ph_lagrange_dual_iterations = 0, ph_local_search_iterations = 0\<rparr>
      in local_search_phase master lso local local (lagrange_dual_phase master mf ld local local s))"

text \<open>\<open>Result::status\<close> (lines 1073--1085) without the elapsed time, the model summary
  and the named maps, which are \<open>solve_result\<close>.\<close>

record solve_status =
  st_is_found_feasible_solution :: bool
  st_number_of_lagrange_dual_iterations :: int
  st_number_of_local_search_iterations :: int
  st_number_of_tabu_search_iterations :: int
  st_number_of_tabu_search_loops :: int

definition solve ::
  "real \<Rightarrow> real \<Rightarrow> solver_option \<Rightarrow> model_facts \<Rightarrow> lagrange_dual_oracle \<Rightarrow> local_search_oracle \<Rightarrow>
   tabu_search_oracle \<Rightarrow> (nat \<Rightarrow> 64 word) \<Rightarrow> (int \<Rightarrow> real) \<Rightarrow> solution \<Rightarrow>
   cpp_error + model_facts \<times> solve_result \<times> solve_status" where
  "solve eps default_target opt mf ld lso ts rng clock s0 =
     (if mf_is_solved mf then Inl (LogicError ''This model has already been solved.'')
      else (let mf = mf\<lparr>mf_is_solved := True\<rparr>;
                master = normalize_target eps default_target mf opt;
                nb = initial_neighborhood master mf;
                ph = solve_phases master mf ld lso s0;
                s = outer_init master (mf_constraint_sizes mf) (ph_holder ph) (ph_memory ph)
                      (ph_current_solution ph) nb;
                s = outer_loop master eps (mf_number_of_not_fixed_variables mf) ts rng clock s;
                r = solve_export s
            in Inr (mf, r,
                    \<lparr>st_is_found_feasible_solution = solution_is_feasible (result_solution r),
                     st_number_of_lagrange_dual_iterations = ph_lagrange_dual_iterations ph,
                     st_number_of_local_search_iterations = ph_local_search_iterations ph,
                     st_number_of_tabu_search_iterations = os_number_of_tabu_search_iterations s,
                     st_number_of_tabu_search_loops = os_number_of_tabu_search_loops s\<rparr>)))"

section \<open>Concrete instances\<close>

text \<open>A fresh linear model with two constraint proxies and a feasible initial solution,
  and phase solvers that return a fresh holder.\<close>

definition example_model_facts :: model_facts where
  "example_model_facts =
     \<lparr>mf_is_solved = False, mf_sign = 1, mf_is_defined_objective = True, mf_is_linear = True,
      mf_number_of_selection_variables = 0, mf_number_of_not_fixed_variables = 20,
      mf_constraint_sizes = [2, 1], mf_variable_sizes = [3], mf_variable_names = [''x''],
      mf_initial_solution = example_solution\<lparr>solution_is_feasible := True\<rparr>,
      mf_initial_score = zero_score\<lparr>is_feasible := True\<rparr>,
      mf_special_families = example_neighborhood\<rparr>"

definition example_lagrange_dual :: lagrange_dual_oracle where
  "example_lagrange_dual opt lp gp x h =
     \<lparr>ld_incumbent_holder = incumbent_holder_new example_solution zero_score,
      ld_number_of_iterations = 5\<rparr>"

definition example_local_search :: local_search_oracle where
  "example_local_search opt lp gp x h m =
     \<lparr>ls_incumbent_holder = incumbent_holder_new example_solution zero_score, ls_memory = m,
      ls_number_of_iterations = 3\<rparr>"

section \<open>Truthful solvers\<close>

text \<open>A solution offered with a feasible score is feasible; a holder reports truthfully
  when both registers \<open>solve\<close> reads from it (global augmented and feasible) do.
  \<open>feasible_export_ok\<close>: a finite feasible incumbent is a feasible solution, and the
  found flag is only set with a finite feasible incumbent.\<close>

definition truthful_pair :: "solution \<Rightarrow> solution_score \<Rightarrow> bool" where
  "truthful_pair sol sc \<longleftrightarrow> (is_feasible sc \<longrightarrow> solution_is_feasible sol)"

definition holder_truthful :: "solution incumbent_holder \<Rightarrow> bool" where
  "holder_truthful h \<longleftrightarrow>
     truthful_pair (global_augmented_incumbent_solution h) (global_augmented_incumbent_score h) \<and>
     truthful_pair (feasible_incumbent_solution h) (feasible_incumbent_score h)"

definition feasible_export_ok :: "solution incumbent_holder \<Rightarrow> bool" where
  "feasible_export_ok h \<longleftrightarrow>
     (feasible_incumbent_objective h \<noteq> Huge \<longrightarrow> solution_is_feasible (feasible_incumbent_solution h)) \<and>
     (found_feasible_solution h \<longrightarrow> feasible_incumbent_objective h \<noteq> Huge)"

section \<open>Lemmas\<close>

lemma try_update_export_ok:
  "truthful_pair sol sc \<Longrightarrow> feasible_export_ok h \<Longrightarrow>
   feasible_export_ok (snd (try_update_incumbent h sol sc))"
  unfolding try_update_incumbent_cases Let_def feasible_export_ok_def truthful_pair_def
  by (cases "feasible_incumbent_objective h") auto

lemma offer_phase_result_export_ok:
  "holder_truthful rh \<Longrightarrow> feasible_export_ok h \<Longrightarrow> feasible_export_ok (offer_phase_result rh h)"
  unfolding offer_phase_result_def holder_truthful_def Let_def by (simp add: try_update_export_ok)

lemma offer_phase_result_improves: "holder_improves h (offer_phase_result rh h)"
  unfolding offer_phase_result_def Let_def
  by (auto intro: holder_improves_trans[OF try_update_incumbent_improves try_update_incumbent_improves]
      try_update_incumbent_improves)

lemma offer_feasible_export_ok:
  "holder_truthful (result_incumbent_holder r) \<Longrightarrow> feasible_export_ok h \<Longrightarrow>
   feasible_export_ok (offer_feasible r h)"
  unfolding offer_feasible_def holder_truthful_def by (simp add: try_update_export_ok)

lemma outer_body_export_ok:
  assumes "\<forall>opt lp gp x h m nb. holder_truthful (result_incumbent_holder (ts opt lp gp x h m nb))"
    and "feasible_export_ok (os_holder s)"
  shows "feasible_export_ok (os_holder (outer_body master eps nfree ts rng e s))"
proof -
  have t: "holder_truthful (result_incumbent_holder (run_tabu_search master ts e s))"
    using assms(1) by (simp add: run_tabu_search_def)
  then show ?thesis
    unfolding outer_body_holder
    using assms(2) by (intro offer_feasible_export_ok try_update_export_ok) (simp_all add: holder_truthful_def)
qed

lemma outer_loop_export_ok:
  assumes t: "\<forall>opt lp gp x h m nb. holder_truthful (result_incumbent_holder (ts opt lp gp x h m nb))"
    and i: "feasible_export_ok (os_holder s)"
  shows "feasible_export_ok (os_holder (outer_loop master eps nfree ts rng clock s))"
  by (rule outer_loop_invariant[where I = "\<lambda>t. feasible_export_ok (os_holder t)"])
    (simp_all add: outer_body_export_ok[OF t] i)


lemma lagrange_dual_phase_improves:
  "holder_improves (ph_holder s) (ph_holder (lagrange_dual_phase master mf ld local global s))"
  by (simp add: lagrange_dual_phase_def Let_def offer_phase_result_improves holder_improves_refl)

lemma local_search_phase_improves:
  "holder_improves (ph_holder s) (ph_holder (local_search_phase master lso local global s))"
  by (simp add: local_search_phase_def Let_def offer_phase_result_improves holder_improves_refl)

lemma lagrange_dual_phase_export_ok:
  "\<forall>opt lp gp x h. holder_truthful (ld_incumbent_holder (ld opt lp gp x h)) \<Longrightarrow>
   feasible_export_ok (ph_holder s) \<Longrightarrow>
   feasible_export_ok (ph_holder (lagrange_dual_phase master mf ld local global s))"
  by (simp add: lagrange_dual_phase_def Let_def offer_phase_result_export_ok)

lemma local_search_phase_export_ok:
  "\<forall>opt lp gp x h m. holder_truthful (ls_incumbent_holder (lso opt lp gp x h m)) \<Longrightarrow>
   feasible_export_ok (ph_holder s) \<Longrightarrow>
   feasible_export_ok (ph_holder (local_search_phase master lso local global s))"
  by (simp add: local_search_phase_def Let_def offer_phase_result_export_ok)

lemma solve_phases_improves_initial:
  "holder_improves (snd (try_update_incumbent (incumbent_holder_new s0 zero_score)
      (mf_initial_solution mf) (mf_initial_score mf))) (ph_holder (solve_phases master mf ld lso s0))"
  unfolding solve_phases_def Let_def
  by (rule holder_improves_trans[OF _ local_search_phase_improves])
    (rule lagrange_dual_phase_improves[where s = "\<lparr>ph_holder = _, ph_current_solution = _, ph_memory = _,
       ph_lagrange_dual_iterations = _, ph_local_search_iterations = _\<rparr>", simplified])

lemma initial_offer_export_ok:
  "truthful_pair sol sc \<Longrightarrow>
   feasible_export_ok (snd (try_update_incumbent (incumbent_holder_new s0 zero_score) sol sc))"
  by (rule try_update_export_ok)
    (simp_all add: feasible_export_ok_def incumbent_holder_new_def incumbent_holder_initialize_def)

lemma initial_offer_fields:
  "local_augmented_incumbent_objective (snd (try_update_incumbent (incumbent_holder_new s0 sc0) sol sc)) =
     Finite (local_augmented_objective sc)"
  "global_augmented_incumbent_objective (snd (try_update_incumbent (incumbent_holder_new s0 sc0) sol sc)) =
     Finite (global_augmented_objective sc)"
  "found_feasible_solution (snd (try_update_incumbent (incumbent_holder_new s0 sc0) sol sc)) = is_feasible sc"
  "is_feasible sc \<Longrightarrow>
   feasible_incumbent_objective (snd (try_update_incumbent (incumbent_holder_new s0 sc0) sol sc)) =
     Finite (objective sc)"
  by (simp_all add: try_update_incumbent_cases Let_def incumbent_holder_new_def incumbent_holder_initialize_def)

lemma solve_phases_export_ok:
  "\<forall>opt lp gp x h. holder_truthful (ld_incumbent_holder (ld opt lp gp x h)) \<Longrightarrow>
   \<forall>opt lp gp x h m. holder_truthful (ls_incumbent_holder (lso opt lp gp x h m)) \<Longrightarrow>
   truthful_pair (mf_initial_solution mf) (mf_initial_score mf) \<Longrightarrow>
   feasible_export_ok (ph_holder (solve_phases master mf ld lso s0))"
  unfolding solve_phases_def Let_def
  by (intro local_search_phase_export_ok lagrange_dual_phase_export_ok) (simp_all add: initial_offer_export_ok)

lemma solve_Inr:
  "\<not> mf_is_solved mf \<Longrightarrow>
   solve eps default_target opt mf ld lso ts rng clock s0 =
     (let mf = mf\<lparr>mf_is_solved := True\<rparr>;
          master = normalize_target eps default_target mf opt;
          ph = solve_phases master mf ld lso s0;
          s = outer_loop master eps (mf_number_of_not_fixed_variables mf) ts rng clock
                (outer_init master (mf_constraint_sizes mf) (ph_holder ph) (ph_memory ph)
                   (ph_current_solution ph) (initial_neighborhood master mf))
      in Inr (mf, solve_export s,
              \<lparr>st_is_found_feasible_solution = solution_is_feasible (result_solution (solve_export s)),
               st_number_of_lagrange_dual_iterations = ph_lagrange_dual_iterations ph,
               st_number_of_local_search_iterations = ph_local_search_iterations ph,
               st_number_of_tabu_search_iterations = os_number_of_tabu_search_iterations s,
               st_number_of_tabu_search_loops = os_number_of_tabu_search_loops s\<rparr>))"
  by (simp add: solve_def Let_def)


lemma normalize_target_fields [simp]:
  "initial_penalty_coefficient (normalize_target eps d mf opt) = initial_penalty_coefficient opt"
  "penalty_parameters_ok (normalize_target eps d mf opt) = penalty_parameters_ok opt"
  "is_enabled_lagrange_dual (normalize_target eps d mf opt) = is_enabled_lagrange_dual opt"
  by (simp_all add: normalize_target_def Let_def penalty_parameters_ok_def)

lemma solve_feasible_Inr:
  assumes ns: "\<not> mf_is_solved mf"
    and feas: "is_feasible (mf_initial_score mf)" "solution_is_feasible (mf_initial_solution mf)"
    and ld: "\<forall>opt lp gp x h. holder_truthful (ld_incumbent_holder (ld opt lp gp x h))"
    and lso: "\<forall>opt lp gp x h m. holder_truthful (ls_incumbent_holder (lso opt lp gp x h m))"
    and tst: "\<forall>opt lp gp x h m nb. holder_truthful (result_incumbent_holder (ts opt lp gp x h m nb))"
  shows "\<exists>mf' r st. solve eps default_target opt mf ld lso ts rng clock s0 = Inr (mf', r, st) \<and>
           solution_is_feasible (result_solution r) \<and> st_is_found_feasible_solution st"
proof -
  define mf1 where "mf1 = mf\<lparr>mf_is_solved := True\<rparr>"
  define master where "master = normalize_target eps default_target mf1 opt"
  define ph where "ph = solve_phases master mf1 ld lso s0"
  define s where "s = outer_init master (mf_constraint_sizes mf1) (ph_holder ph) (ph_memory ph)
                        (ph_current_solution ph) (initial_neighborhood master mf1)"
  define t where "t = outer_loop master eps (mf_number_of_not_fixed_variables mf1) ts rng clock s"
  have hs: "os_holder s = ph_holder ph" by (simp add: s_def outer_init_def)
  have found0: "found_feasible_solution (ph_holder ph)"
    using solve_phases_improves_initial[of s0 mf1 master ld lso] feas
    by (simp add: ph_def holder_improves_def mf1_def initial_offer_fields)
  have ok0: "feasible_export_ok (ph_holder ph)"
    using solve_phases_export_ok[OF ld lso] feas by (simp add: ph_def truthful_pair_def mf1_def)
  have found: "found_feasible_solution (os_holder t)"
    using outer_loop_improves[of s master eps _ ts rng clock] found0 hs
    by (simp add: t_def holder_improves_def)
  have ok: "feasible_export_ok (os_holder t)"
    using outer_loop_export_ok[OF tst] ok0 hs by (simp add: t_def)
  have fe: "solution_is_feasible (result_solution (solve_export t))"
    using found ok by (simp add: solve_export_def solve_incumbent_def feasible_export_ok_def)
  show ?thesis
    using ns fe by (simp add: solve_Inr Let_def mf1_def master_def ph_def s_def t_def)
qed

text \<open>C36. If the initial solution is feasible, solve returns a feasible solution and reports it feasible, whatever the phases and the tabu searches find, provided the Lagrange dual solver, the local search and the tabu search only pair a feasible score with a feasible solution.\<close>

theorem solve_feasible_result:
  assumes ns: "\<not> mf_is_solved mf"
    and feas: "is_feasible (mf_initial_score mf)" "solution_is_feasible (mf_initial_solution mf)"
    and ld: "\<forall>opt lp gp x h. holder_truthful (ld_incumbent_holder (ld opt lp gp x h))"
    and lso: "\<forall>opt lp gp x h m. holder_truthful (ls_incumbent_holder (lso opt lp gp x h m))"
    and tst: "\<forall>opt lp gp x h m nb. holder_truthful (result_incumbent_holder (ts opt lp gp x h m nb))"
  shows "\<exists>mf' r st. solve eps default_target opt mf ld lso ts rng clock s0 = Inr (mf', r, st) \<and>
           solution_is_feasible (result_solution r) \<and> st_is_found_feasible_solution st"
  using assms by (rule solve_feasible_Inr)

text \<open>C37. solve throws std::logic_error exactly on a model already solved; otherwise it marks the model solved, so a second solve of the same model throws.\<close>

theorem solve_second_call:
  "(case solve eps default_target opt mf ld lso ts rng clock s0 of
      Inl e \<Rightarrow> mf_is_solved mf \<and> e = LogicError ''This model has already been solved.''
    | Inr (mf', _) \<Rightarrow> mf' = mf\<lparr>mf_is_solved := True\<rparr> \<and> \<not> mf_is_solved mf \<and>
        solve eps' default_target' opt' mf' ld' lso' ts' rng' clock' s0' =
          Inl (LogicError ''This model has already been solved.''))"
  by (cases "mf_is_solved mf") (simp_all add: solve_Inr Let_def solve_def)

text \<open>C38. The Lagrange dual and local search phases before the outer loop never return an incumbent worse than the initial solution: the local and global augmented incumbent objectives are at most the initial solution's, and a feasible initial solution stays found with a feasible incumbent objective at most its objective.\<close>

theorem solve_phases_not_worse:
  "local_augmented_incumbent_objective (ph_holder (solve_phases master mf ld lso s0))
     \<le> Finite (local_augmented_objective (mf_initial_score mf)) \<and>
   global_augmented_incumbent_objective (ph_holder (solve_phases master mf ld lso s0))
     \<le> Finite (global_augmented_objective (mf_initial_score mf)) \<and>
   (is_feasible (mf_initial_score mf) \<longrightarrow>
      found_feasible_solution (ph_holder (solve_phases master mf ld lso s0)) \<and>
      feasible_incumbent_objective (ph_holder (solve_phases master mf ld lso s0))
        \<le> Finite (objective (mf_initial_score mf)))"
  using solve_phases_improves_initial[of s0 mf master ld lso]
  by (auto simp: holder_improves_def initial_offer_fields)


text \<open>C39. With valid penalty parameters and a tabu search whose violations fit the constraints, solve on a fresh model exports penalty coefficients that lie in [0, initial_penalty_coefficient] and have the model's constraint shape, so the export loop over the constraint proxies indexes them in range.\<close>

theorem solve_penalty_result:
  assumes ns: "\<not> mf_is_solved mf" and ok: "penalty_parameters_ok opt"
    and fits: "\<And>opt lp gp x h m nb. proxy_ids_ok lp \<Longrightarrow>
        violations_fit lp (violation_value_proxies (local_augmented_incumbent_solution
          (result_incumbent_holder (ts opt lp gp x h m nb))))"
  shows "\<exists>mf' r st. solve eps default_target opt mf ld lso ts rng clock s0 = Inr (mf', r, st) \<and>
           coefficients_in_range (initial_penalty_coefficient opt) (result_penalty_coefficients r) \<and>
           proxy_shape (result_penalty_coefficients r) = mf_constraint_sizes mf"
proof -
  define mf1 where "mf1 = mf\<lparr>mf_is_solved := True\<rparr>"
  define master where "master = normalize_target eps default_target mf1 opt"
  define ph where "ph = solve_phases master mf1 ld lso s0"
  define s where "s = outer_init master (mf_constraint_sizes mf1) (ph_holder ph) (ph_memory ph)
                        (ph_current_solution ph) (initial_neighborhood master mf1)"
  let ?I = "\<lambda>t. loop_penalty_ok master t \<and> proxy_shape (os_global_penalty t) = mf_constraint_sizes mf"
  have okm: "penalty_parameters_ok master" using ok by (simp add: master_def)
  have init: "?I s"
    using outer_init_penalty okm by (simp add: s_def penalty_parameters_ok_def) (simp add: outer_init_def mf1_def)
  have step: "?I (outer_body master eps nfree ts rng e t)" if "?I t" for t nfree e
    using that outer_body_penalty[where ts = ts, OF okm fits] by (simp add: outer_body_fields)
  have "?I (outer_loop master eps (mf_number_of_not_fixed_variables mf1) ts rng clock s)"
    by (rule outer_loop_invariant[where I = ?I]) (simp_all add: step init)
  then show ?thesis
    using ns by (simp add: solve_Inr Let_def mf1_def master_def ph_def s_def solve_export_def
        loop_penalty_ok_def)
qed

text \<open>C40. When the model is nonlinear or has selection variables, solve skips the Lagrange dual phase and reports zero Lagrange dual iterations, whatever the dual solver would return.\<close>

theorem solve_lagrange_dual_skipped:
  assumes "\<not> mf_is_solved mf" "\<not> mf_is_linear mf \<or> 0 < mf_number_of_selection_variables mf"
  shows "\<exists>mf' r st. solve eps default_target opt mf ld lso ts rng clock s0 = Inr (mf', r, st) \<and>
           st_number_of_lagrange_dual_iterations st = 0"
  using assms
  by (auto simp: solve_Inr Let_def solve_phases_def lagrange_dual_phase_def local_search_phase_def)


section \<open>Instances of the lemmas\<close>

lemma solve_feasible_result_witness:
  "\<not> mf_is_solved example_model_facts \<and> is_feasible (mf_initial_score example_model_facts) \<and>
   solution_is_feasible (mf_initial_solution example_model_facts) \<and>
   (\<exists>mf' r st. solve 0 1 example_solver_option example_model_facts example_lagrange_dual
      example_local_search example_tabu_search (\<lambda>_. 0) (\<lambda>_. 0) example_solution = Inr (mf', r, st) \<and>
      solution_is_feasible (result_solution r) \<and> st_is_found_feasible_solution st)"
proof -
  have h:
    "\<not> mf_is_solved example_model_facts"
    "is_feasible (mf_initial_score example_model_facts)"
    "solution_is_feasible (mf_initial_solution example_model_facts)"
    "\<forall>opt lp gp x h. holder_truthful (ld_incumbent_holder (example_lagrange_dual opt lp gp x h))"
    "\<forall>opt lp gp x h m. holder_truthful (ls_incumbent_holder (example_local_search opt lp gp x h m))"
    "\<forall>opt lp gp x h m nb. holder_truthful (result_incumbent_holder (example_tabu_search opt lp gp x h m nb))"
    by (simp_all add: example_model_facts_def example_lagrange_dual_def example_local_search_def
        example_tabu_search_def holder_truthful_def truthful_pair_def incumbent_holder_new_def
        incumbent_holder_initialize_def zero_score_def)
  show ?thesis
    using h solve_feasible_result[where ld = example_lagrange_dual and lso = example_local_search
        and ts = example_tabu_search, OF h, of 0 1 example_solver_option "\<lambda>_. 0" "\<lambda>_. 0" example_solution]
    by blast
qed

lemma solve_phases_not_worse_witness:
  "is_feasible (mf_initial_score example_model_facts) \<and>
   found_feasible_solution (ph_holder (solve_phases example_solver_option example_model_facts
      example_lagrange_dual example_local_search example_solution)) \<and>
   feasible_incumbent_objective (ph_holder (solve_phases example_solver_option example_model_facts
      example_lagrange_dual example_local_search example_solution)) \<le> Finite 0"
proof -
  have h: "is_feasible (mf_initial_score example_model_facts)"
    "objective (mf_initial_score example_model_facts) = 0"
    by (simp_all add: example_model_facts_def zero_score_def)
  show ?thesis
    using h solve_phases_not_worse[of example_solver_option example_model_facts example_lagrange_dual
        example_local_search example_solution]
    by simp
qed

lemma solve_penalty_result_witness:
  "\<not> mf_is_solved example_model_facts \<and> penalty_parameters_ok example_solver_option \<and>
   (\<exists>mf' r st. solve 0 1 example_solver_option example_model_facts example_lagrange_dual
      example_local_search example_tabu_search (\<lambda>_. 0) (\<lambda>_. 0) example_solution = Inr (mf', r, st) \<and>
      coefficients_in_range (initial_penalty_coefficient example_solver_option) (result_penalty_coefficients r) \<and>
      proxy_shape (result_penalty_coefficients r) = [2, 1])"
proof -
  have h: "\<not> mf_is_solved example_model_facts" "penalty_parameters_ok example_solver_option"
    by (simp_all add: example_model_facts_def example_solver_option_def penalty_parameters_ok_def)
  have fits: "\<And>opt lp gp x h m nb. proxy_ids_ok lp \<Longrightarrow>
      violations_fit lp (violation_value_proxies (local_augmented_incumbent_solution
        (result_incumbent_holder (example_tabu_search opt lp gp x h m nb))))"
    by (simp add: example_tabu_search_def incumbent_holder_new_def incumbent_holder_initialize_def
        example_solution_def violations_fit_map_proxies)
  have s: "mf_constraint_sizes example_model_facts = [2, 1]" by (simp add: example_model_facts_def)
  show ?thesis
    using h s solve_penalty_result[where ts = example_tabu_search, OF h fits,
        of 0 1 example_lagrange_dual example_local_search "\<lambda>_. 0" "\<lambda>_. 0" example_solution]
    by simp
qed

lemma solve_lagrange_dual_skipped_witness:
  "\<not> mf_is_solved (example_model_facts\<lparr>mf_is_linear := False\<rparr>) \<and>
   \<not> mf_is_linear (example_model_facts\<lparr>mf_is_linear := False\<rparr>) \<and>
   (\<exists>mf' r st. solve 0 1 (example_solver_option\<lparr>is_enabled_lagrange_dual := True\<rparr>)
      (example_model_facts\<lparr>mf_is_linear := False\<rparr>) example_lagrange_dual
      example_local_search example_tabu_search (\<lambda>_. 0) (\<lambda>_. 0) example_solution = Inr (mf', r, st) \<and>
      st_number_of_lagrange_dual_iterations st = 0)"
proof -
  have h: "\<not> mf_is_solved (example_model_facts\<lparr>mf_is_linear := False\<rparr>)"
    "\<not> mf_is_linear (example_model_facts\<lparr>mf_is_linear := False\<rparr>) \<or>
     0 < mf_number_of_selection_variables (example_model_facts\<lparr>mf_is_linear := False\<rparr>)"
    by (simp_all add: example_model_facts_def)
  have nl: "\<not> mf_is_linear (example_model_facts\<lparr>mf_is_linear := False\<rparr>)" by simp
  show ?thesis
    using h nl solve_lagrange_dual_skipped[OF h, of 0 1 "example_solver_option\<lparr>is_enabled_lagrange_dual := True\<rparr>"
        example_lagrange_dual example_local_search example_tabu_search "\<lambda>_. 0" "\<lambda>_. 0" example_solution]
    by blast
qed

end
