(* ===== verification/SolverMessages.thy ===== *)
theory SolverMessages
  imports SolverAdapt TabuSearchPrint
begin

text \<open>
  What \<open>solve\<close> reports about each outer loop (\<open>cppmh/solver/solver.h\<close>): whether the
  model has special neighbourhood moves at all (lines 150--161), the two flags the
  special neighbourhood update raises (lines 802--900), and the summary printed after
  each loop (lines 902--1013) as the list of messages, empty when the verbosity is below
  \<open>Verbose::Outer\<close>. The objective printed with \<open>%.3f\<close> after multiplication by the sign
  is the parameter \<open>fmt_e\<close>, the elapsed time the string \<open>elapsed\<close>.
\<close>

section \<open>Special neighbourhood moves\<close>

definition has_special_neighborhood_moves ::
  "nat \<Rightarrow> nat \<Rightarrow> nat \<Rightarrow> nat \<Rightarrow> solver_option \<Rightarrow> bool" where
  "has_special_neighborhood_moves n_aggregation n_precedence n_variable_bound n_exclusive opt =
     (let has = 0 < n_aggregation + n_precedence + n_variable_bound + n_exclusive
      in if is_enabled_chain_move opt then True else has)"

text \<open>One family of lines 802--900 raises its flag when the option enables it and the
  model's switch is not yet at the target.\<close>

definition switched_families :: "solver_option \<Rightarrow> bool \<Rightarrow> neighborhood_flags \<Rightarrow> bool" where
  "switched_families opt target nb \<longleftrightarrow>
     (is_enabled_aggregation_move opt \<and> aggregation_move_enabled nb \<noteq> target) \<or>
     (is_enabled_precedence_move opt \<and> precedence_move_enabled nb \<noteq> target) \<or>
     (is_enabled_variable_bound_move opt \<and> variable_bound_move_enabled nb \<noteq> target) \<or>
     (is_enabled_exclusive_move opt \<and> exclusive_move_enabled nb \<noteq> target) \<or>
     (is_enabled_chain_move opt \<and> chain_move_enabled nb \<noteq> target)"

text \<open>The pair \<open>(is_enabled_special_neighborhood_move, is_disabled_special_neighborhood_move)\<close>
  on the same branches as \<open>update_special_neighborhood\<close>; \<open>current\<close> is
  \<open>option.tabu_search.iteration_max\<close> of the loop.\<close>

definition special_neighborhood_flags ::
  "solver_option \<Rightarrow> int \<Rightarrow> tabu_search_result \<Rightarrow> neighborhood_flags \<Rightarrow> bool \<times> bool" where
  "special_neighborhood_flags opt current r nb =
     (if total_update_status r AND STATUS_GLOBAL_AUGMENTED_INCUMBENT_UPDATE \<noteq> 0
      then (False, switched_families opt False nb)
      else if \<not> is_early_stopped r \<and> current = ts_iteration_max (tabu_search opt)
      then (switched_families opt True nb, False)
      else (False, False))"

section \<open>The loop summary (lines 902--1013)\<close>

definition loop_status_message :: "solver_option \<Rightarrow> int \<Rightarrow> bool \<Rightarrow> string list" where
  "loop_status_message master status is_changed =
     (if status AND STATUS_FEASIBLE_INCUMBENT_UPDATE \<noteq> 0
      then [''Feasible incumbent objective was updated. '']
      else if status AND STATUS_GLOBAL_AUGMENTED_INCUMBENT_UPDATE \<noteq> 0
      then [''Global incumbent objective was updated. '']
      else if ts_is_enabled_initial_modification (tabu_search master) \<and> \<not> is_changed
      then [''Incumbent objective was not updated.'']
      else [])"

definition loop_summary_messages ::
  "e_format \<Rightarrow> string \<Rightarrow> solver_option \<Rightarrow> int \<Rightarrow> int \<Rightarrow> 's incumbent_holder \<Rightarrow> int \<Rightarrow> bool \<Rightarrow>
   bool \<Rightarrow> int \<Rightarrow> int \<Rightarrow> int \<Rightarrow> bool \<times> bool \<Rightarrow> bool \<Rightarrow> bool \<Rightarrow> string list" where
  "loop_summary_messages fmt_e elapsed master sign iteration h update_status is_changed
     penalty_coefficient_reset_flag next_inital_tabu_tenure next_number_of_initial_modification
     next_iteration_max special_flags has_special outer =
     (let (is_enabled_special, is_disabled_special) = special_flags
      in if \<not> outer then []
         else [''Tabu search loop ('' @ int_to_string (iteration + 1) @ ''/'' @
                 int_to_string (iteration_max master) @ '') was finished. Total elapsed time: '' @
                 elapsed @ ''sec'',
               '' - Global augmented incumbent objective: '' @
                 fmt_e (global_augmented_incumbent_objective h) sign,
               '' - Feasible incumbent objective: '' @ fmt_e (feasible_incumbent_objective h) sign] @
              loop_status_message master update_status is_changed @
              (if penalty_coefficient_reset_flag
               then [''The penalty coefficients were reset due to search stagnation.''] else []) @
              [''The tabu tenure for the next loop was set to '' @
                 int_to_string next_inital_tabu_tenure @ ''.''] @
              (if 0 < next_number_of_initial_modification
               then [''For the initial '' @ int_to_string next_number_of_initial_modification @
                     '' iterations in the next loop, the solution will be randomly updated to escape from the local minimum.'']
               else []) @
              (if ts_is_enabled_automatic_iteration_adjustment (tabu_search master)
               then [''The maximum number of iterations for the next loop was set to '' @
                     int_to_string next_iteration_max @ ''.'']
               else []) @
              (if is_disabled_special \<and> has_special
               then [''Special neighborhood moves were disabled.''] else []) @
              (if is_enabled_special \<and> has_special
               then [''Special neighborhood moves were enabled.''] else []))"

section \<open>Lemmas\<close>

lemma special_neighborhood_flags_exclusive:
  "\<not> (fst (special_neighborhood_flags opt current r nb) \<and> snd (special_neighborhood_flags opt current r nb))"
  by (simp add: special_neighborhood_flags_def)

lemma set_special_families_changed:
  "set_special_families opt target nb \<noteq> nb \<longleftrightarrow> switched_families opt target nb"
  by (cases nb) (auto simp: set_special_families_def switch_family_def switched_families_def)

lemma special_neighborhood_flags_changed:
  "(fst (special_neighborhood_flags opt current r nb) \<or> snd (special_neighborhood_flags opt current r nb))
     \<longleftrightarrow> update_special_neighborhood opt current r nb \<noteq> nb"
  by (simp add: special_neighborhood_flags_def update_special_neighborhood_def set_special_families_changed)

lemma loop_status_message_length: "length (loop_status_message master status is_changed) \<le> 1"
  by (simp add: loop_status_message_def)

lemma loop_summary_messages_length:
  assumes "special_flags = special_neighborhood_flags opt current r nb"
  shows "4 \<le> length (loop_summary_messages fmt_e elapsed master sign iteration h st ch reset tenure n_mod
                  it_max special_flags has_special True) \<and>
         length (loop_summary_messages fmt_e elapsed master sign iteration h st ch reset tenure n_mod
                  it_max special_flags has_special True) \<le> 9"
proof (cases special_flags)
  case (Pair e d)
  then have "\<not> (e \<and> d)"
    using assms special_neighborhood_flags_exclusive[of opt current r nb] by simp
  then show ?thesis
    using loop_status_message_length[of master st ch] Pair
    by (auto simp: loop_summary_messages_def)
qed

lemma loop_summary_messages_example:
  "loop_summary_messages (\<lambda>_ _. ''0.000'') ''1.250'' example_solver_option 1 0
     (incumbent_holder_new () zero_score) STATUS_FEASIBLE_INCUMBENT_UPDATE False False 10 0 100
     (False, False) True True =
   [''Tabu search loop (1/100) was finished. Total elapsed time: 1.250sec'',
    '' - Global augmented incumbent objective: 0.000'',
    '' - Feasible incumbent objective: 0.000'',
    ''Feasible incumbent objective was updated. '',
    ''The tabu tenure for the next loop was set to 10.'',
    ''The maximum number of iterations for the next loop was set to 100.'']"
  by code_simp

end
