(* ===== verification/ModelTests.thy ===== *)
theory ModelTests
  imports AbstractMultiArray
begin

text \<open>
  The unit tests of \<open>src/unnamed/part_000\<close> whose subject this development models: the
  set utilities and the generation of parameter proxies, whose names are built by the
  index labels of \<open>AbstractMultiArray\<close>. The library functions the tests call
  (\<open>utility::intersection_set\<close>, \<open>utility::union_set\<close>, \<open>Model::create_*\<close>,
  \<open>Model::setup_unique_name\<close>, \<open>Model::generate_*_parameter_proxies\<close>) are not under
  \<open>src/\<close> and are modelled from the specification (sections 4.1 and 6). Each
  \<open>TEST_F\<close> is a definition that evaluates its \<open>EXPECT_EQ\<close>s to a \<open>bool\<close>, inside the
  error sum where the code can throw; the lemmas show that every test passes.
\<close>

section \<open>Set utilities\<close>

definition intersection_set :: "'a set \<Rightarrow> 'a set \<Rightarrow> 'a set" where
  "intersection_set a b = {x \<in> a. x \<in> b}"

definition union_set :: "'a set \<Rightarrow> 'a set \<Rightarrow> 'a set" where
  "union_set a b = a \<union> b"

definition test_intersection_set :: bool where
  "test_intersection_set =
     (let set_int_0 = {1, 2, 3, 4, 5 :: int};
          set_int_1 = {3, 4, 5, 6, 7 :: int};
          set_string_0 = {''a'', ''b'', ''c'', ''d'', ''e''};
          set_string_1 = {''c'', ''d'', ''e'', ''f'', ''g''};
          intersection_int = intersection_set set_int_0 set_int_1;
          intersection_str = intersection_set set_string_0 set_string_1
      in (False = (1 \<in> intersection_int)) \<and> (False = (2 \<in> intersection_int)) \<and>
         (True = (3 \<in> intersection_int)) \<and> (True = (4 \<in> intersection_int)) \<and>
         (True = (5 \<in> intersection_int)) \<and> (False = (6 \<in> intersection_int)) \<and>
         (False = (7 \<in> intersection_int)) \<and>
         (False = (''a'' \<in> intersection_str)) \<and> (False = (''b'' \<in> intersection_str)) \<and>
         (True = (''c'' \<in> intersection_str)) \<and> (True = (''d'' \<in> intersection_str)) \<and>
         (True = (''e'' \<in> intersection_str)) \<and> (False = (''f'' \<in> intersection_str)) \<and>
         (False = (''g'' \<in> intersection_str)))"

definition test_union_set :: bool where
  "test_union_set =
     (let set_int_0 = {1, 2, 3, 4, 5 :: int};
          set_int_1 = {3, 4, 5, 6, 7 :: int};
          set_string_0 = {''a'', ''b'', ''c'', ''d'', ''e''};
          set_string_1 = {''c'', ''d'', ''e'', ''f'', ''g''};
          union_int = union_set set_int_0 set_int_1;
          union_str = union_set set_string_0 set_string_1
      in (True = (1 \<in> union_int)) \<and> (True = (2 \<in> union_int)) \<and>
         (True = (3 \<in> union_int)) \<and> (True = (4 \<in> union_int)) \<and>
         (True = (5 \<in> union_int)) \<and> (True = (6 \<in> union_int)) \<and>
         (True = (7 \<in> union_int)) \<and>
         (True = (''a'' \<in> union_str)) \<and> (True = (''b'' \<in> union_str)) \<and>
         (True = (''c'' \<in> union_str)) \<and> (True = (''d'' \<in> union_str)) \<and>
         (True = (''e'' \<in> union_str)) \<and> (True = (''f'' \<in> union_str)) \<and>
         (True = (''g'' \<in> union_str)))"

section \<open>Proxies of a model and their parameter proxies\<close>

text \<open>A proxy of the model: its name, its multi-dimensional array and, after
  \<open>setup_unique_name\<close>, the names of its elements. The three proxy lists of
  \<open>Model\<close> are selected by \<open>proxy_kind\<close>.\<close>

record proxy_decl =
  pd_name :: string
  pd_array :: abstract_multi_array
  pd_flat_indexed_names :: "string list"

datatype proxy_kind = VariableProxies | ExpressionProxies | ConstraintProxies

record model_decl =
  model_variable_proxies :: "proxy_decl list"
  model_expression_proxies :: "proxy_decl list"
  model_constraint_proxies :: "proxy_decl list"

record 'a parameter_proxy =
  pp_id :: int
  pp_array :: abstract_multi_array
  pp_flat_indexed_names :: "string list"
  pp_flat_indexed_values :: "'a list"

definition sum_bind :: "'e + 'a \<Rightarrow> ('a \<Rightarrow> 'e + 'b) \<Rightarrow> 'e + 'b" where
  "sum_bind x f = (case x of Inl e \<Rightarrow> Inl e | Inr a \<Rightarrow> f a)"

fun sum_sequence :: "('e + 'a) list \<Rightarrow> 'e + 'a list" where
  "sum_sequence [] = Inr []"
| "sum_sequence (x # xs) = sum_bind x (\<lambda>a. sum_bind (sum_sequence xs) (\<lambda>as. Inr (a # as)))"

definition model_new :: model_decl where
  "model_new = \<lparr>model_variable_proxies = [], model_expression_proxies = [], model_constraint_proxies = []\<rparr>"

definition model_proxies :: "proxy_kind \<Rightarrow> model_decl \<Rightarrow> proxy_decl list" where
  "model_proxies k m =
     (case k of VariableProxies \<Rightarrow> model_variable_proxies m
      | ExpressionProxies \<Rightarrow> model_expression_proxies m
      | ConstraintProxies \<Rightarrow> model_constraint_proxies m)"

definition set_model_proxies :: "proxy_kind \<Rightarrow> proxy_decl list \<Rightarrow> model_decl \<Rightarrow> model_decl" where
  "set_model_proxies k ps m =
     (case k of VariableProxies \<Rightarrow> m\<lparr>model_variable_proxies := ps\<rparr>
      | ExpressionProxies \<Rightarrow> m\<lparr>model_expression_proxies := ps\<rparr>
      | ConstraintProxies \<Rightarrow> m\<lparr>model_constraint_proxies := ps\<rparr>)"

text \<open>\<open>create_variable(name)\<close>, \<open>create_variables(name, n)\<close> and
  \<open>create_variables(name, shape)\<close> (and their twins for expressions and constraints): a
  new proxy whose id is its position, built by the matching \<open>AbstractMultiArray\<close>
  constructor \<open>mk\<close>.\<close>

definition create_proxy ::
  "proxy_kind \<Rightarrow> string \<Rightarrow> (int \<Rightarrow> cpp_error + abstract_multi_array) \<Rightarrow> model_decl \<Rightarrow>
   cpp_error + model_decl \<times> proxy_decl" where
  "create_proxy k name mk m =
     sum_bind (mk (int (length (model_proxies k m))))
       (\<lambda>a. let p = \<lparr>pd_name = name, pd_array = a, pd_flat_indexed_names = []\<rparr>
            in Inr (set_model_proxies k (model_proxies k m @ [p]) m, p))"

text \<open>\<open>set_name\<close> on one element of a proxy; an element never named has the empty
  name, so the name list of a fresh proxy is empty.\<close>

definition set_element_name :: "nat \<Rightarrow> string \<Rightarrow> proxy_decl \<Rightarrow> proxy_decl" where
  "set_element_name j s p =
     p\<lparr>pd_flat_indexed_names :=
         (pd_flat_indexed_names p @
          replicate (nat (number_of_elements (pd_array p)) - length (pd_flat_indexed_names p)) '''')[j := s]\<rparr>"

text \<open>\<open>setup_unique_name\<close> names every element that has no name yet by the proxy's name
  followed by its index label, and keeps the names already set.\<close>

definition setup_unique_name_proxy :: "proxy_decl \<Rightarrow> cpp_error + proxy_decl" where
  "setup_unique_name_proxy p =
     sum_bind (sum_sequence (map (\<lambda>i. indices_label (pd_array p) (int i))
                               [0..<nat (number_of_elements (pd_array p))]))
       (\<lambda>labels. Inr (p\<lparr>pd_flat_indexed_names :=
          map (\<lambda>(i, l). if i < length (pd_flat_indexed_names p) \<and> pd_flat_indexed_names p ! i \<noteq> ''''
                        then pd_flat_indexed_names p ! i else pd_name p @ l)
            (zip [0..<length labels] labels)\<rparr>))"

definition setup_unique_name :: "model_decl \<Rightarrow> cpp_error + model_decl" where
  "setup_unique_name m =
     sum_bind (sum_sequence (map setup_unique_name_proxy (model_variable_proxies m))) (\<lambda>vs.
     sum_bind (sum_sequence (map setup_unique_name_proxy (model_expression_proxies m))) (\<lambda>es.
     sum_bind (sum_sequence (map setup_unique_name_proxy (model_constraint_proxies m))) (\<lambda>cs.
       Inr \<lparr>model_variable_proxies = vs, model_expression_proxies = es,
            model_constraint_proxies = cs\<rparr>)))"

definition generate_named_parameter_proxies ::
  "proxy_kind \<Rightarrow> model_decl \<Rightarrow> 'a \<Rightarrow> 'a parameter_proxy list" where
  "generate_named_parameter_proxies k m v =
     map (\<lambda>p. \<lparr>pp_id = ama_id (pd_array p), pp_array = pd_array p,
               pp_flat_indexed_names = pd_flat_indexed_names p,
               pp_flat_indexed_values = replicate (nat (number_of_elements (pd_array p))) v\<rparr>)
       (model_proxies k m)"

text \<open>The solver's view of parameter proxies (\<open>Prelude.generate_parameter_proxies\<close>):
  the sizes of a proxy list, the condition that each proxy's id is its position, and the
  parameter proxy without its shape and names.\<close>

definition proxy_sizes :: "proxy_decl list \<Rightarrow> nat list" where
  "proxy_sizes ps = map (\<lambda>p. nat (number_of_elements (pd_array p))) ps"

definition ids_are_positions :: "proxy_decl list \<Rightarrow> bool" where
  "ids_are_positions ps \<longleftrightarrow> map (\<lambda>p. ama_id (pd_array p)) ps = map int [0..<length ps]"

definition forget_names :: "'a parameter_proxy \<Rightarrow> 'a value_proxy" where
  "forget_names pp = \<lparr>proxy_id = nat (pp_id pp), flat_indexed_values = pp_flat_indexed_values pp\<rparr>"

section \<open>The parameter proxy tests (lines 2824--2945)\<close>

text \<open>The \<open>EXPECT_EQ\<close>s on one parameter proxy: id, number of dimensions and elements,
  first and last flat name, and every value equal to the fill value.\<close>

definition expect_parameter_proxy ::
  "'a parameter_proxy \<Rightarrow> proxy_decl \<Rightarrow> int \<Rightarrow> int \<Rightarrow> string \<Rightarrow> string \<Rightarrow> 'a \<Rightarrow> bool" where
  "expect_parameter_proxy pp p dims elements first_name last_name fill \<longleftrightarrow>
     ama_id (pd_array p) = pp_id pp \<and>
     dims = number_of_dimensions (pp_array pp) \<and>
     elements = number_of_elements (pp_array pp) \<and>
     first_name = pp_flat_indexed_names pp ! 0 \<and>
     last_name = pp_flat_indexed_names pp ! nat (elements - 1) \<and>
     list_all (\<lambda>value. fill = value) (pp_flat_indexed_values pp)"

definition test_generate_parameter_proxies ::
  "proxy_kind \<Rightarrow> string \<Rightarrow> string \<Rightarrow> string \<Rightarrow> int \<Rightarrow> cpp_error + bool" where
  "test_generate_parameter_proxies k x_name y_name z_name fill_value =
     sum_bind (create_proxy k x_name ama_new model_new) (\<lambda>(model, x).
     sum_bind (create_proxy k y_name (\<lambda>i. ama_new_elements i 10) model) (\<lambda>(model, y).
     sum_bind (create_proxy k z_name (\<lambda>i. ama_new_shape i [10, 10]) model) (\<lambda>(model, z).
     sum_bind (setup_unique_name model) (\<lambda>model.
       let parameter_proxies = generate_named_parameter_proxies k model fill_value
       in Inr (length parameter_proxies = 3 \<and>
               expect_parameter_proxy (parameter_proxies ! 0) x 1 1 x_name x_name fill_value \<and>
               expect_parameter_proxy (parameter_proxies ! 1) y 1 10
                 (y_name @ ''[ 0]'') (y_name @ ''[ 9]'') fill_value \<and>
               expect_parameter_proxy (parameter_proxies ! 2) z 2 100
                 (z_name @ ''[ 0,  0]'') (z_name @ ''[ 9,  9]'') fill_value)))))"

definition test_generate_variable_parameter_proxies :: "int \<Rightarrow> cpp_error + bool" where
  "test_generate_variable_parameter_proxies =
     test_generate_parameter_proxies VariableProxies ''x'' ''y'' ''z''"

definition test_generate_expression_parameter_proxies :: "int \<Rightarrow> cpp_error + bool" where
  "test_generate_expression_parameter_proxies =
     test_generate_parameter_proxies ExpressionProxies ''p'' ''q'' ''r''"

definition test_generate_constraint_parameter_proxies :: "int \<Rightarrow> cpp_error + bool" where
  "test_generate_constraint_parameter_proxies =
     test_generate_parameter_proxies ConstraintProxies ''g'' ''h'' ''v''"

text \<open>\<open>TEST_F(TestModel, setup_unique_name)\<close> (lines 877--900): the names set by the
  user stay, the others are generated with the space-padded labels.\<close>

definition test_setup_unique_name :: "cpp_error + bool" where
  "test_setup_unique_name =
     sum_bind (create_proxy VariableProxies ''x'' ama_new model_new) (\<lambda>(model, x).
     sum_bind (create_proxy VariableProxies ''p'' (\<lambda>i. ama_new_shape i [10]) model) (\<lambda>(model, p).
     sum_bind (create_proxy VariableProxies ''g'' (\<lambda>i. ama_new_shape i [20, 30]) model) (\<lambda>(model, g).
       let model = set_model_proxies VariableProxies
             [set_element_name 0 ''_x'' x,
              set_element_name 9 ''_p_9'' (set_element_name 0 ''_p_0'' p),
              set_element_name 599 ''_g_19_29'' (set_element_name 0 ''_g_0_0'' g)] model
       in sum_bind (setup_unique_name model) (\<lambda>model.
            let names = map pd_flat_indexed_names (model_variable_proxies model)
            in Inr (''_x'' = names ! 0 ! 0 \<and>
                    ''_p_0'' = names ! 1 ! 0 \<and> ''p[ 1]'' = names ! 1 ! 1 \<and>
                    ''p[ 8]'' = names ! 1 ! 8 \<and> ''_p_9'' = names ! 1 ! 9 \<and>
                    ''_g_0_0'' = names ! 2 ! 0 \<and> ''g[ 0,  1]'' = names ! 2 ! 1 \<and>
                    ''g[19, 28]'' = names ! 2 ! (19 * 30 + 28) \<and>
                    ''_g_19_29'' = names ! 2 ! (19 * 30 + 29))))))"

section \<open>Lemmas\<close>

lemma sum_bind_Inr [simp]: "sum_bind x f = Inr b \<longleftrightarrow> (\<exists>a. x = Inr a \<and> f a = Inr b)"
  by (cases x) (simp_all add: sum_bind_def)

lemma sum_sequence_map_Inr:
  "sum_sequence (map f xs) = Inr ys \<Longrightarrow> list_all2 (\<lambda>x y. f x = Inr y) xs ys"
  by (induction xs arbitrary: ys) auto

lemma ids_are_positions_nth:
  "ids_are_positions ps \<Longrightarrow> i < length ps \<Longrightarrow> ama_id (pd_array (ps ! i)) = int i"
proof -
  assume a: "ids_are_positions ps" and i: "i < length ps"
  have "map (\<lambda>p. ama_id (pd_array p)) ps ! i = map int [0..<length ps] ! i"
    using a by (simp add: ids_are_positions_def)
  then show ?thesis using i by simp
qed

lemma generate_named_parameter_proxies_refines:
  assumes "ids_are_positions (model_proxies k m)"
  shows "map forget_names (generate_named_parameter_proxies k m v) =
           generate_parameter_proxies (proxy_sizes (model_proxies k m)) v"
proof (rule nth_equalityI)
  show "length (map forget_names (generate_named_parameter_proxies k m v)) =
        length (generate_parameter_proxies (proxy_sizes (model_proxies k m)) v)"
    by (simp add: generate_named_parameter_proxies_def proxy_sizes_def)
next
  fix i assume "i < length (map forget_names (generate_named_parameter_proxies k m v))"
  then have i: "i < length (model_proxies k m)" by (simp add: generate_named_parameter_proxies_def)
  show "map forget_names (generate_named_parameter_proxies k m v) ! i =
        generate_parameter_proxies (proxy_sizes (model_proxies k m)) v ! i"
    using ids_are_positions_nth[OF assms i] i
    by (simp add: forget_names_def generate_named_parameter_proxies_def generate_parameter_proxies_def
        proxy_sizes_def)
qed

lemma ama_constructors_id:
  "ama_new i = Inr a \<Longrightarrow> ama_id a = i"
  "ama_new_elements i n = Inr a \<Longrightarrow> ama_id a = i"
  "ama_new_shape i sh = Inr a \<Longrightarrow> ama_id a = i"
  by (auto simp: ama_new_def ama_new_elements_def ama_new_shape_def split: sum.splits if_splits)

lemma model_proxies_set [simp]:
  "model_proxies k (set_model_proxies k ps m) = ps"
  "k' \<noteq> k \<Longrightarrow> model_proxies k' (set_model_proxies k ps m) = model_proxies k' m"
  by (cases k; cases k'; simp add: model_proxies_def set_model_proxies_def)+

lemma create_proxy_positions:
  assumes mk: "\<And>i a. mk i = Inr a \<Longrightarrow> ama_id a = i"
    and ids: "ids_are_positions (model_proxies k m)"
    and c: "create_proxy k name mk m = Inr (m', p)"
  shows "ids_are_positions (model_proxies k m') \<and>
         (\<forall>k'. k' \<noteq> k \<longrightarrow> model_proxies k' m' = model_proxies k' m)"
  using c ids mk[of "int (length (model_proxies k m))"]
  by (auto simp: create_proxy_def ids_are_positions_def Let_def)

lemma setup_unique_name_proxy_array:
  "setup_unique_name_proxy p = Inr q \<Longrightarrow> pd_array q = pd_array p"
  by (auto simp: setup_unique_name_proxy_def)

lemma setup_unique_name_arrays:
  assumes "setup_unique_name m = Inr m'"
  shows "map pd_array (model_proxies k m') = map pd_array (model_proxies k m)"
proof -
  have a: "map pd_array ys = map pd_array xs"
    if "sum_sequence (map setup_unique_name_proxy xs) = Inr ys" for xs ys
    using sum_sequence_map_Inr[OF that]
    by (induction rule: list_all2_induct) (auto dest: setup_unique_name_proxy_array)
  show ?thesis
    using assms by (cases k) (auto simp: setup_unique_name_def model_proxies_def dest!: a)
qed

lemma ids_are_positions_arrays:
  "map pd_array ps' = map pd_array ps \<Longrightarrow> ids_are_positions ps' = ids_are_positions ps"
proof -
  assume "map pd_array ps' = map pd_array ps"
  then have "map ama_id (map pd_array ps') = map ama_id (map pd_array ps)"
    "length (map pd_array ps') = length (map pd_array ps)" by simp_all
  then have "map (\<lambda>p. ama_id (pd_array p)) ps' = map (\<lambda>p. ama_id (pd_array p)) ps"
    "length ps' = length ps" by (simp_all add: comp_def)
  then show ?thesis by (simp add: ids_are_positions_def)
qed

lemma proxy_sizes_arrays:
  "map pd_array ps' = map pd_array ps \<Longrightarrow> proxy_sizes ps' = proxy_sizes ps"
proof -
  assume "map pd_array ps' = map pd_array ps"
  then have "map (\<lambda>a. nat (number_of_elements a)) (map pd_array ps') =
             map (\<lambda>a. nat (number_of_elements a)) (map pd_array ps)" by simp
  then show ?thesis by (simp add: proxy_sizes_def comp_def)
qed

lemma generate_after_setup_unique_name:
  assumes "ids_are_positions (model_proxies k m)" "setup_unique_name m = Inr m'"
  shows "map forget_names (generate_named_parameter_proxies k m' v) =
           generate_parameter_proxies (proxy_sizes (model_proxies k m)) v"
proof -
  have a: "map pd_array (model_proxies k m') = map pd_array (model_proxies k m)"
    by (rule setup_unique_name_arrays[OF assms(2)])
  have "ids_are_positions (model_proxies k m')"
    using assms(1) ids_are_positions_arrays[OF a] by simp
  then show ?thesis
    using generate_named_parameter_proxies_refines[of k m' v] proxy_sizes_arrays[OF a] by simp
qed


section \<open>The tests pass\<close>

lemma test_intersection_set_passes: "test_intersection_set"
  by (simp add: test_intersection_set_def intersection_set_def)

lemma test_union_set_passes: "test_union_set"
  by (simp add: test_union_set_def union_set_def)

text \<open>The parameter proxy tests pass for every fill value (the tests draw it at random):
  the names are the base name followed by the space-padded index label.\<close>

lemma test_generate_variable_parameter_proxies_passes:
  "test_generate_variable_parameter_proxies fill_value = Inr True"
  unfolding test_generate_variable_parameter_proxies_def by code_simp

lemma test_generate_expression_parameter_proxies_passes:
  "test_generate_expression_parameter_proxies fill_value = Inr True"
  unfolding test_generate_expression_parameter_proxies_def by code_simp

lemma test_generate_constraint_parameter_proxies_passes:
  "test_generate_constraint_parameter_proxies fill_value = Inr True"
  unfolding test_generate_constraint_parameter_proxies_def by code_simp

text \<open>The naming test, through the names of single elements: only four labels are
  computed.\<close>

lemma sum_sequence_map_all_Inr:
  "(\<And>x. x \<in> set xs \<Longrightarrow> f x = Inr (g x)) \<Longrightarrow> sum_sequence (map f xs) = Inr (map g xs)"
  by (induction xs) (simp_all add: sum_bind_def)

lemma setup_unique_name_proxy_ok:
  assumes "\<And>i. i < nat (number_of_elements (pd_array p)) \<Longrightarrow> indices_label (pd_array p) (int i) = Inr (g i)"
  shows "setup_unique_name_proxy p =
    Inr (p\<lparr>pd_flat_indexed_names :=
      map (\<lambda>i. if i < length (pd_flat_indexed_names p) \<and> pd_flat_indexed_names p ! i \<noteq> ''''
                then pd_flat_indexed_names p ! i else pd_name p @ g i)
        [0..<nat (number_of_elements (pd_array p))]\<rparr>)"
proof -
  have s: "sum_sequence (map (\<lambda>i. indices_label (pd_array p) (int i)) [0..<nat (number_of_elements (pd_array p))]) =
      Inr (map g [0..<nat (number_of_elements (pd_array p))])"
    by (rule sum_sequence_map_all_Inr) (simp add: assms)
  show ?thesis
    unfolding setup_unique_name_proxy_def s
    by (simp add: sum_bind_def zip_map2 zip_same_conv_map comp_def)
qed

lemma indices_label_total:
  "0 \<notin> set (take (number_of_dimensions a) (strides a)) \<Longrightarrow>
   indices_label a f =
     Inr (if number_of_elements a = 1 then ''''
          else ''['' @ join_entries (map (format_int (max_digits a))
                         (md_index f (take (number_of_dimensions a) (strides a)))) @ '']'')"
  by (simp add: indices_label_def multi_dimensional_index_def)

lemma test_setup_unique_name_passes: "test_setup_unique_name = Inr True"
proof -
  let ?label = "\<lambda>a f. if number_of_elements a = 1 then ''''
          else ''['' @ join_entries (map (format_int (max_digits a))
                         (md_index f (take (number_of_dimensions a) (strides a)))) @ '']''"
  have ok: "setup_unique_name_proxy p =
    Inr (p\<lparr>pd_flat_indexed_names :=
      map (\<lambda>i. if i < length (pd_flat_indexed_names p) \<and> pd_flat_indexed_names p ! i \<noteq> ''''
                then pd_flat_indexed_names p ! i else pd_name p @ ?label (pd_array p) (int i))
        [0..<nat (number_of_elements (pd_array p))]\<rparr>)"
    if "0 \<notin> set (take (number_of_dimensions (pd_array p)) (strides (pd_array p)))" for p
    by (rule setup_unique_name_proxy_ok) (rule indices_label_total[OF that])
  show ?thesis
    unfolding test_setup_unique_name_def
    apply (simp add: create_proxy_def sum_bind_def model_new_def set_model_proxies_def model_proxies_def
        ama_new_def ama_new_shape_def compute_strides_def setup_unique_name_def ok set_element_name_def
        Let_def sdiv_nonneg smod_mod_positive format_int_def int_to_string_def nth_append nat_to_string.simps)
    by code_simp
qed

end
