(* ===== verification/MemoryPrint.thy ===== *)
theory MemoryPrint
  imports Memory AbstractMultiArray
begin

text \<open>
  The debug printers of \<open>Memory\<close> (\<open>printemps/solver/memory.h\<close>, lines 77--116):
  \<open>print_last_update_iterations\<close>, \<open>print_update_counts\<close> and \<open>print_frequency\<close> as
  the list of lines they print. The three share one loop: for each variable name, each
  element of the proxy at the same position, the name, the proxy's index label, and the
  value. The label of element \<open>j\<close> of proxy \<open>i\<close> (\<open>ValueProxy::indices_label\<close>) is the
  parameter \<open>label\<close>; \<open>std::to_string\<close> of a double is the parameter \<open>fmt\<close>, given
  \<open>None\<close> for the non-finite quotient of a division by a zero total.
  Reading the proxy list past its end is undefined behaviour.
\<close>

definition print_proxy_values ::
  "(nat \<Rightarrow> nat \<Rightarrow> string) \<Rightarrow> ('a \<Rightarrow> string) \<Rightarrow> string list \<Rightarrow> 'a proxies \<Rightarrow>
   cpp_error + string list" where
  "print_proxy_values label show_value names proxies =
     (if length proxies < length names then Inl UndefinedBehaviour
      else Inr (concat (map (\<lambda>i. map (\<lambda>j. names ! i @ label i j @ '' = '' @
                                         show_value (flat_indexed_values (proxies ! i) ! j))
                                     [0..<length (flat_indexed_values (proxies ! i))])
                           [0..<length names])))"

definition print_last_update_iterations ::
  "(nat \<Rightarrow> nat \<Rightarrow> string) \<Rightarrow> memory \<Rightarrow> cpp_error + string list" where
  "print_last_update_iterations label m =
     print_proxy_values label int_to_string (variable_names m) (last_update_iterations m)"

definition print_update_counts :: "(nat \<Rightarrow> nat \<Rightarrow> string) \<Rightarrow> memory \<Rightarrow> cpp_error + string list" where
  "print_update_counts label m =
     print_proxy_values label int_to_string (variable_names m) (update_counts m)"

definition frequency :: "memory \<Rightarrow> int \<Rightarrow> real option" where
  "frequency m c =
     (if total_update_counts m = 0 then None
      else Some (real_of_int c / real_of_int (total_update_counts m)))"

definition print_frequency ::
  "(nat \<Rightarrow> nat \<Rightarrow> string) \<Rightarrow> (real option \<Rightarrow> string) \<Rightarrow> memory \<Rightarrow> cpp_error + string list" where
  "print_frequency label fmt m =
     print_proxy_values label (\<lambda>c. fmt (frequency m c)) (variable_names m) (update_counts m)"

section \<open>Lemmas\<close>

lemma length_all_values_shape: "length (all_values ps) = sum_list (proxy_shape ps)"
  by (simp add: all_values_def proxy_shape_def length_concat comp_def)

lemma proxy_shape_upt:
  "proxy_shape ps = map (\<lambda>i. length (flat_indexed_values (ps ! i))) [0..<length ps]"
  unfolding proxy_shape_def by (rule nth_equalityI) simp_all

lemma print_proxy_values_length:
  assumes "length names = length proxies"
  shows "\<exists>ls. print_proxy_values label show_value names proxies = Inr ls \<and>
              length ls = sum_list (proxy_shape proxies)"
proof -
  have "length (concat (map (\<lambda>i. map (\<lambda>j. names ! i @ label i j @ '' = '' @
             show_value (flat_indexed_values (proxies ! i) ! j))
           [0..<length (flat_indexed_values (proxies ! i))]) [0..<length names])) =
        sum_list (map (\<lambda>i. length (flat_indexed_values (proxies ! i))) [0..<length proxies])"
    unfolding length_concat map_map comp_def length_map length_upt assms by simp
  then show ?thesis
    using assms by (simp only: print_proxy_values_def proxy_shape_upt) simp
qed

text \<open>Under the memory invariant the three printers succeed and print one line per
  element of the variables.\<close>

lemma memory_printers_total:
  assumes "memory_inv m"
  shows "\<exists>ls. print_update_counts label m = Inr ls \<and> length ls = length (all_values (update_counts m))"
    "\<exists>ls. print_frequency label fmt m = Inr ls \<and> length ls = length (all_values (update_counts m))"
    "\<exists>ls. print_last_update_iterations label m = Inr ls \<and>
          length ls = length (all_values (update_counts m))"
proof -
  have s: "proxy_shape (last_update_iterations m) = proxy_shape (update_counts m)"
    and l: "length (variable_names m) = length (update_counts m)"
    using assms by (simp_all add: memory_inv_def)
  have "length (proxy_shape (last_update_iterations m)) = length (proxy_shape (update_counts m))"
    using s by simp
  then have n: "length (variable_names m) = length (update_counts m)"
    "length (variable_names m) = length (last_update_iterations m)"
    "sum_list (proxy_shape (last_update_iterations m)) = length (all_values (update_counts m))"
    using l s by (simp_all add: proxy_shape_def length_all_values_shape)
  show "\<exists>ls. print_update_counts label m = Inr ls \<and> length ls = length (all_values (update_counts m))"
    using print_proxy_values_length[OF n(1)] by (simp add: print_update_counts_def length_all_values_shape)
  show "\<exists>ls. print_frequency label fmt m = Inr ls \<and> length ls = length (all_values (update_counts m))"
    using print_proxy_values_length[OF n(1)] by (simp add: print_frequency_def length_all_values_shape)
  show "\<exists>ls. print_last_update_iterations label m = Inr ls \<and>
          length ls = length (all_values (update_counts m))"
    using print_proxy_values_length[OF n(2)] n(3) by (simp add: print_last_update_iterations_def)
qed

text \<open>C10. In every memory a run can reach, the three debug printers of \<open>Memory\<close> never
  read past the proxy list (no undefined behaviour) and print exactly one line per element
  of the model's variable proxies.\<close>

theorem memory_printers_reachable:
  assumes "memory_reachable sizes names m"
  shows "(\<exists>ls. print_update_counts label m = Inr ls \<and> length ls = sum_list sizes) \<and>
         (\<exists>ls. print_frequency label fmt m = Inr ls \<and> length ls = sum_list sizes) \<and>
         (\<exists>ls. print_last_update_iterations label m = Inr ls \<and> length ls = sum_list sizes)"
proof -
  have i: "memory_inv m" using assms by (rule memory_reachable_inv)
  have "length (all_values (update_counts m)) = sum_list sizes"
    using memory_reachable_shape [OF assms] by (simp add: length_all_values_shape)
  then show ?thesis using memory_printers_total [OF i] by simp
qed

theorem memory_printers_reachable_witness:
  "memory_reachable [2] [''x''] (memory_setup [2] [''x''] memory_new) \<and>
   (\<exists>ls. print_update_counts (\<lambda>_ _. '''') (memory_setup [2] [''x''] memory_new) = Inr ls \<and> length ls = 2) \<and>
   (\<exists>ls. print_frequency (\<lambda>_ _. '''') (\<lambda>_. '''') (memory_setup [2] [''x''] memory_new) = Inr ls \<and> length ls = 2) \<and>
   (\<exists>ls. print_last_update_iterations (\<lambda>_ _. '''') (memory_setup [2] [''x''] memory_new) = Inr ls \<and> length ls = 2)"
proof -
  have r: "memory_reachable [2] [''x''] (memory_setup [2] [''x''] memory_new)"
    by (rule reachable_setup) simp
  show ?thesis
    using r memory_printers_reachable [OF r, where label = "\<lambda>_ _. ''''" and fmt = "\<lambda>_. ''''"] by simp
qed

lemma print_update_counts_example:
  "print_update_counts (\<lambda>_ j. ''['' @ nat_to_string j @ '']'') (memory_setup [2] [''x''] memory_new) =
     Inr [''x[0] = 0'', ''x[1] = 0'']"
  unfolding print_update_counts_def by code_simp

end
