(* ===== verification/ModelEvaluate.thy ===== *)
theory ModelEvaluate
  imports IncumbentHolder
begin

text \<open>
  The evaluation kernel of the model library (\<open>Model::evaluate\<close>, specification section
  4.3 and testable property 6), modelled from the specification since the library is not
  among the sources, and the unit tests of \<open>src/unnamed/part_000\<close> that exercise it
  (\<open>TEST_F(TestModel, evaluate)\<close>, \<open>compute_lagrangian\<close>, \<open>update_arg_void\<close> and
  \<open>update_arg_move\<close>).

  Variables are named by their pair (proxy index, flat index) and an assignment maps each
  pair to its value; a linear expression is a list of (variable, coefficient) terms and a
  constant; a constraint \<open>e \<diamond> 0\<close> has a sense, an enabled flag and its own pair, which
  indexes the penalty coefficient proxies. Doubles are reals.

  \<open>evaluate\<close> is the full form: apply the move, recompute every value. \<open>evaluate_delta\<close>
  is the incremental form of section 4.3: the objective moves by the alterations times the
  objective sensitivities, and only the constraints the move lists are recomputed, from
  their old values and sensitivities. The improvability flags are not defined by the
  specification beyond scenario 6 of section 8; they are read as a strict decrease of the
  objective and of the total violation against the score before the move.
\<close>

section \<open>Models, assignments and scores\<close>

type_synonym assignment = "variable_ref \<Rightarrow> int"

record linear_expression =
  expr_terms :: "(variable_ref \<times> real) list"
  expr_constant :: real

datatype constraint_sense = LessEqual | Equal | GreaterEqual

record linear_constraint =
  constraint_ref :: "nat \<times> nat"
  constraint_expression :: linear_expression
  constraint_sense :: constraint_sense
  constraint_enabled :: bool

record linear_model =
  lm_sign :: real
  lm_objective :: linear_expression
  lm_constraints :: "linear_constraint list"

definition expression_value :: "assignment \<Rightarrow> linear_expression \<Rightarrow> real" where
  "expression_value \<sigma> e = sum_list (map (\<lambda>(r, c). c * of_int (\<sigma> r)) (expr_terms e)) + expr_constant e"

text \<open>\<open>viol\<close> of the data model: \<open>max(0, v)\<close> for \<open>\<le>\<close>, \<open>|v|\<close> for \<open>=\<close>, \<open>max(0, -v)\<close> for \<open>\<ge>\<close>.\<close>

definition violation :: "constraint_sense \<Rightarrow> real \<Rightarrow> real" where
  "violation s v = (case s of LessEqual \<Rightarrow> max 0 v | Equal \<Rightarrow> \<bar>v\<bar> | GreaterEqual \<Rightarrow> max 0 (- v))"

definition constraint_violation :: "assignment \<Rightarrow> linear_constraint \<Rightarrow> real" where
  "constraint_violation \<sigma> g =
     (if constraint_enabled g then violation (constraint_sense g) (expression_value \<sigma> (constraint_expression g))
      else 0)"

definition weight :: "real proxies \<Rightarrow> linear_constraint \<Rightarrow> real" where
  "weight w g = proxy_value w (fst (constraint_ref g)) (snd (constraint_ref g))"

definition apply_move :: "assignment \<Rightarrow> move \<Rightarrow> assignment" where
  "apply_move \<sigma> mv = foldl (\<lambda>\<sigma> (r, v). \<sigma>(r := v)) \<sigma> (alterations mv)"

text \<open>The sensitivity of an expression to a variable: the sum of its coefficients.\<close>

definition sensitivity :: "linear_expression \<Rightarrow> variable_ref \<Rightarrow> real" where
  "sensitivity e r = sum_list (map snd (filter (\<lambda>t. fst t = r) (expr_terms e)))"

definition make_score ::
  "real \<Rightarrow> real \<Rightarrow> real \<Rightarrow> real \<Rightarrow> real \<Rightarrow> real \<Rightarrow> solution_score" where
  "make_score obj tv lp gp obj_before tv_before =
     \<lparr>objective = obj, total_violation = tv, local_penalty = lp, global_penalty = gp,
      local_augmented_objective = obj + lp, global_augmented_objective = obj + gp,
      is_feasible = (tv = 0), is_objective_improvable = (obj < obj_before),
      is_constraint_improvable = (tv < tv_before)\<rparr>"

section \<open>The full and the incremental evaluation\<close>

definition total_of :: "assignment \<Rightarrow> (linear_constraint \<Rightarrow> real) \<Rightarrow> linear_model \<Rightarrow> real" where
  "total_of \<sigma> w lm = sum_list (map (\<lambda>g. w g * constraint_violation \<sigma> g) (lm_constraints lm))"

definition evaluate ::
  "linear_model \<Rightarrow> real proxies \<Rightarrow> real proxies \<Rightarrow> assignment \<Rightarrow> move \<Rightarrow> solution_score" where
  "evaluate lm lw gw \<sigma> mv =
     (let \<sigma>' = apply_move \<sigma> mv
      in make_score (lm_sign lm * expression_value \<sigma>' (lm_objective lm))
           (total_of \<sigma>' (\<lambda>_. 1) lm) (total_of \<sigma>' (weight lw) lm) (total_of \<sigma>' (weight gw) lm)
           (lm_sign lm * expression_value \<sigma> (lm_objective lm)) (total_of \<sigma> (\<lambda>_. 1) lm))"

definition expression_delta :: "assignment \<Rightarrow> move \<Rightarrow> linear_expression \<Rightarrow> real" where
  "expression_delta \<sigma> mv e =
     sum_list (map (\<lambda>(r, v). of_int (v - \<sigma> r) * sensitivity e r) (alterations mv))"

definition violation_delta :: "assignment \<Rightarrow> move \<Rightarrow> linear_constraint \<Rightarrow> real" where
  "violation_delta \<sigma> mv g =
     (if constraint_enabled g
      then violation (constraint_sense g)
             (expression_value \<sigma> (constraint_expression g) + expression_delta \<sigma> mv (constraint_expression g))
           - violation (constraint_sense g) (expression_value \<sigma> (constraint_expression g))
      else 0)"

definition delta_of :: "assignment \<Rightarrow> move \<Rightarrow> (linear_constraint \<Rightarrow> real) \<Rightarrow> linear_model \<Rightarrow> real" where
  "delta_of \<sigma> mv w lm =
     sum_list (map (\<lambda>g. w g * violation_delta \<sigma> mv g)
                 (filter (\<lambda>g. constraint_ref g \<in> set (related_constraints mv)) (lm_constraints lm)))"

definition evaluate_delta ::
  "linear_model \<Rightarrow> real proxies \<Rightarrow> real proxies \<Rightarrow> assignment \<Rightarrow> move \<Rightarrow> solution_score \<Rightarrow>
   solution_score" where
  "evaluate_delta lm lw gw \<sigma> mv before =
     make_score (objective before + lm_sign lm * expression_delta \<sigma> mv (lm_objective lm))
       (total_violation before + delta_of \<sigma> mv (\<lambda>_. 1) lm)
       (local_penalty before + delta_of \<sigma> mv (weight lw) lm)
       (global_penalty before + delta_of \<sigma> mv (weight gw) lm)
       (objective before) (total_violation before)"

text \<open>\<open>compute_lagrangian(dual)\<close>: the objective plus the dual-weighted constraint values.\<close>

definition compute_lagrangian :: "linear_model \<Rightarrow> real proxies \<Rightarrow> assignment \<Rightarrow> real" where
  "compute_lagrangian lm dual \<sigma> =
     lm_sign lm * expression_value \<sigma> (lm_objective lm) +
     sum_list (map (\<lambda>g. weight dual g * expression_value \<sigma> (constraint_expression g)) (lm_constraints lm))"

section \<open>The tests of \<open>part_000\<close> (lines 2443--2822)\<close>

text \<open>\<open>utility::sequence(n)\<close> and the link of section 4.1, stage 1: the constraints in
  which a variable has a nonzero sensitivity.\<close>

definition sequence :: "nat \<Rightarrow> real list" where
  "sequence n = map real [0..<n]"

definition related_constraints_of :: "linear_model \<Rightarrow> variable_ref \<Rightarrow> (nat \<times> nat) list" where
  "related_constraints_of lm r =
     map constraint_ref (filter (\<lambda>g. sensitivity (constraint_expression g) r \<noteq> 0) (lm_constraints lm))"

text \<open>The model both tests build: \<open>x\<close> ten binary variables (proxy 0), the objective
  \<open>p = x.dot(sequence) + 1\<close>, the constraints \<open>g: x.sum() <= 5\<close> (proxy 0) and
  \<open>h: x(0) + x(1) <= 1\<close> (proxy 1); \<open>sign\<close> is 1 for \<open>minimize(p)\<close> and -1 for
  \<open>maximize(p)\<close>.\<close>

definition evaluate_test_model :: "real \<Rightarrow> linear_model" where
  "evaluate_test_model sign =
     \<lparr>lm_sign = sign,
      lm_objective = \<lparr>expr_terms = map (\<lambda>i. ((0, i), sequence 10 ! i)) [0..<10], expr_constant = 1\<rparr>,
      lm_constraints =
        [\<lparr>constraint_ref = (0, 0),
          constraint_expression = \<lparr>expr_terms = map (\<lambda>i. ((0, i), 1)) [0..<10], expr_constant = -5\<rparr>,
          constraint_sense = LessEqual, constraint_enabled = True\<rparr>,
         \<lparr>constraint_ref = (1, 0),
          constraint_expression = \<lparr>expr_terms = [((0, 0), 1), ((0, 1), 1)], expr_constant = -1\<rparr>,
          constraint_sense = LessEqual, constraint_enabled = True\<rparr>]\<rparr>"

text \<open>A move of the test: \<open>x(i) := v\<close> for the listed \<open>i\<close>, with the related constraints of
  each altered variable inserted.\<close>

definition evaluate_test_move :: "linear_model \<Rightarrow> nat list \<Rightarrow> int \<Rightarrow> move" where
  "evaluate_test_move lm idx v =
     \<lparr>sense = Binary, alterations = map (\<lambda>i. ((0, i), v)) idx,
      related_constraints = concat (map (\<lambda>i. related_constraints_of lm (0, i)) idx)\<rparr>"

text \<open>One block of the test: both overloads of \<open>evaluate\<close> on the current values, then
  \<open>model.update(move)\<close> and \<open>score_before = score_after_1\<close>.\<close>

fun evaluate_test_steps ::
  "linear_model \<Rightarrow> real proxies \<Rightarrow> real proxies \<Rightarrow> assignment \<Rightarrow> solution_score \<Rightarrow> move list \<Rightarrow>
   (solution_score \<times> solution_score) list" where
  "evaluate_test_steps lm lw gw \<sigma> before [] = []"
| "evaluate_test_steps lm lw gw \<sigma> before (mv # mvs) =
     (let score_after_0 = evaluate lm lw gw \<sigma> mv;
          score_after_1 = evaluate_delta lm lw gw \<sigma> mv before
      in (score_after_0, score_after_1) #
         evaluate_test_steps lm lw gw (apply_move \<sigma> mv) score_after_1 mvs)"

definition evaluate_test_run :: "real \<Rightarrow> (solution_score \<times> solution_score) list" where
  "evaluate_test_run sign =
     (let lm = evaluate_test_model sign;
          lw = generate_parameter_proxies [1, 1] (100 :: real);
          gw = generate_parameter_proxies [1, 1] (10000 :: real);
          \<sigma> = (\<lambda>_. 1);
          score_before = evaluate lm lw gw \<sigma> (evaluate_test_move lm [] 0)
      in evaluate_test_steps lm lw gw \<sigma> score_before
           [evaluate_test_move lm [0..<10] 1, evaluate_test_move lm [0..<10] 0,
            evaluate_test_move lm [0..<5] 1])"

text \<open>The nine \<open>EXPECT_EQ\<close>s on one score.\<close>

definition expect_score ::
  "solution_score \<Rightarrow> real \<Rightarrow> real \<Rightarrow> real \<Rightarrow> real \<Rightarrow> real \<Rightarrow> real \<Rightarrow> bool \<Rightarrow> bool \<Rightarrow> bool \<Rightarrow> bool" where
  "expect_score sc obj tv lp gp lao gao oi ci f \<longleftrightarrow>
     obj = objective sc \<and> tv = total_violation sc \<and> lp = local_penalty sc \<and>
     gp = global_penalty sc \<and> lao = local_augmented_objective sc \<and>
     gao = global_augmented_objective sc \<and> oi = is_objective_improvable sc \<and>
     ci = is_constraint_improvable sc \<and> f = is_feasible sc"

definition test_evaluate_minimize :: bool where
  "test_evaluate_minimize =
     (case evaluate_test_run 1 of
        [(a0, b0), (a1, b1), (a2, b2)] \<Rightarrow>
          expect_score a0 46 (5 + 1) (5 * 100 + 100) (5 * 10000 + 10000) (46 + 5 * 100 + 100)
            (46 + 5 * 10000 + 10000) False False False \<and>
          expect_score b0 46 (5 + 1) (5 * 100 + 100) (5 * 10000 + 10000) (46 + 5 * 100 + 100)
            (46 + 5 * 10000 + 10000) False False False \<and>
          expect_score a1 1 0 0 0 1 1 True True True \<and>
          expect_score b1 1 0 0 0 1 1 True True True \<and>
          expect_score a2 11 1 100 10000 (11 + 100) (11 + 10000) False False False \<and>
          expect_score b2 11 1 100 10000 (11 + 100) (11 + 10000) False False False
      | _ \<Rightarrow> False)"

text \<open>In the second block of the maximisation half the test checks the total violation of
  \<open>score_after_0\<close> where it means \<open>score_after_1\<close> (line 2736); the translation keeps it.\<close>

definition test_evaluate_maximize :: bool where
  "test_evaluate_maximize =
     (case evaluate_test_run (-1) of
        [(a0, b0), (a1, b1), (a2, b2)] \<Rightarrow>
          expect_score a0 (-46) (5 + 1) (5 * 100 + 100) (5 * 10000 + 10000) (-46 + 5 * 100 + 100)
            (-46 + 5 * 10000 + 10000) False False False \<and>
          expect_score b0 (-46) (5 + 1) (5 * 100 + 100) (5 * 10000 + 10000) (-46 + 5 * 100 + 100)
            (-46 + 5 * 10000 + 10000) False False False \<and>
          expect_score a1 (-1) 0 0 0 (-1) (-1) False True True \<and>
          (-1 = objective b1 \<and> 0 = total_violation a1 \<and> 0 = local_penalty b1 \<and>
           0 = global_penalty b1 \<and> -1 = local_augmented_objective b1 \<and>
           -1 = global_augmented_objective b1 \<and> False = is_objective_improvable b1 \<and>
           True = is_constraint_improvable b1 \<and> True = is_feasible b1) \<and>
          expect_score a2 (-11) 1 100 10000 (-11 + 100) (-11 + 10000) False False False \<and>
          expect_score b2 (-11) 1 100 10000 (-11 + 100) (-11 + 10000) False False False
      | _ \<Rightarrow> False)"

definition test_compute_lagrangian :: bool where
  "test_compute_lagrangian =
     (let lm = evaluate_test_model 1;
          dual_value_proxies = generate_parameter_proxies [1, 1] (100 :: real)
      in 46 + 100 * (10 - 5) + 100 * (2 - 1) = compute_lagrangian lm dual_value_proxies (\<lambda>_. 1))"

text \<open>The model of \<open>TEST_F(TestModel, update_arg_void)\<close> and \<open>update_arg_move\<close>
  (lines 2388--2440): the objective of the evaluate test and the selection constraint
  \<open>g: x.selection()\<close>, the equation \<open>x.sum() = 1\<close>.\<close>

definition update_test_model :: linear_model where
  "update_test_model =
     \<lparr>lm_sign = 1, lm_objective = lm_objective (evaluate_test_model 1),
      lm_constraints =
        [\<lparr>constraint_ref = (0, 0),
          constraint_expression = \<lparr>expr_terms = map (\<lambda>i. ((0, i), 1)) [0..<10], expr_constant = -1\<rparr>,
          constraint_sense = Equal, constraint_enabled = True\<rparr>]\<rparr>"

text \<open>The selected variable of a selection group after \<open>Model::update(move)\<close>: a selection
  move makes the variable it sets to 1 the selected one.\<close>

definition selected_variable :: "move \<Rightarrow> variable_ref option \<Rightarrow> variable_ref option" where
  "selected_variable mv sel =
     (if sense mv = Selection
      then (case filter (\<lambda>(r, v). v = 1) (alterations mv) of [] \<Rightarrow> sel | (r, _) # _ \<Rightarrow> Some r)
      else sel)"

text \<open>\<open>p.value()\<close>, \<open>p(0).value()\<close> and \<open>model.objective().value()\<close> are all the value of
  the objective expression after \<open>model.update()\<close>.\<close>

definition test_update_arg_void :: bool where
  "test_update_arg_void =
     (let \<sigma> = (\<lambda>_. 1); p = expression_value \<sigma> (lm_objective update_test_model)
      in 46 = p \<and> 46 = p \<and> 46 = p)"

definition test_update_arg_move :: bool where
  "test_update_arg_move =
     (let \<sigma> = (\<lambda>r. if r = (0, 0) then 1 else 0);
          move = \<lparr>sense = Selection, alterations = [((0, 0), 0), ((0, 9), 1)], related_constraints = []\<rparr>;
          \<sigma>' = apply_move \<sigma> move;
          p = expression_value \<sigma>' (lm_objective update_test_model)
      in 10 = p \<and> 10 = p \<and> 10 = p \<and> Some (0, 9) = selected_variable move (Some (0, 0)))"

section \<open>Valid moves\<close>

text \<open>A move is valid for the incremental form when it alters each variable at most once
  and lists every enabled constraint that depends on an altered variable.\<close>

definition valid_move :: "linear_model \<Rightarrow> move \<Rightarrow> bool" where
  "valid_move lm mv \<longleftrightarrow>
     distinct (map fst (alterations mv)) \<and>
     list_all (\<lambda>g. constraint_ref g \<in> set (related_constraints mv) \<or>
                   list_all (\<lambda>(r, v). sensitivity (constraint_expression g) r = 0) (alterations mv))
       (lm_constraints lm)"

section \<open>Lemmas\<close>

lemma terms_value_update:
  "sum_list (map (\<lambda>(r', c). c * of_int ((\<sigma>(r := v)) r')) (ts :: (variable_ref \<times> real) list)) =
   sum_list (map (\<lambda>(r', c). c * of_int (\<sigma> r')) ts) +
   of_int (v - \<sigma> r) * sum_list (map snd (filter (\<lambda>t. fst t = r) ts))"
  by (induction ts) (auto simp: algebra_simps)

lemma expression_value_update:
  "expression_value (\<sigma>(r := v)) e = expression_value \<sigma> e + of_int (v - \<sigma> r) * sensitivity e r"
  unfolding expression_value_def sensitivity_def
  by (simp only: terms_value_update)

lemma expression_value_foldl:
  "distinct (map fst alts) \<Longrightarrow>
   expression_value (foldl (\<lambda>\<sigma> (r, v). \<sigma>(r := v)) \<sigma> alts) e =
     expression_value \<sigma> e + sum_list (map (\<lambda>(r, v). of_int (v - \<sigma> r) * sensitivity e r) alts)"
proof (induction alts arbitrary: \<sigma>)
  case Nil
  then show ?case by simp
next
  case (Cons a alts)
  obtain r v where a: "a = (r, v)" by (cases a)
  have r: "\<forall>x \<in> set alts. fst x \<noteq> r" and d: "distinct (map fst alts)"
    using Cons.prems a by (auto simp: image_iff)
  have m: "map (\<lambda>(r', v'). of_int (v' - (\<sigma>(r := v)) r') * sensitivity e r') alts =
        map (\<lambda>(r', v'). of_int (v' - \<sigma> r') * sensitivity e r') alts"
    using r by (intro map_cong) fastforce+
  have "expression_value (foldl (\<lambda>\<sigma> (r, v). \<sigma>(r := v)) \<sigma> (a # alts)) e =
        expression_value (foldl (\<lambda>\<sigma> (r, v). \<sigma>(r := v)) (\<sigma>(r := v)) alts) e"
    by (simp only: a foldl_Cons prod.case)
  also have "\<dots> = expression_value (\<sigma>(r := v)) e +
      sum_list (map (\<lambda>(r', v'). of_int (v' - (\<sigma>(r := v)) r') * sensitivity e r') alts)"
    by (rule Cons.IH[OF d])
  also have "\<dots> = expression_value \<sigma> e + of_int (v - \<sigma> r) * sensitivity e r +
      sum_list (map (\<lambda>(r', v'). of_int (v' - \<sigma> r') * sensitivity e r') alts)"
    by (simp only: m expression_value_update)
  finally show ?case by (simp only: a list.map prod.case sum_list.Cons add.assoc)
qed

lemma expression_value_apply_move:
  "distinct (map fst (alterations mv)) \<Longrightarrow>
   expression_value (apply_move \<sigma> mv) e = expression_value \<sigma> e + expression_delta \<sigma> mv e"
  by (simp add: apply_move_def expression_delta_def expression_value_foldl)

lemma sum_list_map_zero: "(\<And>x. x \<in> set xs \<Longrightarrow> f x = 0) \<Longrightarrow> sum_list (map f xs) = (0::real)"
  by (induction xs) auto

lemma expression_delta_zero:
  "list_all (\<lambda>(r, v). sensitivity e r = 0) (alterations mv) \<Longrightarrow> expression_delta \<sigma> mv e = 0"
  unfolding expression_delta_def by (rule sum_list_map_zero) (auto simp: list_all_iff)


lemma constraint_violation_apply_move:
  "distinct (map fst (alterations mv)) \<Longrightarrow>
   constraint_violation (apply_move \<sigma> mv) g = constraint_violation \<sigma> g + violation_delta \<sigma> mv g"
  by (simp add: constraint_violation_def violation_delta_def expression_value_apply_move)

lemma violation_delta_unrelated:
  "list_all (\<lambda>(r, v). sensitivity (constraint_expression g) r = 0) (alterations mv) \<Longrightarrow>
   violation_delta \<sigma> mv g = 0"
  by (simp add: violation_delta_def expression_delta_zero)

lemma weighted_sum_apply_move:
  assumes d: "distinct (map fst (alterations mv))"
    and rel: "list_all (\<lambda>g. constraint_ref g \<in> set (related_constraints mv) \<or>
                list_all (\<lambda>(r, v). sensitivity (constraint_expression g) r = 0) (alterations mv)) gs"
  shows "sum_list (map (\<lambda>g. w g * constraint_violation (apply_move \<sigma> mv) g) gs) =
         sum_list (map (\<lambda>g. w g * constraint_violation \<sigma> g) gs) +
         sum_list (map (\<lambda>g. w g * violation_delta \<sigma> mv g)
                     (filter (\<lambda>g. constraint_ref g \<in> set (related_constraints mv)) gs))"
  using rel
proof (induction gs)
  case Nil
  then show ?case by simp
next
  case (Cons g gs)
  then show ?case
    using violation_delta_unrelated[of g mv \<sigma>]
    by (auto simp: constraint_violation_apply_move[OF d] algebra_simps)
qed

lemma total_of_apply_move:
  "valid_move lm mv \<Longrightarrow> total_of (apply_move \<sigma> mv) w lm = total_of \<sigma> w lm + delta_of \<sigma> mv w lm"
  unfolding valid_move_def total_of_def delta_of_def by (rule weighted_sum_apply_move) simp_all

lemma evaluate_delta_agrees_valid:
  assumes "valid_move lm mv" "alterations mv0 = []"
  shows "evaluate_delta lm lw gw \<sigma> mv (evaluate lm lw gw \<sigma> mv0) = evaluate lm lw gw \<sigma> mv"
proof -
  have d: "distinct (map fst (alterations mv))" using assms(1) by (simp add: valid_move_def)
  have "apply_move \<sigma> mv0 = \<sigma>" using assms(2) by (simp add: apply_move_def)
  then show ?thesis
    by (simp add: evaluate_def evaluate_delta_def make_score_def Let_def
        expression_value_apply_move[OF d] total_of_apply_move[OF assms(1)] distrib_left)
qed

lemma linked_sensitivity_zero:
  assumes rel: "set (concat (map (\<lambda>(r, v). related_constraints_of lm r) (alterations mv))) \<subseteq>
              set (related_constraints mv)"
    and g: "g \<in> set (lm_constraints lm)" and n: "constraint_ref g \<notin> set (related_constraints mv)"
    and rv: "(r, v) \<in> set (alterations mv)"
  shows "sensitivity (constraint_expression g) r = 0"
proof (rule ccontr)
  assume "sensitivity (constraint_expression g) r \<noteq> 0"
  then have "constraint_ref g \<in> set (related_constraints_of lm r)"
    using g by (auto simp: related_constraints_of_def)
  moreover have "related_constraints_of lm r \<in>
      set (map (\<lambda>(r, v). related_constraints_of lm r) (alterations mv))"
    using rv by (metis (no_types, lifting) case_prod_conv image_eqI set_map)
  then have "set (related_constraints_of lm r) \<subseteq>
      set (concat (map (\<lambda>(r, v). related_constraints_of lm r) (alterations mv)))"
    by auto
  ultimately show False using rel n by blast
qed

lemma linked_move_valid:
  assumes "distinct (map fst (alterations mv))"
    and "set (concat (map (\<lambda>(r, v). related_constraints_of lm r) (alterations mv))) \<subseteq>
              set (related_constraints mv)"
  shows "valid_move lm mv"
  using assms linked_sensitivity_zero[OF assms(2)]
  unfolding valid_move_def list_all_iff by fastforce

lemma evaluate_test_move_valid:
  "distinct idx \<Longrightarrow> valid_move lm (evaluate_test_move lm idx v)"
proof (rule linked_move_valid)
  assume "distinct idx"
  then show "distinct (map fst (alterations (evaluate_test_move lm idx v)))"
    by (simp add: evaluate_test_move_def distinct_map inj_on_def comp_def)
  show "set (concat (map (\<lambda>(r, v). related_constraints_of lm r) (alterations (evaluate_test_move lm idx v)))) \<subseteq>
        set (related_constraints (evaluate_test_move lm idx v))"
    by (simp add: evaluate_test_move_def comp_def)
qed

text \<open>C16. Delta-evaluation agreement (specification section 8, property 6): for a move that alters each variable at most once and lists every enabled constraint it affects, the incremental evaluate on the score of the empty move equals the full evaluate, field by field; in particular for every move of the shape the evaluate test builds (distinct elements of x set to one value, related constraints inserted), whatever the values and weights.\<close>

theorem evaluate_delta_agrees:
  "(valid_move lm mv \<longrightarrow> alterations mv0 = [] \<longrightarrow>
      evaluate_delta lm lw gw \<sigma> mv (evaluate lm lw gw \<sigma> mv0) = evaluate lm lw gw \<sigma> mv) \<and>
   (distinct idx \<longrightarrow>
      evaluate_delta (evaluate_test_model sign) lw gw \<sigma> (evaluate_test_move (evaluate_test_model sign) idx v)
        (evaluate (evaluate_test_model sign) lw gw \<sigma> (evaluate_test_move (evaluate_test_model sign) [] 0)) =
      evaluate (evaluate_test_model sign) lw gw \<sigma> (evaluate_test_move (evaluate_test_model sign) idx v))"
proof (intro conjI impI)
  show "evaluate_delta lm lw gw \<sigma> mv (evaluate lm lw gw \<sigma> mv0) = evaluate lm lw gw \<sigma> mv"
    if "valid_move lm mv" "alterations mv0 = []"
    using that by (rule evaluate_delta_agrees_valid)
  have e: "alterations (evaluate_test_move (evaluate_test_model sign) [] 0) = []"
    by (simp add: evaluate_test_move_def)
  show "evaluate_delta (evaluate_test_model sign) lw gw \<sigma> (evaluate_test_move (evaluate_test_model sign) idx v)
          (evaluate (evaluate_test_model sign) lw gw \<sigma> (evaluate_test_move (evaluate_test_model sign) [] 0)) =
        evaluate (evaluate_test_model sign) lw gw \<sigma> (evaluate_test_move (evaluate_test_model sign) idx v)"
    if "distinct idx"
    using evaluate_test_move_valid[OF that] e by (rule evaluate_delta_agrees_valid)
qed

section \<open>The tests\<close>

lemma test_evaluate_minimize_passes: "test_evaluate_minimize"
  unfolding test_evaluate_minimize_def by code_simp

lemma test_compute_lagrangian_passes: "test_compute_lagrangian"
  unfolding test_compute_lagrangian_def by code_simp

lemma test_update_arg_void_passes: "test_update_arg_void"
  unfolding test_update_arg_void_def by code_simp

lemma test_update_arg_move_passes: "test_update_arg_move"
  unfolding test_update_arg_move_def by code_simp

text \<open>The maximisation half does not pass under the specification's evaluation: every
  check holds except \<open>is_objective_improvable\<close> of the third block, which the
  specification's sign normalisation makes true (the internal objective falls from -1 to
  -11). The second block moves the objective the other way (-46 to -1) and the test
  expects false there too, so no reading of the flag as a one-directional change of the
  objective satisfies both.\<close>

lemma test_evaluate_maximize_divergence:
  "\<not> test_evaluate_maximize \<and>
   (case evaluate_test_run (-1) of
      [(a0, b0), (a1, b1), (a2, b2)] \<Rightarrow>
        expect_score a2 (-11) 1 100 10000 (-11 + 100) (-11 + 10000) True False False \<and>
        expect_score b2 (-11) 1 100 10000 (-11 + 100) (-11 + 10000) True False False \<and>
        objective a1 > objective a0 \<and> objective a2 < objective a1
    | _ \<Rightarrow> False)"
  unfolding test_evaluate_maximize_def by code_simp

section \<open>Instances of the lemmas\<close>

lemma evaluate_delta_agrees_witness:
  "distinct [0..<5] \<and>
   evaluate_delta (evaluate_test_model 1) (generate_parameter_proxies [1, 1] 100)
       (generate_parameter_proxies [1, 1] 10000) (\<lambda>_. 0)
       (evaluate_test_move (evaluate_test_model 1) [0..<5] 1)
       (evaluate (evaluate_test_model 1) (generate_parameter_proxies [1, 1] 100)
          (generate_parameter_proxies [1, 1] 10000) (\<lambda>_. 0)
          (evaluate_test_move (evaluate_test_model 1) [] 0)) =
     evaluate (evaluate_test_model 1) (generate_parameter_proxies [1, 1] 100)
       (generate_parameter_proxies [1, 1] 10000) (\<lambda>_. 0)
       (evaluate_test_move (evaluate_test_model 1) [0..<5] 1)"
proof -
  have h: "distinct [0..<(5::nat)]" by simp
  show ?thesis
    using h conjunct2[OF evaluate_delta_agrees[where idx = "[0..<5]" and sign = 1 and v = 1
        and lw = "generate_parameter_proxies [1, 1] 100" and gw = "generate_parameter_proxies [1, 1] 10000"
        and \<sigma> = "\<lambda>_. 0"]] by blast
qed
end
