(* ===== verification/QapMain.thy ===== *)
theory QapMain
  imports QapDriver SolverLoop
begin

text \<open>
  The QAPLIB driver from its parsed arguments to its exit (\<open>application/qap_solver/main.cpp\<close>,
  lines 44--92): reading the model, choosing the option (the option file when one is
  given, the defaults otherwise) and fixing the move families, the call of \<open>solve\<close>, the
  two summary lines and the result files. \<open>main\<close> calls \<open>printemps::solver::solve\<close>, a
  version of the solver that is not among the sources (its result and option differ from
  those of \<open>cppmh/solver/solver.h\<close>), so \<open>solve\<close> is a parameter, as are the QAPLIB reader,
  the option file reader and the formatting of the objective; the files are recorded by
  the names written, their contents are not modelled. The option of the driver extends the record of the solver's option with the
  three fields \<open>main\<close> reads that \<open>solve\<close> does not: \<open>verbose\<close>, the improvability
  screening mode, and the historical data switch.
\<close>

section \<open>The option of the driver\<close>

text \<open>\<open>solver::Verbose\<close>, ordered by its level: a message of level \<open>l\<close> is printed when
  \<open>l \<le> option.verbose\<close>.\<close>

datatype verbose = Verbose_None | Verbose_Warning | Verbose_Outer | Verbose_Full

fun verbose_level :: "verbose \<Rightarrow> nat" where
  "verbose_level Verbose_None = 0"
| "verbose_level Verbose_Warning = 1"
| "verbose_level Verbose_Outer = 2"
| "verbose_level Verbose_Full = 3"

instantiation verbose :: linorder
begin

definition less_eq_verbose :: "verbose \<Rightarrow> verbose \<Rightarrow> bool" where
  "less_eq_verbose a b \<longleftrightarrow> verbose_level a \<le> verbose_level b"

definition less_verbose :: "verbose \<Rightarrow> verbose \<Rightarrow> bool" where
  "less_verbose a b \<longleftrightarrow> verbose_level a < verbose_level b"

instance
proof
  fix a b c :: verbose
  show "a < b \<longleftrightarrow> a \<le> b \<and> \<not> b \<le> a"
    by (auto simp: less_eq_verbose_def less_verbose_def)
  show "a \<le> a" by (simp add: less_eq_verbose_def)
  show "a \<le> b \<Longrightarrow> b \<le> c \<Longrightarrow> a \<le> c" by (simp add: less_eq_verbose_def)
  show "a \<le> b \<Longrightarrow> b \<le> a \<Longrightarrow> a = b"
    by (cases a; cases b) (simp_all add: less_eq_verbose_def)
  show "a \<le> b \<or> b \<le> a" by (auto simp: less_eq_verbose_def)
qed

end

text \<open>The sources name one improvability screening mode, \<open>Off\<close>; every other mode is
  kept by its enumerator value.\<close>

datatype improvability_screening_mode = Off | Other_mode int

record full_option = solver_option +
  verbose :: verbose
  improvability_screening_mode :: improvability_screening_mode
  is_enabled_collect_historical_data :: bool

text \<open>Lines 56--64: the option file when one is given, then the driver's move families
  (\<open>driver_option\<close>, lines 60--63) and no improvability screening.\<close>

definition main_option :: "full_option \<Rightarrow> (string \<Rightarrow> full_option) \<Rightarrow> string \<Rightarrow> full_option" where
  "main_option default_option read_option option_file_name =
     (let option = (if option_file_name \<noteq> '''' then read_option option_file_name else default_option)
      in (driver_option option)\<lparr>improvability_screening_mode := Off\<rparr>)"

section \<open>The run\<close>

text \<open>\<open>std::to_string\<close> of a \<open>bool\<close> promotes it to \<open>int\<close>.\<close>

definition bool_to_string :: "bool \<Rightarrow> string" where
  "bool_to_string b = (if b then ''1'' else ''0'')"

text \<open>Lines 74--89: the two lines \<open>print_info\<close> prints at \<open>Verbose::Outer\<close> and the files
  written, \<open>feasible.json\<close> only when historical data is collected.\<close>

definition main_summary :: "full_option \<Rightarrow> (solution \<Rightarrow> string) \<Rightarrow> solution \<Rightarrow> string list" where
  "main_summary option objective_string sol =
     (if Verbose_Outer \<le> verbose option
      then [''status: '' @ bool_to_string (solution_is_feasible sol),
            ''objective: '' @ objective_string sol]
      else [])"

definition main_files :: "full_option \<Rightarrow> string list" where
  "main_files option =
     [''incumbent.json'', ''incumbent.sol'', ''status.json''] @
     (if is_enabled_collect_historical_data option then [''feasible.json''] else [])"

datatype main_outcome = Main_usage | Main_finished "string list" "string list"

text \<open>\<open>main\<close>: the QAPLIB reader and \<open>printemps::solver::solve\<close> (a version of the
  solver that is not among the sources) are parameters; of the result \<open>main\<close> reads the
  solution. An exception of the reader or of \<open>solve\<close> is not caught and ends the program;
  \<open>Inl\<close> is that outcome.\<close>

definition qap_main ::
  "(string \<Rightarrow> 'm) \<Rightarrow> (full_option \<Rightarrow> 'm \<Rightarrow> cpp_error + solution) \<Rightarrow> full_option \<Rightarrow>
   (string \<Rightarrow> full_option) \<Rightarrow> (solution \<Rightarrow> string) \<Rightarrow> string list \<Rightarrow> cpp_error + main_outcome" where
  "qap_main reader solver default_option read_option objective_string args =
     (case driver_main args of
        Inl e \<Rightarrow> Inl e
      | Inr Usage \<Rightarrow> Inr Main_usage
      | Inr (Run qap_file_name option_file_name) \<Rightarrow>
          (let model = reader qap_file_name;
               option = main_option default_option read_option option_file_name
           in case solver option model of
                Inl e \<Rightarrow> Inl e
              | Inr sol \<Rightarrow> Inr (Main_finished (main_summary option objective_string sol) (main_files option))))"

section \<open>Lemmas\<close>

lemma main_option_fields [simp]:
  "verbose (main_option d r f) = verbose (if f \<noteq> '''' then r f else d)"
  "is_enabled_collect_historical_data (main_option d r f) =
     is_enabled_collect_historical_data (if f \<noteq> '''' then r f else d)"
  "improvability_screening_mode (main_option d r f) = Off"
  by (simp_all add: main_option_def driver_option_def Let_def)

lemma main_option_moves:
  "\<not> is_enabled_binary_move (main_option d r f) \<and> \<not> is_enabled_integer_move (main_option d r f) \<and>
   is_enabled_user_defined_move (main_option d r f) \<and> \<not> is_enabled_chain_move (main_option d r f)"
  by (simp add: main_option_def driver_option_def Let_def)

text \<open>With a file to read, \<open>main\<close> prints the status and the objective of the solution
  \<open>solve\<close> returns at \<open>Verbose::Outer\<close> and writes the three result files, plus
  \<open>feasible.json\<close> exactly when historical data is collected.\<close>

lemma qap_main_Run:
  assumes "driver_main args = Inr (Run q p)"
    and "solver (main_option dflt read_option p) (reader q) = Inr sol"
  shows "qap_main reader solver dflt read_option objstr args =
           Inr (Main_finished
                  (if Verbose_Outer \<le> verbose (main_option dflt read_option p)
                   then [''status: '' @ (if solution_is_feasible sol then ''1'' else ''0''),
                         ''objective: '' @ objstr sol] else [])
                  ([''incumbent.json'', ''incumbent.sol'', ''status.json''] @
                   (if is_enabled_collect_historical_data (main_option dflt read_option p)
                    then [''feasible.json''] else [])))"
  using assms by (simp add: qap_main_def Let_def main_summary_def main_files_def bool_to_string_def)

end
