(* ===== verification/InitialValues.thy ===== *)
theory InitialValues
  imports Prelude
begin

text \<open>
  The verification and correction of initial values (specification section 3, setup step
  10, and the error \<open>InvalidInitialValue\<close> of section 7): \<open>Model::verify_and_correct_
  {selection, binary, integer}_variables_initial_values(correction, is_enabled_print)\<close>.
  The model library is not among the sources, so the three routines are modelled from the
  specification; their tests \<open>TEST_F(TestModel, verify_and_correct_*_initial_values)\<close> of
  \<open>src/unnamed/part_000\<close> are translated and proved to pass. A variable is its value, its
  bounds and its fixed flag; \<open>fix_by\<close> fixes a variable at a value without touching its
  bounds. Binary variables are those with bounds \<open>[0, 1]\<close>, the others integer
  (section 4.1). The printing switch only prints and is not modelled; the message of the
  \<open>std::logic_error\<close> is not given by the sources and is named after the error kind.

  The specification leaves open which variable a correction selects in a selection group
  that has none; the model selects the first unfixed variable whose initial value is 0,
  the choice both tests admit (\<open>variable_ptrs.front()\<close> when every value is 0, a
  variable other than the two corrected ones otherwise).
\<close>

section \<open>Variables\<close>

record variable =
  var_value :: int
  var_lower :: int
  var_upper :: int
  var_is_fixed :: bool

text \<open>\<open>create_variables(name, n, lower, upper)\<close>: \<open>n\<close> unfixed variables of value 0.\<close>

definition create_variables :: "nat \<Rightarrow> int \<Rightarrow> int \<Rightarrow> variable list" where
  "create_variables n lower upper =
     replicate n \<lparr>var_value = 0, var_lower = lower, var_upper = upper, var_is_fixed = False\<rparr>"

definition fix_by :: "int \<Rightarrow> variable \<Rightarrow> variable" where
  "fix_by v x = x\<lparr>var_value := v, var_is_fixed := True\<rparr>"

text \<open>\<open>x(i) = v\<close> and \<open>x(i).fix_by(v)\<close> on the variables of a proxy.\<close>

definition set_value :: "nat \<Rightarrow> int \<Rightarrow> variable list \<Rightarrow> variable list" where
  "set_value i v xs = xs[i := (xs ! i)\<lparr>var_value := v\<rparr>]"

definition fix_at :: "nat \<Rightarrow> int \<Rightarrow> variable list \<Rightarrow> variable list" where
  "fix_at i v xs = xs[i := fix_by v (xs ! i)]"

definition invalid_initial_value :: cpp_error where
  "invalid_initial_value = LogicError ''InvalidInitialValue''"

definition in_bounds :: "variable \<Rightarrow> bool" where
  "in_bounds x \<longleftrightarrow> var_lower x \<le> var_value x \<and> var_value x \<le> var_upper x"

definition is_binary :: "variable \<Rightarrow> bool" where
  "is_binary x \<longleftrightarrow> var_lower x = 0 \<and> var_upper x = 1"

text \<open>Applying a fallible step to every element, stopping at the first error.\<close>

fun map_result :: "('a \<Rightarrow> 'e + 'b) \<Rightarrow> 'a list \<Rightarrow> 'e + 'b list" where
  "map_result f [] = Inr []"
| "map_result f (x # xs) =
     (case f x of
        Inl e \<Rightarrow> Inl e
      | Inr y \<Rightarrow> (case map_result f xs of Inl e \<Rightarrow> Inl e | Inr ys \<Rightarrow> Inr (y # ys)))"

section \<open>Binary and integer variables\<close>

text \<open>A value outside the bounds is an error on a fixed variable and without correction,
  and is snapped to the nearer bound otherwise.\<close>

definition correct_range :: "bool \<Rightarrow> variable \<Rightarrow> cpp_error + variable" where
  "correct_range correction x =
     (if in_bounds x then Inr x
      else if var_is_fixed x \<or> \<not> correction then Inl invalid_initial_value
      else Inr (x\<lparr>var_value := min (max (var_value x) (var_lower x)) (var_upper x)\<rparr>))"

definition verify_range :: "(variable \<Rightarrow> bool) \<Rightarrow> bool \<Rightarrow> variable list \<Rightarrow> cpp_error + variable list" where
  "verify_range category correction xs =
     map_result (\<lambda>x. if category x then correct_range correction x else Inr x) xs"

definition verify_and_correct_binary_variables_initial_values ::
  "bool \<Rightarrow> variable list \<Rightarrow> cpp_error + variable list" where
  "verify_and_correct_binary_variables_initial_values correction xs =
     verify_range is_binary correction xs"

definition verify_and_correct_integer_variables_initial_values ::
  "bool \<Rightarrow> variable list \<Rightarrow> cpp_error + variable list" where
  "verify_and_correct_integer_variables_initial_values correction xs =
     verify_range (\<lambda>x. \<not> is_binary x) correction xs"

section \<open>Selection variables\<close>

definition is_selected :: "variable \<Rightarrow> bool" where
  "is_selected x \<longleftrightarrow> var_value x = 1"

definition binary_value :: "variable \<Rightarrow> bool" where
  "binary_value x \<longleftrightarrow> var_value x = 0 \<or> var_value x = 1"

definition first_index :: "('a \<Rightarrow> bool) \<Rightarrow> 'a list \<Rightarrow> nat option" where
  "first_index P xs =
     (let i = length (takeWhile (\<lambda>x. \<not> P x) xs) in if i < length xs then Some i else None)"

text \<open>Every unfixed variable of the group is set to 0, except the one at position
  \<open>k\<close>, set to 1.\<close>

definition select_only :: "nat option \<Rightarrow> variable list \<Rightarrow> variable list" where
  "select_only k xs =
     map (\<lambda>(j, x). if var_is_fixed x then x else x\<lparr>var_value := if k = Some j then 1 else 0\<rparr>)
       (zip [0..<length xs] xs)"

text \<open>One selection group: a fixed variable with a non-binary value, or two fixed
  selected variables, is an error in any case; a non-binary unfixed value, an unfixed
  selected variable beside a fixed selected one, no selected variable, or two selected
  variables are errors without correction and are corrected otherwise.\<close>

definition verify_and_correct_selection_variables_initial_values ::
  "bool \<Rightarrow> variable list \<Rightarrow> cpp_error + variable list" where
  "verify_and_correct_selection_variables_initial_values correction xs =
     (let fixed_selected = filter (\<lambda>x. var_is_fixed x \<and> is_selected x) xs;
          unfixed_selected = filter (\<lambda>x. \<not> var_is_fixed x \<and> is_selected x) xs;
          invalid = filter (\<lambda>x. \<not> var_is_fixed x \<and> \<not> binary_value x) xs
      in if list_ex (\<lambda>x. var_is_fixed x \<and> \<not> binary_value x) xs then Inl invalid_initial_value
         else if 1 < length fixed_selected then Inl invalid_initial_value
         else if invalid \<noteq> [] \<and> \<not> correction then Inl invalid_initial_value
         else if fixed_selected \<noteq> [] then
           (if unfixed_selected = [] \<or> correction then Inr (select_only None xs)
            else Inl invalid_initial_value)
         else if unfixed_selected = [] then
           (if \<not> correction then Inl invalid_initial_value
            else case first_index (\<lambda>x. \<not> var_is_fixed x \<and> var_value x = 0) xs of
                   None \<Rightarrow> Inl invalid_initial_value
                 | Some k \<Rightarrow> Inr (select_only (Some k) xs))
         else if length unfixed_selected = 1 \<or> correction
         then Inr (select_only (first_index (\<lambda>x. \<not> var_is_fixed x \<and> is_selected x) xs) xs)
         else Inl invalid_initial_value)"

section \<open>What the verification promises\<close>

text \<open>Specification section 8, properties 3 and 4: a selection group has binary values with
  exactly one 1; a corrected binary or integer variable keeps its bounds and flag, is left
  alone when it is in range or not of the category, and lies in its bounds afterwards
  when they are consistent. Fixed variables are never changed.\<close>

definition selection_one_hot :: "variable list \<Rightarrow> bool" where
  "selection_one_hot xs \<longleftrightarrow> list_all binary_value xs \<and> length (filter is_selected xs) = 1"

definition range_corrected :: "(variable \<Rightarrow> bool) \<Rightarrow> variable \<Rightarrow> variable \<Rightarrow> bool" where
  "range_corrected category x y \<longleftrightarrow>
     var_lower y = var_lower x \<and> var_upper y = var_upper x \<and> var_is_fixed y = var_is_fixed x \<and>
     (\<not> category x \<or> in_bounds x \<longrightarrow> y = x) \<and>
     (category x \<and> var_lower x \<le> var_upper x \<longrightarrow> in_bounds y)"

definition selection_kept :: "variable \<Rightarrow> variable \<Rightarrow> bool" where
  "selection_kept x y \<longleftrightarrow>
     var_lower y = var_lower x \<and> var_upper y = var_upper x \<and> var_is_fixed y = var_is_fixed x \<and>
     (var_is_fixed x \<longrightarrow> y = x)"

section \<open>The tests\<close>

definition throws_logic_error :: "cpp_error + 'a \<Rightarrow> bool" where
  "throws_logic_error r = (case r of Inl (LogicError _) \<Rightarrow> True | _ \<Rightarrow> False)"

definition expect_values :: "cpp_error + variable list \<Rightarrow> (nat \<times> int) list \<Rightarrow> bool" where
  "expect_values r vs =
     (case r of Inl _ \<Rightarrow> False | Inr ys \<Rightarrow> list_all (\<lambda>(i, v). v = var_value (ys ! i)) vs)"

definition test_verify_and_correct_binary_variables_initial_values :: bool where
  "test_verify_and_correct_binary_variables_initial_values =
     (let x = create_variables 10 0 1
      in throws_logic_error (verify_and_correct_binary_variables_initial_values True (fix_at 0 2 x)) \<and>
         throws_logic_error (verify_and_correct_binary_variables_initial_values False (fix_at 0 (-1) x)) \<and>
         expect_values (verify_and_correct_binary_variables_initial_values True
                          (set_value 1 (-1) (set_value 0 2 x))) [(0, 1), (1, 0)] \<and>
         throws_logic_error (verify_and_correct_binary_variables_initial_values False
                          (set_value 1 (-1) (set_value 0 2 x))))"

definition test_verify_and_correct_integer_variables_initial_values :: bool where
  "test_verify_and_correct_integer_variables_initial_values =
     (let x = create_variables 10 (-10) 10
      in throws_logic_error (verify_and_correct_integer_variables_initial_values True (fix_at 0 11 x)) \<and>
         throws_logic_error (verify_and_correct_integer_variables_initial_values False (fix_at 0 (-11) x)) \<and>
         expect_values (verify_and_correct_integer_variables_initial_values True
                          (set_value 1 (-11) (set_value 0 11 x))) [(0, 10), (1, -10)] \<and>
         throws_logic_error (verify_and_correct_integer_variables_initial_values False
                          (set_value 1 (-11) (set_value 0 11 x))))"

text \<open>The sixteen blocks of the selection test, in order; the group is \<open>x.selection()\<close>,
  all ten variables. The block "two unfixed selected variables, correction true" checks
  \<open>x(0) + x(1) = 1\<close>.\<close>

definition test_verify_and_correct_selection_variables_initial_values :: bool where
  "test_verify_and_correct_selection_variables_initial_values =
     (let x = create_variables 10 0 1;
          verify = verify_and_correct_selection_variables_initial_values
      in throws_logic_error (verify True (fix_at 0 2 x)) \<and>
         throws_logic_error (verify False (fix_at 0 2 x)) \<and>
         expect_values (verify True (fix_at 0 1 x)) [(0, 1)] \<and>
         expect_values (verify False (fix_at 0 1 x)) [(0, 1)] \<and>
         throws_logic_error (verify True (fix_at 1 1 (fix_at 0 1 x))) \<and>
         throws_logic_error (verify False (fix_at 1 1 (fix_at 0 1 x))) \<and>
         expect_values (verify True (set_value 1 3 (set_value 0 2 x))) [(0, 0), (1, 0)] \<and>
         throws_logic_error (verify False (set_value 1 3 (set_value 0 2 x))) \<and>
         expect_values (verify True x) [(0, 1)] \<and>
         throws_logic_error (verify False x) \<and>
         expect_values (verify True (set_value 0 1 x)) [(0, 1)] \<and>
         expect_values (verify False (set_value 0 1 x)) [(0, 1)] \<and>
         (case verify True (set_value 1 1 (set_value 0 1 x)) of
            Inl _ \<Rightarrow> False
          | Inr ys \<Rightarrow> 1 = var_value (ys ! 0) + var_value (ys ! 1)) \<and>
         throws_logic_error (verify False (set_value 1 1 (set_value 0 1 x))) \<and>
         expect_values (verify True (fix_at 1 1 (set_value 0 1 x))) [(0, 0), (1, 1)] \<and>
         throws_logic_error (verify False (fix_at 1 1 (set_value 0 1 x))))"

section \<open>Lemmas\<close>

lemma test_verify_and_correct_binary_passes: "test_verify_and_correct_binary_variables_initial_values"
  unfolding test_verify_and_correct_binary_variables_initial_values_def by code_simp

lemma test_verify_and_correct_integer_passes: "test_verify_and_correct_integer_variables_initial_values"
  unfolding test_verify_and_correct_integer_variables_initial_values_def by code_simp

lemma test_verify_and_correct_selection_passes:
  "test_verify_and_correct_selection_variables_initial_values"
  unfolding test_verify_and_correct_selection_variables_initial_values_def by code_simp

lemma map_result_Inr_iff:
  "map_result f xs = Inr ys \<longleftrightarrow> list_all2 (\<lambda>x y. f x = Inr y) xs ys"
proof (induction xs arbitrary: ys)
  case Nil
  then show ?case by auto
next
  case (Cons x xs)
  then show ?case
    by (cases "f x"; cases "map_result f xs") (auto simp: list_all2_Cons1)
qed

lemma map_result_ok_iff:
  "(\<exists>ys. map_result f xs = Inr ys) \<longleftrightarrow> list_all (\<lambda>x. \<exists>y. f x = Inr y) xs"
proof (induction xs)
  case Nil
  then show ?case by simp
next
  case (Cons x xs)
  then show ?case
    by (cases "f x"; cases "map_result f xs") auto
qed

lemma map_result_check:
  assumes "\<And>x. f x = (if Q x then Inr x else Inl e)"
  shows "map_result f xs = (if list_all Q xs then Inr xs else Inl e)"
  using assms by (induction xs) auto

lemma nth_select_only:
  "j < length xs \<Longrightarrow> select_only k xs ! j =
     (if var_is_fixed (xs ! j) then xs ! j else (xs ! j)\<lparr>var_value := if k = Some j then 1 else 0\<rparr>)"
  by (simp add: select_only_def)

lemma length_select_only [simp]: "length (select_only k xs) = length xs"
  by (simp add: select_only_def)

lemma first_index_Some:
  assumes "first_index P xs = Some i"
  shows "i < length xs \<and> P (xs ! i) \<and> (\<forall>j < i. \<not> P (xs ! j))"
proof -
  have i: "i = length (takeWhile (\<lambda>x. \<not> P x) xs)" and l: "i < length xs"
    using assms by (auto simp: first_index_def Let_def split: if_splits)
  have "P (xs ! i)" using nth_length_takeWhile[of "\<lambda>x. \<not> P x" xs] i l by simp
  moreover have "\<not> P (xs ! j)" if "j < i" for j
  proof -
    have "xs ! j = takeWhile (\<lambda>x. \<not> P x) xs ! j" using that i by (simp add: takeWhile_nth)
    then show ?thesis using that i nth_mem set_takeWhileD by metis
  qed
  ultimately show ?thesis using l by blast
qed

lemma first_index_None: "first_index P xs = None \<longleftrightarrow> \<not> list_ex P xs"
proof -
  have "length (takeWhile (\<lambda>x. \<not> P x) xs) < length xs \<longleftrightarrow> list_ex P xs"
  proof -
    have "length (takeWhile (\<lambda>x. \<not> P x) xs) + length (dropWhile (\<lambda>x. \<not> P x) xs) = length xs"
      by (metis length_append takeWhile_dropWhile_id)
    then have "length (takeWhile (\<lambda>x. \<not> P x) xs) < length xs \<longleftrightarrow> 0 < length (dropWhile (\<lambda>x. \<not> P x) xs)"
      by linarith
    then show ?thesis by (simp only: length_greater_0_conv) (simp add: dropWhile_eq_Nil_conv list_ex_iff)
  qed
  then show ?thesis by (simp add: first_index_def Let_def)
qed

lemma selected_count_split:
  "length (filter is_selected xs) =
     length (filter (\<lambda>x. var_is_fixed x \<and> is_selected x) xs) +
     length (filter (\<lambda>x. \<not> var_is_fixed x \<and> is_selected x) xs)"
  by (induction xs) auto

lemma select_only_selected_count:
  "length (filter is_selected (select_only k xs)) =
     length (filter (\<lambda>x. var_is_fixed x \<and> is_selected x) xs) +
     (case k of None \<Rightarrow> 0 | Some i \<Rightarrow> if i < length xs \<and> \<not> var_is_fixed (xs ! i) then 1 else 0)"
proof -
  let ?A = "{j. j < length xs \<and> var_is_fixed (xs ! j) \<and> is_selected (xs ! j)}"
  let ?B = "{j. j < length xs \<and> \<not> var_is_fixed (xs ! j) \<and> k = Some j}"
  have u: "{j. j < length (select_only k xs) \<and> is_selected (select_only k xs ! j)} = ?A \<union> ?B"
    by (auto simp: nth_select_only is_selected_def split: if_splits)
  have b: "card ?B = (case k of None \<Rightarrow> 0 | Some i \<Rightarrow> if i < length xs \<and> \<not> var_is_fixed (xs ! i) then 1 else 0)"
  proof (cases k)
    case None
    then show ?thesis by simp
  next
    case (Some i)
    then have "?B = (if i < length xs \<and> \<not> var_is_fixed (xs ! i) then {i} else {})" by auto
    then show ?thesis using Some by simp
  qed
  have "card (?A \<union> ?B) = card ?A + card ?B"
    by (rule card_Un_disjoint) auto
  then show ?thesis
    using u b by (simp only: length_filter_conv_card)
qed

lemma select_only_binary:
  "list_all (\<lambda>x. var_is_fixed x \<longrightarrow> binary_value x) xs \<Longrightarrow> list_all binary_value (select_only k xs)"
  by (auto simp: list_all_length nth_select_only binary_value_def)

lemma select_only_kept: "list_all2 selection_kept xs (select_only k xs)"
  by (simp add: list_all2_conv_all_nth nth_select_only selection_kept_def)

lemma select_only_id:
  assumes "list_all binary_value xs"
    and "\<And>j. j < length xs \<Longrightarrow> \<not> var_is_fixed (xs ! j) \<Longrightarrow> is_selected (xs ! j) \<longleftrightarrow> k = Some j"
  shows "select_only k xs = xs"
proof (rule nth_equalityI)
  fix j assume j: "j < length (select_only k xs)"
  then have "binary_value (xs ! j)" using assms(1) by (simp add: list_all_length)
  then show "select_only k xs ! j = xs ! j"
    using j assms(2)[of j] by (auto simp: nth_select_only binary_value_def is_selected_def)
qed simp

lemma first_index_unique:
  assumes "length (filter P xs) = 1" "j < length xs" "P (xs ! j)"
  shows "first_index P xs = Some j"
proof -
  have "list_ex P xs" using assms(2,3) by (auto simp: list_ex_length)
  then obtain i where i: "first_index P xs = Some i" using first_index_None by (cases "first_index P xs") auto
  then have "i < length xs" "P (xs ! i)" using first_index_Some by blast+
  moreover have "card {j. j < length xs \<and> P (xs ! j)} = 1"
    using assms(1) by (simp add: length_filter_conv_card)
  ultimately have "i = j" using assms(2,3) card_1_singletonE by (metis (mono_tags, lifting) mem_Collect_eq singletonD)
  then show ?thesis using i by simp
qed

lemma correct_range_step_ok:
  "(\<exists>y. (if P x then correct_range True x else Inr x) = Inr y) \<longleftrightarrow> (P x \<and> var_is_fixed x \<longrightarrow> in_bounds x)"
  by (simp add: correct_range_def)

lemma correct_range_step_corrected:
  "(if P x then correct_range True x else Inr x) = Inr y \<Longrightarrow> range_corrected P x y"
  by (auto simp: correct_range_def range_corrected_def in_bounds_def split: if_splits)

lemma correct_range_step_False:
  "(if P x then correct_range False x else Inr x) =
     (if P x \<longrightarrow> in_bounds x then Inr x else Inl invalid_initial_value)"
  by (simp add: correct_range_def)

lemma verify_range_True_ok:
  "(\<exists>ys. verify_range P True xs = Inr ys) \<longleftrightarrow> list_all (\<lambda>x. P x \<and> var_is_fixed x \<longrightarrow> in_bounds x) xs"
  unfolding verify_range_def map_result_ok_iff correct_range_step_ok ..

lemma verify_range_True_corrected:
  "verify_range P True xs = Inr ys \<Longrightarrow> list_all2 (range_corrected P) xs ys"
  unfolding verify_range_def map_result_Inr_iff
  by (erule list_all2_mono) (rule correct_range_step_corrected)

lemma verify_range_False:
  "verify_range P False xs = (if list_all (\<lambda>x. P x \<longrightarrow> in_bounds x) xs then Inr xs else Inl invalid_initial_value)"
  unfolding verify_range_def by (rule map_result_check) (rule correct_range_step_False)

lemma filter_empty_list_ex: "filter P xs = [] \<longleftrightarrow> \<not> list_ex P xs"
  by (simp add: filter_empty_conv list_ex_iff)

lemma first_index_Some_ex:
  assumes "list_ex P xs"
  obtains i where "first_index P xs = Some i" "i < length xs" "P (xs ! i)"
proof -
  obtain i where i: "first_index P xs = Some i"
    using assms first_index_None by (cases "first_index P xs") auto
  then show thesis using that first_index_Some by blast
qed

lemma verify_selection_True_one_hot:
  assumes r: "verify_and_correct_selection_variables_initial_values True xs = Inr ys"
  shows "selection_one_hot ys \<and> list_all2 selection_kept xs ys"
proof -
  let ?fs = "filter (\<lambda>x. var_is_fixed x \<and> is_selected x) xs"
  have nf: "list_all (\<lambda>x. var_is_fixed x \<longrightarrow> binary_value x) xs" and le: "length ?fs \<le> 1"
    using r by (auto simp: verify_and_correct_selection_variables_initial_values_def Let_def
        list_all_iff list_ex_iff split: if_splits)
  consider (F) "?fs \<noteq> []" "ys = select_only None xs"
    | (N) k where "?fs = []" "first_index (\<lambda>x. \<not> var_is_fixed x \<and> var_value x = 0) xs = Some k"
        "ys = select_only (Some k) xs"
    | (S) "?fs = []" "list_ex (\<lambda>x. \<not> var_is_fixed x \<and> is_selected x) xs"
        "ys = select_only (first_index (\<lambda>x. \<not> var_is_fixed x \<and> is_selected x) xs) xs"
    using r by (auto simp: verify_and_correct_selection_variables_initial_values_def Let_def
        filter_empty_list_ex split: if_splits option.splits)
  then have "length (filter is_selected ys) = 1"
  proof cases
    case F
    then have "length ?fs = 1" using le by (cases "length ?fs") auto
    then show ?thesis using F(2) by (simp add: select_only_selected_count)
  next
    case (N k)
    then show ?thesis using first_index_Some[OF N(2)] by (simp add: select_only_selected_count)
  next
    case S
    then obtain i where "first_index (\<lambda>x. \<not> var_is_fixed x \<and> is_selected x) xs = Some i"
        "i < length xs" "\<not> var_is_fixed (xs ! i)"
      by (metis (no_types, lifting) first_index_Some_ex)
    then show ?thesis using S by (simp add: select_only_selected_count)
  qed
  moreover have "list_all binary_value ys \<and> list_all2 selection_kept xs ys"
    using r nf select_only_binary select_only_kept
    by (auto simp: verify_and_correct_selection_variables_initial_values_def Let_def split: if_splits option.splits)
  ultimately show ?thesis by (simp add: selection_one_hot_def)
qed

lemma verify_selection_True_ok:
  "(\<exists>ys. verify_and_correct_selection_variables_initial_values True xs = Inr ys) \<longleftrightarrow>
     list_all (\<lambda>x. var_is_fixed x \<longrightarrow> binary_value x) xs \<and>
     length (filter (\<lambda>x. var_is_fixed x \<and> is_selected x) xs) \<le> 1 \<and>
     list_ex (\<lambda>x. is_selected x \<or> \<not> var_is_fixed x \<and> var_value x = 0) xs"
proof -
  have z: "first_index (\<lambda>x. \<not> var_is_fixed x \<and> var_value x = 0) xs \<noteq> None \<longleftrightarrow>
      list_ex (\<lambda>x. \<not> var_is_fixed x \<and> var_value x = 0) xs"
    by (simp add: first_index_None)
  show ?thesis
    unfolding verify_and_correct_selection_variables_initial_values_def Let_def
    using z by (auto simp: filter_empty_list_ex list_all_iff list_ex_iff split: option.splits)
qed

lemma verify_selection_Inl:
  "verify_and_correct_selection_variables_initial_values c xs = Inl e \<Longrightarrow> e = invalid_initial_value"
  by (auto simp: verify_and_correct_selection_variables_initial_values_def Let_def split: if_splits option.splits)

lemma verify_selection_False_Inr:
  assumes "verify_and_correct_selection_variables_initial_values False xs = Inr ys"
  shows "selection_one_hot xs"
proof -
  let ?fs = "filter (\<lambda>x. var_is_fixed x \<and> is_selected x) xs"
  let ?us = "filter (\<lambda>x. \<not> var_is_fixed x \<and> is_selected x) xs"
  have bin: "list_all binary_value xs" and le: "\<not> 1 < length ?fs"
    and c0: "?fs \<noteq> [] \<and> ?us = [] \<or> ?fs = [] \<and> length ?us = 1"
    using assms by (auto simp: verify_and_correct_selection_variables_initial_values_def Let_def
        list_all_iff list_ex_iff filter_empty_conv split: if_splits)
  have c: "length ?fs = 1 \<and> ?us = [] \<or> ?fs = [] \<and> length ?us = 1"
    using c0 le by (cases "length ?fs") auto
  show ?thesis
    using bin c
    using selected_count_split[of xs] by (auto simp: selection_one_hot_def)
qed

lemma verify_selection_False:
  "verify_and_correct_selection_variables_initial_values False xs =
     (if selection_one_hot xs then Inr xs else Inl invalid_initial_value)"
proof (cases "selection_one_hot xs")
  case True
  let ?fs = "filter (\<lambda>x. var_is_fixed x \<and> is_selected x) xs"
  let ?us = "filter (\<lambda>x. \<not> var_is_fixed x \<and> is_selected x) xs"
  have bin: "list_all binary_value xs" and c: "length ?fs + length ?us = 1"
    using True selected_count_split[of xs] by (simp_all add: selection_one_hot_def)
  have nf: "\<not> list_ex (\<lambda>x. var_is_fixed x \<and> \<not> binary_value x) xs"
    and ni: "filter (\<lambda>x. \<not> var_is_fixed x \<and> \<not> binary_value x) xs = []"
    using bin by (auto simp: list_all_iff list_ex_iff filter_empty_conv)
  consider (F) "length ?fs = 1" "?us = []" | (U) "?fs = []" "length ?us = 1"
    using c by (cases "length ?fs") auto
  then show ?thesis
  proof cases
    case F
    have "select_only None xs = xs"
    proof (rule select_only_id[OF bin])
      fix j assume "j < length xs" "\<not> var_is_fixed (xs ! j)"
      then show "is_selected (xs ! j) \<longleftrightarrow> None = Some j"
        using F(2) by (auto simp: filter_empty_conv)
    qed
    moreover have "?fs \<noteq> []" using F(1) by auto
    ultimately show ?thesis
      using True F nf ni by (simp add: verify_and_correct_selection_variables_initial_values_def Let_def)
  next
    case U
    have "select_only (first_index (\<lambda>x. \<not> var_is_fixed x \<and> is_selected x) xs) xs = xs"
    proof (rule select_only_id[OF bin])
      fix j assume j: "j < length xs" "\<not> var_is_fixed (xs ! j)"
      show "is_selected (xs ! j) \<longleftrightarrow> first_index (\<lambda>x. \<not> var_is_fixed x \<and> is_selected x) xs = Some j"
        using first_index_unique[OF U(2) j(1)] first_index_Some[of "\<lambda>x. \<not> var_is_fixed x \<and> is_selected x" xs j] j
        by auto
    qed
    moreover have "?us \<noteq> []" using U(2) by auto
    ultimately show ?thesis
      using True U nf ni by (simp add: verify_and_correct_selection_variables_initial_values_def Let_def)
  qed
next
  case False
  then show ?thesis
    using verify_selection_False_Inr verify_selection_Inl
    by (cases "verify_and_correct_selection_variables_initial_values False xs") auto
qed

text \<open>C15. Verification of binary and integer initial values (one routine over the
  variable category): with correction it succeeds exactly when no fixed variable of the
  category is out of bounds, and then leaves every variable's bounds and flag alone, leaves
  in-range and other variables unchanged and snaps the rest into their bounds; without
  correction it returns the variables unchanged when all of the category are in bounds and
  fails otherwise. The translated binary and integer tests pass.\<close>

theorem verify_range_correct:
  "((\<exists>ys. verify_range P True xs = Inr ys) \<longleftrightarrow>
      list_all (\<lambda>x. P x \<and> var_is_fixed x \<longrightarrow> in_bounds x) xs) \<and>
   (verify_range P True xs = Inr ys \<longrightarrow> list_all2 (range_corrected P) xs ys) \<and>
   verify_range P False xs =
     (if list_all (\<lambda>x. P x \<longrightarrow> in_bounds x) xs then Inr xs else Inl invalid_initial_value) \<and>
   test_verify_and_correct_binary_variables_initial_values \<and>
   test_verify_and_correct_integer_variables_initial_values"
  using verify_range_True_ok verify_range_True_corrected verify_range_False
    test_verify_and_correct_binary_passes test_verify_and_correct_integer_passes
  by blast

text \<open>C21. Verification of a selection group: with correction, a successful result is
  one-hot (binary values, exactly one 1) with fixed variables, bounds and flags unchanged,
  and it succeeds exactly when every fixed variable is binary, at most one fixed variable
  is selected and some variable is selected or unfixed at 0; without correction it returns
  the group unchanged exactly when it is already one-hot and fails otherwise. The
  translated selection test passes.\<close>

theorem verify_selection_one_hot:
  "(verify_and_correct_selection_variables_initial_values True xs = Inr ys \<longrightarrow>
      selection_one_hot ys \<and> list_all2 selection_kept xs ys) \<and>
   ((\<exists>ys. verify_and_correct_selection_variables_initial_values True xs = Inr ys) \<longleftrightarrow>
      list_all (\<lambda>x. var_is_fixed x \<longrightarrow> binary_value x) xs \<and>
      length (filter (\<lambda>x. var_is_fixed x \<and> is_selected x) xs) \<le> 1 \<and>
      list_ex (\<lambda>x. is_selected x \<or> \<not> var_is_fixed x \<and> var_value x = 0) xs) \<and>
   verify_and_correct_selection_variables_initial_values False xs =
     (if selection_one_hot xs then Inr xs else Inl invalid_initial_value) \<and>
   test_verify_and_correct_selection_variables_initial_values"
  using verify_selection_True_one_hot verify_selection_True_ok verify_selection_False
    test_verify_and_correct_selection_passes
  by blast

section \<open>Instances of the lemmas\<close>

lemma verify_range_correct_witness:
  "verify_range is_binary True (set_value 1 (-1) (set_value 0 2 (create_variables 3 0 1))) =
     Inr ((create_variables 3 0 1)[0 := \<lparr>var_value = 1, var_lower = 0, var_upper = 1, var_is_fixed = False\<rparr>]) \<and>
   list_all2 (range_corrected is_binary) (set_value 1 (-1) (set_value 0 2 (create_variables 3 0 1)))
     ((create_variables 3 0 1)[0 := \<lparr>var_value = 1, var_lower = 0, var_upper = 1, var_is_fixed = False\<rparr>]) \<and>
   \<not> (\<exists>ys. verify_range is_binary True (fix_at 0 2 (create_variables 3 0 1)) = Inr ys)"
proof -
  have r: "verify_range is_binary True (set_value 1 (-1) (set_value 0 2 (create_variables 3 0 1))) =
     Inr ((create_variables 3 0 1)[0 := \<lparr>var_value = 1, var_lower = 0, var_upper = 1, var_is_fixed = False\<rparr>])"
    by code_simp
  have f: "\<not> list_all (\<lambda>x. is_binary x \<and> var_is_fixed x \<longrightarrow> in_bounds x) (fix_at 0 2 (create_variables 3 0 1))"
    by code_simp
  show ?thesis
    using r f verify_range_correct[of is_binary "set_value 1 (-1) (set_value 0 2 (create_variables 3 0 1))"]
      verify_range_correct[of is_binary "fix_at 0 2 (create_variables 3 0 1)"]
    by blast
qed

lemma verify_selection_one_hot_witness:
  "verify_and_correct_selection_variables_initial_values True (fix_at 1 1 (set_value 0 1 (create_variables 3 0 1))) =
     Inr (fix_at 1 1 (create_variables 3 0 1)) \<and>
   selection_one_hot (fix_at 1 1 (create_variables 3 0 1)) \<and>
   list_all2 selection_kept (fix_at 1 1 (set_value 0 1 (create_variables 3 0 1))) (fix_at 1 1 (create_variables 3 0 1))"
proof -
  have r: "verify_and_correct_selection_variables_initial_values True
      (fix_at 1 1 (set_value 0 1 (create_variables 3 0 1))) = Inr (fix_at 1 1 (create_variables 3 0 1))"
    by code_simp
  show ?thesis
    using r verify_selection_one_hot[of "fix_at 1 1 (set_value 0 1 (create_variables 3 0 1))"] by blast
qed

end
