(* ===== verification/ModelCreate.thy ===== *)
theory ModelCreate
  imports ModelTests InitialValues TabuSearchPrint
begin

text \<open>
  The creation of proxies (\<open>Model::create_variable(s)\<close>, \<open>create_expression(s)\<close>,
  \<open>create_constraint(s)\<close>; specification sections 6 and 7: a name with white space is an
  \<open>InvalidName\<close>, a proxy beyond the compile-time limit \<open>MAX_NUMBER_OF_*_PROXIES\<close> is
  \<open>TooManyProxies\<close>, both thrown as \<open>std::logic_error\<close>) and the fifteen creation tests of
  \<open>src/unnamed/part_000\<close> (lines 206--615). The library is not among the sources and is
  modelled from the specification over \<open>create_proxy\<close> of \<open>ModelTests\<close>; the limit, a
  constant of \<open>model_constant.h\<close>, is the parameter \<open>max_proxies\<close>, and each test is
  proved to pass for every limit.

  A created variable proxy carries its variables (\<open>InitialValues.variable\<close>), all with the
  given bounds, or \<open>std::numeric_limits<int>::min() + 1\<close> and \<open>max() - 1\<close> when none are
  given, and whether bounds were given (\<open>has_bounds\<close>). The sense of a new variable is
  \<open>Binary\<close> for the bounds \<open>[0, 1]\<close> and \<open>Integer\<close> otherwise (section 4.1). The body
  passed to \<open>create_expression(name, body)\<close> or \<open>create_constraint(name, body)\<close> is not
  modelled: the tests only read the proxy list and the names.
\<close>

section \<open>Creating proxies\<close>

definition invalid_name :: cpp_error where
  "invalid_name = LogicError ''InvalidName''"

definition too_many_proxies :: cpp_error where
  "too_many_proxies = LogicError ''TooManyProxies''"

definition create_checked ::
  "nat \<Rightarrow> proxy_kind \<Rightarrow> string \<Rightarrow> (int \<Rightarrow> cpp_error + abstract_multi_array) \<Rightarrow> model_decl \<Rightarrow>
   cpp_error + model_decl \<times> proxy_decl" where
  "create_checked max_proxies k name mk m =
     (if CHR '' '' \<in> set name then Inl invalid_name
      else if max_proxies \<le> length (model_proxies k m) then Inl too_many_proxies
      else create_proxy k name mk m)"

datatype variable_sense = Sense_Binary | Sense_Integer

definition creation_sense :: "variable \<Rightarrow> variable_sense" where
  "creation_sense x = (if is_binary x then Sense_Binary else Sense_Integer)"

record variable_proxy =
  vp_decl :: proxy_decl
  vp_variables :: "variable list"
  vp_has_bounds :: bool

definition default_lower_bound :: int where
  "default_lower_bound = - (2 ^ 31) + 1"

definition default_upper_bound :: int where
  "default_upper_bound = 2 ^ 31 - 1 - 1"

definition create_variable_proxy ::
  "nat \<Rightarrow> string \<Rightarrow> (int \<Rightarrow> cpp_error + abstract_multi_array) \<Rightarrow> (int \<times> int) option \<Rightarrow>
   model_decl \<Rightarrow> cpp_error + model_decl \<times> variable_proxy" where
  "create_variable_proxy max_proxies name mk bounds m =
     sum_bind (create_checked max_proxies VariableProxies name mk m)
       (\<lambda>(m', p).
          let (lower, upper, has) =
                (case bounds of None \<Rightarrow> (default_lower_bound, default_upper_bound, False)
                 | Some (l, u) \<Rightarrow> (l, u, True))
          in Inr (m', \<lparr>vp_decl = p,
                       vp_variables = create_variables (nat (number_of_elements (pd_array p))) lower upper,
                       vp_has_bounds = has\<rparr>))"

section \<open>The creation tests\<close>

text \<open>The loop of a creation test: create the proxy named \<open>prefix + std::to_string(i)\<close>
  for each \<open>i\<close>, checking the \<open>EXPECT_EQ\<close>s of the iteration on the model and proxy just
  created; an exception ends the test.\<close>

fun create_loop ::
  "(nat \<Rightarrow> string) \<Rightarrow> (string \<Rightarrow> model_decl \<Rightarrow> cpp_error + model_decl \<times> 'p) \<Rightarrow>
   (nat \<Rightarrow> string \<Rightarrow> model_decl \<Rightarrow> 'p \<Rightarrow> bool) \<Rightarrow> nat list \<Rightarrow> model_decl \<Rightarrow>
   cpp_error + model_decl \<times> bool" where
  "create_loop name create expect [] m = Inr (m, True)"
| "create_loop name create expect (i # is) m =
     (case create (name i) m of
        Inl e \<Rightarrow> Inl e
      | Inr (m', x) \<Rightarrow>
          (case create_loop name create expect is m' of
             Inl e \<Rightarrow> Inl e
           | Inr (m'', ok) \<Rightarrow> Inr (m'', expect i (name i) m' x \<and> ok)))"

text \<open>One creation test: the loop up to the limit with its checks (the size of the proxy
  list, the id, the element checks \<open>check\<close>, the proxy being the last of the list and its
  name the last name), then \<open>"error"\<close> beyond the limit and \<open>"s p a c e"\<close> on a fresh model
  both throw.\<close>

definition test_create ::
  "proxy_kind \<Rightarrow> nat \<Rightarrow> string \<Rightarrow> (string \<Rightarrow> model_decl \<Rightarrow> cpp_error + model_decl \<times> 'p) \<Rightarrow>
   ('p \<Rightarrow> proxy_decl) \<Rightarrow> ('p \<Rightarrow> bool) \<Rightarrow> bool" where
  "test_create k max_proxies prefix create decl_of check =
     (case create_loop (\<lambda>i. prefix @ nat_to_string i) create
             (\<lambda>i name m x. int i + 1 = int (length (model_proxies k m)) \<and>
                           int i = ama_id (pd_array (decl_of x)) \<and> check x \<and>
                           decl_of x = last (model_proxies k m) \<and>
                           name = pd_name (last (model_proxies k m)))
             [0..<max_proxies] model_new of
        Inl _ \<Rightarrow> False
      | Inr (m, ok) \<Rightarrow>
          ok \<and> throws_logic_error (create ''error'' m) \<and>
          throws_logic_error (create ''s p a c e'' model_new))"

text \<open>The element checks of the variable tests on \<open>x(0)\<close> (or \<open>x(0, 0)\<close>).\<close>

definition expect_variable :: "int \<Rightarrow> int \<Rightarrow> bool \<Rightarrow> variable_sense \<Rightarrow> variable_proxy \<Rightarrow> bool" where
  "expect_variable lower upper has s x \<longleftrightarrow>
     lower = var_lower (vp_variables x ! 0) \<and> upper = var_upper (vp_variables x ! 0) \<and>
     has = vp_has_bounds x \<and> s = creation_sense (vp_variables x ! 0)"

definition test_create_variable :: "nat \<Rightarrow> (int \<Rightarrow> cpp_error + abstract_multi_array) \<Rightarrow> (int \<times> int) option \<Rightarrow> bool" where
  "test_create_variable max_proxies mk bounds =
     test_create VariableProxies max_proxies ''x''
       (\<lambda>name. create_variable_proxy max_proxies name mk bounds) vp_decl
       (case bounds of
          None \<Rightarrow> expect_variable (- 2147483647) 2147483646 False Sense_Integer
        | Some _ \<Rightarrow> expect_variable 0 1 True Sense_Binary)"

definition test_create_variable_scalar_without_bound :: "nat \<Rightarrow> bool" where
  "test_create_variable_scalar_without_bound max_proxies = test_create_variable max_proxies ama_new None"

definition test_create_variable_scalar_with_bound :: "nat \<Rightarrow> bool" where
  "test_create_variable_scalar_with_bound max_proxies =
     test_create_variable max_proxies ama_new (Some (0, 1))"

definition test_create_variable_one_dimensional_without_bound :: "nat \<Rightarrow> bool" where
  "test_create_variable_one_dimensional_without_bound max_proxies =
     test_create_variable max_proxies (\<lambda>i. ama_new_elements i 2) None"

definition test_create_variable_one_dimensional_with_bound :: "nat \<Rightarrow> bool" where
  "test_create_variable_one_dimensional_with_bound max_proxies =
     test_create_variable max_proxies (\<lambda>i. ama_new_elements i 2) (Some (0, 1))"

definition test_create_variable_two_dimensional_without_bound :: "nat \<Rightarrow> bool" where
  "test_create_variable_two_dimensional_without_bound max_proxies =
     test_create_variable max_proxies (\<lambda>i. ama_new_shape i [2, 3]) None"

definition test_create_variable_two_dimensional_with_bound :: "nat \<Rightarrow> bool" where
  "test_create_variable_two_dimensional_with_bound max_proxies =
     test_create_variable max_proxies (\<lambda>i. ama_new_shape i [2, 3]) (Some (0, 1))"

text \<open>The expression and constraint tests (scalar, one- and two-dimensional, and with an
  expression-like, expression or constraint body) check the proxy list and the names only.\<close>

definition test_create_plain ::
  "proxy_kind \<Rightarrow> string \<Rightarrow> nat \<Rightarrow> (int \<Rightarrow> cpp_error + abstract_multi_array) \<Rightarrow> bool" where
  "test_create_plain k prefix max_proxies mk =
     test_create k max_proxies prefix (\<lambda>name. create_checked max_proxies k name mk) id (\<lambda>_. True)"

definition test_create_expression_scalar :: "nat \<Rightarrow> bool" where
  "test_create_expression_scalar max_proxies = test_create_plain ExpressionProxies ''p'' max_proxies ama_new"

definition test_create_expression_one_dimensional :: "nat \<Rightarrow> bool" where
  "test_create_expression_one_dimensional max_proxies =
     test_create_plain ExpressionProxies ''p'' max_proxies (\<lambda>i. ama_new_elements i 2)"

definition test_create_expression_two_dimensional :: "nat \<Rightarrow> bool" where
  "test_create_expression_two_dimensional max_proxies =
     test_create_plain ExpressionProxies ''p'' max_proxies (\<lambda>i. ama_new_shape i [2, 3])"

definition test_create_expression_arg_expression_like :: "nat \<Rightarrow> bool" where
  "test_create_expression_arg_expression_like max_proxies =
     test_create_plain ExpressionProxies ''p'' max_proxies ama_new"

definition test_create_expression_arg_expression :: "nat \<Rightarrow> bool" where
  "test_create_expression_arg_expression max_proxies =
     test_create_plain ExpressionProxies ''p'' max_proxies ama_new"

definition test_create_constraint_scalar :: "nat \<Rightarrow> bool" where
  "test_create_constraint_scalar max_proxies = test_create_plain ConstraintProxies ''g'' max_proxies ama_new"

definition test_create_constraint_one_dimensional :: "nat \<Rightarrow> bool" where
  "test_create_constraint_one_dimensional max_proxies =
     test_create_plain ConstraintProxies ''g'' max_proxies (\<lambda>i. ama_new_elements i 2)"

definition test_create_constraint_two_dimensional :: "nat \<Rightarrow> bool" where
  "test_create_constraint_two_dimensional max_proxies =
     test_create_plain ConstraintProxies ''g'' max_proxies (\<lambda>i. ama_new_shape i [2, 3])"

definition test_create_constraint_arg_constraint :: "nat \<Rightarrow> bool" where
  "test_create_constraint_arg_constraint max_proxies =
     test_create_plain ConstraintProxies ''g'' max_proxies ama_new"

section \<open>Lemmas\<close>

lemma space_not_in_nat_to_string: "CHR '' '' \<notin> set (nat_to_string n)"
  using nat_to_string_chars[of n] by fastforce

lemma create_loop_upt:
  assumes step: "\<And>i m. a \<le> i \<Longrightarrow> i < b \<Longrightarrow> length (model_proxies k m) = i \<Longrightarrow>
      \<exists>m' x. create (name i) m = Inr (m', x) \<and> length (model_proxies k m') = Suc i \<and> expect i (name i) m' x"
    and "length (model_proxies k m) = a" "a \<le> b"
  shows "\<exists>m'. create_loop name create expect [a..<b] m = Inr (m', True) \<and> length (model_proxies k m') = b"
  using assms
proof (induction "b - a" arbitrary: a m)
  case 0
  then show ?case by simp
next
  case (Suc n)
  then have ab: "a < b" by simp
  obtain m' x where c: "create (name a) m = Inr (m', x)" "length (model_proxies k m') = Suc a"
      "expect a (name a) m' x"
    using Suc.prems(1)[of a m] Suc.prems(2) ab by blast
  obtain m'' where r: "create_loop name create expect [Suc a..<b] m' = Inr (m'', True)"
      "length (model_proxies k m'') = b"
    using Suc.hyps(1)[of "Suc a" m'] Suc.hyps(2) Suc.prems(1) c(2) ab by fastforce
  show ?case
    using c r ab by (simp add: upt_conv_Cons)
qed

lemma test_create_passes:
  assumes prefix: "CHR '' '' \<notin> set prefix"
    and ok: "\<And>name m. CHR '' '' \<notin> set name \<Longrightarrow> length (model_proxies k m) < max_proxies \<Longrightarrow>
      \<exists>m' x. create name m = Inr (m', x) \<and> model_proxies k m' = model_proxies k m @ [decl_of x] \<and>
             pd_name (decl_of x) = name \<and> ama_id (pd_array (decl_of x)) = int (length (model_proxies k m)) \<and>
             check x"
    and full: "\<And>m. max_proxies \<le> length (model_proxies k m) \<Longrightarrow> throws_logic_error (create ''error'' m)"
    and space: "throws_logic_error (create ''s p a c e'' model_new)"
  shows "test_create k max_proxies prefix create decl_of check"
proof -
  let ?name = "\<lambda>i. prefix @ nat_to_string i"
  let ?expect = "\<lambda>i name m x. int i + 1 = int (length (model_proxies k m)) \<and>
      int i = ama_id (pd_array (decl_of x)) \<and> check x \<and> decl_of x = last (model_proxies k m) \<and>
      name = pd_name (last (model_proxies k m))"
  have "\<exists>m' x. create (?name i) m = Inr (m', x) \<and> length (model_proxies k m') = Suc i \<and> ?expect i (?name i) m' x"
    if "0 \<le> i" "i < max_proxies" "length (model_proxies k m) = i" for i m
  proof -
    have "CHR '' '' \<notin> set (?name i)" using prefix space_not_in_nat_to_string by simp
    moreover have "length (model_proxies k m) < max_proxies" using that by simp
    ultimately obtain m' x where "create (?name i) m = Inr (m', x)"
        "model_proxies k m' = model_proxies k m @ [decl_of x]" "pd_name (decl_of x) = ?name i"
        "ama_id (pd_array (decl_of x)) = int (length (model_proxies k m))" "check x"
      using ok[of "?name i" m] by blast
    then show ?thesis using that by simp
  qed
  moreover have "length (model_proxies k model_new) = 0" by (simp add: model_new_def model_proxies_def split: proxy_kind.split)
  ultimately obtain m where "create_loop ?name create ?expect [0..<max_proxies] model_new = Inr (m, True)"
      "length (model_proxies k m) = max_proxies"
    using create_loop_upt[of 0 max_proxies k create ?name ?expect model_new] by blast
  then show ?thesis
    using full[of m] space by (simp add: test_create_def)
qed

lemma constructors_ok:
  "\<exists>a. ama_new i = Inr a \<and> ama_id a = i \<and> 0 < number_of_elements a"
  "\<exists>a. ama_new_elements i 2 = Inr a \<and> ama_id a = i \<and> 0 < number_of_elements a"
  "\<exists>a. ama_new_shape i [2, 3] = Inr a \<and> ama_id a = i \<and> 0 < number_of_elements a"
  by (simp_all add: ama_new_def ama_new_elements_def ama_new_shape_def compute_strides_def)

lemma create_checked_ok:
  assumes "CHR '' '' \<notin> set name" "length (model_proxies k m) < max_proxies"
    and "mk (int (length (model_proxies k m))) = Inr a"
  shows "create_checked max_proxies k name mk m =
           Inr (set_model_proxies k (model_proxies k m @ [\<lparr>pd_name = name, pd_array = a, pd_flat_indexed_names = []\<rparr>]) m,
                \<lparr>pd_name = name, pd_array = a, pd_flat_indexed_names = []\<rparr>)"
  using assms by (simp add: create_checked_def create_proxy_def sum_bind_def Let_def)

lemma create_checked_errors:
  "CHR '' '' \<in> set name \<Longrightarrow> create_checked max_proxies k name mk m = Inl invalid_name"
  "CHR '' '' \<notin> set name \<Longrightarrow> max_proxies \<le> length (model_proxies k m) \<Longrightarrow>
   create_checked max_proxies k name mk m = Inl too_many_proxies"
  by (simp_all add: create_checked_def)

lemma create_checked_throws:
  "CHR '' '' \<in> set name \<or> max_proxies \<le> length (model_proxies k m) \<Longrightarrow>
   throws_logic_error (create_checked max_proxies k name mk m)"
  by (auto simp: create_checked_def throws_logic_error_def invalid_name_def too_many_proxies_def)

lemma test_create_plain_passes:
  assumes "CHR '' '' \<notin> set prefix" "\<And>i. \<exists>a. mk i = Inr a \<and> ama_id a = i \<and> 0 < number_of_elements a"
  shows "test_create_plain k prefix max_proxies mk"
  unfolding test_create_plain_def
proof (rule test_create_passes[OF assms(1)])
  fix name m
  assume n: "CHR '' '' \<notin> set name" and l: "length (model_proxies k m) < max_proxies"
  obtain a where a: "mk (int (length (model_proxies k m))) = Inr a" "ama_id a = int (length (model_proxies k m))"
    using assms(2) by blast
  show "\<exists>m' x. create_checked max_proxies k name mk m = Inr (m', x) \<and>
      model_proxies k m' = model_proxies k m @ [id x] \<and> pd_name (id x) = name \<and>
      ama_id (pd_array (id x)) = int (length (model_proxies k m)) \<and> True"
    using create_checked_ok[where mk = mk, OF n l a(1)] a(2) by simp
qed (simp_all add: create_checked_throws)

lemma test_create_variable_passes:
  assumes "\<And>i. \<exists>a. mk i = Inr a \<and> ama_id a = i \<and> 0 < number_of_elements a"
    and b: "bounds = None \<or> bounds = Some (0, 1)"
  shows "test_create_variable max_proxies mk bounds"
  unfolding test_create_variable_def
proof (rule test_create_passes)
  fix name m
  assume n: "CHR '' '' \<notin> set name" and l: "length (model_proxies VariableProxies m) < max_proxies"
  obtain a where a: "mk (int (length (model_proxies VariableProxies m))) = Inr a"
      "ama_id a = int (length (model_proxies VariableProxies m))" "0 < number_of_elements a"
    using assms(1) by blast
  have c: "create_variables (nat (number_of_elements a)) lower upper ! 0 =
      \<lparr>var_value = 0, var_lower = lower, var_upper = upper, var_is_fixed = False\<rparr>" for lower upper
    using a(3) by (simp add: create_variables_def)
  show "\<exists>m' x. create_variable_proxy max_proxies name mk bounds m = Inr (m', x) \<and>
      model_proxies VariableProxies m' = model_proxies VariableProxies m @ [vp_decl x] \<and>
      pd_name (vp_decl x) = name \<and> ama_id (pd_array (vp_decl x)) = int (length (model_proxies VariableProxies m)) \<and>
      (case bounds of None \<Rightarrow> expect_variable (- 2147483647) 2147483646 False Sense_Integer
       | Some _ \<Rightarrow> expect_variable 0 1 True Sense_Binary) x"
    using create_checked_ok[where mk = mk, OF n l a(1)] a(2) b c
    by (auto simp: create_variable_proxy_def sum_bind_def expect_variable_def creation_sense_def
        is_binary_def default_lower_bound_def default_upper_bound_def)
qed (auto simp: create_variable_proxy_def sum_bind_def throws_logic_error_def create_checked_def
      invalid_name_def too_many_proxies_def)

text \<open>Every creation test passes, whatever the proxy limit.\<close>

lemma creation_tests_pass:
  "test_create_variable_scalar_without_bound max_proxies"
  "test_create_variable_scalar_with_bound max_proxies"
  "test_create_variable_one_dimensional_without_bound max_proxies"
  "test_create_variable_one_dimensional_with_bound max_proxies"
  "test_create_variable_two_dimensional_without_bound max_proxies"
  "test_create_variable_two_dimensional_with_bound max_proxies"
  "test_create_expression_scalar max_proxies"
  "test_create_expression_one_dimensional max_proxies"
  "test_create_expression_two_dimensional max_proxies"
  "test_create_expression_arg_expression_like max_proxies"
  "test_create_expression_arg_expression max_proxies"
  "test_create_constraint_scalar max_proxies"
  "test_create_constraint_one_dimensional max_proxies"
  "test_create_constraint_two_dimensional max_proxies"
  "test_create_constraint_arg_constraint max_proxies"
  by (simp_all add: test_create_variable_scalar_without_bound_def test_create_variable_scalar_with_bound_def test_create_variable_one_dimensional_without_bound_def test_create_variable_one_dimensional_with_bound_def test_create_variable_two_dimensional_without_bound_def test_create_variable_two_dimensional_with_bound_def test_create_expression_scalar_def test_create_expression_one_dimensional_def test_create_expression_two_dimensional_def test_create_expression_arg_expression_like_def test_create_expression_arg_expression_def test_create_constraint_scalar_def test_create_constraint_one_dimensional_def test_create_constraint_two_dimensional_def test_create_constraint_arg_constraint_def
      test_create_plain_passes test_create_variable_passes constructors_ok)

end
