(* ===== verification/ModelObjective.thy ===== *)
theory ModelObjective
  imports ModelEvaluate ModelCreate
begin

text \<open>
  The objective of a model (\<open>Model::minimize\<close>, \<open>Model::maximize\<close>, specification section
  6) and the check of \<open>Model::verify_problem\<close> (section 7, \<open>InvalidModel\<close>: no variables,
  or no objective and no constraint), modelled from the specification, and their tests of
  \<open>src/unnamed/part_000\<close> (lines 618--817). An objective is either a callback of the move,
  which the solver cannot see through (no sensitivities, constant 0, not linear), or a
  linear expression. After \<open>model.update()\<close> the objective's value is the callback on the
  empty move or the expression's value, in the user's sense: the sign only enters the
  scores of \<open>ModelEvaluate\<close>.
\<close>

datatype objective =
    Objective_Function "assignment \<Rightarrow> move \<Rightarrow> real"
  | Objective_Expression linear_expression

record model_objective =
  mo_is_defined_objective :: bool
  mo_is_minimization :: bool
  mo_sign :: real
  mo_objective :: objective

definition empty_expression :: linear_expression where
  "empty_expression = \<lparr>expr_terms = [], expr_constant = 0\<rparr>"

definition model_objective_new :: model_objective where
  "model_objective_new =
     \<lparr>mo_is_defined_objective = False, mo_is_minimization = True, mo_sign = 1,
      mo_objective = Objective_Expression empty_expression\<rparr>"

definition minimize :: "objective \<Rightarrow> model_objective \<Rightarrow> model_objective" where
  "minimize obj mo =
     mo\<lparr>mo_is_defined_objective := True, mo_is_minimization := True, mo_sign := 1, mo_objective := obj\<rparr>"

definition maximize :: "objective \<Rightarrow> model_objective \<Rightarrow> model_objective" where
  "maximize obj mo =
     mo\<lparr>mo_is_defined_objective := True, mo_is_minimization := False, mo_sign := -1, mo_objective := obj\<rparr>"

definition objective_expression :: "objective \<Rightarrow> linear_expression" where
  "objective_expression obj =
     (case obj of Objective_Function f \<Rightarrow> empty_expression | Objective_Expression e \<Rightarrow> e)"

definition objective_is_linear :: "objective \<Rightarrow> bool" where
  "objective_is_linear obj = (case obj of Objective_Function f \<Rightarrow> False | Objective_Expression e \<Rightarrow> True)"

text \<open>\<open>sensitivities()\<close> maps each variable of the expression to its coefficient.\<close>

definition number_of_sensitivities :: "linear_expression \<Rightarrow> nat" where
  "number_of_sensitivities e = length (remdups (map fst (expr_terms e)))"

definition empty_move :: move where
  "empty_move = \<lparr>sense = Binary, alterations = [], related_constraints = []\<rparr>"

definition objective_value :: "assignment \<Rightarrow> objective \<Rightarrow> real" where
  "objective_value \<sigma> obj =
     (case obj of Objective_Function f \<Rightarrow> f \<sigma> empty_move
      | Objective_Expression e \<Rightarrow> expression_value \<sigma> e)"

definition invalid_model :: cpp_error where
  "invalid_model = LogicError ''InvalidModel''"

definition number_of_elements_of :: "proxy_decl list \<Rightarrow> int" where
  "number_of_elements_of ps = sum_list (map (\<lambda>p. number_of_elements (pd_array p)) ps)"

definition verify_problem :: "model_decl \<Rightarrow> model_objective \<Rightarrow> cpp_error + unit" where
  "verify_problem m mo =
     (if number_of_elements_of (model_variable_proxies m) = 0 then Inl invalid_model
      else if number_of_elements_of (model_constraint_proxies m) = 0 \<and> \<not> mo_is_defined_objective mo
      then Inl invalid_model
      else Inr ())"

section \<open>The tests\<close>

text \<open>The tests' expression \<open>p = x.sum() + 1\<close> over ten variables of proxy 0, and the
  callback \<open>f(move) = p.evaluate(move)\<close>.\<close>

definition sum_plus_one :: linear_expression where
  "sum_plus_one = \<lparr>expr_terms = map (\<lambda>i. ((0, i), 1)) [0..<10], expr_constant = 1\<rparr>"

definition sum_plus_one_callback :: "assignment \<Rightarrow> move \<Rightarrow> real" where
  "sum_plus_one_callback \<sigma> mv = expression_value (apply_move \<sigma> mv) sum_plus_one"

definition expect_objective ::
  "model_objective \<Rightarrow> bool \<Rightarrow> real \<Rightarrow> nat \<Rightarrow> real \<Rightarrow> bool \<Rightarrow> real \<Rightarrow> bool" where
  "expect_objective mo is_min sg sens cst lin v \<longleftrightarrow>
     True = mo_is_defined_objective mo \<and> is_min = mo_is_minimization mo \<and> sg = mo_sign mo \<and>
     sens = number_of_sensitivities (objective_expression (mo_objective mo)) \<and>
     cst = expr_constant (objective_expression (mo_objective mo)) \<and>
     lin = objective_is_linear (mo_objective mo) \<and>
     v = objective_value (\<lambda>_. 1) (mo_objective mo)"

definition test_minimize_arg_function :: bool where
  "test_minimize_arg_function =
     expect_objective (minimize (Objective_Function sum_plus_one_callback) model_objective_new)
       True 1 0 0 False (10 + 1)"

definition test_minimize_arg_expression_like :: bool where
  "test_minimize_arg_expression_like =
     expect_objective (minimize (Objective_Expression sum_plus_one) model_objective_new)
       True 1 10 1 True (10 + 1)"

definition test_minimize_arg_expression :: bool where
  "test_minimize_arg_expression =
     expect_objective (minimize (Objective_Expression sum_plus_one) model_objective_new)
       True 1 10 1 True (10 + 1)"

definition test_maximize_arg_function :: bool where
  "test_maximize_arg_function =
     expect_objective (maximize (Objective_Function sum_plus_one_callback) model_objective_new)
       False (-1) 0 0 False (10 + 1)"

definition test_maximize_arg_expression_like :: bool where
  "test_maximize_arg_expression_like =
     expect_objective (maximize (Objective_Expression sum_plus_one) model_objective_new)
       False (-1) 10 1 True (10 + 1)"

definition test_maximize_arg_expression :: bool where
  "test_maximize_arg_expression =
     expect_objective (maximize (Objective_Expression sum_plus_one) model_objective_new)
       False (-1) 10 1 True (10 + 1)"

text \<open>The four blocks of \<open>verify_problem\<close>, the model built by \<open>create_variable("x")\<close>
  and \<open>create_constraint("g", x == 1)\<close> under a proxy limit \<open>max_proxies\<close>; \<open>x\<close> as the
  objective is the expression \<open>x\<close>.\<close>

definition test_verify_problem :: "nat \<Rightarrow> bool" where
  "test_verify_problem max_proxies =
     (let x = create_checked max_proxies VariableProxies ''x'' ama_new model_new;
          x_objective = Objective_Expression \<lparr>expr_terms = [((0, 0), 1)], expr_constant = 0\<rparr>
      in throws_logic_error (verify_problem model_new model_objective_new) \<and>
         (case x of
            Inl _ \<Rightarrow> False
          | Inr (m, _) \<Rightarrow>
              verify_problem m (minimize x_objective model_objective_new) = Inr () \<and>
              (case create_checked max_proxies ConstraintProxies ''g'' ama_new m of
                 Inl _ \<Rightarrow> False
               | Inr (m', _) \<Rightarrow> verify_problem m' model_objective_new = Inr ()) \<and>
              throws_logic_error (verify_problem m model_objective_new)))"

section \<open>Lemmas\<close>

lemma objective_tests_pass:
  "test_minimize_arg_function" "test_minimize_arg_expression_like" "test_minimize_arg_expression"
  "test_maximize_arg_function" "test_maximize_arg_expression_like" "test_maximize_arg_expression"
  unfolding test_minimize_arg_function_def test_minimize_arg_expression_like_def
    test_minimize_arg_expression_def test_maximize_arg_function_def
    test_maximize_arg_expression_like_def test_maximize_arg_expression_def
  by code_simp+

text \<open>The \<open>verify_problem\<close> test passes under every proxy limit that admits one
  proxy.\<close>

lemma test_verify_problem_passes: "0 < max_proxies \<Longrightarrow> test_verify_problem max_proxies"
  by (simp add: test_verify_problem_def create_checked_def create_proxy_def sum_bind_def ama_new_def
      compute_strides_def verify_problem_def number_of_elements_of_def model_new_def model_proxies_def
      set_model_proxies_def throws_logic_error_def invalid_model_def minimize_def model_objective_new_def Let_def)

end
