(* ===== verification/PresolveStages.thy ===== *)
theory PresolveStages
  imports ModelEvaluate InitialValues
begin

text \<open>
  The three stages of the presolve of the model library (specification section 4.1, setup
  step 5): \<open>Model::fix_implicit_fixed_variables\<close>,
  \<open>Model::remove_redundant_constraints_with_tightening_variable_bounds\<close> and
  \<open>Model::remove_independent_variables\<close>. The library is not among the sources, so the
  stages are modelled from the specification and from what their tests of
  \<open>src/unnamed/part_000\<close> (lines 1107--1531, in \<open>Presolve\<close>) expect.

  A presolve model extends the \<open>linear_model\<close> of \<open>ModelEvaluate\<close> (sign, objective
  expression, constraints) with the model's variables: the list of their index pairs in
  proxy order and, for each pair, the variable of \<open>InitialValues\<close> (value, bounds, fixed
  flag). Each stage walks the variables or the constraints in order, changes the model and
  counts what it newly fixed or disabled, as the library's stages return these counts.

  A constraint \<open>e \<diamond> 0\<close> is read through its sensitivities: each variable of \<open>e\<close> with its
  summed nonzero coefficient (section 4.1, step 1). Its fixed part is the constant plus
  the fixed variables' contribution. With no free variable the constraint is disabled when
  it holds; with one free variable \<open>x\<close> of coefficient \<open>a\<close> the bound that \<open>a x + F \<diamond> 0\<close>
  induces is taken (floor for an upper, ceiling for a lower bound, the variables being
  integers), the variable is fixed if its range collapses, and the constraint is disabled;
  with several free variables each one's bounds are tightened by the extreme values of the
  others over their bounds and the constraint is kept (the specification covers one free
  variable only; the two-variable tests expect this propagation).
\<close>

section \<open>Presolve models\<close>

record presolve_model = linear_model +
  pm_refs :: "variable_ref list"
  pm_variables :: "variable_ref \<Rightarrow> variable"

definition set_variable :: "variable_ref \<Rightarrow> variable \<Rightarrow> presolve_model \<Rightarrow> presolve_model" where
  "set_variable r x m = m\<lparr>pm_variables := (pm_variables m)(r := x)\<rparr>"

definition disable_constraint :: "nat \<Rightarrow> presolve_model \<Rightarrow> presolve_model" where
  "disable_constraint i m =
     m\<lparr>lm_constraints := (lm_constraints m)[i := (lm_constraints m ! i)\<lparr>constraint_enabled := False\<rparr>]\<rparr>"

text \<open>\<open>Expression::sensitivities()\<close>: each variable of the expression once, with its summed
  coefficient, the zero ones left out.\<close>

definition sensitivities :: "linear_expression \<Rightarrow> (variable_ref \<times> real) list" where
  "sensitivities e =
     filter (\<lambda>(r, a). a \<noteq> 0) (map (\<lambda>r. (r, sensitivity e r)) (remdups (map fst (expr_terms e))))"

definition is_free :: "presolve_model \<Rightarrow> variable_ref \<times> real \<Rightarrow> bool" where
  "is_free m t \<longleftrightarrow> \<not> var_is_fixed (pm_variables m (fst t))"

definition fixed_term_value :: "presolve_model \<Rightarrow> linear_expression \<Rightarrow> real" where
  "fixed_term_value m e =
     sum_list (map (\<lambda>(r, a). a * of_int (var_value (pm_variables m r)))
                 (filter (\<lambda>t. \<not> is_free m t) (sensitivities e))) + expr_constant e"

definition not_fixed_sensitivities :: "presolve_model \<Rightarrow> linear_expression \<Rightarrow> (variable_ref \<times> real) list" where
  "not_fixed_sensitivities m e = filter (is_free m) (sensitivities e)"

section \<open>Bounds induced by a constraint\<close>

text \<open>The least and the greatest value of a term \<open>a x\<close> over the bounds of \<open>x\<close>.\<close>

definition min_term :: "presolve_model \<Rightarrow> variable_ref \<times> real \<Rightarrow> real" where
  "min_term m t =
     (let x = pm_variables m (fst t)
      in snd t * of_int (if 0 < snd t then var_lower x else var_upper x))"

definition max_term :: "presolve_model \<Rightarrow> variable_ref \<times> real \<Rightarrow> real" where
  "max_term m t =
     (let x = pm_variables m (fst t)
      in snd t * of_int (if 0 < snd t then var_upper x else var_lower x))"

definition tighten_upper :: "real \<Rightarrow> variable \<Rightarrow> variable" where
  "tighten_upper b x = x\<lparr>var_upper := min (var_upper x) \<lfloor>b\<rfloor>\<rparr>"

definition tighten_lower :: "real \<Rightarrow> variable \<Rightarrow> variable" where
  "tighten_lower b x = x\<lparr>var_lower := max (var_lower x) \<lceil>b\<rceil>\<rparr>"

text \<open>\<open>a x \<le> R\<close> and \<open>a x \<ge> R\<close> for a nonzero \<open>a\<close>.\<close>

definition bound_by_le :: "real \<Rightarrow> real \<Rightarrow> variable \<Rightarrow> variable" where
  "bound_by_le a R x = (if 0 < a then tighten_upper (R / a) x else tighten_lower (R / a) x)"

definition bound_by_ge :: "real \<Rightarrow> real \<Rightarrow> variable \<Rightarrow> variable" where
  "bound_by_ge a R x = (if 0 < a then tighten_lower (R / a) x else tighten_upper (R / a) x)"

text \<open>Tightening the free variable \<open>r\<close> of coefficient \<open>a\<close> by \<open>e \<diamond> 0\<close>, whose fixed part is
  \<open>F\<close> and whose free terms are \<open>free\<close>: for \<open>\<le>\<close> the others contribute at least the sum of
  their least values, for \<open>\<ge>\<close> at most the sum of their greatest ones.\<close>

definition tighten_variable ::
  "constraint_sense \<Rightarrow> real \<Rightarrow> (variable_ref \<times> real) list \<Rightarrow> presolve_model \<Rightarrow>
   variable_ref \<times> real \<Rightarrow> presolve_model" where
  "tighten_variable s F free m t =
     (let r = fst t; a = snd t; others = filter (\<lambda>u. fst u \<noteq> r) free;
          lo = F + sum_list (map (min_term m) others);
          hi = F + sum_list (map (max_term m) others);
          x = pm_variables m r
      in set_variable r
           (case s of
              LessEqual \<Rightarrow> bound_by_le a (- lo) x
            | Equal \<Rightarrow> bound_by_ge a (- hi) (bound_by_le a (- lo) x)
            | GreaterEqual \<Rightarrow> bound_by_ge a (- hi) x) m)"

section \<open>The three stages\<close>

text \<open>\<open>fix_implicit_fixed_variables\<close>: a free variable with equal bounds is fixed at them.\<close>

definition fix_implicit_step :: "presolve_model \<times> nat \<Rightarrow> variable_ref \<Rightarrow> presolve_model \<times> nat" where
  "fix_implicit_step mn r =
     (let m = fst mn; x = pm_variables m r
      in if \<not> var_is_fixed x \<and> var_lower x = var_upper x
         then (set_variable r (fix_by (var_lower x) x) m, Suc (snd mn)) else mn)"

definition fix_implicit_fixed_variables :: "presolve_model \<Rightarrow> presolve_model \<times> nat" where
  "fix_implicit_fixed_variables m = foldl fix_implicit_step (m, 0) (pm_refs m)"

text \<open>One enabled constraint of \<open>remove_redundant_constraints_with_tightening_variable_bounds\<close>.\<close>

definition remove_redundant_step :: "presolve_model \<times> nat \<Rightarrow> nat \<Rightarrow> presolve_model \<times> nat" where
  "remove_redundant_step mn i =
     (let m = fst mn; g = lm_constraints m ! i; e = constraint_expression g; s = constraint_sense g;
          F = fixed_term_value m e; free = not_fixed_sensitivities m e
      in if \<not> constraint_enabled g then mn
         else case free of
           [] \<Rightarrow> if violation s F = 0 then (disable_constraint i m, Suc (snd mn)) else mn
         | [t] \<Rightarrow>
             (let m' = tighten_variable s F free m t; x = pm_variables m' (fst t)
              in (disable_constraint i
                    (if var_lower x = var_upper x then set_variable (fst t) (fix_by (var_lower x) x) m'
                     else m'),
                  Suc (snd mn)))
         | _ \<Rightarrow> (foldl (tighten_variable s F free) m free, snd mn))"

definition remove_redundant_constraints_with_tightening_variable_bounds ::
  "presolve_model \<Rightarrow> presolve_model \<times> nat" where
  "remove_redundant_constraints_with_tightening_variable_bounds m =
     foldl remove_redundant_step (m, 0) [0..<length (lm_constraints m)]"

text \<open>\<open>remove_independent_variables\<close>: a free variable in no enabled constraint is fixed at
  its lower bound if its objective coefficient, in the minimisation sense, is positive, at
  its upper bound otherwise.\<close>

definition is_related :: "presolve_model \<Rightarrow> variable_ref \<Rightarrow> bool" where
  "is_related m r \<longleftrightarrow>
     list_ex (\<lambda>g. constraint_enabled g \<and> sensitivity (constraint_expression g) r \<noteq> 0) (lm_constraints m)"

definition objective_coefficient :: "presolve_model \<Rightarrow> variable_ref \<Rightarrow> real" where
  "objective_coefficient m r = lm_sign m * sensitivity (lm_objective m) r"

definition remove_independent_step :: "presolve_model \<times> nat \<Rightarrow> variable_ref \<Rightarrow> presolve_model \<times> nat" where
  "remove_independent_step mn r =
     (let m = fst mn; x = pm_variables m r
      in if var_is_fixed x \<or> is_related m r then mn
         else (set_variable r (fix_by (if 0 < objective_coefficient m r then var_lower x else var_upper x) x) m,
               Suc (snd mn)))"

definition remove_independent_variables :: "presolve_model \<Rightarrow> presolve_model \<times> nat" where
  "remove_independent_variables m = foldl remove_independent_step (m, 0) (pm_refs m)"

section \<open>What the stages keep\<close>

text \<open>The measure of the presolve loop: enabled constraints plus free variables.\<close>

definition presolve_measure :: "presolve_model \<Rightarrow> nat" where
  "presolve_measure m =
     length (filter constraint_enabled (lm_constraints m)) +
     length (filter (\<lambda>r. \<not> var_is_fixed (pm_variables m r)) (pm_refs m))"

text \<open>The points of a model: integer values within the bounds, equal to the value of each
  fixed variable, satisfying every enabled constraint.\<close>

definition within_bounds :: "presolve_model \<Rightarrow> assignment \<Rightarrow> bool" where
  "within_bounds m \<sigma> \<longleftrightarrow>
     (\<forall>r\<in>set (pm_refs m).
        var_lower (pm_variables m r) \<le> \<sigma> r \<and> \<sigma> r \<le> var_upper (pm_variables m r) \<and>
        (var_is_fixed (pm_variables m r) \<longrightarrow> \<sigma> r = var_value (pm_variables m r)))"

definition satisfied :: "assignment \<Rightarrow> linear_constraint \<Rightarrow> bool" where
  "satisfied \<sigma> g \<longleftrightarrow>
     (constraint_enabled g \<longrightarrow> violation (constraint_sense g) (expression_value \<sigma> (constraint_expression g)) = 0)"

definition feasible :: "presolve_model \<Rightarrow> assignment \<Rightarrow> bool" where
  "feasible m \<sigma> \<longleftrightarrow> within_bounds m \<sigma> \<and> (\<forall>g\<in>set (lm_constraints m). satisfied \<sigma> g)"

text \<open>Every variable of a constraint or of the objective is a variable of the model.\<close>

definition presolve_wf :: "presolve_model \<Rightarrow> bool" where
  "presolve_wf m \<longleftrightarrow>
     (\<forall>g\<in>set (lm_constraints m). set (map fst (expr_terms (constraint_expression g))) \<subseteq> set (pm_refs m)) \<and>
     set (map fst (expr_terms (lm_objective m))) \<subseteq> set (pm_refs m)"

definition minimization_objective :: "presolve_model \<Rightarrow> assignment \<Rightarrow> real" where
  "minimization_objective m \<sigma> = lm_sign m * expression_value \<sigma> (lm_objective m)"

text \<open>What a presolve promises (section 4.1, step 5): it loses no optimum. Every point of the
  presolved model is a point of the model, and every point of the model is matched by a
  point of the presolved model whose objective, in the minimisation sense, is no worse.\<close>

definition presolve_refines :: "presolve_model \<Rightarrow> presolve_model \<Rightarrow> bool" where
  "presolve_refines m' m \<longleftrightarrow>
     (\<forall>\<sigma>. feasible m' \<sigma> \<longrightarrow> feasible m \<sigma>) \<and>
     (\<forall>\<sigma>. feasible m \<sigma> \<longrightarrow> (\<exists>\<sigma>'. feasible m' \<sigma>' \<and> minimization_objective m' \<sigma>' \<le> minimization_objective m \<sigma>))"

section \<open>Lemmas: the measure\<close>

lemma length_filter_mono:
  "(\<And>x. x \<in> set xs \<Longrightarrow> P x \<Longrightarrow> Q x) \<Longrightarrow> length (filter P xs) \<le> length (filter Q xs)"
  by (induction xs) auto

lemma length_filter_mono_strict:
  "(\<And>x. x \<in> set xs \<Longrightarrow> P x \<Longrightarrow> Q x) \<Longrightarrow> y \<in> set xs \<Longrightarrow> Q y \<Longrightarrow> \<not> P y \<Longrightarrow>
   length (filter P xs) < length (filter Q xs)"
proof (induction xs)
  case (Cons x xs)
  then show ?case
    using length_filter_mono[of xs P Q] by (cases "y = x") (auto simp: le_imp_less_Suc)
qed simp

lemma length_filter_update_less:
  "i < length xs \<Longrightarrow> P (xs ! i) \<Longrightarrow> \<not> P y \<Longrightarrow> length (filter P (xs[i := y])) < length (filter P xs)"
proof (induction xs arbitrary: i)
  case (Cons x xs)
  then show ?case by (cases i) (auto simp: le_imp_less_Suc)
qed simp

text \<open>Accounting along a fold: each step keeps \<open>P\<close> and pays for what it counts.\<close>

lemma foldl_account:
  assumes step: "\<And>s n x. x \<in> set xs \<Longrightarrow> P s \<Longrightarrow>
                   P (fst (f (s, n) x)) \<and> \<mu> (fst (f (s, n) x)) + snd (f (s, n) x) \<le> \<mu> s + n"
    and "P s"
  shows "P (fst (foldl f (s, n) xs)) \<and> \<mu> (fst (foldl f (s, n) xs)) + snd (foldl f (s, n) xs) \<le> \<mu> s + (n::nat)"
  using assms
proof (induction xs arbitrary: s n)
  case (Cons x xs)
  obtain s' n' where e: "f (s, n) x = (s', n')" by fastforce
  from Cons.prems e have "P s'" "\<mu> s' + n' \<le> \<mu> s + n" by (metis fst_conv list.set_intros(1) snd_conv)+
  moreover have "P (fst (foldl f (s', n') xs)) \<and> \<mu> (fst (foldl f (s', n') xs)) + snd (foldl f (s', n') xs) \<le> \<mu> s' + n'"
    using Cons.IH[of s' n'] Cons.prems(1) \<open>P s'\<close> by simp
  ultimately show ?case using e by simp
qed simp

lemma tighten_fields [simp]:
  "var_is_fixed (tighten_upper b x) = var_is_fixed x" "var_value (tighten_upper b x) = var_value x"
  "var_is_fixed (tighten_lower b x) = var_is_fixed x" "var_value (tighten_lower b x) = var_value x"
  "var_is_fixed (bound_by_le a R x) = var_is_fixed x" "var_value (bound_by_le a R x) = var_value x"
  "var_is_fixed (bound_by_ge a R x) = var_is_fixed x" "var_value (bound_by_ge a R x) = var_value x"
  by (simp_all add: tighten_upper_def tighten_lower_def bound_by_le_def bound_by_ge_def)

lemma set_variable_simps [simp]:
  "lm_constraints (set_variable r x m) = lm_constraints m" "pm_refs (set_variable r x m) = pm_refs m"
  "pm_variables (set_variable r x m) = (pm_variables m)(r := x)"
  "lm_objective (set_variable r x m) = lm_objective m" "lm_sign (set_variable r x m) = lm_sign m"
  by (simp_all add: set_variable_def)

lemma disable_constraint_simps [simp]:
  "pm_refs (disable_constraint i m) = pm_refs m" "pm_variables (disable_constraint i m) = pm_variables m"
  "lm_objective (disable_constraint i m) = lm_objective m" "lm_sign (disable_constraint i m) = lm_sign m"
  "length (lm_constraints (disable_constraint i m)) = length (lm_constraints m)"
  by (simp_all add: disable_constraint_def)

lemma tighten_variable_simps [simp]:
  "lm_constraints (tighten_variable s F free m t) = lm_constraints m"
  "pm_refs (tighten_variable s F free m t) = pm_refs m"
  "lm_objective (tighten_variable s F free m t) = lm_objective m"
  "lm_sign (tighten_variable s F free m t) = lm_sign m"
  "var_is_fixed (pm_variables (tighten_variable s F free m t) r) = var_is_fixed (pm_variables m r)"
  "var_value (pm_variables (tighten_variable s F free m t) r) = var_value (pm_variables m r)"
  by (simp_all add: tighten_variable_def Let_def split: constraint_sense.split)

lemma foldl_tighten_simps [simp]:
  "lm_constraints (foldl (tighten_variable s F free) m ts) = lm_constraints m"
  "pm_refs (foldl (tighten_variable s F free) m ts) = pm_refs m"
  "lm_objective (foldl (tighten_variable s F free) m ts) = lm_objective m"
  "lm_sign (foldl (tighten_variable s F free) m ts) = lm_sign m"
  "var_is_fixed (pm_variables (foldl (tighten_variable s F free) m ts) r) = var_is_fixed (pm_variables m r)"
  "var_value (pm_variables (foldl (tighten_variable s F free) m ts) r) = var_value (pm_variables m r)"
  by (induction ts arbitrary: m) simp_all

lemma presolve_measure_mono:
  assumes "pm_refs m' = pm_refs m" "lm_constraints m' = lm_constraints m"
    "\<And>r. var_is_fixed (pm_variables m r) \<Longrightarrow> var_is_fixed (pm_variables m' r)"
  shows "presolve_measure m' \<le> presolve_measure m"
proof -
  have "length (filter (\<lambda>r. \<not> var_is_fixed (pm_variables m' r)) (pm_refs m))
        \<le> length (filter (\<lambda>r. \<not> var_is_fixed (pm_variables m r)) (pm_refs m))"
    by (rule length_filter_mono) (use assms(3) in blast)
  then show ?thesis using assms(1,2) by (simp add: presolve_measure_def)
qed

lemma presolve_measure_fix_less:
  assumes "pm_refs m' = pm_refs m" "lm_constraints m' = lm_constraints m"
    "\<And>r. var_is_fixed (pm_variables m r) \<Longrightarrow> var_is_fixed (pm_variables m' r)"
    "r \<in> set (pm_refs m)" "\<not> var_is_fixed (pm_variables m r)" "var_is_fixed (pm_variables m' r)"
  shows "presolve_measure m' < presolve_measure m"
proof -
  have "length (filter (\<lambda>r. \<not> var_is_fixed (pm_variables m' r)) (pm_refs m))
        < length (filter (\<lambda>r. \<not> var_is_fixed (pm_variables m r)) (pm_refs m))"
    by (rule length_filter_mono_strict[where y = r]) (use assms(3-6) in blast)+
  then show ?thesis using assms(1,2) by (simp add: presolve_measure_def)
qed

lemma presolve_measure_disable_less:
  "i < length (lm_constraints m) \<Longrightarrow> constraint_enabled (lm_constraints m ! i) \<Longrightarrow>
   presolve_measure (disable_constraint i m) < presolve_measure m"
  using length_filter_update_less[of i "lm_constraints m" constraint_enabled]
  by (simp add: presolve_measure_def disable_constraint_def)

lemma presolve_measure_fix_by:
  "r \<in> set (pm_refs m) \<Longrightarrow> \<not> var_is_fixed (pm_variables m r) \<Longrightarrow>
   presolve_measure (set_variable r (fix_by v x) m) < presolve_measure m"
  by (rule presolve_measure_fix_less[where r = r]) (auto simp: fix_by_def)

lemma fix_implicit_measure:
  "presolve_measure (fst (fix_implicit_fixed_variables m)) + snd (fix_implicit_fixed_variables m)
   \<le> presolve_measure m"
  using foldl_account[of "pm_refs m" "\<lambda>s. pm_refs s = pm_refs m" fix_implicit_step presolve_measure m 0]
    presolve_measure_fix_by
  unfolding fix_implicit_fixed_variables_def
  by (fastforce simp: fix_implicit_step_def Let_def Suc_le_eq)

lemma remove_independent_measure:
  "presolve_measure (fst (remove_independent_variables m)) + snd (remove_independent_variables m)
   \<le> presolve_measure m"
  using foldl_account[of "pm_refs m" "\<lambda>s. pm_refs s = pm_refs m" remove_independent_step presolve_measure m 0]
    presolve_measure_fix_by
  unfolding remove_independent_variables_def
  by (fastforce simp: remove_independent_step_def Let_def Suc_le_eq)

lemma fix_by_fields [simp]:
  "var_is_fixed (fix_by v x)" "var_value (fix_by v x) = v"
  "var_lower (fix_by v x) = var_lower x" "var_upper (fix_by v x) = var_upper x"
  by (simp_all add: fix_by_def)

lemma remove_redundant_step_account:
  assumes i: "i < length (lm_constraints (fst mn))"
  shows "length (lm_constraints (fst (remove_redundant_step mn i))) = length (lm_constraints (fst mn)) \<and>
         pm_refs (fst (remove_redundant_step mn i)) = pm_refs (fst mn) \<and>
         presolve_measure (fst (remove_redundant_step mn i)) + snd (remove_redundant_step mn i)
         \<le> presolve_measure (fst mn) + snd mn"
proof -
  obtain m n where mn: "mn = (m, n)" by fastforce
  define g where "g = lm_constraints m ! i"
  define s where "s = constraint_sense g"
  define F where "F = fixed_term_value m (constraint_expression g)"
  define free where "free = not_fixed_sensitivities m (constraint_expression g)"
  have i': "i < length (lm_constraints m)" using i mn by simp
  show ?thesis
  proof (cases "constraint_enabled g")
    case False
    then show ?thesis by (simp add: mn remove_redundant_step_def g_def)
  next
    case en: True
    have dis: "presolve_measure (disable_constraint i m') < presolve_measure m'"
      if "lm_constraints m' = lm_constraints m" for m'
      using presolve_measure_disable_less[of i m'] that i' en g_def by simp
    show ?thesis
    proof (cases free rule: remdups_adj.cases)
      case 1
      then show ?thesis using dis[of m]
        by (simp add: mn remove_redundant_step_def Let_def en flip: g_def s_def F_def free_def)
    next
      case (2 t)
      define m' where "m' = tighten_variable s F free m t"
      define x where "x = pm_variables m' (fst t)"
      define m'' where "m'' = (if var_lower x = var_upper x then set_variable (fst t) (fix_by (var_lower x) x) m' else m')"
      have c: "lm_constraints m'' = lm_constraints m" "pm_refs m'' = pm_refs m"
        by (simp_all add: m''_def m'_def)
      have "presolve_measure m'' \<le> presolve_measure m"
        by (rule presolve_measure_mono) (auto simp: m''_def m'_def)
      have eq: "remove_redundant_step (m, n) i = (disable_constraint i m'', Suc n)"
        using en 2 by (simp add: mn remove_redundant_step_def Let_def m''_def x_def m'_def g_def s_def
            F_def free_def)
      show ?thesis using dis[OF c(1)] c \<open>presolve_measure m'' \<le> presolve_measure m\<close>
        by (simp add: eq mn)
    next
      case (3 t u ts)
      have "presolve_measure (foldl (tighten_variable s F free) m free) \<le> presolve_measure m"
        by (rule presolve_measure_mono) auto
      then show ?thesis
        by (simp add: mn remove_redundant_step_def Let_def en 3 flip: g_def s_def F_def free_def)
    qed
  qed
qed

lemma remove_redundant_measure:
  "presolve_measure (fst (remove_redundant_constraints_with_tightening_variable_bounds m)) +
   snd (remove_redundant_constraints_with_tightening_variable_bounds m) \<le> presolve_measure m"
proof -
  have "length (lm_constraints (fst (foldl remove_redundant_step (m, 0) [0..<length (lm_constraints m)])))
          = length (lm_constraints m) \<and>
        presolve_measure (fst (foldl remove_redundant_step (m, 0) [0..<length (lm_constraints m)])) +
        snd (foldl remove_redundant_step (m, 0) [0..<length (lm_constraints m)]) \<le> presolve_measure m + 0"
    apply (rule foldl_account[where P = "\<lambda>s. length (lm_constraints s) = length (lm_constraints m)"])
    subgoal for s n x using remove_redundant_step_account[of x "(s, n)"] by simp
    by simp
  then show ?thesis
    unfolding remove_redundant_constraints_with_tightening_variable_bounds_def by simp
qed

section \<open>Lemmas: values, bounds and points\<close>

lemma terms_value_set:
  "finite S \<Longrightarrow> set (map fst ts) \<subseteq> S \<Longrightarrow>
   sum_list (map (\<lambda>(r, c). c * of_int (\<sigma> r)) ts) =
   (\<Sum>q\<in>S. sum_list (map snd (filter (\<lambda>t. fst t = q) ts)) * of_int (\<sigma> q))"
proof (induction ts)
  case (Cons t ts)
  obtain a c where t: "t = (a, c)" by fastforce
  have eq1: "(\<Sum>q\<in>S. sum_list (map snd (filter (\<lambda>t. fst t = q) (t # ts))) * of_int (\<sigma> q)) =
        (\<Sum>q\<in>S. (if q = a then c * of_int (\<sigma> q) else 0) +
           sum_list (map snd (filter (\<lambda>t. fst t = q) ts)) * of_int (\<sigma> q))"
    by (rule sum.cong) (auto simp: t distrib_right)
  have eq2: "(\<Sum>q\<in>S. (if q = a then c * of_int (\<sigma> q) else 0) +
           sum_list (map snd (filter (\<lambda>t. fst t = q) ts)) * of_int (\<sigma> q)) =
        (if a \<in> S then c * of_int (\<sigma> a) else 0) +
        (\<Sum>q\<in>S. sum_list (map snd (filter (\<lambda>t. fst t = q) ts)) * of_int (\<sigma> q))"
    using Cons.prems(1) by (simp add: sum.distrib)
  show ?case unfolding eq1 eq2 using Cons by (simp add: t)
qed simp

lemma expression_value_set:
  "finite S \<Longrightarrow> set (map fst (expr_terms e)) \<subseteq> S \<Longrightarrow>
   expression_value \<sigma> e = (\<Sum>q\<in>S. sensitivity e q * of_int (\<sigma> q)) + expr_constant e"
  unfolding expression_value_def sensitivity_def by (simp add: terms_value_set)

lemma expression_value_sensitivities:
  "expression_value \<sigma> e = sum_list (map (\<lambda>(r, a). a * of_int (\<sigma> r)) (sensitivities e)) + expr_constant e"
proof -
  have "expression_value \<sigma> e = (\<Sum>q\<in>set (remdups (map fst (expr_terms e))). sensitivity e q * of_int (\<sigma> q))
        + expr_constant e"
    by (rule expression_value_set) auto
  also have "(\<Sum>q\<in>set (remdups (map fst (expr_terms e))). sensitivity e q * of_int (\<sigma> q)) =
             sum_list (map (\<lambda>q. sensitivity e q * of_int (\<sigma> q)) (remdups (map fst (expr_terms e))))"
    by (rule sum_list_distinct_conv_sum_set[symmetric]) simp
  also have "\<dots> = sum_list (map (\<lambda>(r, a). a * of_int (\<sigma> r)) (sensitivities e))"
    unfolding sensitivities_def sum_list_map_filter' by (intro arg_cong[where f = sum_list] map_cong) auto
  finally show ?thesis .
qed

lemma expression_value_upd:
  "expression_value (\<sigma>(r := v)) e = expression_value \<sigma> e + sensitivity e r * of_int (v - \<sigma> r)"
proof -
  let ?S = "insert r (set (map fst (expr_terms e)))"
  have f: "finite ?S" "set (map fst (expr_terms e)) \<subseteq> ?S" by auto
  have "(\<Sum>q\<in>?S. sensitivity e q * of_int ((\<sigma>(r := v)) q)) =
        (\<Sum>q\<in>?S. sensitivity e q * of_int (\<sigma> q) + (if q = r then sensitivity e q * of_int (v - \<sigma> r) else 0))"
    by (rule sum.cong) (auto simp: algebra_simps)
  also have "\<dots> = (\<Sum>q\<in>?S. sensitivity e q * of_int (\<sigma> q)) + sensitivity e r * of_int (v - \<sigma> r)"
    using f(1) by (simp add: sum.distrib)
  finally show ?thesis
    using expression_value_set[OF f, of "\<sigma>(r := v)"] expression_value_set[OF f, of \<sigma>] by simp
qed

lemma sum_list_partition:
  "sum_list (map f xs) = sum_list (map f (filter P xs)) + sum_list (map f (filter (\<lambda>x. \<not> P x) xs))"
  for f :: "'a \<Rightarrow> real"
  by (induction xs) (simp_all add: algebra_simps)

lemma set_sensitivities: "set (map fst (sensitivities e)) \<subseteq> set (map fst (expr_terms e))"
  by (force simp: sensitivities_def)

lemma distinct_sensitivities: "distinct (map fst (sensitivities e))"
  by (simp add: sensitivities_def distinct_map_filter o_def)

lemma expression_value_split:
  assumes "within_bounds m \<sigma>" "set (map fst (expr_terms e)) \<subseteq> set (pm_refs m)"
  shows "expression_value \<sigma> e =
         fixed_term_value m e + sum_list (map (\<lambda>(r, a). a * of_int (\<sigma> r)) (not_fixed_sensitivities m e))"
proof -
  have "sum_list (map (\<lambda>(r, a). a * of_int (\<sigma> r)) (filter (\<lambda>t. \<not> is_free m t) (sensitivities e))) =
        sum_list (map (\<lambda>(r, a). a * of_int (var_value (pm_variables m r))) (filter (\<lambda>t. \<not> is_free m t) (sensitivities e)))"
  proof (rule arg_cong[where f = sum_list], rule map_cong[OF refl])
    fix t assume "t \<in> set (filter (\<lambda>t. \<not> is_free m t) (sensitivities e))"
    moreover from this have "fst t \<in> set (pm_refs m)" using assms(2) set_sensitivities by fastforce
    ultimately show "(\<lambda>(r, a). a * of_int (\<sigma> r)) t = (\<lambda>(r, a). a * of_int (var_value (pm_variables m r))) t"
      using assms(1) by (auto simp: within_bounds_def is_free_def split: prod.splits)
  qed
  then show ?thesis
    using sum_list_partition[of "\<lambda>(r, a). a * of_int (\<sigma> r)" "sensitivities e" "is_free m"]
    by (simp add: expression_value_sensitivities fixed_term_value_def not_fixed_sensitivities_def)
qed

lemma tighten_shrinks [simp]:
  "var_lower x \<le> var_lower (tighten_lower b x)" "var_upper (tighten_lower b x) = var_upper x"
  "var_upper (tighten_upper b x) \<le> var_upper x" "var_lower (tighten_upper b x) = var_lower x"
  by (simp_all add: tighten_lower_def tighten_upper_def)

lemma bound_by_shrinks:
  "var_lower x \<le> var_lower (bound_by_le a R x)" "var_upper (bound_by_le a R x) \<le> var_upper x"
  "var_lower x \<le> var_lower (bound_by_ge a R x)" "var_upper (bound_by_ge a R x) \<le> var_upper x"
  by (simp_all add: bound_by_le_def bound_by_ge_def)

lemma bound_by_shrinks2:
  "var_lower x \<le> var_lower (bound_by_ge a R (bound_by_le b Q x))"
  "var_upper (bound_by_ge a R (bound_by_le b Q x)) \<le> var_upper x"
  by (meson bound_by_shrinks order_trans)+

lemma bound_by_le_iff:
  assumes "a \<noteq> 0"
  shows "(var_lower (bound_by_le a R x) \<le> v \<and> v \<le> var_upper (bound_by_le a R x)) \<longleftrightarrow>
         (var_lower x \<le> v \<and> v \<le> var_upper x \<and> a * of_int v \<le> R)"
proof (cases "0 < a")
  case True
  then show ?thesis
    by (auto simp: bound_by_le_def tighten_upper_def le_floor_iff pos_le_divide_eq mult.commute)
next
  case False
  with assms have "a < 0" by simp
  then show ?thesis
    by (auto simp: bound_by_le_def tighten_lower_def ceiling_le_iff neg_divide_le_eq mult.commute)
qed

lemma bound_by_ge_iff:
  assumes "a \<noteq> 0"
  shows "(var_lower (bound_by_ge a R x) \<le> v \<and> v \<le> var_upper (bound_by_ge a R x)) \<longleftrightarrow>
         (var_lower x \<le> v \<and> v \<le> var_upper x \<and> R \<le> a * of_int v)"
proof (cases "0 < a")
  case True
  then show ?thesis
    by (auto simp: bound_by_ge_def tighten_lower_def ceiling_le_iff pos_divide_le_eq mult.commute)
next
  case False
  with assms have "a < 0" by simp
  then show ?thesis
    by (auto simp: bound_by_ge_def tighten_upper_def le_floor_iff neg_le_divide_eq mult.commute)
qed

lemma violation_zero_iff:
  "violation s y = 0 \<longleftrightarrow>
   (case s of LessEqual \<Rightarrow> y \<le> 0 | Equal \<Rightarrow> y = 0 | GreaterEqual \<Rightarrow> 0 \<le> y)"
  by (auto simp: violation_def max_def split: constraint_sense.split)

text \<open>The range of the tightened variable: its old range cut by what the constraint allows
  it, the others ranging over their bounds.\<close>

lemma tighten_variable_range:
  assumes "snd t \<noteq> 0"
  shows "(var_lower (pm_variables (tighten_variable s F free m t) (fst t)) \<le> v \<and>
          v \<le> var_upper (pm_variables (tighten_variable s F free m t) (fst t))) \<longleftrightarrow>
         (var_lower (pm_variables m (fst t)) \<le> v \<and> v \<le> var_upper (pm_variables m (fst t)) \<and>
          (s \<noteq> GreaterEqual \<longrightarrow> snd t * of_int v \<le> - (F + sum_list (map (min_term m) (filter (\<lambda>u. fst u \<noteq> fst t) free)))) \<and>
          (s \<noteq> LessEqual \<longrightarrow> - (F + sum_list (map (max_term m) (filter (\<lambda>u. fst u \<noteq> fst t) free))) \<le> snd t * of_int v))"
  using bound_by_le_iff[OF assms] bound_by_ge_iff[OF assms]
  by (cases s) (auto simp: tighten_variable_def Let_def)

lemma tighten_variable_other [simp]:
  "r \<noteq> fst t \<Longrightarrow> pm_variables (tighten_variable s F free m t) r = pm_variables m r"
  by (simp add: tighten_variable_def Let_def)

lemma within_bounds_shrink:
  assumes "pm_refs m' = pm_refs m"
    "\<And>r. var_lower (pm_variables m r) \<le> var_lower (pm_variables m' r) \<and>
          var_upper (pm_variables m' r) \<le> var_upper (pm_variables m r) \<and>
          var_is_fixed (pm_variables m' r) = var_is_fixed (pm_variables m r) \<and>
          var_value (pm_variables m' r) = var_value (pm_variables m r)"
    "within_bounds m' \<sigma>"
  shows "within_bounds m \<sigma>"
  unfolding within_bounds_def
proof
  fix r assume "r \<in> set (pm_refs m)"
  with assms(1,3) have "var_lower (pm_variables m' r) \<le> \<sigma> r \<and> \<sigma> r \<le> var_upper (pm_variables m' r) \<and>
        (var_is_fixed (pm_variables m' r) \<longrightarrow> \<sigma> r = var_value (pm_variables m' r))"
    by (simp add: within_bounds_def)
  with assms(2)[of r] show "var_lower (pm_variables m r) \<le> \<sigma> r \<and> \<sigma> r \<le> var_upper (pm_variables m r) \<and>
        (var_is_fixed (pm_variables m r) \<longrightarrow> \<sigma> r = var_value (pm_variables m r))"
    by auto
qed

lemma tighten_variable_within:
  "within_bounds (tighten_variable s F free m t) \<sigma> \<Longrightarrow> within_bounds m \<sigma>"
proof (rule within_bounds_shrink)
  fix r
  show "var_lower (pm_variables m r) \<le> var_lower (pm_variables (tighten_variable s F free m t) r) \<and>
        var_upper (pm_variables (tighten_variable s F free m t) r) \<le> var_upper (pm_variables m r) \<and>
        var_is_fixed (pm_variables (tighten_variable s F free m t) r) = var_is_fixed (pm_variables m r) \<and>
        var_value (pm_variables (tighten_variable s F free m t) r) = var_value (pm_variables m r)"
  proof (cases "r = fst t")
    case True
    then show ?thesis
      by (cases s) (simp_all add: tighten_variable_def Let_def bound_by_shrinks bound_by_shrinks2)
  qed simp
qed simp

lemma term_bounds:
  assumes "within_bounds m \<sigma>" "fst t \<in> set (pm_refs m)"
  shows "min_term m t \<le> snd t * of_int (\<sigma> (fst t)) \<and> snd t * of_int (\<sigma> (fst t)) \<le> max_term m t"
proof -
  have b: "var_lower (pm_variables m (fst t)) \<le> \<sigma> (fst t)" "\<sigma> (fst t) \<le> var_upper (pm_variables m (fst t))"
    using assms by (auto simp: within_bounds_def)
  show ?thesis
  proof (cases "0 < snd t")
    case True
    then show ?thesis using b by (simp add: min_term_def max_term_def mult_left_mono)
  next
    case False
    then show ?thesis using b by (simp add: min_term_def max_term_def mult_left_mono_neg)
  qed
qed

lemma sum_split_off:
  "distinct (map fst xs) \<Longrightarrow> t \<in> set xs \<Longrightarrow>
   sum_list (map f xs) = f t + sum_list (map f (filter (\<lambda>u. fst u \<noteq> fst t) xs))"
  for f :: "'a \<times> 'b \<Rightarrow> real"
proof (induction xs)
  case (Cons x xs)
  show ?case
  proof (cases "x = t")
    case True
    with Cons.prems have "filter (\<lambda>u. fst u \<noteq> fst t) xs = xs"
      by (auto simp: filter_id_conv) (metis fst_conv image_eqI)
    with True show ?thesis by simp
  next
    case False
    with Cons.prems have "fst x \<noteq> fst t" by (metis distinct.simps(2) image_eqI list.set_map set_ConsD list.simps(9))
    with Cons False show ?thesis by simp
  qed
qed simp

lemma not_fixed_sensitivities_facts:
  "distinct (map fst (not_fixed_sensitivities m e))"
  "t \<in> set (not_fixed_sensitivities m e) \<Longrightarrow> snd t \<noteq> 0 \<and> fst t \<in> set (map fst (expr_terms e)) \<and> is_free m t"
proof -
  show "distinct (map fst (not_fixed_sensitivities m e))"
    unfolding not_fixed_sensitivities_def by (rule distinct_map_filter[OF distinct_sensitivities])
next
  assume "t \<in> set (not_fixed_sensitivities m e)"
  then have t: "t \<in> set (sensitivities e)" "is_free m t" by (simp_all add: not_fixed_sensitivities_def)
  moreover from t(1) have "snd t \<noteq> 0" by (auto simp: sensitivities_def)
  moreover have "fst t \<in> set (map fst (expr_terms e))" using set_sensitivities[of e] t(1) by auto
  ultimately show "snd t \<noteq> 0 \<and> fst t \<in> set (map fst (expr_terms e)) \<and> is_free m t" by simp
qed

lemma tighten_variable_sound:
  assumes wb: "within_bounds m \<sigma>" and refs: "set (map fst (expr_terms e)) \<subseteq> set (pm_refs m)"
    and hold: "violation s (expression_value \<sigma> e) = 0"
    and t: "t \<in> set (not_fixed_sensitivities m e)"
  shows "within_bounds (tighten_variable s (fixed_term_value m e) (not_fixed_sensitivities m e) m t) \<sigma>"
proof -
  define free where "free = not_fixed_sensitivities m e"
  define F where "F = fixed_term_value m e"
  define others where "others = filter (\<lambda>u. fst u \<noteq> fst t) free"
  let ?f = "\<lambda>(r, a). a * of_int (\<sigma> r)"
  have tf: "snd t \<noteq> 0" "fst t \<in> set (pm_refs m)"
    using not_fixed_sensitivities_facts(2)[OF t] refs by auto
  have val: "expression_value \<sigma> e = F + snd t * of_int (\<sigma> (fst t)) + sum_list (map ?f others)"
    using expression_value_split[OF wb refs] sum_split_off[OF not_fixed_sensitivities_facts(1) t, of ?f]
    by (simp add: free_def F_def others_def split: prod.splits)
  have in_refs: "fst u \<in> set (pm_refs m)" if "u \<in> set others" for u
    using that not_fixed_sensitivities_facts(2)[of u m e] refs by (auto simp: others_def free_def)
  have lo: "sum_list (map (min_term m) others) \<le> sum_list (map ?f others)"
    by (rule sum_list_mono) (use term_bounds[OF wb in_refs] in \<open>auto split: prod.splits\<close>)
  have hi: "sum_list (map ?f others) \<le> sum_list (map (max_term m) others)"
    by (rule sum_list_mono) (use term_bounds[OF wb in_refs] in \<open>auto split: prod.splits\<close>)
  have old: "var_lower (pm_variables m (fst t)) \<le> \<sigma> (fst t) \<and> \<sigma> (fst t) \<le> var_upper (pm_variables m (fst t))"
    using wb tf(2) by (auto simp: within_bounds_def)
  have range: "var_lower (pm_variables (tighten_variable s F free m t) (fst t)) \<le> \<sigma> (fst t) \<and>
               \<sigma> (fst t) \<le> var_upper (pm_variables (tighten_variable s F free m t) (fst t))"
    unfolding tighten_variable_range[OF tf(1)] others_def[symmetric]
    using old hold lo hi val by (cases s) (auto simp: violation_zero_iff)
  show ?thesis
    unfolding within_bounds_def free_def[symmetric] F_def[symmetric]
  proof
    fix r assume r: "r \<in> set (pm_refs (tighten_variable s F free m t))"
    show "var_lower (pm_variables (tighten_variable s F free m t) r) \<le> \<sigma> r \<and>
          \<sigma> r \<le> var_upper (pm_variables (tighten_variable s F free m t) r) \<and>
          (var_is_fixed (pm_variables (tighten_variable s F free m t) r) \<longrightarrow>
           \<sigma> r = var_value (pm_variables (tighten_variable s F free m t) r))"
      using wb r range by (cases "r = fst t") (auto simp: within_bounds_def)
  qed
qed

lemma stage_cong:
  assumes "\<And>r. var_is_fixed (pm_variables m' r) = var_is_fixed (pm_variables m r)"
    "\<And>r. var_value (pm_variables m' r) = var_value (pm_variables m r)"
  shows "fixed_term_value m' e = fixed_term_value m e" "not_fixed_sensitivities m' e = not_fixed_sensitivities m e"
proof -
  have "is_free m' = is_free m" using assms(1) by (simp add: fun_eq_iff is_free_def)
  then show "fixed_term_value m' e = fixed_term_value m e" "not_fixed_sensitivities m' e = not_fixed_sensitivities m e"
    using assms(2) by (simp_all add: fixed_term_value_def not_fixed_sensitivities_def)
qed

lemma foldl_tighten_sound:
  "within_bounds m \<sigma> \<Longrightarrow> set (map fst (expr_terms e)) \<subseteq> set (pm_refs m) \<Longrightarrow>
   violation s (expression_value \<sigma> e) = 0 \<Longrightarrow> set ts \<subseteq> set (not_fixed_sensitivities m e) \<Longrightarrow>
   within_bounds (foldl (tighten_variable s (fixed_term_value m e) (not_fixed_sensitivities m e)) m ts) \<sigma>"
proof (induction ts arbitrary: m)
  case (Cons t ts)
  let ?m1 = "tighten_variable s (fixed_term_value m e) (not_fixed_sensitivities m e) m t"
  have c: "fixed_term_value ?m1 e = fixed_term_value m e" "not_fixed_sensitivities ?m1 e = not_fixed_sensitivities m e"
    by (rule stage_cong; simp)+
  have "within_bounds ?m1 \<sigma>" using Cons.prems by (intro tighten_variable_sound) auto
  with Cons.IH[of ?m1] Cons.prems show ?case by (simp add: c)
qed simp

lemma foldl_tighten_within:
  "within_bounds (foldl (tighten_variable s F free) m ts) \<sigma> \<Longrightarrow> within_bounds m \<sigma>"
proof (induction ts arbitrary: m)
  case (Cons t ts)
  from Cons.prems have "within_bounds (foldl (tighten_variable s F free) (tighten_variable s F free m t) ts) \<sigma>"
    by simp
  then show ?case by (rule tighten_variable_within[OF Cons.IH])
qed simp

lemma within_bounds_fix_collapsed:
  assumes "var_lower (pm_variables m r) = var_upper (pm_variables m r)" "\<not> var_is_fixed (pm_variables m r)"
  shows "within_bounds (set_variable r (fix_by (var_lower (pm_variables m r)) (pm_variables m r)) m) \<sigma> \<longleftrightarrow>
         within_bounds m \<sigma>"
  unfolding within_bounds_def
proof (intro iffI ballI)
  fix q assume A: "\<forall>q\<in>set (pm_refs (set_variable r (fix_by (var_lower (pm_variables m r)) (pm_variables m r)) m)).
      var_lower (pm_variables (set_variable r (fix_by (var_lower (pm_variables m r)) (pm_variables m r)) m) q) \<le> \<sigma> q \<and>
      \<sigma> q \<le> var_upper (pm_variables (set_variable r (fix_by (var_lower (pm_variables m r)) (pm_variables m r)) m) q) \<and>
      (var_is_fixed (pm_variables (set_variable r (fix_by (var_lower (pm_variables m r)) (pm_variables m r)) m) q) \<longrightarrow>
       \<sigma> q = var_value (pm_variables (set_variable r (fix_by (var_lower (pm_variables m r)) (pm_variables m r)) m) q))"
    and q: "q \<in> set (pm_refs m)"
  show "var_lower (pm_variables m q) \<le> \<sigma> q \<and> \<sigma> q \<le> var_upper (pm_variables m q) \<and>
        (var_is_fixed (pm_variables m q) \<longrightarrow> \<sigma> q = var_value (pm_variables m q))"
    using A[rule_format, of q] q assms(2) by (cases "q = r") simp_all
next
  fix q assume A: "\<forall>q\<in>set (pm_refs m). var_lower (pm_variables m q) \<le> \<sigma> q \<and> \<sigma> q \<le> var_upper (pm_variables m q) \<and>
        (var_is_fixed (pm_variables m q) \<longrightarrow> \<sigma> q = var_value (pm_variables m q))"
    and q: "q \<in> set (pm_refs (set_variable r (fix_by (var_lower (pm_variables m r)) (pm_variables m r)) m))"
  show "var_lower (pm_variables (set_variable r (fix_by (var_lower (pm_variables m r)) (pm_variables m r)) m) q) \<le> \<sigma> q \<and>
      \<sigma> q \<le> var_upper (pm_variables (set_variable r (fix_by (var_lower (pm_variables m r)) (pm_variables m r)) m) q) \<and>
      (var_is_fixed (pm_variables (set_variable r (fix_by (var_lower (pm_variables m r)) (pm_variables m r)) m) q) \<longrightarrow>
       \<sigma> q = var_value (pm_variables (set_variable r (fix_by (var_lower (pm_variables m r)) (pm_variables m r)) m) q))"
    using A[rule_format, of q] q assms(1) by (cases "q = r") simp_all
qed

lemma within_bounds_disable [simp]:
  "within_bounds (disable_constraint i m) \<sigma> \<longleftrightarrow> within_bounds m \<sigma>"
  by (simp add: within_bounds_def)

lemma feasible_nth:
  "feasible m \<sigma> \<longleftrightarrow> within_bounds m \<sigma> \<and> (\<forall>j<length (lm_constraints m). satisfied \<sigma> (lm_constraints m ! j))"
  by (auto simp: feasible_def all_set_conv_all_nth)

lemma feasible_disable:
  "i < length (lm_constraints m) \<Longrightarrow>
   feasible (disable_constraint i m) \<sigma> \<longleftrightarrow>
   within_bounds m \<sigma> \<and> (\<forall>j<length (lm_constraints m). j \<noteq> i \<longrightarrow> satisfied \<sigma> (lm_constraints m ! j))"
  unfolding feasible_nth within_bounds_disable by (auto simp: disable_constraint_def satisfied_def nth_list_update)

lemma feasible_disable_iff:
  assumes "i < length (lm_constraints m)"
    "within_bounds m' \<sigma> \<longleftrightarrow> within_bounds m \<sigma> \<and> satisfied \<sigma> (lm_constraints m ! i)"
    "lm_constraints m' = lm_constraints m"
  shows "feasible (disable_constraint i m') \<sigma> \<longleftrightarrow> feasible m \<sigma>"
proof -
  have "length (lm_constraints m') = length (lm_constraints m)" using assms(3) by simp
  then show ?thesis
    using assms feasible_disable[of i m'] feasible_nth[of m]
    by (metis (no_types, lifting))
qed

lemma single_free_within:
  assumes refs: "set (map fst (expr_terms e)) \<subseteq> set (pm_refs m)"
    and t: "not_fixed_sensitivities m e = [t]"
  shows "within_bounds (tighten_variable s (fixed_term_value m e) [t] m t) \<sigma> \<longleftrightarrow>
         within_bounds m \<sigma> \<and> violation s (expression_value \<sigma> e) = 0"
proof
  have tf: "snd t \<noteq> 0" "fst t \<in> set (pm_refs m)"
    using not_fixed_sensitivities_facts(2)[of t m e] t refs by auto
  assume W: "within_bounds (tighten_variable s (fixed_term_value m e) [t] m t) \<sigma>"
  then have wb: "within_bounds m \<sigma>" by (rule tighten_variable_within)
  have val: "expression_value \<sigma> e = fixed_term_value m e + snd t * of_int (\<sigma> (fst t))"
    using expression_value_split[OF wb refs] t by (simp split: prod.splits)
  have "var_lower (pm_variables (tighten_variable s (fixed_term_value m e) [t] m t) (fst t)) \<le> \<sigma> (fst t) \<and>
        \<sigma> (fst t) \<le> var_upper (pm_variables (tighten_variable s (fixed_term_value m e) [t] m t) (fst t))"
    using W tf(2) by (simp add: within_bounds_def)
  then have "(s \<noteq> GreaterEqual \<longrightarrow> snd t * of_int (\<sigma> (fst t)) \<le> - fixed_term_value m e) \<and>
             (s \<noteq> LessEqual \<longrightarrow> - fixed_term_value m e \<le> snd t * of_int (\<sigma> (fst t)))"
    unfolding tighten_variable_range[OF tf(1)] by simp
  with wb val show "within_bounds m \<sigma> \<and> violation s (expression_value \<sigma> e) = 0"
    by (cases s) (auto simp: violation_zero_iff)
next
  assume "within_bounds m \<sigma> \<and> violation s (expression_value \<sigma> e) = 0"
  then show "within_bounds (tighten_variable s (fixed_term_value m e) [t] m t) \<sigma>"
    using tighten_variable_sound[OF _ refs, of \<sigma> s t] t by simp
qed

lemma presolve_wf_refs:
  "presolve_wf m \<Longrightarrow> i < length (lm_constraints m) \<Longrightarrow>
   set (map fst (expr_terms (constraint_expression (lm_constraints m ! i)))) \<subseteq> set (pm_refs m)"
  by (simp add: presolve_wf_def)

lemma remove_redundant_step_feasible:
  assumes wf: "presolve_wf m" and i: "i < length (lm_constraints m)"
  shows "feasible (fst (remove_redundant_step (m, n) i)) \<sigma> \<longleftrightarrow> feasible m \<sigma>"
proof -
  define g where "g = lm_constraints m ! i"
  define e where "e = constraint_expression g"
  define s where "s = constraint_sense g"
  define F where "F = fixed_term_value m e"
  define free where "free = not_fixed_sensitivities m e"
  have refs: "set (map fst (expr_terms e)) \<subseteq> set (pm_refs m)"
    using presolve_wf_refs[OF wf i] by (simp add: e_def g_def)
  have sat: "satisfied \<sigma> g \<longleftrightarrow> violation s (expression_value \<sigma> e) = 0" if "constraint_enabled g"
    using that by (simp add: satisfied_def s_def e_def)
  have g_in: "g \<in> set (lm_constraints m)" using i by (simp add: g_def)
  show ?thesis
  proof (cases "constraint_enabled g")
    case False
    then show ?thesis by (simp add: remove_redundant_step_def g_def)
  next
    case en: True
    show ?thesis
    proof (cases free rule: remdups_adj.cases)
      case 1
      have "within_bounds m \<sigma> \<Longrightarrow> expression_value \<sigma> e = F"
        using expression_value_split[OF _ refs] 1 by (simp add: F_def free_def)
      then have "violation s F = 0 \<Longrightarrow> within_bounds m \<sigma> \<longleftrightarrow> within_bounds m \<sigma> \<and> satisfied \<sigma> g"
        using sat[OF en] by auto
      then show ?thesis
        using feasible_disable_iff[OF i, of m \<sigma>] en 1
        by (simp add: remove_redundant_step_def Let_def g_def e_def s_def F_def free_def)
    next
      case (2 t)
      define m' where "m' = tighten_variable s F free m t"
      define x where "x = pm_variables m' (fst t)"
      define m'' where "m'' = (if var_lower x = var_upper x then set_variable (fst t) (fix_by (var_lower x) x) m' else m')"
      have "is_free m t" using not_fixed_sensitivities_facts(2)[of t m e] 2 by (simp add: free_def)
      then have "\<not> var_is_fixed (pm_variables m' (fst t))" by (simp add: m'_def is_free_def)
      then have "within_bounds m'' \<sigma> \<longleftrightarrow> within_bounds m' \<sigma>"
        using within_bounds_fix_collapsed[of m' "fst t" \<sigma>] by (simp add: m''_def x_def)
      also have "\<dots> \<longleftrightarrow> within_bounds m \<sigma> \<and> satisfied \<sigma> g"
        using single_free_within[OF refs, of t s \<sigma>] 2 sat[OF en] by (simp add: m'_def F_def free_def)
      finally have "feasible (disable_constraint i m'') \<sigma> \<longleftrightarrow> feasible m \<sigma>"
        using feasible_disable_iff[OF i, of m'' \<sigma>] by (simp add: m''_def m'_def g_def)
      moreover have "remove_redundant_step (m, n) i = (disable_constraint i m'', Suc n)"
        using en 2 by (simp add: remove_redundant_step_def Let_def m''_def x_def m'_def g_def e_def s_def
            F_def free_def)
      ultimately show ?thesis by simp
    next
      case (3 t u ts)
      define m' where "m' = foldl (tighten_variable s F free) m free"
      have "within_bounds m' \<sigma> \<longleftrightarrow> within_bounds m \<sigma>" if "satisfied \<sigma> g"
        using foldl_tighten_sound[OF _ refs, of \<sigma> s free] foldl_tighten_within[of s F free m free \<sigma>]
          that sat[OF en] by (auto simp: m'_def F_def free_def)
      then have "feasible m' \<sigma> \<longleftrightarrow> feasible m \<sigma>"
        using g_in by (auto simp: feasible_def m'_def)
      moreover have "remove_redundant_step (m, n) i = (m', n)"
        using en 3 by (simp add: remove_redundant_step_def Let_def m'_def g_def e_def s_def F_def free_def)
      ultimately show ?thesis by simp
    qed
  qed
qed

lemma presolve_wf_map:
  "presolve_wf m \<longleftrightarrow>
   (\<forall>e\<in>set (map constraint_expression (lm_constraints m)). set (map fst (expr_terms e)) \<subseteq> set (pm_refs m)) \<and>
   set (map fst (expr_terms (lm_objective m))) \<subseteq> set (pm_refs m)"
  by (simp add: presolve_wf_def)

lemma presolve_wf_cong:
  "pm_refs m' = pm_refs m \<Longrightarrow> map constraint_expression (lm_constraints m') = map constraint_expression (lm_constraints m) \<Longrightarrow>
   lm_objective m' = lm_objective m \<Longrightarrow> presolve_wf m' = presolve_wf m"
  unfolding presolve_wf_map by (simp only:)

lemma map_expression_disable [simp]:
  assumes i: "i < length (lm_constraints m)"
  shows "map constraint_expression (lm_constraints (disable_constraint i m)) = map constraint_expression (lm_constraints m)"
proof -
  have "(map constraint_expression (lm_constraints m))[i := constraint_expression (lm_constraints m ! i)] =
        map constraint_expression (lm_constraints m)"
    using list_update_id[of "map constraint_expression (lm_constraints m)" i] nth_map[OF i, of constraint_expression]
    by simp
  then show ?thesis by (simp add: disable_constraint_def map_update)
qed

lemma remove_redundant_step_shape:
  assumes "i < length (lm_constraints m)"
  shows "pm_refs (fst (remove_redundant_step (m, n) i)) = pm_refs m \<and>
         map constraint_expression (lm_constraints (fst (remove_redundant_step (m, n) i))) =
           map constraint_expression (lm_constraints m) \<and>
         lm_objective (fst (remove_redundant_step (m, n) i)) = lm_objective m \<and>
         lm_sign (fst (remove_redundant_step (m, n) i)) = lm_sign m"
  using assms by (simp add: remove_redundant_step_def Let_def split: list.split)

lemma foldl_remove_redundant_feasible:
  "presolve_wf m \<Longrightarrow> set is \<subseteq> {..<length (lm_constraints m)} \<Longrightarrow>
   presolve_wf (fst (foldl remove_redundant_step (m, n) is)) \<and>
   lm_objective (fst (foldl remove_redundant_step (m, n) is)) = lm_objective m \<and>
   lm_sign (fst (foldl remove_redundant_step (m, n) is)) = lm_sign m \<and>
   (feasible (fst (foldl remove_redundant_step (m, n) is)) \<sigma> \<longleftrightarrow> feasible m \<sigma>)"
proof (induction "is" arbitrary: m n)
  case (Cons i "is")
  obtain m1 n1 where e: "remove_redundant_step (m, n) i = (m1, n1)" by fastforce
  have i: "i < length (lm_constraints m)" using Cons.prems by simp
  have sh: "pm_refs m1 = pm_refs m" "map constraint_expression (lm_constraints m1) = map constraint_expression (lm_constraints m)"
    "lm_objective m1 = lm_objective m" "lm_sign m1 = lm_sign m"
    using remove_redundant_step_shape[OF i, of n] e by simp_all
  then have "length (lm_constraints m1) = length (lm_constraints m)" by (metis length_map)
  moreover have "presolve_wf m1" using presolve_wf_cong[OF sh(1-3)] Cons.prems by simp
  moreover have "feasible m1 \<sigma> \<longleftrightarrow> feasible m \<sigma>"
    using remove_redundant_step_feasible[OF Cons.prems(1) i, of n \<sigma>] e by simp
  ultimately show ?case using Cons.IH[of m1 n1] Cons.prems(2) sh e by simp
qed simp

lemma fix_implicit_step_facts:
  "pm_refs (fst (fix_implicit_step (m, n) r)) = pm_refs m \<and>
   lm_constraints (fst (fix_implicit_step (m, n) r)) = lm_constraints m \<and>
   lm_objective (fst (fix_implicit_step (m, n) r)) = lm_objective m \<and>
   lm_sign (fst (fix_implicit_step (m, n) r)) = lm_sign m \<and>
   (feasible (fst (fix_implicit_step (m, n) r)) \<sigma> \<longleftrightarrow> feasible m \<sigma>)"
  using within_bounds_fix_collapsed[of m r \<sigma>]
  by (simp add: fix_implicit_step_def Let_def feasible_def)

lemma foldl_fix_implicit_feasible:
  "pm_refs (fst (foldl fix_implicit_step (m, n) rs)) = pm_refs m \<and>
   lm_constraints (fst (foldl fix_implicit_step (m, n) rs)) = lm_constraints m \<and>
   lm_objective (fst (foldl fix_implicit_step (m, n) rs)) = lm_objective m \<and>
   lm_sign (fst (foldl fix_implicit_step (m, n) rs)) = lm_sign m \<and>
   (feasible (fst (foldl fix_implicit_step (m, n) rs)) \<sigma> \<longleftrightarrow> feasible m \<sigma>)"
proof (induction rs arbitrary: m n)
  case (Cons r rs)
  obtain m1 n1 where e: "fix_implicit_step (m, n) r = (m1, n1)" by fastforce
  show ?case using Cons.IH[of m1 n1] fix_implicit_step_facts[of m n r \<sigma>] e by simp
qed simp

lemma presolve_refines_refl: "presolve_refines m m"
  by (auto simp: presolve_refines_def)

lemma presolve_refines_trans:
  "presolve_refines m'' m' \<Longrightarrow> presolve_refines m' m \<Longrightarrow> presolve_refines m'' m"
  unfolding presolve_refines_def by (meson order_trans)

lemma presolve_refines_equiv:
  "(\<And>\<sigma>. feasible m' \<sigma> \<longleftrightarrow> feasible m \<sigma>) \<Longrightarrow> lm_sign m' = lm_sign m \<Longrightarrow> lm_objective m' = lm_objective m \<Longrightarrow>
   presolve_refines m' m"
  by (auto simp: presolve_refines_def minimization_objective_def)

lemma expression_value_unrelated:
  "sensitivity e r = 0 \<Longrightarrow> expression_value (\<sigma>(r := v)) e = expression_value \<sigma> e"
  by (simp add: expression_value_upd)

lemma fix_independent_refines:
  assumes r: "r \<in> set (pm_refs m)" and free: "\<not> var_is_fixed (pm_variables m r)" and unrel: "\<not> is_related m r"
    and b: "b = (if 0 < objective_coefficient m r then var_lower (pm_variables m r) else var_upper (pm_variables m r))"
  shows "presolve_refines (set_variable r (fix_by b (pm_variables m r)) m) m"
  unfolding presolve_refines_def
proof (intro conjI allI impI)
  let ?m' = "set_variable r (fix_by b (pm_variables m r)) m"
  fix \<sigma> assume "feasible ?m' \<sigma>"
  then show "feasible m \<sigma>"
    using free by (auto simp: feasible_def within_bounds_def split: if_splits)
next
  let ?m' = "set_variable r (fix_by b (pm_variables m r)) m"
  fix \<sigma> assume f: "feasible m \<sigma>"
  define \<sigma>' where "\<sigma>' = \<sigma>(r := b)"
  have rb: "var_lower (pm_variables m r) \<le> \<sigma> r" "\<sigma> r \<le> var_upper (pm_variables m r)"
    using f r by (auto simp: feasible_def within_bounds_def)
  then have "var_lower (pm_variables m r) \<le> b \<and> b \<le> var_upper (pm_variables m r)" using b by auto
  then have wb: "within_bounds ?m' \<sigma>'"
    using f by (auto simp: feasible_def within_bounds_def \<sigma>'_def)
  have "satisfied \<sigma>' g" if "g \<in> set (lm_constraints m)" for g
  proof (cases "constraint_enabled g")
    case True
    with unrel that have "sensitivity (constraint_expression g) r = 0"
      by (auto simp: is_related_def list_ex_iff)
    then show ?thesis
      using f that by (simp add: feasible_def satisfied_def \<sigma>'_def expression_value_unrelated)
  qed (simp add: satisfied_def)
  with wb have "feasible ?m' \<sigma>'" by (simp add: feasible_def)
  moreover have "objective_coefficient m r * of_int (b - \<sigma> r) \<le> 0"
    using rb b by (auto simp: mult_le_0_iff)
  then have "minimization_objective ?m' \<sigma>' \<le> minimization_objective m \<sigma>"
    by (simp add: minimization_objective_def \<sigma>'_def expression_value_upd objective_coefficient_def
        algebra_simps)
  ultimately show "\<exists>\<sigma>'. feasible ?m' \<sigma>' \<and> minimization_objective ?m' \<sigma>' \<le> minimization_objective m \<sigma>"
    by blast
qed

lemma foldl_remove_independent_refines:
  "set rs \<subseteq> set (pm_refs m) \<Longrightarrow>
   pm_refs (fst (foldl remove_independent_step (m, n) rs)) = pm_refs m \<and>
   lm_constraints (fst (foldl remove_independent_step (m, n) rs)) = lm_constraints m \<and>
   lm_objective (fst (foldl remove_independent_step (m, n) rs)) = lm_objective m \<and>
   lm_sign (fst (foldl remove_independent_step (m, n) rs)) = lm_sign m \<and>
   presolve_refines (fst (foldl remove_independent_step (m, n) rs)) m"
proof (induction rs arbitrary: m n)
  case Nil
  then show ?case by (simp add: presolve_refines_refl)
next
  case (Cons r rs)
  obtain m1 n1 where e: "remove_independent_step (m, n) r = (m1, n1)" by fastforce
  have sh: "pm_refs m1 = pm_refs m" "lm_constraints m1 = lm_constraints m" "lm_objective m1 = lm_objective m"
    "lm_sign m1 = lm_sign m"
    using e by (auto simp: remove_independent_step_def Let_def split: if_splits)
  have "presolve_refines m1 m"
    using e fix_independent_refines[of r m] Cons.prems presolve_refines_refl[of m]
    by (auto simp: remove_independent_step_def Let_def split: if_splits)
  then show ?case
    using Cons.IH[of m1 n1] Cons.prems sh e presolve_refines_trans by fastforce
qed

lemma presolve_stages_refine:
  assumes "presolve_wf m"
  shows "presolve_wf (fst (fix_implicit_fixed_variables m)) \<and> presolve_refines (fst (fix_implicit_fixed_variables m)) m"
    "presolve_wf (fst (remove_redundant_constraints_with_tightening_variable_bounds m)) \<and>
     presolve_refines (fst (remove_redundant_constraints_with_tightening_variable_bounds m)) m"
    "presolve_wf (fst (remove_independent_variables m)) \<and> presolve_refines (fst (remove_independent_variables m)) m"
proof -
  show "presolve_wf (fst (fix_implicit_fixed_variables m)) \<and> presolve_refines (fst (fix_implicit_fixed_variables m)) m"
    using foldl_fix_implicit_feasible[of m 0 "pm_refs m"] presolve_wf_cong[of "fst (fix_implicit_fixed_variables m)" m] assms
    by (auto simp: fix_implicit_fixed_variables_def intro!: presolve_refines_equiv)
  show "presolve_wf (fst (remove_redundant_constraints_with_tightening_variable_bounds m)) \<and>
     presolve_refines (fst (remove_redundant_constraints_with_tightening_variable_bounds m)) m"
  proof -
    have h: "set [0..<length (lm_constraints m)] \<subseteq> {..<length (lm_constraints m)}" by auto
    show ?thesis
      using foldl_remove_redundant_feasible[OF assms h, of 0]
      by (auto simp: remove_redundant_constraints_with_tightening_variable_bounds_def intro!: presolve_refines_equiv)
  qed
  show "presolve_wf (fst (remove_independent_variables m)) \<and> presolve_refines (fst (remove_independent_variables m)) m"
    using foldl_remove_independent_refines[of "pm_refs m" m 0] presolve_wf_cong[of "fst (remove_independent_variables m)" m] assms
    by (auto simp: remove_independent_variables_def)
qed

end
