(* ===== verification/Presolve.thy ===== *)
theory Presolve
  imports PresolveStages
begin

text \<open>
  The presolve loop of the model library (\<open>Model::presolve\<close>, specification section 4.1,
  setup step 5), the variable categories of step 6 (\<open>Model::categorize_variables\<close> and
  the counts \<open>number_of_*_variables\<close>), and the presolve tests of \<open>src/unnamed/part_000\<close>
  (lines 1107--1551). A pass runs the three stages of \<open>PresolveStages\<close> in the order of
  the specification; the loop repeats while a pass fixes a variable or disables a
  constraint. Bounds tightened without fixing anything do not count as progress: the
  stopping test is what makes the loop terminate, since a propagation between two free
  variables can shrink bounds forever on an infeasible model.
\<close>

section \<open>The loop\<close>

function presolve :: "presolve_model \<Rightarrow> presolve_model" where
  "presolve m =
     (let r1 = fix_implicit_fixed_variables m;
          r2 = remove_redundant_constraints_with_tightening_variable_bounds (fst r1);
          r3 = remove_independent_variables (fst r2)
      in if snd r1 + snd r2 + snd r3 = 0 then fst r3 else presolve (fst r3))"
  by pat_completeness auto

termination
proof (relation "measure presolve_measure")
  fix m r1 r2 r3
  assume r: "r1 = fix_implicit_fixed_variables m"
    "r2 = remove_redundant_constraints_with_tightening_variable_bounds (fst r1)"
    "r3 = remove_independent_variables (fst r2)" and n: "\<not> snd r1 + snd r2 + snd r3 = 0"
  have "presolve_measure (fst r1) + snd r1 \<le> presolve_measure m"
    "presolve_measure (fst r2) + snd r2 \<le> presolve_measure (fst r1)"
    "presolve_measure (fst r3) + snd r3 \<le> presolve_measure (fst r2)"
    using r fix_implicit_measure remove_redundant_measure remove_independent_measure by blast+
  moreover have "0 < snd r1 + snd r2 + snd r3" using n by simp
  ultimately show "(fst r3, m) \<in> measure presolve_measure" unfolding in_measure by linarith
qed simp

section \<open>Variable categories\<close>

text \<open>The counts of \<open>categorize_variables\<close>. The tests count a fixed variable also among
  the binary or the integer ones (line 1548: 3 fixed, 11 binary, 600 integer of 611).\<close>

definition number_of_variables :: "presolve_model \<Rightarrow> nat" where
  "number_of_variables m = length (pm_refs m)"

definition number_of_fixed_variables :: "presolve_model \<Rightarrow> nat" where
  "number_of_fixed_variables m = length (filter (\<lambda>r. var_is_fixed (pm_variables m r)) (pm_refs m))"

definition number_of_binary_variables :: "presolve_model \<Rightarrow> nat" where
  "number_of_binary_variables m = length (filter (\<lambda>r. is_binary (pm_variables m r)) (pm_refs m))"

definition number_of_integer_variables :: "presolve_model \<Rightarrow> nat" where
  "number_of_integer_variables m = length (filter (\<lambda>r. \<not> is_binary (pm_variables m r)) (pm_refs m))"

definition number_of_disabled_constraints :: "presolve_model \<Rightarrow> nat" where
  "number_of_disabled_constraints m = length (filter (\<lambda>g. \<not> constraint_enabled g) (lm_constraints m))"

section \<open>The tests\<close>

text \<open>A model of the tests: proxy \<open>p\<close> of \<open>ps\<close> holds \<open>n\<close> variables of bounds \<open>[l, u]\<close> and
  value 0; constraint \<open>k\<close> is the expression \<open>terms + c\<close> with its sense.\<close>

definition presolve_test_model ::
  "(nat \<times> int \<times> int) list \<Rightarrow> real \<Rightarrow> linear_expression \<Rightarrow> linear_constraint list \<Rightarrow> presolve_model" where
  "presolve_test_model ps sign obj cs =
     \<lparr>lm_sign = sign, lm_objective = obj, lm_constraints = cs,
      pm_refs = concat (map (\<lambda>p. map (\<lambda>i. (p, i)) [0..<fst (ps ! p)]) [0..<length ps]),
      pm_variables = (\<lambda>r. \<lparr>var_value = 0, var_lower = fst (snd (ps ! fst r)),
                            var_upper = snd (snd (ps ! fst r)), var_is_fixed = False\<rparr>)\<rparr>"

definition test_constraint ::
  "nat \<Rightarrow> (variable_ref \<times> real) list \<Rightarrow> real \<Rightarrow> constraint_sense \<Rightarrow> linear_constraint" where
  "test_constraint k ts c s =
     \<lparr>constraint_ref = (k, 0), constraint_expression = \<lparr>expr_terms = ts, expr_constant = c\<rparr>,
      constraint_sense = s, constraint_enabled = True\<rparr>"

definition sum_of :: "nat \<Rightarrow> nat \<Rightarrow> real \<Rightarrow> linear_expression" where
  "sum_of p n c = \<lparr>expr_terms = map (\<lambda>i. ((p, i), c)) [0..<n], expr_constant = 0\<rparr>"

definition set_bound :: "int \<Rightarrow> int \<Rightarrow> variable \<Rightarrow> variable" where
  "set_bound l u x = x\<lparr>var_lower := l, var_upper := u\<rparr>"

definition fix_variable :: "variable_ref \<Rightarrow> int \<Rightarrow> presolve_model \<Rightarrow> presolve_model" where
  "fix_variable r v m = set_variable r (fix_by v (pm_variables m r)) m"

definition expect_fixed :: "presolve_model \<Rightarrow> variable_ref \<Rightarrow> int \<Rightarrow> bool" where
  "expect_fixed m r v \<longleftrightarrow> var_is_fixed (pm_variables m r) \<and> var_value (pm_variables m r) = v"

text \<open>\<open>TEST_F(TestModel, presolve)\<close>: ten variables in \<open>[-10, 10]\<close>, \<open>minimize(x.sum())\<close>,
  \<open>2 x0 = 4\<close>, \<open>3 x1 \<le> 10\<close>, \<open>8 x1 \<ge> 20\<close>, \<open>x1 + x2 + 1 = 8\<close>.\<close>

definition presolve_test_input :: presolve_model where
  "presolve_test_input =
     presolve_test_model [(10, -10, 10)] 1 (sum_of 0 10 1)
       [test_constraint 0 [((0, 0), 2)] (-4) Equal,
        test_constraint 1 [((0, 1), 3)] (-10) LessEqual,
        test_constraint 2 [((0, 1), 8)] (-20) GreaterEqual,
        test_constraint 3 [((0, 1), 1), ((0, 2), 1)] (1 - 8) Equal]"

definition test_presolve :: bool where
  "test_presolve =
     (let m = presolve presolve_test_input
      in number_of_fixed_variables m = 10 \<and> number_of_disabled_constraints m = 4 \<and>
         expect_fixed m (0, 0) 2 \<and> expect_fixed m (0, 1) 3 \<and> expect_fixed m (0, 2) 4 \<and>
         list_all (\<lambda>i. expect_fixed m (0, i) (-10)) [3..<10])"

text \<open>\<open>TEST_F(TestModel, remove_independent_variables)\<close>: ten variables in \<open>[0, 1]\<close>, no
  constraint, the objective \<open>c * x.sum()\<close> minimised (\<open>sign = 1\<close>) or maximised
  (\<open>sign = -1\<close>); every variable ends fixed at \<open>v\<close>.\<close>

definition independent_case :: "real \<Rightarrow> real \<Rightarrow> int \<Rightarrow> bool" where
  "independent_case sign c v =
     (let m = fst (remove_independent_variables (presolve_test_model [(10, 0, 1)] sign (sum_of 0 10 c) []))
      in list_all (\<lambda>i. expect_fixed m (0, i) v) [0..<10] \<and> number_of_fixed_variables m = 10)"

definition test_remove_independent_variables :: bool where
  "test_remove_independent_variables =
     (independent_case 1 1 0 \<and> independent_case (-1) 1 1 \<and> independent_case 1 (-1) 1 \<and>
      independent_case (-1) (-1) 0)"

text \<open>One block of \<open>TEST_F(TestModel, remove_redundant_constraints_with_tightening_\<close>
  \<open>variable_bounds)\<close>: \<open>x\<close> (proxy 0) with bounds \<open>xb\<close>, optionally \<open>y\<close> (proxy 1) in
  \<open>[0, 1]\<close>, the constraint \<open>g\<close>, then optionally one \<open>fix_by\<close>, then the stage.\<close>

definition redundant_case ::
  "int \<times> int \<Rightarrow> bool \<Rightarrow> (variable_ref \<times> real) list \<Rightarrow> real \<Rightarrow> constraint_sense \<Rightarrow>
   (variable_ref \<times> int) option \<Rightarrow> presolve_model" where
  "redundant_case xb has_y ts c s fix =
     (let m = presolve_test_model ((1, xb) # (if has_y then [(1, 0, 1)] else [])) 1 (sum_of 0 0 1)
                [test_constraint 0 ts c s]
      in fst (remove_redundant_constraints_with_tightening_variable_bounds
                (case fix of None \<Rightarrow> m | Some (r, v) \<Rightarrow> fix_variable r v m)))"

definition expect_bounds :: "presolve_model \<Rightarrow> int \<Rightarrow> int \<Rightarrow> bool \<Rightarrow> bool" where
  "expect_bounds m l u enabled \<longleftrightarrow>
     \<not> var_is_fixed (pm_variables m (0, 0)) \<and> var_lower (pm_variables m (0, 0)) = l \<and>
     var_upper (pm_variables m (0, 0)) = u \<and> constraint_enabled (lm_constraints m ! 0) = enabled"

definition expect_removed :: "presolve_model \<Rightarrow> int option \<Rightarrow> bool" where
  "expect_removed m v \<longleftrightarrow>
     var_is_fixed (pm_variables m (0, 0)) \<and>
     (case v of None \<Rightarrow> True | Some w \<Rightarrow> var_value (pm_variables m (0, 0)) = w) \<and>
     \<not> constraint_enabled (lm_constraints m ! 0)"

definition test_remove_redundant_constraints_with_tightening_variable_bounds :: bool where
  "test_remove_redundant_constraints_with_tightening_variable_bounds =
     (let x = (0, 0); y = (1, 0) in
      expect_removed (redundant_case (0, 10) False [(x, 3)] (1 - 7) Equal None) (Some 2) \<and>
      expect_bounds (redundant_case (0, 10) False [(x, 3)] (1 - 7) LessEqual None) 0 2 False \<and>
      expect_bounds (redundant_case (0, 10) False [(x, 3)] (1 - 7) GreaterEqual None) 2 10 False \<and>
      expect_removed (redundant_case (-10, 10) False [(x, -3)] (1 - 7) Equal None) (Some (-2)) \<and>
      expect_bounds (redundant_case (-10, 10) False [(x, -3)] (1 - 7) LessEqual None) (-2) 10 False \<and>
      expect_bounds (redundant_case (-10, 10) False [(x, -3)] (1 - 7) GreaterEqual None) (-10) (-2) False \<and>
      expect_removed (redundant_case (0, 10) True [(x, 3), (y, 1)] (-7) Equal (Some (y, 1))) (Some 2) \<and>
      expect_bounds (redundant_case (0, 10) True [(x, 3), (y, 1)] (-7) LessEqual (Some (y, 1))) 0 2 False \<and>
      expect_bounds (redundant_case (0, 10) True [(x, 3), (y, 1)] (-7) GreaterEqual (Some (y, 1))) 2 10 False \<and>
      expect_removed (redundant_case (-10, 10) True [(x, -3), (y, 1)] (-7) Equal (Some (y, 1))) (Some (-2)) \<and>
      expect_bounds (redundant_case (-10, 10) True [(x, -3), (y, 1)] (-7) LessEqual (Some (y, 1))) (-2) 10 False \<and>
      expect_bounds (redundant_case (-10, 10) True [(x, -3), (y, 1)] (-7) GreaterEqual (Some (y, 1))) (-10) (-2) False \<and>
      expect_removed (redundant_case (0, 10) False [(x, 3)] (1 - 7) Equal (Some (x, 2))) None \<and>
      expect_removed (redundant_case (0, 10) False [(x, 3)] (1 - 7) LessEqual (Some (x, 1))) None \<and>
      expect_removed (redundant_case (0, 10) False [(x, 3)] (1 - 7) GreaterEqual (Some (x, 3))) None \<and>
      expect_removed (redundant_case (-10, 10) False [(x, -3)] (1 - 7) Equal (Some (x, -2))) None \<and>
      expect_removed (redundant_case (-10, 10) False [(x, -3)] (1 - 7) LessEqual (Some (x, -2))) None \<and>
      expect_removed (redundant_case (-10, 10) False [(x, -3)] (1 - 7) GreaterEqual (Some (x, -2))) None \<and>
      expect_bounds (redundant_case (0, 10) True [(x, 3), (y, 1)] (-7) LessEqual None) 0 2 True \<and>
      expect_bounds (redundant_case (0, 10) True [(x, 3), (y, 1)] (-7) GreaterEqual None) 2 10 True \<and>
      expect_bounds (redundant_case (-10, 10) True [(x, -3), (y, 1)] (-7) LessEqual None) (-2) 10 True \<and>
      expect_bounds (redundant_case (-10, 10) True [(x, -3), (y, 1)] (-7) GreaterEqual None) (-10) (-2) True)"

text \<open>\<open>TEST_F(TestModel, fix_implicit_fixed_variables)\<close>.\<close>

definition test_fix_implicit_fixed_variables :: bool where
  "test_fix_implicit_fixed_variables =
     (let m0 = presolve_test_model [(10, -10, 10)] 1 (sum_of 0 0 1) [];
          m = fst (fix_implicit_fixed_variables (set_variable (0, 0) (set_bound 5 5 (pm_variables m0 (0, 0))) m0))
      in expect_fixed m (0, 0) 5 \<and> list_all (\<lambda>i. \<not> var_is_fixed (pm_variables m (0, i))) [1..<10] \<and>
         number_of_fixed_variables m = 1)"

text \<open>\<open>TEST_F(TestModel, categorize_variables)\<close>: \<open>x\<close> binary, \<open>y\<close> ten binary, \<open>z\<close>
  \<open>20 \<times> 30\<close> in \<open>[-10, 10]\<close>; \<open>x\<close>, \<open>y(0)\<close> and \<open>z(0, 0)\<close> fixed at 0.\<close>

definition test_categorize_variables :: bool where
  "test_categorize_variables =
     (let m = fix_variable (2, 0) 0 (fix_variable (1, 0) 0 (fix_variable (0, 0) 0
                (presolve_test_model [(1, 0, 1), (10, 0, 1), (20 * 30, -10, 10)] 1 (sum_of 0 0 1) [])))
      in number_of_variables m = 1 + 10 + 20 * 30 \<and> number_of_fixed_variables m = 3 \<and>
         number_of_binary_variables m = 11 \<and> number_of_integer_variables m = 600)"

section \<open>Lemmas\<close>

lemma length_filter_upt_eq0: "0 < n \<Longrightarrow> length (filter (\<lambda>i. i = 0) [0..<n]) = 1"
  by (simp add: upt_conv_Cons filter_False)

lemma presolve_tests_pass:
  "test_presolve" "test_remove_independent_variables"
  "test_remove_redundant_constraints_with_tightening_variable_bounds" "test_fix_implicit_fixed_variables"
  unfolding test_presolve_def presolve_test_input_def test_remove_independent_variables_def
    test_remove_redundant_constraints_with_tightening_variable_bounds_def test_fix_implicit_fixed_variables_def
  by code_simp+

text \<open>The categorisation test over 611 variables, counted block by block.\<close>

lemma test_categorize_variables_passes: "test_categorize_variables"
proof -
  have r3: "[0..<length [(1::nat, 0::int, 1::int), (10, 0, 1), (20 * 30, -10, 10)]] = [0, 1, 2]"
    by (simp add: upt_rec)
  show ?thesis
    unfolding test_categorize_variables_def Let_def fix_variable_def presolve_test_model_def
      number_of_variables_def number_of_fixed_variables_def number_of_binary_variables_def
      number_of_integer_variables_def r3
    by (simp add: filter_map o_def is_binary_def fix_by_def length_filter_upt_eq0)
qed

text \<open>Presolve loses no optimum: on a model whose constraints and objective only use its
  own variables, every point of the presolved model is a point of the model, and every point
  of the model is matched by a point of the presolved model whose objective, as minimised,
  is no worse.\<close>

theorem presolve_keeps_optimum:
  "presolve_wf m \<Longrightarrow> presolve_refines (presolve m) m"
proof (induction m rule: presolve.induct)
  case (1 m)
  define r1 where "r1 = fix_implicit_fixed_variables m"
  define r2 where "r2 = remove_redundant_constraints_with_tightening_variable_bounds (fst r1)"
  define r3 where "r3 = remove_independent_variables (fst r2)"
  have s1: "presolve_wf (fst r1)" "presolve_refines (fst r1) m"
    using presolve_stages_refine(1)[OF "1.prems"] by (simp_all add: r1_def)
  have s2: "presolve_wf (fst r2)" "presolve_refines (fst r2) (fst r1)"
    using presolve_stages_refine(2)[OF s1(1)] by (simp_all add: r2_def)
  have s3: "presolve_wf (fst r3)" "presolve_refines (fst r3) (fst r2)"
    using presolve_stages_refine(3)[OF s2(1)] by (simp_all add: r3_def)
  have r: "presolve_refines (fst r3) m" using s1(2) s2(2) s3(2) presolve_refines_trans by blast
  have eq: "presolve m = (if snd r1 + snd r2 + snd r3 = 0 then fst r3 else presolve (fst r3))"
    by (subst presolve.simps) (simp add: Let_def r1_def r2_def r3_def)
  show ?case
  proof (cases "snd r1 + snd r2 + snd r3 = 0")
    case True
    then show ?thesis using eq r by simp
  next
    case False
    then have "presolve_refines (presolve (fst r3)) (fst r3)"
      using "1.IH"[OF r1_def r2_def r3_def] s3(1) by simp
    then show ?thesis using eq r False presolve_refines_trans by simp
  qed
qed

lemma presolve_keeps_optimum_witness:
  "presolve_wf presolve_test_input \<and> presolve_refines (presolve presolve_test_input) presolve_test_input"
proof -
  have wf: "presolve_wf presolve_test_input"
    unfolding presolve_wf_def presolve_test_input_def presolve_test_model_def test_constraint_def sum_of_def
    by (simp add: upt_rec)
  show ?thesis using presolve_keeps_optimum[OF wf] wf by simp
qed

text \<open>Bound tightening and the removal of redundant constraints keep the points of the
  model: on a model whose constraints only use its own variables, an integer assignment is
  a point of the model after \<open>remove_redundant_constraints_with_tightening_variable_bounds\<close>
  exactly when it is one before.\<close>

theorem remove_redundant_constraints_feasible:
  assumes "presolve_wf m"
  shows "feasible (fst (remove_redundant_constraints_with_tightening_variable_bounds m)) \<sigma> \<longleftrightarrow> feasible m \<sigma>"
proof -
  have h: "set [0..<length (lm_constraints m)] \<subseteq> {..<length (lm_constraints m)}" by auto
  show ?thesis
    using foldl_remove_redundant_feasible[OF assms h, of 0 \<sigma>]
    by (simp add: remove_redundant_constraints_with_tightening_variable_bounds_def)
qed

lemma remove_redundant_constraints_feasible_witness:
  "presolve_wf presolve_test_input \<and>
   (feasible (fst (remove_redundant_constraints_with_tightening_variable_bounds presolve_test_input)) (\<lambda>_. 0) \<longleftrightarrow>
    feasible presolve_test_input (\<lambda>_. 0))"
proof -
  have wf: "presolve_wf presolve_test_input"
    unfolding presolve_wf_def presolve_test_input_def presolve_test_model_def test_constraint_def sum_of_def
    by (simp add: upt_rec)
  show ?thesis using remove_redundant_constraints_feasible[OF wf, of "\<lambda>_. 0"] wf by simp
qed

end
