(* ===== verification/ModelSetup.thy ===== *)
theory ModelSetup
  imports ModelObjective Presolve
begin

text \<open>
  The setup stages of the model library other than the presolve (specification section
  4.1): the construction of an empty model (\<open>Model::initialize\<close>), the links from variables
  to constraints and the sensitivity tables (steps 1 and 4), the linearity flag (step 3),
  the fast-evaluation flag, the classification of constraints by shape (step 7 and
  section 4.2), the extraction of selections in the \<open>Defined\<close> mode (step 8), the variable
  senses, and \<open>import_variable_values\<close>; with their tests of \<open>src/unnamed/part_000\<close>
  (lines 116--203, 820--1104, 1554--1645, 2349--2385). The library is not among the sources;
  every stage is modelled from the specification, read where it is silent by the tests.

  A constraint's body is, like the objective of \<open>ModelObjective\<close>, either a callback of the
  move or a linear expression; \<open>g \<diamond> 0\<close> is the body with its sense and its enabled flag.
  A selection is the index of its constraint and its variables.
\<close>

section \<open>Models\<close>

record model_constraint =
  mc_body :: objective
  mc_sense :: constraint_sense
  mc_enabled :: bool

record selection =
  sel_constraint :: nat
  sel_variables :: "variable_ref list"

record setup_model =
  su_refs :: "variable_ref list"
  su_variables :: "variable_ref \<Rightarrow> variable"
  su_constraints :: "model_constraint list"
  su_objective :: model_objective
  su_is_linear :: bool
  su_is_enabled_fast_evaluation :: bool
  su_is_enabled_user_defined_move :: bool
  su_selections :: "selection list"
  su_selection_variables :: "variable_ref list"

text \<open>\<open>Model::initialize\<close>: no proxy, no objective, linear, fast evaluation on.\<close>

definition setup_model_new :: setup_model where
  "setup_model_new =
     \<lparr>su_refs = [], su_variables = (\<lambda>_. \<lparr>var_value = 0, var_lower = 0, var_upper = 0, var_is_fixed = False\<rparr>),
      su_constraints = [], su_objective = model_objective_new, su_is_linear = True,
      su_is_enabled_fast_evaluation = True, su_is_enabled_user_defined_move = False,
      su_selections = [], su_selection_variables = []\<rparr>"

definition constraint_expression_of :: "model_constraint \<Rightarrow> linear_expression" where
  "constraint_expression_of c = objective_expression (mc_body c)"

section \<open>Links and sensitivity tables (steps 1 and 4)\<close>

text \<open>\<open>setup_variable_related_constraints\<close>: the constraints in which a variable has a nonzero
  sensitivity, by index.\<close>

definition related_constraints :: "setup_model \<Rightarrow> variable_ref \<Rightarrow> nat list" where
  "related_constraints m r =
     filter (\<lambda>k. sensitivity (constraint_expression_of (su_constraints m ! k)) r \<noteq> 0)
       [0..<length (su_constraints m)]"

text \<open>\<open>setup_variable_sensitivity\<close>: the objective sensitivity of a variable and its map
  from related constraints to coefficients; \<open>constraint_sensitivities().at(g)\<close> throws
  \<open>std::out_of_range\<close> for a constraint that is not related.\<close>

definition objective_sensitivity :: "setup_model \<Rightarrow> variable_ref \<Rightarrow> real" where
  "objective_sensitivity m r = sensitivity (objective_expression (mo_objective (su_objective m))) r"

definition constraint_sensitivities :: "setup_model \<Rightarrow> variable_ref \<Rightarrow> (nat \<times> real) list" where
  "constraint_sensitivities m r =
     map (\<lambda>k. (k, sensitivity (constraint_expression_of (su_constraints m ! k)) r)) (related_constraints m r)"

definition sensitivity_at :: "setup_model \<Rightarrow> variable_ref \<Rightarrow> nat \<Rightarrow> cpp_error + real" where
  "sensitivity_at m r k =
     (case map_of (constraint_sensitivities m r) k of None \<Rightarrow> Inl OutOfRange | Some a \<Rightarrow> Inr a)"

section \<open>Linearity and fast evaluation (step 3)\<close>

definition setup_is_linear :: "setup_model \<Rightarrow> setup_model" where
  "setup_is_linear m =
     m\<lparr>su_is_linear := list_all (\<lambda>c. objective_is_linear (mc_body c)) (su_constraints m) \<and>
                      objective_is_linear (mo_objective (su_objective m))\<rparr>"

text \<open>Fast (incremental) evaluation needs linear constraints and no user-defined move; the
  objective may be a callback, since its value is recomputed (the tests of lines 986--1066;
  the specification does not name the flag).\<close>

definition setup_is_enabled_fast_evaluation :: "setup_model \<Rightarrow> setup_model" where
  "setup_is_enabled_fast_evaluation m =
     m\<lparr>su_is_enabled_fast_evaluation :=
        list_all (\<lambda>c. objective_is_linear (mc_body c)) (su_constraints m) \<and>
        \<not> su_is_enabled_user_defined_move m\<rparr>"

section \<open>Constraint shapes (section 4.2)\<close>

datatype constraint_type =
    Type_Singleton | Type_Aggregation | Type_Precedence | Type_VariableBound | Type_SetPartitioning
  | Type_SetPacking | Type_SetCovering | Type_Cardinality | Type_InvariantKnapsack
  | Type_EquationKnapsack | Type_BinPacking | Type_Knapsack | Type_IntegerKnapsack
  | Type_GeneralLinear | Type_Nonlinear

text \<open>The rows of the table of section 4.2 in their order, for \<open>\<Sum> a\<^sub>i x\<^sub>i \<diamond> b\<close> with
  \<open>b = -constant\<close>. The two-variable rows apply to any variables (the tests classify
  integer variables as aggregation and precedence); the others to binary variables, except
  the integer knapsack. A bin packing constraint has a capacity variable whose coefficient
  is the right-hand side, the other coefficients being nonnegative.\<close>

definition constraint_type_of :: "setup_model \<Rightarrow> model_constraint \<Rightarrow> constraint_type" where
  "constraint_type_of m c =
     (let e = constraint_expression_of c; ts = sensitivities e; s = mc_sense c; b = - expr_constant e;
          all_binary = list_all (\<lambda>t. is_binary (su_variables m (fst t))) ts;
          unit = list_all (\<lambda>t. snd t = 1) ts; nonneg = list_all (\<lambda>t. 0 \<le> snd t) ts
      in if \<not> objective_is_linear (mc_body c) then Type_Nonlinear
         else if length ts = 1 then Type_Singleton
         else if length ts = 2 \<and> s = Equal then Type_Aggregation
         else if length ts = 2 \<and> snd (ts ! 0) = - snd (ts ! 1) then Type_Precedence
         else if length ts = 2 then Type_VariableBound
         else if all_binary \<and> unit \<and> b = 1 then
           (case s of Equal \<Rightarrow> Type_SetPartitioning | LessEqual \<Rightarrow> Type_SetPacking | GreaterEqual \<Rightarrow> Type_SetCovering)
         else if all_binary \<and> unit \<and> 1 \<le> b \<and> s = Equal then Type_Cardinality
         else if all_binary \<and> unit \<and> 1 \<le> b \<and> s = LessEqual then Type_InvariantKnapsack
         else if all_binary \<and> nonneg \<and> s = Equal then Type_EquationKnapsack
         else if all_binary \<and> s \<noteq> Equal \<and> b \<noteq> 0 \<and>
                 list_ex (\<lambda>t. snd t = b \<and> list_all (\<lambda>u. fst u = fst t \<or> 0 \<le> snd u) ts) ts
         then Type_BinPacking
         else if all_binary \<and> nonneg \<and> s \<noteq> Equal then Type_Knapsack
         else if nonneg \<and> s \<noteq> Equal then Type_IntegerKnapsack
         else Type_GeneralLinear)"

text \<open>\<open>categorize_constraints\<close>: the constraint type reference, the constraints of each
  shape by index.\<close>

definition constraint_type_reference :: "setup_model \<Rightarrow> constraint_type \<Rightarrow> nat list" where
  "constraint_type_reference m k =
     filter (\<lambda>i. constraint_type_of m (su_constraints m ! i) = k) [0..<length (su_constraints m)]"

section \<open>Selections (step 8) and variable senses\<close>

definition constraint_variables :: "model_constraint \<Rightarrow> variable_ref list" where
  "constraint_variables c = map fst (sensitivities (constraint_expression_of c))"

text \<open>Every enabled set-partitioning constraint becomes a selection: the constraint is
  disabled and its variables become selection variables.\<close>

definition extract_selection :: "setup_model \<Rightarrow> nat \<Rightarrow> setup_model" where
  "extract_selection m i =
     (let c = su_constraints m ! i
      in if mc_enabled c \<and> constraint_type_of m c = Type_SetPartitioning
         then m\<lparr>su_constraints := (su_constraints m)[i := c\<lparr>mc_enabled := False\<rparr>],
                su_selections := su_selections m @ [\<lparr>sel_constraint = i, sel_variables = constraint_variables c\<rparr>],
                su_selection_variables := su_selection_variables m @ constraint_variables c\<rparr>
         else m)"

definition extract_selections_defined :: "setup_model \<Rightarrow> setup_model" where
  "extract_selections_defined m = foldl extract_selection m [0..<length (su_constraints m)]"

text \<open>The loop of \<open>extract_selections\<close> as a declarative specification: the indices of
  the enabled set-partitioning constraints, and the model with those constraints disabled and
  their selections appended in index order.\<close>

definition selection_indices :: "setup_model \<Rightarrow> nat list" where
  "selection_indices m =
     filter (\<lambda>i. mc_enabled (su_constraints m ! i) \<and> constraint_type_of m (su_constraints m ! i) = Type_SetPartitioning)
       [0..<length (su_constraints m)]"

definition selections_extracted :: "setup_model \<Rightarrow> nat list \<Rightarrow> setup_model" where
  "selections_extracted m is =
     m\<lparr>su_constraints := map (\<lambda>i. if i \<in> set is then (su_constraints m ! i)\<lparr>mc_enabled := False\<rparr> else su_constraints m ! i)
                            [0..<length (su_constraints m)],
       su_selections := su_selections m @ map (\<lambda>i. \<lparr>sel_constraint = i, sel_variables = constraint_variables (su_constraints m ! i)\<rparr>) is,
       su_selection_variables := su_selection_variables m @ concat (map (\<lambda>i. constraint_variables (su_constraints m ! i)) is)\<rparr>"

text \<open>The modes \<open>Independent\<close> and \<open>Larger\<close>, from the wording of the specification. A pass
  over the candidates (the enabled set-partitioning constraints) keeps a group and the
  variables it covers. \<open>Independent\<close>, in index order, keeps a group disjoint from the groups
  kept before; \<open>Larger\<close>, by decreasing size (ties in index order), keeps a group with at least
  one variable not yet covered.\<close>

definition independent_step :: "setup_model \<Rightarrow> nat list \<times> variable_ref list \<Rightarrow> nat \<Rightarrow> nat list \<times> variable_ref list" where
  "independent_step m acc i =
     (let vs = constraint_variables (su_constraints m ! i)
      in if list_all (\<lambda>v. v \<notin> set (snd acc)) vs then (fst acc @ [i], snd acc @ vs) else acc)"

definition extract_selections_independent :: "setup_model \<Rightarrow> setup_model" where
  "extract_selections_independent m =
     selections_extracted m (fst (foldl (independent_step m) ([], []) (selection_indices m)))"

definition larger_step :: "setup_model \<Rightarrow> nat list \<times> variable_ref list \<Rightarrow> nat \<Rightarrow> nat list \<times> variable_ref list" where
  "larger_step m acc i =
     (let vs = constraint_variables (su_constraints m ! i)
      in if list_ex (\<lambda>v. v \<notin> set (snd acc)) vs then (fst acc @ [i], snd acc @ vs) else acc)"

definition larger_order :: "setup_model \<Rightarrow> nat list" where
  "larger_order m =
     sort_key (\<lambda>i. - int (length (constraint_variables (su_constraints m ! i)))) (selection_indices m)"

definition extract_selections_larger :: "setup_model \<Rightarrow> setup_model" where
  "extract_selections_larger m =
     selections_extracted m (fst (foldl (larger_step m) ([], []) (larger_order m)))"

datatype model_variable_sense = Binary_Sense | Integer_Sense | Selection_Sense

definition sense_of :: "setup_model \<Rightarrow> variable_ref \<Rightarrow> model_variable_sense" where
  "sense_of m r =
     (if r \<in> set (su_selection_variables m) then Selection_Sense
      else if is_binary (su_variables m r) then Binary_Sense else Integer_Sense)"

text \<open>\<open>setup_variable_sense\<close>: every sense is set again from the bounds.\<close>

definition setup_variable_sense :: "setup_model \<Rightarrow> setup_model" where
  "setup_variable_sense m = m\<lparr>su_selection_variables := []\<rparr>"

definition number_of_selection_constraints :: "setup_model \<Rightarrow> nat" where
  "number_of_selection_constraints m = length (su_selections m)"

definition number_of_disabled_model_constraints :: "setup_model \<Rightarrow> nat" where
  "number_of_disabled_model_constraints m = length (filter (\<lambda>c. \<not> mc_enabled c) (su_constraints m))"

definition number_of_selection_variables :: "setup_model \<Rightarrow> nat" where
  "number_of_selection_variables m = length (su_selection_variables m)"

definition number_of_sense :: "model_variable_sense \<Rightarrow> setup_model \<Rightarrow> nat" where
  "number_of_sense k m = length (filter (\<lambda>r. sense_of m r = k) (su_refs m))"

section \<open>Importing values\<close>

text \<open>\<open>import_variable_values(proxies)\<close>: the value of flat index \<open>i\<close> of the proxy of id
  \<open>p\<close> becomes the value of variable \<open>(p, i)\<close>.\<close>

definition import_proxy_values ::
  "int value_proxy \<Rightarrow> (variable_ref \<Rightarrow> variable) \<Rightarrow> (variable_ref \<Rightarrow> variable)" where
  "import_proxy_values v vs =
     foldl (\<lambda>vs (i, a). vs((proxy_id v, i) := (vs (proxy_id v, i))\<lparr>var_value := a\<rparr>))
       vs (zip [0..<length (flat_indexed_values v)] (flat_indexed_values v))"

definition import_variable_values :: "int proxies \<Rightarrow> setup_model \<Rightarrow> setup_model" where
  "import_variable_values ps m = m\<lparr>su_variables := foldl (\<lambda>vs v. import_proxy_values v vs) (su_variables m) ps\<rparr>"

section \<open>The tests\<close>

text \<open>A model of the tests: proxy \<open>p\<close> of \<open>ps\<close> holds \<open>n\<close> variables of bounds \<open>[l, u]\<close>.\<close>

definition setup_test_model ::
  "(nat \<times> int \<times> int) list \<Rightarrow> model_constraint list \<Rightarrow> model_objective \<Rightarrow> setup_model" where
  "setup_test_model ps cs obj =
     setup_model_new\<lparr>su_refs := pm_refs (presolve_test_model ps 1 (sum_of 0 0 1) []),
                     su_variables := pm_variables (presolve_test_model ps 1 (sum_of 0 0 1) []),
                     su_constraints := cs, su_objective := obj\<rparr>"

definition linear_body :: "(variable_ref \<times> real) list \<Rightarrow> real \<Rightarrow> objective" where
  "linear_body ts c = Objective_Expression \<lparr>expr_terms = ts, expr_constant = c\<rparr>"

definition new_constraint :: "objective \<Rightarrow> constraint_sense \<Rightarrow> model_constraint" where
  "new_constraint body s = \<lparr>mc_body = body, mc_sense = s, mc_enabled = True\<rparr>"

text \<open>\<open>TEST_F(TestModel, initialize)\<close>: the flags and every reference of a new model.\<close>

definition test_initialize :: bool where
  "test_initialize =
     (let m = setup_model_new
      in su_refs m = [] \<and> \<not> mo_is_defined_objective (su_objective m) \<and> su_is_enabled_fast_evaluation m \<and>
         su_is_linear m \<and> mo_is_minimization (su_objective m) \<and> mo_sign (su_objective m) = 1 \<and>
         su_selection_variables m = [] \<and> su_constraints m = [] \<and> su_selections m = [] \<and>
         list_all (\<lambda>k. constraint_type_reference m k = [])
           [Type_Singleton, Type_Aggregation, Type_Precedence, Type_VariableBound, Type_SetPartitioning,
            Type_SetPacking, Type_SetCovering, Type_Cardinality, Type_InvariantKnapsack,
            Type_EquationKnapsack, Type_BinPacking, Type_Knapsack, Type_IntegerKnapsack,
            Type_GeneralLinear, Type_Nonlinear])"

text \<open>The expression \<open>x\<close> of a scalar variable and the callback \<open>x.evaluate(move)\<close>.\<close>

definition x_expression :: linear_expression where
  "x_expression = \<lparr>expr_terms = [((0, 0), 1)], expr_constant = 0\<rparr>"

definition x_callback :: objective where
  "x_callback = Objective_Function (\<lambda>\<sigma> mv. expression_value (apply_move \<sigma> mv) x_expression)"

definition flag_test_model :: "bool \<Rightarrow> bool \<Rightarrow> bool \<Rightarrow> setup_model" where
  "flag_test_model callback_constraint callback_objective user_move =
     (setup_test_model [(1, - 2147483647, 2147483646)]
        [new_constraint (if callback_constraint then x_callback else Objective_Expression x_expression) LessEqual]
        (minimize (if callback_objective then x_callback else Objective_Expression x_expression) model_objective_new))
     \<lparr>su_is_enabled_user_defined_move := user_move\<rparr>"

definition test_setup_is_linear :: bool where
  "test_setup_is_linear =
     (su_is_linear (setup_is_linear (flag_test_model False False False)) \<and>
      \<not> su_is_linear (setup_is_linear (flag_test_model True False False)) \<and>
      \<not> su_is_linear (setup_is_linear (flag_test_model False True False)) \<and>
      \<not> su_is_linear (setup_is_linear (flag_test_model True True False)))"

definition test_setup_is_enabled_fast_evaluation :: bool where
  "test_setup_is_enabled_fast_evaluation =
     (su_is_enabled_fast_evaluation (setup_is_enabled_fast_evaluation (flag_test_model False False False)) \<and>
      \<not> su_is_enabled_fast_evaluation (setup_is_enabled_fast_evaluation (flag_test_model True False False)) \<and>
      su_is_enabled_fast_evaluation (setup_is_enabled_fast_evaluation (flag_test_model False True False)) \<and>
      \<not> su_is_enabled_fast_evaluation (setup_is_enabled_fast_evaluation (flag_test_model False False True)))"

text \<open>\<open>TEST_F(TestModel, setup_variable_related_constraints)\<close>: \<open>x\<close> ten binary variables,
  \<open>y\<close> \<open>20 \<times> 30\<close> binary variables (flat index \<open>30 i + j\<close>), \<open>g(0) = x.selection()\<close>,
  \<open>g(1) = y.selection()\<close>, \<open>g(2) = x(0) + y.sum({0, All}) \<ge> 1\<close>.\<close>

definition related_test_model :: setup_model where
  "related_test_model =
     setup_test_model [(10, 0, 1), (20 * 30, 0, 1)]
       [new_constraint (linear_body (expr_terms (sum_of 0 10 1)) (-1)) Equal,
        new_constraint (linear_body (expr_terms (sum_of 1 (20 * 30) 1)) (-1)) Equal,
        new_constraint (linear_body (((0, 0), 1) # expr_terms (sum_of 1 30 1)) (-1)) GreaterEqual]
       model_objective_new"

definition test_setup_variable_related_constraints :: bool where
  "test_setup_variable_related_constraints =
     (let m = related_test_model
      in list_all (\<lambda>i. 0 \<in> set (related_constraints m (0, i)) \<and> 1 \<notin> set (related_constraints m (0, i)) \<and>
                        (2 \<in> set (related_constraints m (0, i)) \<longleftrightarrow> i = 0)) [0..<10] \<and>
         list_all (\<lambda>i. list_all (\<lambda>j. 0 \<notin> set (related_constraints m (1, 30 * i + j)) \<and>
                                    1 \<in> set (related_constraints m (1, 30 * i + j)) \<and>
                                    (2 \<in> set (related_constraints m (1, 30 * i + j)) \<longleftrightarrow> i = 0))
                    [0..<30]) [0..<20])"

text \<open>\<open>TEST_F(TestModel, setup_variable_sensitivity)\<close>: \<open>p(0) = \<Sum> (i + 1) x(i)\<close>,
  \<open>p(1) = \<Sum> (i + j + 1) y(i, j)\<close>, \<open>g(0) = p(0) \<le> 10000\<close>, \<open>g(1) = p(1) \<le> 10000\<close>, \<open>g(2)\<close>
  left empty, \<open>minimize(2 x.sum() + 5 y.sum())\<close>.\<close>

definition weighted_y :: "(variable_ref \<times> real) list" where
  "weighted_y = concat (map (\<lambda>i. map (\<lambda>j. ((1, 30 * i + j), real (i + j + 1))) [0..<30]) [0..<20])"

definition sensitivity_test_model :: setup_model where
  "sensitivity_test_model =
     setup_test_model [(10, 0, 1), (20 * 30, 0, 1)]
       [new_constraint (linear_body (map (\<lambda>i. ((0, i), real (i + 1))) [0..<10]) (-10000)) LessEqual,
        new_constraint (linear_body weighted_y (-10000)) LessEqual,
        new_constraint (linear_body [] 0) LessEqual]
       (minimize (linear_body (expr_terms (sum_of 0 10 2) @ expr_terms (sum_of 1 (20 * 30) 5)) 0) model_objective_new)"

definition test_setup_variable_sensitivity :: bool where
  "test_setup_variable_sensitivity =
     (let m = sensitivity_test_model
      in list_all (\<lambda>i. sensitivity_at m (0, i) 0 = Inr (real (i + 1)) \<and> objective_sensitivity m (0, i) = 2) [0..<10] \<and>
         list_all (\<lambda>i. list_all (\<lambda>j. sensitivity_at m (1, 30 * i + j) 1 = Inr (real (i + j + 1)) \<and>
                                    objective_sensitivity m (1, 30 * i + j) = 5) [0..<30]) [0..<20])"

text \<open>\<open>TEST_F(TestModel, categorize_constraints)\<close>: \<open>x\<close>, \<open>y\<close> in \<open>[-10, 10]\<close> (proxies 0, 1),
  \<open>z\<close> ten binary (2), \<open>w\<close> binary (3), \<open>r\<close> ten in \<open>[-10, 10]\<close> (4), \<open>coefficients =
  sequence(10)\<close>; the 22 constraints in the order of the test, the singleton disabled, then
  \<open>extract_selections(Defined)\<close>.\<close>

definition z_dot :: "(variable_ref \<times> real) list" where
  "z_dot = map (\<lambda>i. ((2, i), real i)) [0..<10]"

definition categorize_test_model :: setup_model where
  "categorize_test_model =
     (let x = (0, 0); y = (1, 0); w = (3, 0); z_sum = expr_terms (sum_of 2 10 1);
          r_dot = map (\<lambda>i. ((4, i), real i)) [0..<10]
      in setup_test_model [(1, -10, 10), (1, -10, 10), (10, 0, 1), (1, 0, 1), (10, -10, 10)]
           [(new_constraint (linear_body [(x, 2)] (-10)) LessEqual)\<lparr>mc_enabled := False\<rparr>,
            new_constraint (linear_body [(x, 2), (y, 3)] (-10)) Equal,
            new_constraint (linear_body [(x, 2), (y, -2)] (-5)) LessEqual,
            new_constraint (linear_body [(x, -2), (y, 2)] (-5)) LessEqual,
            new_constraint (linear_body [(x, 2), (y, -2)] (-5)) GreaterEqual,
            new_constraint (linear_body [(x, -2), (y, 2)] (-5)) GreaterEqual,
            new_constraint (linear_body [((2, 0), 2), ((2, 1), 3)] (-5)) GreaterEqual,
            new_constraint (linear_body [((2, 0), 2), ((2, 1), 3)] (-5)) LessEqual,
            new_constraint (linear_body z_sum (-1)) Equal,
            new_constraint (linear_body z_sum (-1)) LessEqual,
            new_constraint (linear_body z_sum (-1)) GreaterEqual,
            new_constraint (linear_body z_sum (-5)) Equal,
            new_constraint (linear_body z_sum (-5)) LessEqual,
            new_constraint (linear_body z_dot (-30)) Equal,
            new_constraint (linear_body (z_dot @ [(w, 5)]) (-5)) LessEqual,
            new_constraint (linear_body (z_dot @ [(w, -5)]) 5) GreaterEqual,
            new_constraint (linear_body z_dot (-50)) LessEqual,
            new_constraint (linear_body z_dot 50) GreaterEqual,
            new_constraint (linear_body r_dot (-50)) LessEqual,
            new_constraint (linear_body r_dot 50) GreaterEqual,
            new_constraint (linear_body ((x, 1) # expr_terms (sum_of 4 10 1)) (-50)) Equal,
            new_constraint (Objective_Function (\<lambda>\<sigma> mv. expression_value (apply_move \<sigma> mv) x_expression - 1 - 5))
              LessEqual]
           model_objective_new)"

definition test_categorize_constraints :: bool where
  "test_categorize_constraints =
     (let m = extract_selections_defined categorize_test_model;
          count = (\<lambda>k. length (constraint_type_reference m k))
      in length (su_constraints m) = 22 \<and> number_of_selection_constraints m = 1 \<and>
         number_of_disabled_model_constraints m = 2 \<and>
         count Type_Singleton = 1 \<and> count Type_Aggregation = 1 \<and> count Type_Precedence = 4 \<and>
         count Type_VariableBound = 2 \<and> count Type_SetPartitioning = 1 \<and> count Type_SetPacking = 1 \<and>
         count Type_SetCovering = 1 \<and> count Type_InvariantKnapsack = 1 \<and> count Type_EquationKnapsack = 1 \<and>
         count Type_BinPacking = 2 \<and> count Type_Knapsack = 2 \<and> count Type_IntegerKnapsack = 2 \<and>
         count Type_GeneralLinear = 1 \<and> count Type_Nonlinear = 1)"

text \<open>\<open>TEST_F(TestModel, setup_variable_sense)\<close>.\<close>

definition test_setup_variable_sense :: bool where
  "test_setup_variable_sense =
     (let m = extract_selections_defined
                (setup_test_model [(10, 0, 1)] [new_constraint (linear_body (expr_terms (sum_of 0 10 1)) (-1)) Equal]
                   model_objective_new)
      in list_all (\<lambda>i. sense_of m (0, i) = Selection_Sense) [0..<10] \<and>
         list_all (\<lambda>i. sense_of (setup_variable_sense m) (0, i) = Binary_Sense) [0..<10])"

text \<open>\<open>TEST_F(TestModel, extract_selections_larger)\<close> and \<open>extract_selections_independent\<close>:
  \<open>x0\<close> \<open>10 \<times> 10\<close>, \<open>x1\<close> \<open>20 \<times> 20\<close>, \<open>x2\<close> two binary variables, \<open>y\<close> \<open>30 \<times> 30\<close> in
  \<open>[-10, 10]\<close>; \<open>c0 = x0.selection({0, All})\<close>, \<open>c1 = x0.sum({1, All}) + x1.sum({1, All}) +
  x2(0) == 1\<close>, \<open>c2 = x1.selection()\<close>, \<open>c3 = x2.selection()\<close>.\<close>

definition selection_mode_test_model :: setup_model where
  "selection_mode_test_model =
     setup_test_model [(10 * 10, 0, 1), (20 * 20, 0, 1), (2, 0, 1), (30 * 30, -10, 10)]
       [new_constraint (linear_body (map (\<lambda>j. ((0, j), 1)) [0..<10]) (-1)) Equal,
        new_constraint (linear_body (map (\<lambda>j. ((0, 10 + j), 1)) [0..<10] @ map (\<lambda>j. ((1, 20 + j), 1)) [0..<20] @
                                     [((2, 0), 1)]) (-1)) Equal,
        new_constraint (linear_body (expr_terms (sum_of 1 (20 * 20) 1)) (-1)) Equal,
        new_constraint (linear_body (expr_terms (sum_of 2 2 1)) (-1)) Equal]
       model_objective_new"

definition test_extract_selections_larger :: bool where
  "test_extract_selections_larger =
     (let m = extract_selections_larger selection_mode_test_model; s = su_selections m
      in number_of_selection_constraints m = 2 \<and> length s = 2 \<and>
         length (sel_variables (s ! 0)) = 400 \<and> (1, 0) \<in> set (sel_variables (s ! 0)) \<and>
         (1, 20 * 19 + 19) \<in> set (sel_variables (s ! 0)) \<and>
         length (sel_variables (s ! 1)) = 10 \<and> (0, 0) \<in> set (sel_variables (s ! 1)) \<and>
         (0, 9) \<in> set (sel_variables (s ! 1)) \<and> (0, 10) \<notin> set (sel_variables (s ! 1)) \<and>
         \<not> mc_enabled (su_constraints m ! sel_constraint (s ! 0)) \<and>
         \<not> mc_enabled (su_constraints m ! sel_constraint (s ! 1)) \<and>
         number_of_selection_variables m = 20 * 20 + 1 * 10 \<and>
         sense_of m (1, 0) = Selection_Sense \<and> sense_of m (1, 20 * 19 + 19) = Selection_Sense \<and>
         sense_of m (0, 0) = Selection_Sense \<and> sense_of m (0, 9) = Selection_Sense \<and>
         sense_of m (0, 10) \<noteq> Selection_Sense \<and>
         number_of_sense Binary_Sense m = 10 * 10 + 20 * 20 + 2 - (20 * 20 + 1 * 10) \<and>
         sense_of m (1, 0) \<noteq> Binary_Sense \<and> sense_of m (1, 20 * 19 + 19) \<noteq> Binary_Sense \<and>
         sense_of m (0, 0) \<noteq> Binary_Sense \<and> sense_of m (0, 9) \<noteq> Binary_Sense \<and>
         sense_of m (0, 10) = Binary_Sense \<and>
         number_of_sense Integer_Sense m = 30 * 30 \<and>
         sense_of m (3, 0) = Integer_Sense \<and> sense_of m (3, 30 * 29 + 29) = Integer_Sense)"

definition test_extract_selections_independent :: bool where
  "test_extract_selections_independent =
     (let m = extract_selections_independent selection_mode_test_model; s = su_selections m
      in number_of_selection_constraints m = 1 \<and> length s = 1 \<and>
         length (sel_variables (s ! 0)) = 10 \<and> (0, 0) \<in> set (sel_variables (s ! 0)) \<and>
         (0, 9) \<in> set (sel_variables (s ! 0)) \<and> (0, 10) \<notin> set (sel_variables (s ! 0)) \<and>
         \<not> mc_enabled (su_constraints m ! sel_constraint (s ! 0)) \<and>
         number_of_selection_variables m = 10 \<and>
         sense_of m (0, 0) = Selection_Sense \<and> sense_of m (0, 9) = Selection_Sense \<and>
         sense_of m (0, 10) \<noteq> Selection_Sense \<and>
         number_of_sense Binary_Sense m = 10 * 10 + 20 * 20 + 2 - 10 \<and>
         sense_of m (0, 0) \<noteq> Binary_Sense \<and> sense_of m (0, 9) \<noteq> Binary_Sense \<and>
         sense_of m (0, 10) = Binary_Sense \<and>
         number_of_sense Integer_Sense m = 30 * 30 \<and>
         sense_of m (3, 0) = Integer_Sense \<and> sense_of m (3, 30 * 29 + 29) = Integer_Sense)"

text \<open>\<open>TEST_F(TestModel, import_variable_values)\<close>: \<open>x\<close> scalar, \<open>y\<close> ten, \<open>z\<close> \<open>10 \<times> 10\<close>.\<close>

definition test_import_variable_values :: bool where
  "test_import_variable_values =
     (let m = import_variable_values
                [\<lparr>proxy_id = 0, flat_indexed_values = [1]\<rparr>,
                 \<lparr>proxy_id = 1, flat_indexed_values = map (\<lambda>i. 10 * int i) [0..<10]\<rparr>,
                 \<lparr>proxy_id = 2, flat_indexed_values = concat (map (\<lambda>i. map (\<lambda>j. 100 * int (i + j)) [0..<10]) [0..<10])\<rparr>]
                (setup_test_model [(1, - 2147483647, 2147483646), (10, - 2147483647, 2147483646),
                                   (10 * 10, - 2147483647, 2147483646)] [] model_objective_new)
      in var_value (su_variables m (0, 0)) = 1 \<and>
         list_all (\<lambda>i. var_value (su_variables m (1, i)) = 10 * int i) [0..<10] \<and>
         list_all (\<lambda>i. list_all (\<lambda>j. var_value (su_variables m (2, 10 * i + j)) = 100 * int (i + j)) [0..<10]) [0..<10])"

section \<open>Lemmas: selections and shapes\<close>

lemma length_filter_nth: "length (filter (\<lambda>i. P (xs ! i)) [0..<length xs]) = length (filter P xs)"
proof -
  have "filter P (map ((!) xs) [0..<length xs]) = map ((!) xs) (filter (\<lambda>i. P (xs ! i)) [0..<length xs])"
    by (simp add: filter_map comp_def)
  then show ?thesis by (metis length_map map_nth)
qed

lemma constraint_type_of_enabled [simp]: "constraint_type_of m (c\<lparr>mc_enabled := b\<rparr>) = constraint_type_of m c"
  by (simp add: constraint_type_of_def constraint_expression_of_def)

lemma constraint_type_of_variables:
  "su_variables m' = su_variables m \<Longrightarrow> constraint_type_of m' = constraint_type_of m"
  unfolding constraint_type_of_def by (rule ext) simp

lemma selections_extracted_nil [simp]: "selections_extracted m [] = m"
  by (simp add: selections_extracted_def map_nth)

lemma extract_selection_prefix:
  assumes "j \<le> length (su_constraints m)"
  shows "foldl extract_selection m [0..<j] =
           selections_extracted m (filter (\<lambda>i. mc_enabled (su_constraints m ! i) \<and>
             constraint_type_of m (su_constraints m ! i) = Type_SetPartitioning) [0..<j])"
  using assms
proof (induction j)
  case 0
  then show ?case by simp
next
  case (Suc j)
  define cs where "cs = su_constraints m"
  define F where "F = filter (\<lambda>i. mc_enabled (cs ! i) \<and> constraint_type_of m (cs ! i) = Type_SetPartitioning) [0..<j]"
  define m' where "m' = selections_extracted m F"
  have j: "j < length cs" using Suc.prems by (simp add: cs_def)
  have jF: "j \<notin> set F" by (simp add: F_def)
  have cj: "su_constraints m' ! j = cs ! j" using j jF by (simp add: m'_def selections_extracted_def cs_def)
  have ty: "constraint_type_of m' = constraint_type_of m"
    by (rule constraint_type_of_variables) (simp add: m'_def selections_extracted_def)
  have IH: "foldl extract_selection m [0..<j] = m'" using Suc by (simp add: m'_def F_def cs_def)
  show ?case
  proof (cases "mc_enabled (cs ! j) \<and> constraint_type_of m (cs ! j) = Type_SetPartitioning")
    case True
    have "extract_selection m' j = selections_extracted m (F @ [j])"
    proof (rule setup_model.equality)
      show "su_constraints (extract_selection m' j) = su_constraints (selections_extracted m (F @ [j]))"
        using True j cj ty by (intro nth_equalityI)
          (auto simp: Let_def extract_selection_def m'_def selections_extracted_def cs_def nth_list_update)
    qed (use True cj ty in \<open>simp_all add: Let_def extract_selection_def m'_def selections_extracted_def cs_def\<close>)
    then show ?thesis using True IH by (simp add: F_def cs_def)
  next
    case False
    then have "extract_selection m' j = m'" using cj ty by (auto simp add: extract_selection_def Let_def)
    then show ?thesis using False IH by (auto simp add: m'_def F_def cs_def)
  qed
qed

text \<open>The loop of \<open>extract_selections\<close> implements its specification: one pass over the
  constraints disables exactly the enabled set-partitioning ones and appends their selections
  in index order. Consequences: the shapes are unchanged, the counts of selections and disabled
  constraints grow by the number extracted, and a second pass finds nothing.\<close>

lemma extract_selections_defined_spec:
  "extract_selections_defined m = selections_extracted m (selection_indices m)"
  by (simp add: extract_selections_defined_def selection_indices_def extract_selection_prefix)

lemma length_filter_disj:
  "(\<And>x. \<not> (P x \<and> Q x)) \<Longrightarrow> length (filter (\<lambda>x. P x \<or> Q x) xs) = length (filter P xs) + length (filter Q xs)"
  by (induction xs) auto

lemma selections_extracted_length [simp]:
  "length (su_constraints (selections_extracted m is)) = length (su_constraints m)"
  by (simp add: selections_extracted_def)

lemma selections_extracted_type [simp]:
  "constraint_type_of (selections_extracted m is) = constraint_type_of m"
  by (rule constraint_type_of_variables) (simp add: selections_extracted_def)

lemma selections_extracted_nth:
  "i < length (su_constraints m) \<Longrightarrow> su_constraints (selections_extracted m is) ! i =
     (if i \<in> set is then (su_constraints m ! i)\<lparr>mc_enabled := False\<rparr> else su_constraints m ! i)"
  by (simp add: selections_extracted_def)

lemma extract_selections_reference:
  "constraint_type_reference (extract_selections_defined m) k = constraint_type_reference m k"
  unfolding extract_selections_defined_spec constraint_type_reference_def selections_extracted_length
    selections_extracted_type
  by (rule filter_cong) (auto simp: selections_extracted_nth)

lemma extract_selections_length:
  "length (su_constraints (extract_selections_defined m)) = length (su_constraints m)"
  by (simp add: extract_selections_defined_spec)

lemma extract_selections_count:
  "number_of_selection_constraints (extract_selections_defined m) =
     number_of_selection_constraints m + length (selection_indices m)"
  by (simp add: extract_selections_defined_spec number_of_selection_constraints_def selections_extracted_def)

lemma extract_selections_disabled:
  "number_of_disabled_model_constraints (extract_selections_defined m) =
     number_of_disabled_model_constraints m + length (selection_indices m)"
proof -
  define S where "S = selection_indices m"
  define A where "A = (\<lambda>i. \<not> mc_enabled (su_constraints m ! i))"
  define B where "B = (\<lambda>i. mc_enabled (su_constraints m ! i) \<and>
                            constraint_type_of m (su_constraints m ! i) = Type_SetPartitioning)"
  have S: "S = filter B [0..<length (su_constraints m)]" by (simp add: S_def B_def selection_indices_def)
  have "number_of_disabled_model_constraints (extract_selections_defined m) =
          length (filter (\<lambda>i. \<not> mc_enabled (su_constraints (selections_extracted m S) ! i))
            [0..<length (su_constraints m)])"
    unfolding number_of_disabled_model_constraints_def extract_selections_defined_spec S_def
    using length_filter_nth [where P = "\<lambda>c. \<not> mc_enabled c"
                               and xs = "su_constraints (selections_extracted m (selection_indices m))"]
    by simp
  also have "filter (\<lambda>i. \<not> mc_enabled (su_constraints (selections_extracted m S) ! i)) [0..<length (su_constraints m)] =
               filter (\<lambda>i. A i \<or> B i) [0..<length (su_constraints m)]"
    by (rule filter_cong) (auto simp: selections_extracted_nth S A_def B_def)
  also have "length \<dots> = length (filter A [0..<length (su_constraints m)]) + length S"
    unfolding S by (rule length_filter_disj) (simp add: A_def B_def)
  finally show ?thesis
    using length_filter_nth [where P = "\<lambda>c. \<not> mc_enabled c" and xs = "su_constraints m"]
    by (simp add: A_def S_def number_of_disabled_model_constraints_def)
qed

lemma extract_selections_idem:
  "selection_indices (extract_selections_defined m) = []"
  unfolding extract_selections_defined_spec selection_indices_def selections_extracted_length selections_extracted_type
  by (auto simp: filter_empty_conv selections_extracted_nth)

lemma shape_count_reference:
  "length (constraint_type_reference m k) =
     length (filter (\<lambda>p. snd p = k) (map (\<lambda>c. (mc_enabled c, constraint_type_of m c)) (su_constraints m)))"
  unfolding constraint_type_reference_def
  using length_filter_nth [where P = "\<lambda>c. constraint_type_of m c = k"] by (simp add: filter_map comp_def)

lemma shape_count_selections:
  "length (selection_indices m) =
     length (filter (\<lambda>p. p = (True, Type_SetPartitioning)) (map (\<lambda>c. (mc_enabled c, constraint_type_of m c)) (su_constraints m)))"
  unfolding selection_indices_def
  using length_filter_nth [where P = "\<lambda>c. mc_enabled c \<and> constraint_type_of m c = Type_SetPartitioning"]
  by (simp add: filter_map comp_def)

lemma shape_count_disabled:
  "number_of_disabled_model_constraints m =
     length (filter (\<lambda>p. \<not> fst p) (map (\<lambda>c. (mc_enabled c, constraint_type_of m c)) (su_constraints m)))"
  by (simp add: number_of_disabled_model_constraints_def filter_map comp_def)

lemmas shape_counts = shape_count_reference shape_count_selections shape_count_disabled

section \<open>Lemmas: the selection modes\<close>

lemma filter_fst_distinct:
  "distinct (map fst ts) \<Longrightarrow> t \<in> set ts \<Longrightarrow> filter (\<lambda>u. fst u = fst t) ts = [t]"
proof (induction ts)
  case (Cons u ts)
  then show ?case by (auto simp: filter_empty_conv rev_image_eqI)
qed simp

lemma sensitivities_distinct:
  assumes "distinct (map fst (expr_terms e))" and "list_all (\<lambda>t. snd t \<noteq> 0) (expr_terms e)"
  shows "sensitivities e = expr_terms e"
proof -
  have "map (\<lambda>r. (r, sensitivity e r)) (map fst (expr_terms e)) = expr_terms e"
    unfolding map_map using assms(1) by (intro map_idI) (simp add: sensitivity_def filter_fst_distinct)
  then show ?thesis using assms by (simp add: sensitivities_def distinct_remdups_id list_all_iff case_prod_beta)
qed

lemma sensitivities_distinct_terms:
  "distinct (map fst ts) \<Longrightarrow> list_all (\<lambda>t. snd t \<noteq> 0) ts \<Longrightarrow>
   sensitivities \<lparr>expr_terms = ts, expr_constant = c\<rparr> = ts"
  using sensitivities_distinct [of "\<lparr>expr_terms = ts, expr_constant = c\<rparr>"] by simp

lemma independent_fold:
  assumes "snd acc = concat (map (\<lambda>k. constraint_variables (su_constraints m ! k)) (fst acc))"
    and "distinct (snd acc)"
  shows "snd (foldl (independent_step m) acc xs) =
           concat (map (\<lambda>k. constraint_variables (su_constraints m ! k)) (fst (foldl (independent_step m) acc xs))) \<and>
         distinct (snd (foldl (independent_step m) acc xs))"
  using assms
proof (induction xs arbitrary: acc)
  case (Cons x xs)
  have "distinct (constraint_variables (su_constraints m ! x))"
    using distinct_sensitivities by (simp add: constraint_variables_def)
  then have "snd (independent_step m acc x) =
               concat (map (\<lambda>k. constraint_variables (su_constraints m ! k)) (fst (independent_step m acc x))) \<and>
             distinct (snd (independent_step m acc x))"
    using Cons.prems by (auto simp: independent_step_def Let_def list_all_iff)
  then have a: "snd (independent_step m acc x) =
               concat (map (\<lambda>k. constraint_variables (su_constraints m ! k)) (fst (independent_step m acc x)))"
    and b: "distinct (snd (independent_step m acc x))" by blast+
  show ?case unfolding foldl_Cons by (rule Cons.IH [OF a b])
qed simp

text \<open>In the \<open>Independent\<close> mode no variable belongs to two selections: the groups kept
  are pairwise disjoint (and each lists its variables once).\<close>

theorem independent_selections_disjoint:
  assumes "su_selections m = []"
  shows "distinct (concat (map sel_variables (su_selections (extract_selections_independent m))))"
proof -
  define F where "F = foldl (independent_step m) ([], []) (selection_indices m)"
  have "snd F = concat (map (\<lambda>k. constraint_variables (su_constraints m ! k)) (fst F)) \<and> distinct (snd F)"
    unfolding F_def by (rule independent_fold) simp_all
  then have e: "snd F = concat (map (\<lambda>k. constraint_variables (su_constraints m ! k)) (fst F))"
    and d: "distinct (snd F)" by blast+
  have "distinct (concat (map (\<lambda>k. constraint_variables (su_constraints m ! k)) (fst F)))"
    using d unfolding e .
  then show ?thesis
    using assms by (simp add: extract_selections_independent_def selections_extracted_def comp_def F_def)
qed

lemma larger_fold:
  assumes "snd acc = concat (map (\<lambda>k. constraint_variables (su_constraints m ! k)) (fst acc))"
  shows "snd (foldl (larger_step m) acc xs) =
           concat (map (\<lambda>k. constraint_variables (su_constraints m ! k)) (fst (foldl (larger_step m) acc xs))) \<and>
         set (snd acc) \<subseteq> set (snd (foldl (larger_step m) acc xs)) \<and>
         (\<forall>k\<in>set xs. set (constraint_variables (su_constraints m ! k)) \<subseteq> set (snd (foldl (larger_step m) acc xs)))"
  using assms
proof (induction xs arbitrary: acc)
  case (Cons x xs)
  have a: "snd (larger_step m acc x) =
             concat (map (\<lambda>k. constraint_variables (su_constraints m ! k)) (fst (larger_step m acc x)))"
    and t1: "set (snd acc) \<subseteq> set (snd (larger_step m acc x))"
    and t2: "set (constraint_variables (su_constraints m ! x)) \<subseteq> set (snd (larger_step m acc x))"
    using Cons.prems by (auto simp: larger_step_def Let_def list_ex_iff)
  have "snd (foldl (larger_step m) (larger_step m acc x) xs) =
          concat (map (\<lambda>k. constraint_variables (su_constraints m ! k)) (fst (foldl (larger_step m) (larger_step m acc x) xs))) \<and>
        set (snd (larger_step m acc x)) \<subseteq> set (snd (foldl (larger_step m) (larger_step m acc x) xs)) \<and>
        (\<forall>k\<in>set xs. set (constraint_variables (su_constraints m ! k)) \<subseteq>
                      set (snd (foldl (larger_step m) (larger_step m acc x) xs)))"
    by (rule Cons.IH [OF a])
  then show ?case unfolding foldl_Cons using t1 t2 by (metis (no_types, lifting) set_ConsD subset_trans)
qed simp

text \<open>In the \<open>Larger\<close> mode every variable of every candidate group ends up a selection
  variable: a group is skipped only when all its variables are covered already.\<close>

theorem larger_selections_cover:
  assumes "k \<in> set (selection_indices m)"
  shows "set (constraint_variables (su_constraints m ! k)) \<subseteq> set (su_selection_variables (extract_selections_larger m))"
proof -
  define F where "F = foldl (larger_step m) ([], []) (larger_order m)"
  have k: "k \<in> set (larger_order m)" using assms by (simp add: larger_order_def)
  have "snd F = concat (map (\<lambda>k. constraint_variables (su_constraints m ! k)) (fst F)) \<and>
        set (snd (([], []) :: nat list \<times> variable_ref list)) \<subseteq> set (snd F) \<and>
        (\<forall>k\<in>set (larger_order m). set (constraint_variables (su_constraints m ! k)) \<subseteq> set (snd F))"
    unfolding F_def
    by (rule larger_fold [of "([], [])" m "larger_order m"]) simp
  then have e: "snd F = concat (map (\<lambda>k. constraint_variables (su_constraints m ! k)) (fst F))"
    and s: "set (constraint_variables (su_constraints m ! k)) \<subseteq> set (snd F)" using k by blast+
  have "set (constraint_variables (su_constraints m ! k)) \<subseteq>
          set (concat (map (\<lambda>k. constraint_variables (su_constraints m ! k)) (fst F)))"
    using s unfolding e .
  then show ?thesis by (auto simp: extract_selections_larger_def selections_extracted_def F_def)
qed

section \<open>Lemmas: sensitivities and values\<close>

lemma sensitivity_Cons:
  "sensitivity \<lparr>expr_terms = t # ts, expr_constant = c\<rparr> r =
     (if fst t = r then snd t else 0) + sensitivity \<lparr>expr_terms = ts, expr_constant = c\<rparr> r"
  by (simp add: sensitivity_def)

lemma sensitivity_append:
  "sensitivity \<lparr>expr_terms = ts @ us, expr_constant = c\<rparr> r =
     sensitivity \<lparr>expr_terms = ts, expr_constant = c\<rparr> r + sensitivity \<lparr>expr_terms = us, expr_constant = c\<rparr> r"
  by (simp add: sensitivity_def)

lemma sensitivity_upt:
  "sensitivity \<lparr>expr_terms = map (\<lambda>i. ((p, i), f i)) [0..<n], expr_constant = c\<rparr> (q, k) =
     (if q = p \<and> k < n then f k else 0)"
  by (induction n) (auto simp: sensitivity_def)

lemma concat_rows:
  "concat (map (\<lambda>i. map (\<lambda>j. g (n * i + j)) [0..<n]) [0..<m]) = map g [0..<m * n]"
proof (induction m)
  case (Suc m)
  have u: "[0..<Suc m * n] = [0..<m * n] @ [m * n..<m * n + n]"
    using upt_add_eq_append [of 0 "m * n" n] by (simp add: add.commute)
  have r: "map g [m * n..<m * n + n] = map (\<lambda>j. g (n * m + j)) [0..<n]"
    by (rule nth_equalityI) (simp_all add: mult.commute)
  show ?case unfolding u using Suc r by simp
qed simp

lemma sensitivity_Nil: "sensitivity \<lparr>expr_terms = [], expr_constant = c\<rparr> r = 0"
  by (simp add: sensitivity_def)

lemma div_mod_row:
  assumes "j < (n::nat)"
  shows "(n * i + j) div n = i \<and> (n * i + j) mod n = j"
proof -
  have "n \<noteq> 0" using assms by simp
  then show ?thesis using assms by (simp add: div_mult_self4 mod_mult_self4)
qed

lemma concat_rows_div:
  "concat (map (\<lambda>i. map (\<lambda>j. f i j) [0..<n]) [0..<m]) = map (\<lambda>k. f (k div n) (k mod n)) [0..<m * n]"
proof -
  have "concat (map (\<lambda>i. map (\<lambda>j. f i j) [0..<n]) [0..<m]) =
          concat (map (\<lambda>i. map (\<lambda>j. (\<lambda>k. f (k div n) (k mod n)) (n * i + j)) [0..<n]) [0..<m])"
    by (intro arg_cong [where f = concat] map_cong refl) (simp add: div_mod_row)
  then show ?thesis using concat_rows [of "\<lambda>k. f (k div n) (k mod n)" n m] by (simp only:)
qed

lemma import_fold_at:
  "foldl (\<lambda>vs (i, a). vs((p, i) := (vs (p, i))\<lparr>var_value := a\<rparr>)) vs (zip [0..<length xs] xs) (q, j) =
     (if q = p \<and> j < length xs then (vs (q, j))\<lparr>var_value := xs ! j\<rparr> else vs (q, j))"
proof (induction xs rule: rev_induct)
  case (snoc x xs)
  have "zip [0..<length (xs @ [x])] (xs @ [x]) = zip [0..<length xs] xs @ [(length xs, x)]" by simp
  then show ?case using snoc by (auto simp: nth_append)
qed simp

lemma import_proxy_values_at:
  "import_proxy_values v vs (q, j) =
     (if q = proxy_id v \<and> j < length (flat_indexed_values v)
      then (vs (q, j))\<lparr>var_value := flat_indexed_values v ! j\<rparr> else vs (q, j))"
  by (simp add: import_proxy_values_def import_fold_at)

lemma import_values_fold_at:
  "distinct (map proxy_id ps) \<Longrightarrow>
   foldl (\<lambda>vs v. import_proxy_values v vs) vs ps (q, j) =
     (case find (\<lambda>v. proxy_id v = q) ps of
        None \<Rightarrow> vs (q, j)
      | Some v \<Rightarrow> if j < length (flat_indexed_values v)
                  then (vs (q, j))\<lparr>var_value := flat_indexed_values v ! j\<rparr> else vs (q, j))"
proof (induction ps arbitrary: vs)
  case (Cons v ps)
  then have IH: "foldl (\<lambda>vs v. import_proxy_values v vs) (import_proxy_values v vs) ps (q, j) =
      (case find (\<lambda>v. proxy_id v = q) ps of
        None \<Rightarrow> import_proxy_values v vs (q, j)
      | Some w \<Rightarrow> if j < length (flat_indexed_values w)
                  then (import_proxy_values v vs (q, j))\<lparr>var_value := flat_indexed_values w ! j\<rparr>
                  else import_proxy_values v vs (q, j))" by simp
  show ?case
  proof (cases "proxy_id v = q")
    case True
    then have "q \<notin> proxy_id ` set ps" using Cons.prems by simp
    then have "find (\<lambda>v. proxy_id v = q) ps = None" by (auto simp: find_None_iff image_iff)
    then show ?thesis using True IH by (simp add: import_proxy_values_at)
  next
    case False
    then show ?thesis using IH by (simp add: import_proxy_values_at split: option.split)
  qed
qed simp

text \<open>\<open>import_variable_values\<close> with distinct proxy ids sets the value of every imported
  index to the imported value and changes no bound, no fixed flag and no other variable.\<close>

theorem import_variable_values_at:
  assumes "distinct (map proxy_id ps)"
  shows "su_variables (import_variable_values ps m) (q, j) =
     (case find (\<lambda>v. proxy_id v = q) ps of
        None \<Rightarrow> su_variables m (q, j)
      | Some v \<Rightarrow> if j < length (flat_indexed_values v)
                  then (su_variables m (q, j))\<lparr>var_value := flat_indexed_values v ! j\<rparr> else su_variables m (q, j))"
  using assms by (simp add: import_variable_values_def import_values_fold_at)

section \<open>The tests, run\<close>

lemma setup_flag_tests_pass:
  test_initialize test_setup_is_linear test_setup_is_enabled_fast_evaluation test_setup_variable_sense
  unfolding test_initialize_def test_setup_is_linear_def test_setup_is_enabled_fast_evaluation_def
    test_setup_variable_sense_def
  by code_simp+

lemma categorize_test_shapes:
  "map (\<lambda>c. (mc_enabled c, constraint_type_of categorize_test_model c)) (su_constraints categorize_test_model) =
     [(False, Type_Singleton), (True, Type_Aggregation), (True, Type_Precedence), (True, Type_Precedence),
      (True, Type_Precedence), (True, Type_Precedence), (True, Type_VariableBound), (True, Type_VariableBound),
      (True, Type_SetPartitioning), (True, Type_SetPacking), (True, Type_SetCovering), (True, Type_Cardinality),
      (True, Type_InvariantKnapsack), (True, Type_EquationKnapsack), (True, Type_BinPacking), (True, Type_BinPacking),
      (True, Type_Knapsack), (True, Type_Knapsack), (True, Type_IntegerKnapsack), (True, Type_IntegerKnapsack),
      (True, Type_GeneralLinear), (True, Type_Nonlinear)]"
  by code_simp

lemma test_categorize_constraints_passes: test_categorize_constraints
proof -
  have n: "length (su_constraints categorize_test_model) = 22"
    using arg_cong [OF categorize_test_shapes, of length] by simp
  have s: "number_of_selection_constraints categorize_test_model = 0"
    by (simp add: number_of_selection_constraints_def categorize_test_model_def setup_test_model_def
                  setup_model_new_def Let_def)
  show ?thesis
    unfolding test_categorize_constraints_def Let_def extract_selections_reference extract_selections_count
      extract_selections_disabled extract_selections_length
    unfolding shape_counts categorize_test_shapes n s
    by simp
qed

lemma related_test_constraints:
  "related_constraints related_test_model (q, k) =
     (if q = 0 \<and> k < 10 then [0] else []) @ (if q = 1 \<and> k < 600 then [1] else []) @
     (if q = 0 \<and> k = 0 \<or> q = 1 \<and> k < 30 then [2] else [])"
  by (simp add: related_constraints_def related_test_model_def setup_test_model_def setup_model_new_def
                new_constraint_def linear_body_def constraint_expression_of_def objective_expression_def
                sum_of_def sensitivity_Cons sensitivity_upt)

lemma test_setup_variable_related_constraints_passes: test_setup_variable_related_constraints
  unfolding test_setup_variable_related_constraints_def Let_def related_test_constraints
  by (auto simp: list_all_iff)

lemma weighted_y_rows:
  "weighted_y = map (\<lambda>k. ((1, k), real (k div 30 + k mod 30 + 1))) [0..<600]"
  unfolding weighted_y_def concat_rows_div by simp

lemma sensitivity_test_constraints:
  "constraint_sensitivities sensitivity_test_model (q, k) =
     (if q = 0 \<and> k < 10 then [(0, real (k + 1))] else []) @
     (if q = 1 \<and> k < 600 then [(1, real (k div 30 + k mod 30 + 1))] else [])"
  "objective_sensitivity sensitivity_test_model (q, k) =
     (if q = 0 \<and> k < 10 then 2 else 0) + (if q = 1 \<and> k < 600 then 5 else 0)"
  by (simp_all add: constraint_sensitivities_def related_constraints_def objective_sensitivity_def
                    sensitivity_test_model_def setup_test_model_def setup_model_new_def minimize_def
                    new_constraint_def linear_body_def constraint_expression_of_def objective_expression_def
                    sum_of_def weighted_y_rows sensitivity_append sensitivity_upt sensitivity_Nil)

lemma test_setup_variable_sensitivity_passes: test_setup_variable_sensitivity
  unfolding test_setup_variable_sensitivity_def Let_def sensitivity_at_def sensitivity_test_constraints
  by (auto simp: list_all_iff div_mod_row)

lemma test_import_variable_values_passes: test_import_variable_values
  unfolding test_import_variable_values_def Let_def
  by (simp add: import_variable_values_at list_all_iff concat_rows_div div_mod_row)

lemma selection_mode_test_constraints:
  "su_constraints selection_mode_test_model =
     [new_constraint (linear_body (map (\<lambda>j. ((0, j), 1)) [0..<10]) (-1)) Equal,
      new_constraint (linear_body (map (\<lambda>j. ((0, 10 + j), 1)) [0..<10] @ map (\<lambda>j. ((Suc 0, 20 + j), 1)) [0..<20] @
                                   [((2, 0), 1)]) (-1)) Equal,
      new_constraint (linear_body (map (\<lambda>j. ((Suc 0, j), 1)) [0..<400]) (-1)) Equal,
      new_constraint (linear_body [((2, 0), 1), ((2, 1), 1)] (-1)) Equal]"
  by (simp add: selection_mode_test_model_def setup_test_model_def setup_model_new_def sum_of_def upt_rec)

lemma selection_mode_test_sensitivities:
  "sensitivities (constraint_expression_of (su_constraints selection_mode_test_model ! 0)) = map (\<lambda>j. ((0, j), 1)) [0..<10]"
  "sensitivities (constraint_expression_of (su_constraints selection_mode_test_model ! Suc 0)) =
     map (\<lambda>j. ((0, 10 + j), 1)) [0..<10] @ map (\<lambda>j. ((Suc 0, 20 + j), 1)) [0..<20] @ [((2, 0), 1)]"
  "sensitivities (constraint_expression_of (su_constraints selection_mode_test_model ! 2)) = map (\<lambda>j. ((Suc 0, j), 1)) [0..<400]"
  "sensitivities (constraint_expression_of (su_constraints selection_mode_test_model ! 3)) = [((2, 0), 1), ((2, 1), 1)]"
proof -
  have d: "distinct (map fst (map (\<lambda>j. ((0, 10 + j), 1)) [0..<10] @ map (\<lambda>j. ((Suc 0, 20 + j), 1)) [0..<20] @ [((2, 0), 1)] :: (variable_ref \<times> real) list))"
    by (auto simp: distinct_map inj_on_def)
  have "sensitivities \<lparr>expr_terms = map (\<lambda>j. ((0, 10 + j), 1)) [0..<10] @ map (\<lambda>j. ((Suc 0, 20 + j), 1)) [0..<20] @ [((2, 0), 1)], expr_constant = -1\<rparr> = map (\<lambda>j. ((0, 10 + j), 1)) [0..<10] @ map (\<lambda>j. ((Suc 0, 20 + j), 1)) [0..<20] @ [((2, 0), 1)]"
    by (rule sensitivities_distinct_terms [OF d]) (auto simp: list_all_iff)
  then show "sensitivities (constraint_expression_of (su_constraints selection_mode_test_model ! 0)) = map (\<lambda>j. ((0, j), 1)) [0..<10]"
    "sensitivities (constraint_expression_of (su_constraints selection_mode_test_model ! Suc 0)) =
     map (\<lambda>j. ((0, 10 + j), 1)) [0..<10] @ map (\<lambda>j. ((Suc 0, 20 + j), 1)) [0..<20] @ [((2, 0), 1)]"
    "sensitivities (constraint_expression_of (su_constraints selection_mode_test_model ! 2)) = map (\<lambda>j. ((Suc 0, j), 1)) [0..<400]"
    "sensitivities (constraint_expression_of (su_constraints selection_mode_test_model ! 3)) = [((2, 0), 1), ((2, 1), 1)]"
    unfolding selection_mode_test_constraints
    by (simp_all add: new_constraint_def linear_body_def constraint_expression_of_def objective_expression_def
                      distinct_map inj_on_def list_all_iff sensitivities_distinct_terms)
qed

lemma selection_mode_test_binary:
  "is_binary (su_variables selection_mode_test_model (0, j))"
  "is_binary (su_variables selection_mode_test_model (Suc 0, j))"
  "is_binary (su_variables selection_mode_test_model (2, j))"
  "\<not> is_binary (su_variables selection_mode_test_model (3, j))"
  by (simp_all add: selection_mode_test_model_def setup_test_model_def presolve_test_model_def is_binary_def)

lemma selection_mode_test_types:
  "constraint_type_of selection_mode_test_model (su_constraints selection_mode_test_model ! 0) = Type_SetPartitioning"
  "constraint_type_of selection_mode_test_model (su_constraints selection_mode_test_model ! Suc 0) = Type_SetPartitioning"
  "constraint_type_of selection_mode_test_model (su_constraints selection_mode_test_model ! 2) = Type_SetPartitioning"
  "constraint_type_of selection_mode_test_model (su_constraints selection_mode_test_model ! 3) = Type_Aggregation"
  unfolding constraint_type_of_def Let_def selection_mode_test_sensitivities
  by (auto simp: selection_mode_test_constraints selection_mode_test_binary new_constraint_def linear_body_def
                 constraint_expression_of_def objective_expression_def objective_is_linear_def
                 list_all_iff)

lemma selection_mode_test_indices: "selection_indices selection_mode_test_model = [0, 1, 2]"
proof -
  have "[0..<length (su_constraints selection_mode_test_model)] = [0, 1, 2, 3]"
    by (simp add: selection_mode_test_constraints upt_rec)
  moreover have "mc_enabled (su_constraints selection_mode_test_model ! k)" if "k < 4" for k
    using that by (simp add: selection_mode_test_constraints new_constraint_def nth_Cons' )
  ultimately show ?thesis by (simp add: selection_indices_def selection_mode_test_types)
qed

lemma selection_mode_test_groups:
  "constraint_variables (su_constraints selection_mode_test_model ! 0) = map (\<lambda>j. (0, j)) [0..<10]"
  "constraint_variables (su_constraints selection_mode_test_model ! Suc 0) =
     map (\<lambda>j. (0, 10 + j)) [0..<10] @ map (\<lambda>j. (Suc 0, 20 + j)) [0..<20] @ [(2, 0)]"
  "constraint_variables (su_constraints selection_mode_test_model ! 2) = map (\<lambda>j. (Suc 0, j)) [0..<400]"
  unfolding constraint_variables_def selection_mode_test_sensitivities by simp_all

lemma selection_mode_test_overlaps:
  "set (constraint_variables (su_constraints selection_mode_test_model ! 0)) \<inter> set (constraint_variables (su_constraints selection_mode_test_model ! Suc 0)) = {}"
  "(Suc 0, 20) \<in> set (constraint_variables (su_constraints selection_mode_test_model ! 2))"
  "(Suc 0, 20) \<in> set (constraint_variables (su_constraints selection_mode_test_model ! Suc 0))"
  "(0, 0) \<in> set (constraint_variables (su_constraints selection_mode_test_model ! 0))"
  "(0, 0) \<notin> set (constraint_variables (su_constraints selection_mode_test_model ! 2) @ constraint_variables (su_constraints selection_mode_test_model ! Suc 0))"
  "(0, 10) \<in> set (constraint_variables (su_constraints selection_mode_test_model ! Suc 0))"
  "(0, 10) \<notin> set (constraint_variables (su_constraints selection_mode_test_model ! 2))"
  by (auto simp: selection_mode_test_groups)

lemma selection_mode_test_independent:
  "number_of_selection_constraints (extract_selections_independent selection_mode_test_model) = 2"
proof -
  have a: "independent_step selection_mode_test_model ([], []) 0 = ([0], constraint_variables (su_constraints selection_mode_test_model ! 0))"
    by (simp add: independent_step_def list_all_iff)
  have "list_all (\<lambda>v. v \<notin> set (constraint_variables (su_constraints selection_mode_test_model ! 0))) (constraint_variables (su_constraints selection_mode_test_model ! Suc 0))"
    using selection_mode_test_overlaps(1) by (auto simp: list_all_iff)
  then have b: "independent_step selection_mode_test_model ([0], constraint_variables (su_constraints selection_mode_test_model ! 0)) (Suc 0) = ([0, Suc 0], constraint_variables (su_constraints selection_mode_test_model ! 0) @ constraint_variables (su_constraints selection_mode_test_model ! Suc 0))"
    by (simp add: independent_step_def)
  have "\<not> list_all (\<lambda>v. v \<notin> set (constraint_variables (su_constraints selection_mode_test_model ! 0) @ constraint_variables (su_constraints selection_mode_test_model ! Suc 0))) (constraint_variables (su_constraints selection_mode_test_model ! 2))"
    using selection_mode_test_overlaps(2,3) by (auto simp: list_all_iff)
  then have c: "independent_step selection_mode_test_model ([0, Suc 0], constraint_variables (su_constraints selection_mode_test_model ! 0) @ constraint_variables (su_constraints selection_mode_test_model ! Suc 0)) 2 = ([0, Suc 0], constraint_variables (su_constraints selection_mode_test_model ! 0) @ constraint_variables (su_constraints selection_mode_test_model ! Suc 0))"
    by (simp add: independent_step_def)
  have "fst (foldl (independent_step selection_mode_test_model) ([], []) (selection_indices selection_mode_test_model)) = [0, Suc 0]"
    by (simp only: selection_mode_test_indices foldl_Cons foldl_Nil a b c One_nat_def) simp
  then show ?thesis
    by (simp add: number_of_selection_constraints_def extract_selections_independent_def selections_extracted_def
                  selection_mode_test_model_def setup_test_model_def setup_model_new_def)
qed

lemma selection_mode_test_larger:
  "number_of_selection_constraints (extract_selections_larger selection_mode_test_model) = 3"
proof -
  have o: "larger_order selection_mode_test_model = [2, Suc 0, 0]"
    by (simp add: larger_order_def selection_mode_test_indices selection_mode_test_groups)
  have a: "larger_step selection_mode_test_model ([], []) 2 = ([2], constraint_variables (su_constraints selection_mode_test_model ! 2))"
    using selection_mode_test_overlaps(2) by (auto simp: larger_step_def Let_def list_ex_iff)
  have "list_ex (\<lambda>v. v \<notin> set (constraint_variables (su_constraints selection_mode_test_model ! 2))) (constraint_variables (su_constraints selection_mode_test_model ! Suc 0))"
    using selection_mode_test_overlaps(6,7) by (auto simp: list_ex_iff)
  then have b: "larger_step selection_mode_test_model ([2], constraint_variables (su_constraints selection_mode_test_model ! 2)) (Suc 0) = ([2, Suc 0], constraint_variables (su_constraints selection_mode_test_model ! 2) @ constraint_variables (su_constraints selection_mode_test_model ! Suc 0))"
    by (simp add: larger_step_def)
  have "list_ex (\<lambda>v. v \<notin> set (constraint_variables (su_constraints selection_mode_test_model ! 2) @ constraint_variables (su_constraints selection_mode_test_model ! Suc 0))) (constraint_variables (su_constraints selection_mode_test_model ! 0))"
    using selection_mode_test_overlaps(4,5) by (auto simp: list_ex_iff)
  then have c: "larger_step selection_mode_test_model ([2, Suc 0], constraint_variables (su_constraints selection_mode_test_model ! 2) @ constraint_variables (su_constraints selection_mode_test_model ! Suc 0)) 0 = ([2, Suc 0, 0], (constraint_variables (su_constraints selection_mode_test_model ! 2) @ constraint_variables (su_constraints selection_mode_test_model ! Suc 0)) @ constraint_variables (su_constraints selection_mode_test_model ! 0))"
    by (simp add: larger_step_def)
  have "fst (foldl (larger_step selection_mode_test_model) ([], []) (larger_order selection_mode_test_model)) = [2, Suc 0, 0]"
    by (simp only: o foldl_Cons foldl_Nil a b c) simp
  then show ?thesis
    by (simp add: number_of_selection_constraints_def extract_selections_larger_def selections_extracted_def
                  selection_mode_test_model_def setup_test_model_def setup_model_new_def)
qed

text \<open>The two tests fail on the modes as the specification words them: \<open>Independent\<close> keeps
  \<open>c0\<close> and \<open>c1\<close>, which are disjoint (the test expects only \<open>c0\<close>), and \<open>Larger\<close> keeps
  \<open>c2\<close>, \<open>c1\<close> (whose row of \<open>x0\<close> is not covered by \<open>c2\<close>) and \<open>c0\<close> (the test expects
  \<open>c2\<close> and \<open>c0\<close>). The tests describe a rule in which every candidate, kept or not,
  blocks the variables it shares with the others.\<close>

lemma test_extract_selections_independent_fails: "\<not> test_extract_selections_independent"
  unfolding test_extract_selections_independent_def Let_def selection_mode_test_independent by simp

lemma test_extract_selections_larger_fails: "\<not> test_extract_selections_larger"
  unfolding test_extract_selections_larger_def Let_def selection_mode_test_larger by simp

end
