(* ===== verification/Spec2Isabelle.thy ===== *)
theory Spec2Isabelle
  imports IncumbentHolder Memory SolverAdapt SolverLoop AbstractMultiArray TabuSearchPrint QapDriver SolverSetup SolverMessages ModelTests MemoryPrint ModelEvaluate QapMain InitialValues ModelCreate ModelObjective Presolve ModelSetup
begin

text \<open>
  A verification library for the metaheuristic MIP solver of the repository
  (\<open>cppmh\<close> / \<open>printemps\<close>, C++). The sources under \<open>src/\<close> hold the outer solver loop
  (\<open>cppmh/solver/solver.h\<close>, function \<open>solve\<close>), the search memory
  (\<open>printemps/solver/memory.h\<close>, class \<open>Memory\<close>), the multi-dimensional array base class
  of all proxies (\<open>AbstractMultiArray\<close>, in \<open>cppmh/model/constraint_reference.h\<close>), the
  incumbent holder (\<open>IncumbentHolder\<close>, in \<open>unnamed/part_002\<close>), the tabu-search table
  printer and the QAPLIB command-line driver. The model library (variables, expressions,
  constraints, moves, the evaluation kernel) and the three inner searches are not in the
  sources; where the solver calls them they are parameters of the model or records
  modelled from the specification.

  How the parts interact: \<open>solve\<close> keeps an incumbent holder, a memory and two penalty
  coefficient vectors; each outer iteration prepares an option, runs the tabu search
  (which returns its own holder, memory and statistics), offers the search's incumbents to
  the outer holder, and adapts the penalty coefficients, the tabu tenure, the number of
  random initial modifications, the iteration limit and the neighbourhood for the next
  loop.

  Theories:
  \<^item> \<open>Prelude\<close>: C++ error outcomes, value proxies (\<open>model::ValueProxy\<close>) as records of an
    id and a flat value list, moves, and the C++ integer conversions: the random offset
    \<open>rand() % (2 * w) - w\<close> as \<open>64 word\<close> / \<open>32 word\<close> arithmetic, truncation of a double
    to \<open>int\<close>, and the wrap-around of an \<open>int\<close> sum.
  \<^item> \<open>IncumbentHolder\<close>: the three best-so-far registers and both overloads of
    \<open>try_update_incumbent\<close>. Lemmas: the incumbents never get worse (C4), the status bits
    are exact (C7), the holder stays consistent with its scores (C6), offering a sequence
    refines "first minimiser of the global augmented objective" (C14), the lazily
    exporting overload equals the plain one.
  \<^item> \<open>Memory\<close>: \<open>setup\<close>, both \<open>update\<close> overloads, \<open>reset_last_update_iterations\<close>, \<open>bias\<close>.
    \<open>memory_reachable\<close> is the step relation of a run (\<open>setup\<close>, then updates and resets).
    Lemmas: the invariant "same shapes, one name per proxy, total count = sum of the counts"
    holds in every reachable memory (C12, by rule induction), the effect of an update (C13), the random tabu offsets stay in \<open>[-w, w)\<close> (C24), bias bounds (C25).
  \<^item> \<open>MemoryPrint\<close>: the three debug printers of \<open>Memory\<close> as the lines they print; in
    every reachable memory they never read past the proxy list and print one line per
    variable element (C10).
  \<^item> \<open>SolverAdapt\<close>: lines 579--900 of \<open>solve\<close>: the penalty update (reset / tighten /
    relax), the stagnation counter, the next tenure, initial modification count,
    iteration limit and neighbourhood switches. Lemmas: tightening never lowers a
    coefficient (C8), relaxing never raises one (C9), the stagnation counter is reset by a local-only improvement (C5, a defect of
    line 583), tenure reaction to the bias, bounds of the initial modification
    count without overflow (C20), of the iteration limit. \<open>counter_trace\<close> runs the
    counter over a sequence of loops: with no status bit the reset flag is raised after
    exactly \<open>threshold - c\<close> loops and then every \<open>threshold\<close> loops, with only the local bit
    never (C23, liveness).
  \<^item> \<open>SolverMessages\<close>: whether the model has special neighbourhood moves, the enable /
    disable flags of the special neighbourhood update (never both) and the loop summary
    printed after each loop (lines 902--1013) as a list of four to nine messages.
  \<^item> \<open>SolverLoop\<close>: the loop variables of \<open>solve\<close> as a record, one loop body, the loop as a
    terminating recursion on \<open>iteration_max - iteration\<close>, and the exported result. The
    tabu search is a parameter; the clock is a function of the iteration. Lemmas over the
    whole loop: incumbents never get worse (C1), global coefficients never change and
    local ones stay in \<open>[0, initial]\<close> (C2), the loop stops within the iteration limit and
    only for one of its three reasons (C3), one loop body loses nothing the tabu search
    found (C11: the outer global incumbent is at least as good as the search's, the
    feasible one too when the search found one), counter, tenure, neighbourhood and
    iteration-limit invariants (C17, C18, C22, C34).

  \<^item> \<open>SolverSetup\<close>: \<open>solve\<close> from entry to return around the loop: the
    already-solved guard and \<open>set_is_solved\<close>, the target objective normalisation, the
    standard neighbourhood switches, the first offer of the initial solution, the
    Lagrange dual phase with its nonlinear and selection-variable guards, the local search
    phase (both solvers are parameters returning the records \<open>solve\<close> reads), and the
    status of the result. Lemmas: a feasible initial solution yields a feasible exported
    solution given truthful inner solvers (C36), the logic error exactly on a solved
    model, so a second solve throws (C37), the phases never return anything worse than
    the initial solution (C38), exported penalty coefficients in range with the
    constraint shape (C39), zero Lagrange dual iterations on nonlinear or selection
    models (C40).
  \<^item> \<open>AbstractMultiArray\<close>: \<open>AbstractMultiArray\<close> and \<open>ConstraintReference\<close> of
    \<open>cppmh/model/constraint_reference.h\<close>: the constructors, the strides, the conversion
    between flat and multi-dimensional indices (C\<open>++\<close> truncating division as \<open>sdiv\<close> /
    \<open>smod\<close>) and the index label. Lemmas: the stride loop equals the suffix products
    (C27), flat index to multi-dimensional index and back is the identity (C28) and the
    converse (C29), the label pads with spaces, not zeros (C31), the labels of an array
    have one fixed width (C26) and identify its elements, so names built from them are
    distinct (C30). \<open>ama_wf\<close> is the type invariant of the class: the three constructors
    build well-formed arrays for every non-empty shape, an empty shape is undefined
    behaviour. Products of the shape are unbounded integers: the overflow of
    \<open>std::multiplies<int>\<close> is not modelled.
  \<^item> \<open>TabuSearchPrint\<close>: the progress table of the tabu search as the list of lines it
    prints. Lemma: a body line has its column separators at the header's positions when
    its numbers fit their widths (C35).
  \<^item> \<open>QapDriver\<close>: the command-line loop of \<open>application/qap_solver/main.cpp\<close>.
    Lemmas: the index loop equals a left-to-right reading (C32), a final \<open>-p\<close> reads past
    the end of \<open>argv\<close> (C33); with one \<open>-p\<close> the option file and QAPLIB file are the ones
    given.
  \<^item> \<open>QapMain\<close>: the rest of \<open>main\<close> (lines 44--92) composed with \<open>QapDriver\<close>: the
    driver's option (the solver's option record extended by \<open>verbose\<close>, ordered as a
    \<open>linorder\<close> instance, the screening mode and the historical data switch), the option
    file or the defaults with the fixed move families, the two summary lines and the result
    files. \<open>main\<close> calls \<open>printemps::solver::solve\<close>, a version of the solver outside the
    sources (not the \<open>solve\<close> of \<open>cppmh/solver/solver.h\<close> that \<open>SolverSetup\<close> models), so it
    is a parameter, as are the QAPLIB reader and the option reader.
  \<^item> \<open>ModelTests\<close>: the set-utility tests and the parameter-proxy tests of
    \<open>unnamed/part_000\<close> as bool-valued definitions over a specification model of the proxy
    registry, proved to pass.
  \<^item> \<open>InitialValues\<close>: setup step 10 of the specification, the verification and
    correction of the initial values of binary, integer and selection variables, from the
    specification, and their three tests of \<open>unnamed/part_000\<close>. Lemmas: binary and
    integer verification fails exactly on a fixed variable out of bounds (with correction)
    or any variable of the category out of bounds (without), and otherwise snaps values
    into the bounds and changes nothing else (C15); a corrected selection group is one-hot
    with its fixed variables unchanged, the exact condition of success, and without
    correction the group is returned unchanged exactly when already one-hot (C21); the
    tests pass. A fixed variable out of bounds fails even with correction, as the tests
    require and unlike the wording of the specification.
  \<^item> \<open>ModelCreate\<close>: the creation of variable, expression and constraint proxies
    with the \<open>InvalidName\<close> and \<open>TooManyProxies\<close> errors, from the specification, and the
    fifteen creation tests of \<open>unnamed/part_000\<close> (lines 206--615), each proved to pass
    for every value of the proxy limit, a constant outside the sources.
  \<^item> \<open>ModelObjective\<close>: \<open>minimize\<close> and \<open>maximize\<close> with a callback or a linear
    expression, the objective's value after \<open>update()\<close>, and \<open>verify_problem\<close>'s
    \<open>InvalidModel\<close> check, from the specification, with the six objective tests and the
    \<open>verify_problem\<close> test of \<open>unnamed/part_000\<close> (lines 618--817) proved to pass.
  \<^item> \<open>ModelEvaluate\<close>: \<open>Model::evaluate\<close> (full and incremental) and
    \<open>compute_lagrangian\<close> for linear models, from the specification, and the
    \<open>evaluate\<close> / \<open>compute_lagrangian\<close> tests of \<open>unnamed/part_000\<close>. Lemmas: the incremental
    score equals the full one for every move that alters each variable once and lists the
    constraints of its variables, among them every move the test builds (C16); the
    minimise half and the Lagrangian test pass; the maximise half fails on
    \<open>is_objective_improvable\<close>, which the specification leaves open.
  \<^item> \<open>PresolveStages\<close> and \<open>Presolve\<close>: setup step 5 of the specification, from the
    specification and the presolve tests of \<open>unnamed/part_000\<close> (lines 1107--1551). A
    presolve model is the \<open>linear_model\<close> of \<open>ModelEvaluate\<close> extended by the variables
    (index pairs and the variables of \<open>InitialValues\<close>). The stages
    \<open>fix_implicit_fixed_variables\<close>, \<open>remove_redundant_constraints_with_tightening_\<close>
    \<open>variable_bounds\<close> and \<open>remove_independent_variables\<close> walk the variables or the
    constraints and count what they fix or disable; \<open>presolve\<close> repeats a pass while it
    counts something, and terminates by the measure "enabled constraints plus free
    variables", which every counted change lowers. The categorisation counts of step 6.
    Lemmas: the five tests pass; tightening bounds and removing redundant constraints keep
    exactly the integer points of the model; the whole presolve loses no optimum,
    every point of the result being a point of the model and every point of the model
    matched by one of the result that is no worse (a refinement of the contract
    \<open>presolve_refines\<close>).
  \<^item> \<open>ModelSetup\<close>: the other setup stages of the specification's \<open>Model::setup\<close>, from the
    specification, with the eight \<open>TestModel\<close> cases of \<open>unnamed/part_000\<close> that exercise
    them: \<open>initialize\<close>, related constraints and the sensitivity tables (an absent constraint
    is \<open>std::out_of_range\<close>), \<open>setup_is_linear\<close> and \<open>setup_is_enabled_fast_evaluation\<close>, the
    shape classification of section 4.2 (\<open>constraint_type_of\<close>, the table's rows in their
    order) and its reference, \<open>extract_selections\<close> in the \<open>Defined\<close> mode and, as the
    specification words them, the \<open>Independent\<close> and \<open>Larger\<close> modes, the variable senses and
    \<open>import_variable_values\<close>. Lemmas: the extraction loop equals a declarative
    specification (the enabled set-partitioning constraints disabled, their selections appended
    in index order), so it keeps every shape, adds one selection and one disabled constraint
    per extracted constraint and is idempotent; importing values with distinct proxy ids sets
    exactly the imported values; the groups of the \<open>Independent\<close> mode are pairwise disjoint
    and the \<open>Larger\<close> mode covers every variable of every candidate; the eight tests of these
    stages pass, the large ones by these lemmas rather than by evaluation, while the tests of
    the \<open>Larger\<close> and \<open>Independent\<close> modes fail on the specification's wording of the modes
    (the tests block every variable shared with another candidate).

  Bounds: the initial modification lemma assumes a tenure below \<open>2^29\<close> and rates in
  \<open>[0, 1]\<close>, which keeps every intermediate value inside \<open>int\<close>; the random offset
  lemma assumes a width below \<open>2^30\<close> so that \<open>2 * w\<close> does not overflow. No fuel is
  used: the outer loop terminates by its measure, the argument loop of the driver by
  the number of remaining arguments, the presolve loop by its enabled constraints plus
  free variables.

  Not modelled: \<open>Model::setup\<close> as one composed function (the solver reads its results as
  the record \<open>model_facts\<close>; its presolve, initial-value, classification, extraction,
  sensitivity and flag steps are modelled one by one), the selection rule the mode tests
  expect, which the specification does not state, the unique-name assignment, the
  evaluation of nonlinear expressions and selections, the three inner searches
  (parameters), the re-import and re-evaluation of the incumbent before its export at the
  end of \<open>solve\<close> (lines 1037--1039; the stored incumbent solution is exported directly),
  the historical solution pool, timing, the printing of the solver's
  other verbose messages, the model name \<open>main\<close> sets and the contents of the files it
  writes, and the rest of the model library, which is not in the
  sources; the remaining \<open>TestModel\<close> cases exercise that library. Reals stand for doubles:
  rounding is not modelled, and \<open>HUGE_VALF\<close> is the extra value \<open>Huge\<close> above all reals.
\<close>

end
